(* ===== verification/Prelude.thy ===== *)
theory Prelude
  imports Main "HOL-Library.AList"
begin

text \<open>
  The vocabulary the component theories share: how a Go function returns, fails and panics,
  how it threads the object it mutates and the outside world, errors as values, Go maps, and
  the automation (collections of introduction rules) for frame and safety properties.
\<close>

section \<open>Automation collections\<close>

named_theorems steady_intros \<open>rules for: an action leaves an observation of the state unchanged\<close>
named_theorems nopanic_intros \<open>rules for: an action never panics\<close>
named_theorems act_defs \<open>definitions of the action combinators\<close>

section \<open>Errors\<close>

text \<open>
  An error value made by a library the program calls. The program looks at such an error in
  three ways only: \<^verbatim>\<open>errors.Is(err, exoscalesdk.ErrNotFound)\<close>,
  \<^verbatim>\<open>minio.ToErrorResponse(err).StatusCode\<close> and \<^verbatim>\<open>err.Error()\<close>; the record holds these
  three observations.
\<close>

record liberror =
  le_notfound :: bool
  le_status :: nat
  le_text :: string

text \<open>
  An error of the program: a library's error passed on, an error made from a format and its
  arguments (\<^verbatim>\<open>fmt.Errorf\<close>, \<^verbatim>\<open>errors.New\<close>), or one that wraps another
  (\<^verbatim>\<open>fmt.Errorf\<close> with \<open>%w\<close>, \<^verbatim>\<open>errors.Wrap\<close>). The formats are kept as written; nothing
  in the program renders one of its own errors and looks at the text.
\<close>

datatype goerror =
    Lib liberror
  | Errorf string "string list"
  | Wrapf string "string list" goerror

text \<open>\<^verbatim>\<open>errors.Is(err, exoscalesdk.ErrNotFound)\<close>: follows the chain of wrapped errors.\<close>

fun IsNotFound :: "goerror \<Rightarrow> bool" where
  "IsNotFound (Lib e) = le_notfound e"
| "IsNotFound (Errorf f as) = False"
| "IsNotFound (Wrapf f as e) = IsNotFound e"

section \<open>How a Go function ends\<close>

text \<open>
  A function with results \<^verbatim>\<open>(T, error)\<close> whose first result is only used when the error is nil
  ends in one of three ways: it returns a value, it returns an error, or it panics (a nil
  dereference, a write to a nil map, a failed type assertion, an index out of range). Functions
  whose first result is used together with an error return a pair.
\<close>

datatype 'a outcome = Ret 'a | Fail goerror | Panic string

definition bind_outcome :: "'a outcome \<Rightarrow> ('a \<Rightarrow> 'b outcome) \<Rightarrow> 'b outcome" where
  "bind_outcome m k = (case m of Ret a \<Rightarrow> k a | Fail e \<Rightarrow> Fail e | Panic p \<Rightarrow> Panic p)"

lemma bind_outcome_simps [simp]:
  "bind_outcome (Ret a) k = k a"
  "bind_outcome (Fail e) k = Fail e"
  "bind_outcome (Panic p) k = Panic p"
  by (simp_all add: bind_outcome_def)

lemma bind_outcome_Ret_iff:
  "bind_outcome m k = Ret b \<longleftrightarrow> (\<exists>a. m = Ret a \<and> k a = Ret b)"
  by (cases m) auto

definition wrap_outcome :: "(goerror \<Rightarrow> goerror) \<Rightarrow> 'a outcome \<Rightarrow> 'a outcome" where
  "wrap_outcome f m = (case m of Fail e \<Rightarrow> Fail (f e) | Ret a \<Rightarrow> Ret a | Panic p \<Rightarrow> Panic p)"

lemma wrap_outcome_simps [simp]:
  "wrap_outcome f (Ret a) = Ret a"
  "wrap_outcome f (Fail e) = Fail (f e)"
  "wrap_outcome f (Panic p) = Panic p"
  by (simp_all add: wrap_outcome_def)

lemma wrap_outcome_Ret_iff [simp]: "wrap_outcome f m = Ret a \<longleftrightarrow> m = Ret a"
  by (cases m) auto

text \<open>A pointer is an option; following a nil pointer panics.\<close>

definition deref :: "'a option \<Rightarrow> 'a outcome" where
  "deref p = (case p of Some a \<Rightarrow> Ret a | None \<Rightarrow> Panic ''nil pointer dereference'')"

lemma deref_simps [simp]:
  "deref (Some a) = Ret a" "deref None = Panic ''nil pointer dereference''"
  by (simp_all add: deref_def)

lemma deref_Ret_iff [simp]: "deref p = Ret a \<longleftrightarrow> p = Some a"
  by (cases p) auto

text \<open>A library function that may fail, as an outcome of the program.\<close>

definition of_lib :: "liberror + 'a \<Rightarrow> 'a outcome" where
  "of_lib r = (case r of Inl e \<Rightarrow> Fail (Lib e) | Inr a \<Rightarrow> Ret a)"

lemma of_lib_simps [simp]: "of_lib (Inl e) = Fail (Lib e)" "of_lib (Inr a) = Ret a"
  by (simp_all add: of_lib_def)

lemma of_lib_Ret_iff [simp]: "of_lib r = Ret a \<longleftrightarrow> r = Inr a"
  by (cases r) auto

fun panics :: "'a outcome \<Rightarrow> bool" where
  "panics (Panic p) = True"
| "panics _ = False"

lemma panics_of_lib [simp]: "\<not> panics (of_lib r)"
  by (cases r) auto

lemma panics_wrap_outcome [simp]: "panics (wrap_outcome f m) = panics m"
  by (cases m) auto

lemma panics_bind_outcome:
  "panics (bind_outcome m k) \<longleftrightarrow> panics m \<or> (\<exists>a. m = Ret a \<and> panics (k a))"
  by (cases m) auto

section \<open>Actions\<close>

text \<open>
  A handler mutates the managed object it is given through a pointer and calls the outside world.
  Both are the state of an action; a mutation made before an error stays, as it does in Go.
\<close>

type_synonym ('s, 'a) act = "'s \<Rightarrow> 'a outcome \<times> 's"

text \<open>A call to a client library: it reads and changes the world \<open>'w\<close> and may fail.\<close>

type_synonym ('w, 'a) call = "'w \<Rightarrow> (liberror + 'a) \<times> 'w"

definition ret :: "'a \<Rightarrow> ('s, 'a) act" where
  [act_defs]: "ret a = (\<lambda>s. (Ret a, s))"

definition fail :: "goerror \<Rightarrow> ('s, 'a) act" where
  [act_defs]: "fail e = (\<lambda>s. (Fail e, s))"

definition panic :: "string \<Rightarrow> ('s, 'a) act" where
  [act_defs]: "panic p = (\<lambda>s. (Panic p, s))"

definition lift :: "'a outcome \<Rightarrow> ('s, 'a) act" where
  [act_defs]: "lift r = (\<lambda>s. (r, s))"

definition andThen :: "('s, 'a) act \<Rightarrow> ('a \<Rightarrow> ('s, 'b) act) \<Rightarrow> ('s, 'b) act" where
  [act_defs]: "andThen m k = (\<lambda>s. case m s of
     (Ret a, s') \<Rightarrow> k a s'
   | (Fail e, s') \<Rightarrow> (Fail e, s')
   | (Panic p, s') \<Rightarrow> (Panic p, s'))"

definition wrapErr :: "(goerror \<Rightarrow> goerror) \<Rightarrow> ('s, 'a) act \<Rightarrow> ('s, 'a) act" where
  [act_defs]: "wrapErr f m = (\<lambda>s. (wrap_outcome f (fst (m s)), snd (m s)))"

text \<open>The state of a handler is the object it was given and the world.\<close>

definition getObj :: "('m \<times> 'w, 'm) act" where
  [act_defs]: "getObj = (\<lambda>(m, w). (Ret m, (m, w)))"

definition modifyObj :: "('m \<Rightarrow> 'm) \<Rightarrow> ('m \<times> 'w, unit) act" where
  [act_defs]: "modifyObj f = (\<lambda>(m, w). (Ret (), (f m, w)))"

text \<open>\<open>attempt c\<close> hands the library's error to the program as a value, for code that looks at it.\<close>

definition attempt :: "('w, 'a) call \<Rightarrow> ('m \<times> 'w, liberror + 'a) act" where
  [act_defs]: "attempt c = (\<lambda>(m, w). case c w of (r, w') \<Rightarrow> (Ret r, (m, w')))"

definition invoke :: "('w, 'a) call \<Rightarrow> ('m \<times> 'w, 'a) act" where
  [act_defs]: "invoke c = (\<lambda>(m, w). case c w of (r, w') \<Rightarrow> (of_lib r, (m, w')))"

text \<open>Turn a returned or failed action into a value; only a panic goes on.\<close>

definition catch :: "('s, 'a) act \<Rightarrow> ('s, goerror + 'a) act" where
  [act_defs]: "catch m = (\<lambda>s. case m s of
     (Ret a, s') \<Rightarrow> (Ret (Inr a), s')
   | (Fail e, s') \<Rightarrow> (Ret (Inl e), s')
   | (Panic p, s') \<Rightarrow> (Panic p, s'))"

lemma act_simps [simp]:
  "andThen (ret a) k = k a"
  "andThen (fail e) k = fail e"
  "andThen (panic p) k = panic p"
  "ret a s = (Ret a, s)"
  "fail e s = (Fail e, s)"
  "panic p s = (Panic p, s)"
  "lift r s = (r, s)"
  "getObj (m, w) = (Ret m, (m, w))"
  "modifyObj f (m, w) = (Ret (), (f m, w))"
  by (simp_all add: act_defs fun_eq_iff)

lemma attempt_apply: "attempt c (m, w) = (Ret (fst (c w)), (m, snd (c w)))"
  by (simp add: act_defs split: prod.splits)

lemma invoke_apply: "invoke c (m, w) = (of_lib (fst (c w)), (m, snd (c w)))"
  by (simp add: act_defs split: prod.splits)

lemma andThen_apply:
  "andThen m k s = (case m s of (Ret a, s') \<Rightarrow> k a s' | (Fail e, s') \<Rightarrow> (Fail e, s')
                              | (Panic p, s') \<Rightarrow> (Panic p, s'))"
  by (simp add: andThen_def)

lemma wrapErr_apply: "wrapErr f m s = (wrap_outcome f (fst (m s)), snd (m s))"
  by (simp add: wrapErr_def)

lemma catch_apply:
  "catch m s = (case m s of (Ret a, s') \<Rightarrow> (Ret (Inr a), s') | (Fail e, s') \<Rightarrow> (Ret (Inl e), s')
                        | (Panic p, s') \<Rightarrow> (Panic p, s'))"
  by (simp add: catch_def)

lemmas run_simps = attempt_apply invoke_apply andThen_apply wrapErr_apply catch_apply

subsection \<open>Frame properties: what an action leaves unchanged\<close>

definition steady :: "('s \<Rightarrow> 'x) \<Rightarrow> ('s, 'a) act \<Rightarrow> bool" where
  "steady f m \<longleftrightarrow> (\<forall>s. f (snd (m s)) = f s)"

lemma steadyD: "steady f m \<Longrightarrow> m s = (r, s') \<Longrightarrow> f s' = f s"
  unfolding steady_def by (metis snd_conv)

lemma steady_simple [steady_intros]:
  "steady f (ret a)" "steady f (fail e)" "steady f (panic p)" "steady f (lift r)"
  by (simp_all add: steady_def)

lemma steady_getObj [steady_intros]: "steady f getObj"
  by (auto simp: steady_def)

lemma steady_andThen [steady_intros]:
  assumes "steady f m" and "\<And>a. steady f (k a)"
  shows "steady f (andThen m k)"
  unfolding steady_def
proof
  fix s
  show "f (snd (andThen m k s)) = f s"
    using assms by (auto simp: andThen_def steady_def split: prod.splits outcome.splits)
      (metis snd_conv)+
qed

lemma steady_wrapErr [steady_intros]: "steady f m \<Longrightarrow> steady f (wrapErr g m)"
  by (simp add: steady_def wrapErr_def)

lemma steady_catch [steady_intros]: "steady f m \<Longrightarrow> steady f (catch m)"
  by (auto simp: steady_def catch_def split: prod.splits outcome.splits) (metis snd_conv)+

lemma steady_if [steady_intros]:
  "(b \<Longrightarrow> steady f m) \<Longrightarrow> (\<not> b \<Longrightarrow> steady f n) \<Longrightarrow> steady f (if b then m else n)"
  by simp

lemma steady_case_sum [steady_intros]:
  "(\<And>a. steady f (g a)) \<Longrightarrow> (\<And>b. steady f (h b)) \<Longrightarrow> steady f (case r of Inl a \<Rightarrow> g a | Inr b \<Rightarrow> h b)"
  by (simp split: sum.splits)

lemma steady_case_option [steady_intros]:
  "steady f n \<Longrightarrow> (\<And>b. steady f (h b)) \<Longrightarrow> steady f (case r of None \<Rightarrow> n | Some b \<Rightarrow> h b)"
  by (simp split: option.splits)

lemma steady_modifyObj: "(\<And>m w. f (g m, w) = f (m, w)) \<Longrightarrow> steady f (modifyObj g)"
  by (auto simp: steady_def)

lemma steady_attempt: "(\<And>m w. f (m, snd (c w)) = f (m, w)) \<Longrightarrow> steady f (attempt c)"
  by (auto simp: steady_def attempt_apply)

lemma steady_invoke: "(\<And>m w. f (m, snd (c w)) = f (m, w)) \<Longrightarrow> steady f (invoke c)"
  by (auto simp: steady_def invoke_apply)

text \<open>Observations of the object only: no call to the outside changes them.\<close>

lemma steady_obj_calls [steady_intros]:
  "steady (\<lambda>s. f (fst s)) (attempt c)" "steady (\<lambda>s. f (fst s)) (invoke c)"
  by (auto intro: steady_attempt steady_invoke)

text \<open>Observations of the world only: no mutation of the object changes them.\<close>

lemma steady_world_modify [steady_intros]: "steady (\<lambda>s. f (snd s)) (modifyObj g)"
  by (auto intro: steady_modifyObj)

subsection \<open>Safety: an action never panics\<close>

definition nopanic :: "('s, 'a) act \<Rightarrow> bool" where
  "nopanic m \<longleftrightarrow> (\<forall>s. \<not> panics (fst (m s)))"

lemma nopanic_simple [nopanic_intros]:
  "nopanic (ret a)" "nopanic (fail e)"
  by (simp_all add: nopanic_def)

lemma nopanic_lift [nopanic_intros]: "\<not> panics r \<Longrightarrow> nopanic (lift r)"
  by (simp add: nopanic_def)

lemma nopanic_state [nopanic_intros]:
  "nopanic getObj" "nopanic (modifyObj f)" "nopanic (attempt c)" "nopanic (invoke c)"
  by (auto simp: nopanic_def run_simps)

lemma nopanic_andThen [nopanic_intros]:
  assumes "nopanic m" and "\<And>a. nopanic (k a)"
  shows "nopanic (andThen m k)"
  unfolding nopanic_def
proof
  fix s
  show "\<not> panics (fst (andThen m k s))"
    using assms by (auto simp: andThen_def nopanic_def split: prod.splits outcome.splits)
      (metis fst_conv panics.simps(1))
qed

lemma nopanic_wrapErr [nopanic_intros]: "nopanic m \<Longrightarrow> nopanic (wrapErr g m)"
  by (simp add: nopanic_def wrapErr_def)

lemma nopanic_if [nopanic_intros]:
  "(b \<Longrightarrow> nopanic m) \<Longrightarrow> (\<not> b \<Longrightarrow> nopanic n) \<Longrightarrow> nopanic (if b then m else n)"
  by simp

lemma nopanic_case_sum [nopanic_intros]:
  "(\<And>a. nopanic (g a)) \<Longrightarrow> (\<And>b. nopanic (h b)) \<Longrightarrow> nopanic (case r of Inl a \<Rightarrow> g a | Inr b \<Rightarrow> h b)"
  by (simp split: sum.splits)

section \<open>Interface values and type assertions\<close>

text \<open>
  A handler gets its object as an interface value (\<^verbatim>\<open>resource.Managed\<close>,
  \<^verbatim>\<open>runtime.Object\<close>) and asserts the concrete type. The value holds that type, or another
  one, of which only the name matters.
\<close>

datatype 'a obj = Typed 'a | Other string

text \<open>
  Run a handler on the asserted object: the pointer is shared, so the mutation is seen through the
  interface value afterwards. \<open>onOther\<close> says what the code does when the assertion fails.
\<close>

definition withTyped :: "(string \<Rightarrow> 'b outcome) \<Rightarrow> ('a \<times> 'w, 'b) act \<Rightarrow> ('a obj \<times> 'w, 'b) act" where
  "withTyped onOther body = (\<lambda>(ob, w). case ob of
     Other t \<Rightarrow> (onOther t, (Other t, w))
   | Typed x \<Rightarrow> (case body (x, w) of (r, (x', w')) \<Rightarrow> (r, (Typed x', w'))))"

text \<open>An assertion \<^verbatim>\<open>mg.(*T)\<close> without the \<open>ok\<close> result panics.\<close>

definition assertPanic :: "string \<Rightarrow> 'b outcome" where
  "assertPanic t = Panic (''interface conversion: '' @ t)"

lemma withTyped_Typed:
  "withTyped h body (Typed x, w) =
     (fst (body (x, w)), (Typed (fst (snd (body (x, w)))), snd (snd (body (x, w)))))"
  by (simp add: withTyped_def split: prod.splits)

lemma withTyped_Other [simp]: "withTyped h body (Other t, w) = (h t, (Other t, w))"
  by (simp add: withTyped_def)

fun map_obj :: "('a \<Rightarrow> 'b) \<Rightarrow> 'a obj \<Rightarrow> 'b obj" where
  "map_obj f (Typed x) = Typed (f x)"
| "map_obj f (Other t) = Other t"

lemma steady_withTyped:
  "steady (\<lambda>s. f (fst s)) body \<Longrightarrow> steady (\<lambda>s. map_obj f (fst s)) (withTyped h body)"
  by (auto simp: steady_def withTyped_def split: obj.splits prod.splits) (metis fst_conv snd_conv)

lemma steady_withTyped_world:
  "steady (\<lambda>s. f (snd s)) body \<Longrightarrow> steady (\<lambda>s. f (snd s)) (withTyped h body)"
  by (auto simp: steady_def withTyped_def split: obj.splits prod.splits) (metis snd_conv)

section \<open>Go maps\<close>

text \<open>
  A Go map with string keys is an association list with distinct keys; \<open>range\<close> visits the
  entries in the order of the list, which stands for any order Go may choose. Reading a missing key
  gives the zero value, writing replaces or appends, \<open>len\<close> is the length.
\<close>

type_synonym 'v gomap = "(string \<times> 'v) list"

definition wf_map :: "'v gomap \<Rightarrow> bool" where
  "wf_map m \<longleftrightarrow> distinct (map fst m)"

lemma wf_map_simps [simp]:
  "wf_map []"
  "wf_map ((k, v) # m) \<longleftrightarrow> k \<notin> fst ` set m \<and> wf_map m"
  by (auto simp: wf_map_def)

lemma wf_map_update [simp]: "wf_map m \<Longrightarrow> wf_map (AList.update k v m)"
  by (simp add: wf_map_def distinct_update)

lemma wf_map_delete [simp]: "wf_map m \<Longrightarrow> wf_map (AList.delete k m)"
  by (simp add: wf_map_def distinct_delete)

lemma map_of_update [simp]: "map_of (AList.update k v m) = (map_of m)(k \<mapsto> v)"
  by (simp add: update_conv')

lemma map_of_delete [simp]: "map_of (AList.delete k m) = (map_of m)(k := None)"
  by (simp add: delete_conv')

lemma length_wf_map: "wf_map m \<Longrightarrow> length m = card (dom (map_of m))"
  by (metis distinct_card dom_map_of_conv_image_fst length_map list.set_map wf_map_def)

lemma wf_map_lookup: "wf_map m \<Longrightarrow> map_of m k = Some v \<longleftrightarrow> (k, v) \<in> set m"
  by (simp add: wf_map_def)

text \<open>A nil map reads as an empty one.\<close>

definition map_entries :: "'v gomap option \<Rightarrow> 'v gomap" where
  "map_entries m = (case m of None \<Rightarrow> [] | Some es \<Rightarrow> es)"

lemma map_entries_simps [simp]: "map_entries None = []" "map_entries (Some es) = es"
  by (simp_all add: map_entries_def)

text \<open>The string a map of strings holds for a key, the empty string when it has none.\<close>

definition getOr :: "'v \<Rightarrow> 'v gomap \<Rightarrow> string \<Rightarrow> 'v" where
  "getOr d m k = (case map_of m k of None \<Rightarrow> d | Some v \<Rightarrow> v)"

section \<open>Loops that stop at the first error\<close>

text \<open>
  \<^verbatim>\<open>for _, f := range fs { if err := f(x); err != nil { return err } }; return nil\<close>
\<close>

fun firstError :: "('a \<Rightarrow> unit outcome) list \<Rightarrow> 'a \<Rightarrow> unit outcome" where
  "firstError [] x = Ret ()"
| "firstError (f # fs) x = (case f x of Ret _ \<Rightarrow> firstError fs x | Fail e \<Rightarrow> Fail e | Panic p \<Rightarrow> Panic p)"

lemma firstError_Ret_iff:
  "firstError fs x = Ret () \<longleftrightarrow> (\<forall>f \<in> set fs. f x = Ret ())"
  by (induction fs) (auto split: outcome.splits)

end
