(* ===== verification/GoStrings.thy ===== *)
theory GoStrings
  imports Prelude
begin

text \<open>
  What the program uses of Go's \<^verbatim>\<open>strings\<close>, \<^verbatim>\<open>strconv\<close>, \<^verbatim>\<open>fmt\<close> and \<^verbatim>\<open>regexp\<close> packages, on strings
  as lists of bytes: case folding, prefixes, search, decimal conversion of 64-bit integers, and a
  backtracking matcher with capture groups for the one regular expression of the program.
\<close>

section \<open>Package strings\<close>

text \<open>
  Case folding of the ASCII letters. Bytes outside ASCII are compared as they are; the plan names,
  schemes and log formats the program folds are ASCII.
\<close>

definition lower_char :: "char \<Rightarrow> char" where
  "lower_char c = (let n = (of_char c :: nat) in if 65 \<le> n \<and> n \<le> 90 then char_of (n + 32) else c)"

definition ToLower :: "string \<Rightarrow> string" where
  "ToLower s = map lower_char s"

definition EqualFold :: "string \<Rightarrow> string \<Rightarrow> bool" where
  "EqualFold s t \<longleftrightarrow> ToLower s = ToLower t"

lemma EqualFold_refl [simp]: "EqualFold s s"
  by (simp add: EqualFold_def)

lemma EqualFold_sym: "EqualFold s t \<Longrightarrow> EqualFold t s"
  by (simp add: EqualFold_def)

lemma EqualFold_trans: "EqualFold s t \<Longrightarrow> EqualFold t u \<Longrightarrow> EqualFold s u"
  by (simp add: EqualFold_def)

fun HasPrefix :: "string \<Rightarrow> string \<Rightarrow> bool" where
  "HasPrefix s [] = True"
| "HasPrefix [] (p # ps) = False"
| "HasPrefix (c # cs) (p # ps) = (c = p \<and> HasPrefix cs ps)"

definition HasSuffix :: "string \<Rightarrow> string \<Rightarrow> bool" where
  "HasSuffix s p = HasPrefix (rev s) (rev p)"

definition TrimPrefix :: "string \<Rightarrow> string \<Rightarrow> string" where
  "TrimPrefix s p = (if HasPrefix s p then drop (length p) s else s)"

fun Contains :: "string \<Rightarrow> string \<Rightarrow> bool" where
  "Contains [] sub = (sub = [])"
| "Contains (c # cs) sub = (HasPrefix (c # cs) sub \<or> Contains cs sub)"

lemma HasPrefix_iff: "HasPrefix s p \<longleftrightarrow> (\<exists>r. s = p @ r)"
  by (induction s p rule: HasPrefix.induct) auto

lemma HasPrefix_append [simp]: "HasPrefix (p @ r) p"
  by (auto simp: HasPrefix_iff)

lemma Contains_iff: "Contains s sub \<longleftrightarrow> (\<exists>a b. s = a @ sub @ b)"
proof (induction s)
  case Nil
  then show ?case by simp
next
  case (Cons c s)
  have "(\<exists>a b. c # s = a @ sub @ b) \<longleftrightarrow> (\<exists>r. c # s = sub @ r) \<or> (\<exists>a b. s = a @ sub @ b)"
    by (metis append_Cons append_Nil list.exhaust list.inject)
  then show ?case using Cons.IH by (simp add: HasPrefix_iff)
qed

text \<open>\<^verbatim>\<open>strings.Join\<close>.\<close>

fun Join :: "string list \<Rightarrow> string \<Rightarrow> string" where
  "Join [] sep = []"
| "Join [s] sep = s"
| "Join (s # ss) sep = s @ sep @ Join ss sep"

text \<open>\<^verbatim>\<open>strings.Cut\<close> at a one-byte separator: before, after, whether it was found.\<close>

fun Cut :: "char \<Rightarrow> string \<Rightarrow> string \<times> string \<times> bool" where
  "Cut sep [] = ([], [], False)"
| "Cut sep (c # cs) =
     (if c = sep then ([], cs, True)
      else (case Cut sep cs of (b, a, found) \<Rightarrow> (c # b, a, found)))"

lemma Cut_found: "sep \<notin> set b \<Longrightarrow> Cut sep (b @ sep # a) = (b, a, True)"
  by (induction b) auto

lemma Cut_absent: "sep \<notin> set s \<Longrightarrow> Cut sep s = (s, [], False)"
  by (induction s) auto

section \<open>Decimal conversion\<close>

definition digit_char :: "nat \<Rightarrow> char" where
  "digit_char d = char_of (48 + d)"

definition digit_val :: "char \<Rightarrow> nat option" where
  "digit_val c = (let n = (of_char c :: nat) in if 48 \<le> n \<and> n \<le> 57 then Some (n - 48) else None)"

lemma of_char_digit_char [simp]: "d < 10 \<Longrightarrow> (of_char (digit_char d) :: nat) = 48 + d"
  by (simp add: digit_char_def)

lemma digit_val_digit_char [simp]: "d < 10 \<Longrightarrow> digit_val (digit_char d) = Some d"
  by (simp add: digit_val_def)

lemma digit_val_Some: "digit_val c = Some d \<Longrightarrow> d < 10 \<and> c = digit_char d"
  by (auto simp: digit_val_def digit_char_def Let_def split: if_splits)

lemma digit_char_neq: "d < 10 \<Longrightarrow> digit_val c = None \<Longrightarrow> digit_char d \<noteq> c"
  by auto

lemma digit_val_punctuation [simp]:
  "digit_val (CHR ''-'') = None" "digit_val (CHR ''+'') = None" "digit_val (CHR '':'') = None"
  by (simp_all add: digit_val_def)

fun decimal :: "nat \<Rightarrow> string" where
  "decimal n = (if n < 10 then [digit_char n] else decimal (n div 10) @ [digit_char (n mod 10)])"

declare decimal.simps [simp del]

fun parse_digits :: "nat \<Rightarrow> string \<Rightarrow> nat option" where
  "parse_digits acc [] = Some acc"
| "parse_digits acc (c # cs) =
     (case digit_val c of None \<Rightarrow> None | Some d \<Rightarrow> parse_digits (10 * acc + d) cs)"

lemma parse_digits_append:
  "parse_digits acc (xs @ ys) = (case parse_digits acc xs of None \<Rightarrow> None | Some a \<Rightarrow> parse_digits a ys)"
  by (induction xs arbitrary: acc) (auto split: option.splits)

lemma parse_digits_decimal: "parse_digits 0 (decimal n) = Some n"
proof (induction n rule: decimal.induct)
  case (1 n)
  then show ?case
    by (cases "n < 10") (auto simp: decimal.simps [of n] parse_digits_append)
qed

lemma decimal_nonempty [simp]: "decimal n \<noteq> []"
  by (subst decimal.simps) simp

lemma decimal_inject [simp]: "decimal m = decimal n \<longleftrightarrow> m = n"
  by (metis option.inject parse_digits_decimal)

text \<open>
  \<^verbatim>\<open>strconv.ParseInt(s, 10, 64)\<close>: an optional sign, at least one digit, and a value that fits; the
  value comes back together with the error (0 for a syntax error, the nearest bound for a range
  error).
\<close>

definition ParseInt :: "string \<Rightarrow> int \<times> goerror option" where
  "ParseInt s = (
     let neg = HasPrefix s ''-'';
         body = (if neg \<or> HasPrefix s ''+'' then tl s else s)
     in if body = [] then (0, Some (Errorf ''parsing %q: invalid syntax'' [s]))
        else case parse_digits 0 body of
          None \<Rightarrow> (0, Some (Errorf ''parsing %q: invalid syntax'' [s]))
        | Some n \<Rightarrow>
            if neg then (if n \<le> 2 ^ 63 then (- int n, None)
                         else (- (2 ^ 63), Some (Errorf ''parsing %q: value out of range'' [s])))
            else (if n < 2 ^ 63 then (int n, None)
                  else (2 ^ 63 - 1, Some (Errorf ''parsing %q: value out of range'' [s]))))"

lemma ParseInt_digits:
  assumes "s \<noteq> []" and "parse_digits 0 s = Some n" and "n < 2 ^ 63"
  shows "ParseInt s = (int n, None)"
proof -
  obtain c cs where s: "s = c # cs" using assms(1) by (cases s) auto
  with assms(2) obtain d where "digit_val c = Some d" by (auto split: option.splits)
  then have "c = digit_char d" "d < 10" by (auto dest: digit_val_Some)
  moreover have "digit_char d \<noteq> CHR ''-''" "digit_char d \<noteq> CHR ''+''" if "d < 10"
    using that by (simp_all add: digit_char_neq)
  ultimately show ?thesis
    using assms s by (simp add: ParseInt_def)
qed

text \<open>\<^verbatim>\<open>fmt.Sprintf("%d", n)\<close> and \<open>"%02d"\<close> on an \<open>int64\<close>: the sign counts towards the width.\<close>

definition Itoa :: "int \<Rightarrow> string" where
  "Itoa n = (if n < 0 then ''-'' @ decimal (nat (- n)) else decimal (nat n))"

definition Pad2 :: "int \<Rightarrow> string" where
  "Pad2 n = (let s = Itoa n in if length s < 2 then ''0'' @ s else s)"

section \<open>Package regexp\<close>

text \<open>
  Regular expressions with capture groups. \<open>rx_match r s\<close> lists the ways \<open>r\<close> matches a prefix of
  \<open>s\<close>, each with its captures and what is left, in the order a leftmost-first matcher prefers
  them: the first alternative before the second, an optional part taken before skipped. A group that
  takes no part in a match captures the empty string, as \<^verbatim>\<open>FindStringSubmatch\<close> reports it.
\<close>

datatype rx =
    RRange char char
  | ROpt rx
  | RAlt rx rx
  | RSeq rx rx
  | RGroup rx

abbreviation RLit :: "char \<Rightarrow> rx" where
  "RLit c \<equiv> RRange c c"

fun rx_groups :: "rx \<Rightarrow> nat" where
  "rx_groups (RRange a b) = 0"
| "rx_groups (ROpt r) = rx_groups r"
| "rx_groups (RAlt r1 r2) = rx_groups r1 + rx_groups r2"
| "rx_groups (RSeq r1 r2) = rx_groups r1 + rx_groups r2"
| "rx_groups (RGroup r) = Suc (rx_groups r)"

definition in_range :: "char \<Rightarrow> char \<Rightarrow> char \<Rightarrow> bool" where
  "in_range a b c \<longleftrightarrow> (of_char a :: nat) \<le> of_char c \<and> (of_char c :: nat) \<le> of_char b"

fun rx_match :: "rx \<Rightarrow> string \<Rightarrow> (string list \<times> string) list" where
  "rx_match (RRange a b) s = (case s of [] \<Rightarrow> [] | c # cs \<Rightarrow> if in_range a b c then [([], cs)] else [])"
| "rx_match (ROpt r) s = rx_match r s @ [(replicate (rx_groups r) [], s)]"
| "rx_match (RAlt r1 r2) s =
     map (\<lambda>(cs, t). (cs @ replicate (rx_groups r2) [], t)) (rx_match r1 s) @
     map (\<lambda>(cs, t). (replicate (rx_groups r1) [] @ cs, t)) (rx_match r2 s)"
| "rx_match (RSeq r1 r2) s =
     concat (map (\<lambda>(cs1, t). map (\<lambda>(cs2, u). (cs1 @ cs2, u)) (rx_match r2 t)) (rx_match r1 s))"
| "rx_match (RGroup r) s =
     map (\<lambda>(cs, t). (take (length s - length t) s # cs, t)) (rx_match r s)"

text \<open>\<^verbatim>\<open>FindStringSubmatch\<close> of \<open>^r$\<close>: the first match that uses the whole text; nil for none.\<close>

definition FindStringSubmatch :: "rx \<Rightarrow> string \<Rightarrow> string list" where
  "FindStringSubmatch r s =
     (case filter (\<lambda>(cs, t). t = []) (rx_match r s) of [] \<Rightarrow> [] | (cs, t) # _ \<Rightarrow> s # cs)"

subsection \<open>Matches as a relation\<close>

lemma rx_match_range_iff:
  "(cs, t) \<in> set (rx_match (RRange a b) s) \<longleftrightarrow> cs = [] \<and> (\<exists>c. s = c # t \<and> in_range a b c)"
  by (cases s) auto

lemma rx_match_seq_iff:
  "(cs, t) \<in> set (rx_match (RSeq r1 r2) s) \<longleftrightarrow>
     (\<exists>cs1 u cs2. (cs1, u) \<in> set (rx_match r1 s) \<and> (cs2, t) \<in> set (rx_match r2 u) \<and> cs = cs1 @ cs2)"
  by force

lemma rx_match_opt_iff:
  "(cs, t) \<in> set (rx_match (ROpt r) s) \<longleftrightarrow>
     (cs, t) \<in> set (rx_match r s) \<or> (cs = replicate (rx_groups r) [] \<and> t = s)"
  by auto

lemma rx_match_alt_iff:
  "(cs, t) \<in> set (rx_match (RAlt r1 r2) s) \<longleftrightarrow>
     (\<exists>cs'. (cs', t) \<in> set (rx_match r1 s) \<and> cs = cs' @ replicate (rx_groups r2) []) \<or>
     (\<exists>cs'. (cs', t) \<in> set (rx_match r2 s) \<and> cs = replicate (rx_groups r1) [] @ cs')"
  by force

lemma rx_match_group_iff:
  "(cs, t) \<in> set (rx_match (RGroup r) s) \<longleftrightarrow>
     (\<exists>cs'. (cs', t) \<in> set (rx_match r s) \<and> cs = take (length s - length t) s # cs')"
  by force

lemmas rx_match_iffs = rx_match_range_iff rx_match_seq_iff rx_match_opt_iff rx_match_alt_iff rx_match_group_iff

declare rx_match.simps [simp del]

lemma FindStringSubmatch_none:
  "(\<And>cs. (cs, []) \<notin> set (rx_match r s)) \<Longrightarrow> FindStringSubmatch r s = []"
proof -
  assume none: "\<And>cs. (cs, []) \<notin> set (rx_match r s)"
  have "filter (\<lambda>(cs, t). t = []) (rx_match r s) = []"
    using none by (auto simp: filter_empty_conv)
  then show ?thesis by (simp add: FindStringSubmatch_def)
qed

lemma FindStringSubmatch_some:
  assumes "(cs, []) \<in> set (rx_match r s)"
    and "\<And>cs'. (cs', []) \<in> set (rx_match r s) \<Longrightarrow> cs' = cs"
  shows "FindStringSubmatch r s = s # cs"
proof -
  let ?full = "filter (\<lambda>(cs, t). t = []) (rx_match r s)"
  have mem: "(cs, []) \<in> set ?full" using assms(1) by simp
  then obtain x rest where full: "?full = x # rest" by (cases ?full) auto
  then have "x \<in> set ?full" by simp
  then have "(fst x, []) \<in> set (rx_match r s)" "snd x = []" unfolding set_filter by auto
  then have "x = (cs, [])" using assms(2) by (cases x) auto
  then show ?thesis using full by (simp add: FindStringSubmatch_def)
qed

end
