(* ===== verification/ApiTypes.thy ===== *)
theory ApiTypes
  imports GoStrings
begin

text \<open>
  The types of \<^verbatim>\<open>apis/exoscale/v1\<close> that the controllers share: object metadata and conditions, the
  managed resource with its desired and observed part, and \<^verbatim>\<open>dbaas_types.go\<close>: maintenance and backup
  windows, the time of day with its parser, the size. The crossplane runtime and the Kubernetes
  libraries are parameters, bundled in the record \<open>runtime_lib\<close>.
\<close>

section \<open>Metadata, conditions, resources\<close>

record ObjectMeta =
  om_Name :: string
  om_Annotations :: "string gomap option"
  om_DeletionTimestamp :: "int option"

definition annotation :: "ObjectMeta \<Rightarrow> string \<Rightarrow> string option" where
  "annotation om k = map_of (map_entries (om_Annotations om)) k"

record Condition =
  cond_Type :: string
  cond_Status :: string
  cond_Reason :: string
  cond_Message :: string
  cond_LastTransitionTime :: int

text \<open>
  A managed resource: metadata, the embedded \<^verbatim>\<open>xpv1.ResourceSpec\<close> (the two references the program
  reads), the desired parameters \<open>'p\<close>, the embedded \<^verbatim>\<open>xpv1.ResourceStatus\<close> and the observation \<open>'o\<close>.
  A \<^verbatim>\<open>SecretReference\<close> is a name and a namespace.
\<close>

record SecretReference =
  sr_Name :: string
  sr_Namespace :: string

record ('p, 'o) resource =
  mr_Meta :: ObjectMeta
  mr_ProviderConfigReference :: "string option"
  mr_WriteConnectionSecretToReference :: "SecretReference option"
  mr_ForProvider :: 'p
  mr_Conditions :: "Condition list"
  mr_AtProvider :: 'o

definition refName :: "string option \<Rightarrow> string" where
  "refName ref = (case ref of Some n \<Rightarrow> n | None \<Rightarrow> [])"

text \<open>
  What the program uses of crossplane-runtime and the Kubernetes API packages: the external name of
  an object, the update of a list of conditions, the current time, and the constants.
\<close>

record runtime_lib =
  rt_GetExternalName :: "ObjectMeta \<Rightarrow> string"
  rt_SetConditions :: "Condition list \<Rightarrow> Condition \<Rightarrow> Condition list"
  rt_Now :: int
  rt_Available :: Condition
  rt_Creating :: Condition
  rt_Deleting :: Condition
  rt_TypeReady :: string
  rt_TypeSynced :: string
  rt_ReasonDeleting :: string
  rt_ReasonReconcileSuccess :: string
  rt_ConditionTrue :: string
  rt_ConditionFalse :: string

text \<open>
  Documented behaviour of \<^verbatim>\<open>ConditionedStatus.SetConditions\<close>: the condition replaces the one of its
  type, the transition time aside, and leaves the conditions of other types alone; and of the
  predefined conditions.
\<close>

definition same_condition :: "Condition \<Rightarrow> Condition \<Rightarrow> bool" where
  "same_condition c d \<longleftrightarrow> cond_Type c = cond_Type d \<and> cond_Status c = cond_Status d \<and>
     cond_Reason c = cond_Reason d \<and> cond_Message c = cond_Message d"

definition set_condition :: "runtime_lib \<Rightarrow> Condition \<Rightarrow> ('p, 'o, 'm) resource_scheme \<Rightarrow> ('p, 'o, 'm) resource_scheme" where
  "set_condition rt c r = r\<lparr>mr_Conditions := rt_SetConditions rt (mr_Conditions r) c\<rparr>"

lemma set_condition_frame [simp]:
  "mr_Meta (set_condition rt c r) = mr_Meta r"
  "mr_ForProvider (set_condition rt c r) = mr_ForProvider r"
  "mr_AtProvider (set_condition rt c r) = mr_AtProvider r"
  "mr_ProviderConfigReference (set_condition rt c r) = mr_ProviderConfigReference r"
  "mr_WriteConnectionSecretToReference (set_condition rt c r) = mr_WriteConnectionSecretToReference r"
  by (simp_all add: set_condition_def)

section \<open>Windows, sizes and conditions of a database service\<close>

type_synonym TimeOfDay = string
type_synonym Zone = string

record MaintenanceSpec =
  ms_DayOfWeek :: string
  ms_TimeOfDay :: TimeOfDay

record BackupSpec =
  bs_TimeOfDay :: TimeOfDay

record SizeSpec =
  ss_Plan :: string

text \<open>
  A Go slice: nil, or the elements of one that is not nil. Length and iteration do not tell nil from empty (\<open>elems\<close>);
  a comparison of slices by go-cmp does.
\<close>

type_synonym 'a slice = "'a list option"

definition elems :: "'a slice \<Rightarrow> 'a list" where
  "elems s = (case s of None \<Rightarrow> [] | Some xs \<Rightarrow> xs)"

lemma elems_simps [simp]: "elems None = []" "elems (Some xs) = xs"
  by (simp_all add: elems_def)

record DBaaSParameters =
  dp_TerminationProtection :: bool
  dp_Size :: SizeSpec
  dp_IPFilter :: "string slice"

record NodeState =
  ns_Name :: string
  ns_Role :: string
  ns_State :: string

text \<open>A \<^verbatim>\<open>runtime.RawExtension\<close> is its raw bytes.\<close>

type_synonym RawExtension = string

record Notification =
  nt_Level :: string
  nt_Message :: string
  nt_Type :: string
  nt_Metadata :: RawExtension

definition BackupSpec_Equals :: "BackupSpec \<Rightarrow> BackupSpec \<Rightarrow> bool" where
  "BackupSpec_Equals a b \<longleftrightarrow> bs_TimeOfDay a = bs_TimeOfDay b"

definition MaintenanceSpec_Equals :: "MaintenanceSpec \<Rightarrow> MaintenanceSpec \<Rightarrow> bool" where
  "MaintenanceSpec_Equals a b \<longleftrightarrow>
     ms_DayOfWeek a = ms_DayOfWeek b \<and> ms_TimeOfDay a = ms_TimeOfDay b"

definition SizeSpec_Equals :: "SizeSpec \<Rightarrow> SizeSpec \<Rightarrow> bool" where
  "SizeSpec_Equals a b \<longleftrightarrow> EqualFold (ss_Plan a) (ss_Plan b)"

lemma MaintenanceSpec_Equals_iff [simp]:
  "MaintenanceSpec_Equals (a :: MaintenanceSpec) b \<longleftrightarrow> a = b"
  by (cases a, cases b) (auto simp: MaintenanceSpec_Equals_def)

lemma BackupSpec_Equals_iff [simp]: "BackupSpec_Equals (a :: BackupSpec) b \<longleftrightarrow> a = b"
  by (cases a, cases b) (auto simp: BackupSpec_Equals_def)

text \<open>The \<open>Ready\<close> conditions of a service.\<close>

definition Rebuilding :: "runtime_lib \<Rightarrow> Condition" where
  "Rebuilding rt = \<lparr>cond_Type = rt_TypeReady rt, cond_Status = rt_ConditionFalse rt,
     cond_Reason = ''Rebuilding'', cond_Message = ''The service is being provisioned'',
     cond_LastTransitionTime = rt_Now rt\<rparr>"

definition PoweredOff :: "runtime_lib \<Rightarrow> Condition" where
  "PoweredOff rt = \<lparr>cond_Type = rt_TypeReady rt, cond_Status = rt_ConditionFalse rt,
     cond_Reason = ''PoweredOff'', cond_Message = ''The service is powered off'',
     cond_LastTransitionTime = rt_Now rt\<rparr>"

definition Rebalancing :: "runtime_lib \<Rightarrow> Condition" where
  "Rebalancing rt = \<lparr>cond_Type = rt_TypeReady rt, cond_Status = rt_ConditionFalse rt,
     cond_Reason = ''Rebalancing'', cond_Message = ''The service is being rebalanced'',
     cond_LastTransitionTime = rt_Now rt\<rparr>"

definition Running :: "runtime_lib \<Rightarrow> Condition" where
  "Running rt = (rt_Available rt)\<lparr>cond_Message := ''The service is running''\<rparr>"

definition Updating :: "runtime_lib \<Rightarrow> Condition" where
  "Updating rt = \<lparr>cond_Type = rt_TypeReady rt, cond_Status = rt_ConditionFalse rt,
     cond_Reason = ''Updating'', cond_Message = ''The service is being updated'',
     cond_LastTransitionTime = rt_Now rt\<rparr>"

section \<open>Time of day\<close>

text \<open>\<^verbatim>\<open>^([0-1]?[0-9]|2[0-3]):([0-5][0-9]):([0-5][0-9])$\<close>\<close>

definition timeOfDayRegex :: rx where
  "timeOfDayRegex =
     RSeq (RGroup (RAlt (RSeq (ROpt (RRange CHR ''0'' CHR ''1'')) (RRange CHR ''0'' CHR ''9''))
                        (RSeq (RLit CHR ''2'') (RRange CHR ''0'' CHR ''3''))))
    (RSeq (RLit CHR '':'')
    (RSeq (RGroup (RSeq (RRange CHR ''0'' CHR ''5'') (RRange CHR ''0'' CHR ''9'')))
    (RSeq (RLit CHR '':'')
          (RGroup (RSeq (RRange CHR ''0'' CHR ''5'') (RRange CHR ''0'' CHR ''9''))))))"

text \<open>The loop over the captured parts: a part that is not a number ends it with an error.\<close>

fun parse_parts :: "string list \<Rightarrow> goerror + int list" where
  "parse_parts [] = Inr []"
| "parse_parts (part # ps) = (case ParseInt part of (v, err) \<Rightarrow>
     (case err of
        Some e \<Rightarrow> (if part \<noteq> [] then Inl (Wrapf ''invalid time given for time of day: %w'' [] e)
                   else (case parse_parts ps of Inl e' \<Rightarrow> Inl e' | Inr vs \<Rightarrow> Inr (v # vs)))
      | None \<Rightarrow> (case parse_parts ps of Inl e' \<Rightarrow> Inl e' | Inr vs \<Rightarrow> Inr (v # vs))))"

definition part_at :: "int list \<Rightarrow> nat \<Rightarrow> int" where
  "part_at vs i = (if i < length vs then vs ! i else 0)"

definition Parse :: "TimeOfDay \<Rightarrow> int \<times> int \<times> int \<times> goerror option" where
  "Parse t =
     (if t = [] then (-1, -1, -1, Some (Errorf ''time cannot be empty'' []))
      else let arr = FindStringSubmatch timeOfDayRegex t in
        if length arr < 3
        then (-1, -1, -1, Some (Errorf ''invalid format for time of day (hh:mm:ss): %s'' [t]))
        else (case parse_parts (tl arr) of
            Inl e \<Rightarrow> (-1, -1, -1, Some e)
          | Inr parts \<Rightarrow> (part_at parts 0, part_at parts 1, part_at parts 2, None)))"

text \<open>The canonical and the short spelling of a time, and the set of the accepted spellings.\<close>

definition showTime :: "int \<Rightarrow> int \<Rightarrow> int \<Rightarrow> TimeOfDay" where
  "showTime h m s = Pad2 h @ '':'' @ Pad2 m @ '':'' @ Pad2 s"

definition showTimeShort :: "int \<Rightarrow> int \<Rightarrow> int \<Rightarrow> TimeOfDay" where
  "showTimeShort h m s = Itoa h @ '':'' @ Pad2 m @ '':'' @ Pad2 s"

subsection \<open>What the regular expression matches\<close>

lemma in_range_digits:
  assumes "n < 10"
  shows "in_range CHR ''0'' (digit_char n) c \<longleftrightarrow> (\<exists>d \<le> n. c = digit_char d)"
proof
  assume "in_range CHR ''0'' (digit_char n) c"
  then have "48 \<le> (of_char c :: nat)" "(of_char c :: nat) \<le> 48 + n"
    using assms by (auto simp: in_range_def)
  moreover have "c = digit_char (of_char c - 48)"
    using \<open>48 \<le> (of_char c :: nat)\<close> by (simp add: digit_char_def)
  ultimately show "\<exists>d \<le> n. c = digit_char d"
    by (intro exI [of _ "of_char c - 48"]) auto
next
  assume "\<exists>d \<le> n. c = digit_char d"
  then show "in_range CHR ''0'' (digit_char n) c"
    using assms by (auto simp: in_range_def)
qed

lemma in_range_single: "in_range a a c \<longleftrightarrow> c = a"
  by (auto simp: in_range_def intro: of_char_eq_iff [THEN iffD1])

lemma digit_char_literals:
  "CHR ''0'' = digit_char 0" "CHR ''1'' = digit_char 1" "CHR ''2'' = digit_char 2" "CHR ''3'' = digit_char 3"
  "CHR ''5'' = digit_char 5" "CHR ''9'' = digit_char 9"
  by (rule of_char_eq_iff [where 'a = nat, THEN iffD1], simp add: digit_char_def)+

lemmas digit_literals = digit_char_literals(2-6)

definition hour_text :: "string \<Rightarrow> nat \<Rightarrow> bool" where
  "hour_text hs h \<longleftrightarrow> h < 24 \<and> (hs = [digit_char (h div 10), digit_char (h mod 10)] \<or>
     h < 10 \<and> hs = [digit_char h])"

definition sixty_text :: "nat \<Rightarrow> string" where
  "sixty_text n = [digit_char (n div 10), digit_char (n mod 10)]"

definition hourRx :: rx where
  "hourRx = RAlt (RSeq (ROpt (RRange CHR ''0'' CHR ''1'')) (RRange CHR ''0'' CHR ''9''))
      (RSeq (RLit CHR ''2'') (RRange CHR ''0'' CHR ''3''))"

definition sixtyRx :: rx where
  "sixtyRx = RSeq (RRange CHR ''0'' CHR ''5'') (RRange CHR ''0'' CHR ''9'')"

lemma timeOfDayRegex_alt:
  "timeOfDayRegex = RSeq (RGroup hourRx) (RSeq (RLit CHR '':'')
     (RSeq (RGroup sixtyRx) (RSeq (RLit CHR '':'') (RGroup sixtyRx))))"
  by (simp add: timeOfDayRegex_def hourRx_def sixtyRx_def)

lemma hourRx_iff:
  "(cs, t) \<in> set (rx_match hourRx s) \<longleftrightarrow> cs = [] \<and>
     ((\<exists>a \<le> 1. \<exists>d \<le> 9. s = digit_char a # digit_char d # t) \<or> (\<exists>d \<le> 9. s = digit_char d # t) \<or>
      (\<exists>d \<le> 3. s = digit_char 2 # digit_char d # t))"
  unfolding hourRx_def rx_match_iffs digit_literals
  by (simp add: in_range_digits in_range_single) blast

lemma hour_match:
  "(cs, t) \<in> set (rx_match hourRx s) \<longleftrightarrow> cs = [] \<and> (\<exists>hs h. hour_text hs h \<and> s = hs @ t)"
  (is "?L \<longleftrightarrow> ?R")
proof
  assume ?L
  then consider (two) a d where "a \<le> 1" "d \<le> 9" "s = [digit_char a, digit_char d] @ t" "cs = []"
    | (one) d where "d \<le> 9" "s = [digit_char d] @ t" "cs = []"
    | (twenty) d where "d \<le> 3" "s = [digit_char 2, digit_char d] @ t" "cs = []"
    unfolding hourRx_iff by fastforce
  then show ?R
  proof cases
    case two
    have "hour_text [digit_char a, digit_char d] (10 * a + d)"
      using two(1,2) by (auto simp: hour_text_def)
    then show ?R using two by blast
  next
    case one
    have "hour_text [digit_char d] d" using one(1) by (auto simp: hour_text_def)
    then show ?R using one by blast
  next
    case twenty
    have "(20 + d) div 10 = 2" "(20 + d) mod 10 = d" using twenty(1) by presburger+
    then have "hour_text [digit_char 2, digit_char d] (20 + d)"
      using twenty(1) by (auto simp: hour_text_def)
    then show ?R using twenty by blast
  qed
next
  assume ?R
  then obtain hs h where cs: "cs = []" and h: "hour_text hs h" and s: "s = hs @ t" by blast
  have "h < 24" using h by (simp add: hour_text_def)
  then have "h div 10 \<le> 1 \<or> h div 10 = 2 \<and> h mod 10 \<le> 3" "h mod 10 \<le> 9" by presburger+
  then show ?L
    using h cs s unfolding hourRx_iff hour_text_def by (auto simp: less_Suc_eq_le)
qed

lemma sixty_match:
  "(cs, t) \<in> set (rx_match sixtyRx s) \<longleftrightarrow> cs = [] \<and> (\<exists>n < 60. s = sixty_text n @ t)"
  (is "?L \<longleftrightarrow> ?R")
proof
  assume ?L
  then obtain a d where *: "a \<le> 5" "d \<le> 9" "s = [digit_char a, digit_char d] @ t" "cs = []"
    by (auto simp: sixtyRx_def rx_match_iffs in_range_digits in_range_single digit_literals)
  then have "10 * a + d < 60" "s = sixty_text (10 * a + d) @ t"
    by (auto simp: sixty_text_def)
  then show ?R using * by blast
next
  assume ?R
  then obtain n where n: "cs = []" "n < 60" "s = sixty_text n @ t" by blast
  then have "n div 10 \<le> 5" "n mod 10 \<le> 9" by auto
  then show ?L
    using n by (auto simp: sixtyRx_def rx_match_iffs in_range_digits in_range_single
        digit_literals sixty_text_def)
qed

lemma hour_group:
  "(cs, t) \<in> set (rx_match (RGroup hourRx) s) \<longleftrightarrow> (\<exists>hs h. hour_text hs h \<and> s = hs @ t \<and> cs = [hs])"
  unfolding rx_match_group_iff hour_match by fastforce

lemma sixty_group:
  "(cs, t) \<in> set (rx_match (RGroup sixtyRx) s) \<longleftrightarrow> (\<exists>n < 60. s = sixty_text n @ t \<and> cs = [sixty_text n])"
  unfolding rx_match_group_iff sixty_match by fastforce

lemma lit_seq:
  "(cs, t) \<in> set (rx_match (RSeq (RLit c) r) s) \<longleftrightarrow> (\<exists>u. s = c # u \<and> (cs, t) \<in> set (rx_match r u))"
  by (auto simp: rx_match_seq_iff rx_match_range_iff in_range_single)

lemma timeOfDayRegex_match:
  "(cs, []) \<in> set (rx_match timeOfDayRegex t) \<longleftrightarrow>
     (\<exists>hs h m s. hour_text hs h \<and> m < 60 \<and> s < 60 \<and>
        t = hs @ '':'' @ sixty_text m @ '':'' @ sixty_text s \<and>
        cs = [hs, sixty_text m, sixty_text s])"
  unfolding timeOfDayRegex_alt
  by (subst rx_match_seq_iff, simp only: lit_seq hour_group, subst rx_match_seq_iff,
      simp only: lit_seq sixty_group) fastforce

subsection \<open>What Parse accepts and returns\<close>

lemma Pad2_small: "n < 100 \<Longrightarrow> Pad2 (int n) = [digit_char (n div 10), digit_char (n mod 10)]"
  by (auto simp: Pad2_def Itoa_def Let_def decimal.simps [of n] decimal.simps [of "n div 10"]
      digit_char_literals(1))

lemma Itoa_small: "n < 10 \<Longrightarrow> Itoa (int n) = [digit_char n]"
  by (simp add: Itoa_def decimal.simps)

lemma ParseInt_two: "n < 100 \<Longrightarrow> ParseInt [digit_char (n div 10), digit_char (n mod 10)] = (int n, None)"
  by (rule ParseInt_digits) auto

lemma ParseInt_one: "n < 10 \<Longrightarrow> ParseInt [digit_char n] = (int n, None)"
  by (rule ParseInt_digits) auto

lemma ParseInt_hour: "hour_text hs h \<Longrightarrow> ParseInt hs = (int h, None)"
  by (auto simp: hour_text_def ParseInt_two ParseInt_one)

lemma ParseInt_sixty: "n < 60 \<Longrightarrow> ParseInt (sixty_text n) = (int n, None)"
  by (simp add: sixty_text_def ParseInt_two)

lemma parse_parts_three:
  assumes "hour_text hs h" "m < 60" "s < 60"
  shows "parse_parts [hs, sixty_text m, sixty_text s] = Inr [int h, int m, int s]"
  using assms by (simp add: ParseInt_hour ParseInt_sixty)

lemma hour_text_no_colon: "hour_text hs h \<Longrightarrow> CHR '':'' \<notin> set hs"
  by (auto simp: hour_text_def dest: sym) (auto simp: digit_char_neq dest!: sym [of "CHR '':''"])

lemma sixty_text_inject: "m < 100 \<Longrightarrow> n < 100 \<Longrightarrow> sixty_text m = sixty_text n \<Longrightarrow> m = n"
  by (metis ParseInt_two fst_conv of_nat_eq_iff sixty_text_def)

lemma split_at_colon:
  "CHR '':'' \<notin> set a \<Longrightarrow> CHR '':'' \<notin> set b \<Longrightarrow> a @ CHR '':'' # r = b @ CHR '':'' # q \<Longrightarrow> a = b \<and> r = q"
  by (metis Cut_found Pair_inject)

lemma timeOfDayRegex_full:
  assumes "hour_text hs h" "m < 60" "s < 60" "t = hs @ '':'' @ sixty_text m @ '':'' @ sixty_text s"
  shows "FindStringSubmatch timeOfDayRegex t = [t, hs, sixty_text m, sixty_text s]"
proof (rule FindStringSubmatch_some)
  show "([hs, sixty_text m, sixty_text s], []) \<in> set (rx_match timeOfDayRegex t)"
    using assms by (auto simp: timeOfDayRegex_match)
next
  fix cs assume "(cs, []) \<in> set (rx_match timeOfDayRegex t)"
  then obtain hs' h' m' s' where o: "hour_text hs' h'" "m' < 60" "s' < 60"
    "t = hs' @ '':'' @ sixty_text m' @ '':'' @ sixty_text s'" "cs = [hs', sixty_text m', sixty_text s']"
    by (auto simp: timeOfDayRegex_match)
  have "hs = hs' \<and> sixty_text m @ '':'' @ sixty_text s = sixty_text m' @ '':'' @ sixty_text s'"
    using split_at_colon [of hs hs'] o(4) assms(4) hour_text_no_colon [OF assms(1)]
      hour_text_no_colon [OF o(1)] by simp
  then show "cs = [hs, sixty_text m, sixty_text s]"
    using o(5) by (simp add: sixty_text_def)
qed

lemma Parse_ok:
  assumes "hour_text hs h" "m < 60" "s < 60" "t = hs @ '':'' @ sixty_text m @ '':'' @ sixty_text s"
  shows "Parse t = (int h, int m, int s, None)"
proof -
  have "t \<noteq> []" using assms by simp
  then show ?thesis
    using assms(1-3) by (simp add: Parse_def timeOfDayRegex_full [OF assms] parse_parts_three part_at_def
        del: parse_parts.simps)
qed

lemma Parse_bad:
  assumes "\<nexists>hs h m s. hour_text hs h \<and> m < 60 \<and> s < 60 \<and> t = hs @ '':'' @ sixty_text m @ '':'' @ sixty_text s"
  shows "\<exists>e. Parse t = (-1, -1, -1, Some e)"
proof -
  have "FindStringSubmatch timeOfDayRegex t = []"
    using assms by (intro FindStringSubmatch_none) (auto simp: timeOfDayRegex_match)
  then show ?thesis by (simp add: Parse_def)
qed

lemma accepted_times:
  "(\<exists>hs. hour_text hs h \<and> m < 60 \<and> s < 60 \<and> t = hs @ '':'' @ sixty_text m @ '':'' @ sixty_text s) \<longleftrightarrow>
     h < 24 \<and> m < 60 \<and> s < 60 \<and>
     (t = showTime (int h) (int m) (int s) \<or> h < 10 \<and> t = showTimeShort (int h) (int m) (int s))"
  by (auto simp: hour_text_def showTime_def showTimeShort_def Pad2_small Itoa_small sixty_text_def)

lemma Parse_cases:
  obtains (ok) h m s where "h < 24" "m < 60" "s < 60" "Parse t = (int h, int m, int s, None)"
      "t = showTime (int h) (int m) (int s) \<or> h < 10 \<and> t = showTimeShort (int h) (int m) (int s)"
    | (bad) e where "Parse t = (-1, -1, -1, Some e)"
      "\<nexists>h m s. h < 24 \<and> m < 60 \<and> s < 60 \<and>
        (t = showTime (int h) (int m) (int s) \<or> h < 10 \<and> t = showTimeShort (int h) (int m) (int s))"
proof (cases "\<exists>hs h m s. hour_text hs h \<and> m < 60 \<and> s < 60 \<and> t = hs @ '':'' @ sixty_text m @ '':'' @ sixty_text s")
  case True
  then obtain hs h m s where *: "hour_text hs h" "m < 60" "s < 60"
    "t = hs @ '':'' @ sixty_text m @ '':'' @ sixty_text s" by blast
  then have "\<exists>hs. hour_text hs h \<and> m < 60 \<and> s < 60 \<and> t = hs @ '':'' @ sixty_text m @ '':'' @ sixty_text s"
    by blast
  then show ?thesis using ok [of h m s] Parse_ok [OF *] unfolding accepted_times by blast
next
  case False
  then have "\<nexists>h m s. h < 24 \<and> m < 60 \<and> s < 60 \<and>
        (t = showTime (int h) (int m) (int s) \<or> h < 10 \<and> t = showTimeShort (int h) (int m) (int s))"
    using accepted_times by metis
  with Parse_bad [OF False] show ?thesis using bad by blast
qed

lemma Parse_showTime:
  assumes "h < 24" "m < 60" "s < 60"
  shows "Parse (showTime (int h) (int m) (int s)) = (int h, int m, int s, None)"
proof -
  have "hour_text (Pad2 (int h)) h" using assms by (simp add: hour_text_def Pad2_small)
  then show ?thesis
    by (rule Parse_ok) (use assms in \<open>auto simp: showTime_def sixty_text_def Pad2_small\<close>)
qed

lemma Parse_showTimeShort:
  assumes "h < 10" "m < 60" "s < 60"
  shows "Parse (showTimeShort (int h) (int m) (int s)) = (int h, int m, int s, None)"
proof -
  have "hour_text (Itoa (int h)) h" using assms by (simp add: hour_text_def Itoa_small)
  then show ?thesis
    by (rule Parse_ok) (use assms in \<open>auto simp: showTimeShort_def sixty_text_def Pad2_small\<close>)
qed

lemma Parse_accepts:
  "Parse t = (h, m, s, None) \<longleftrightarrow>
     0 \<le> h \<and> h < 24 \<and> 0 \<le> m \<and> m < 60 \<and> 0 \<le> s \<and> s < 60 \<and>
     (t = showTime h m s \<or> h < 10 \<and> t = showTimeShort h m s)"
  (is "?L \<longleftrightarrow> ?R")
proof
  assume ?L
  then show ?R by (cases t rule: Parse_cases) auto
next
  assume R: ?R
  then have "nat h < 24" "nat m < 60" "nat s < 60" "h = int (nat h)" "m = int (nat m)" "s = int (nat s)"
    by auto
  with R show ?L
    using Parse_showTime [of "nat h" "nat m" "nat s"] Parse_showTimeShort [of "nat h" "nat m" "nat s"]
    by (metis nat_less_iff of_nat_numeral)
qed

section \<open>The parser accepts exactly the 24 hour clock\<close>

text \<open>
  C27: \<^verbatim>\<open>TimeOfDay.Parse\<close> succeeds with (h, m, s) exactly when the string spells that time of the 24
  hour clock, either as hh:mm:ss or, for hours below ten, as h:mm:ss. In particular every accepted
  value is in range, and no other string is accepted.
\<close>

theorem Parse_accepts_exactly:
  "Parse t = (h, m, s, None) \<longleftrightarrow>
     0 \<le> h \<and> h < 24 \<and> 0 \<le> m \<and> m < 60 \<and> 0 \<le> s \<and> s < 60 \<and>
     (t = showTime h m s \<or> h < 10 \<and> t = showTimeShort h m s)"
  by (rule Parse_accepts)

text \<open>
  A string that is not a time of day, the empty string included, makes \<^verbatim>\<open>TimeOfDay.Parse\<close> return
  -1 for all three parts together with an error: no caller can take a part of a rejected string for
  a valid hour, minute or second.
\<close>

theorem Parse_rejects:
  "(\<exists>h m s. Parse t = (h, m, s, None)) \<noteq> (\<exists>e. Parse t = (-1, -1, -1, Some e))"
  by (cases t rule: Parse_cases) auto

end
