(* ===== verification/Mapper.thy ===== *)
theory Mapper
  imports Complex_Main ApiTypes
begin

text \<open>
  Package \<^verbatim>\<open>operator/mapper\<close>: \<^verbatim>\<open>alias.go\<close> (conversions between the SDK's types and the API's),
  \<^verbatim>\<open>dbaas.go\<close> (comparison of IP filters, settings and versions) and \<^verbatim>\<open>conditions.go\<close>. The JSON package
  of apimachinery and the version package of HashiCorp are parameters.
\<close>

section \<open>Dynamic values and the libraries\<close>

text \<open>
  A value of type \<open>interface{}\<close> that JSON decoding can produce. A \<open>float64\<close> is the number it
  stands for; decoding never yields a NaN.
\<close>

datatype goval =
    VNil
  | VBool bool
  | VInt int
  | VFloat rat
  | VStr string
  | VList "goval list"
  | VMap "(string \<times> goval) list"

text \<open>
  \<^verbatim>\<open>k8s.io/apimachinery/pkg/util/json\<close> on a \<^verbatim>\<open>map[string]interface{}\<close>: JSON \<open>null\<close> decodes to a nil
  map, and a nil map encodes to \<open>null\<close>.
\<close>

record json_lib =
  js_Unmarshal :: "string \<Rightarrow> liberror + goval gomap option"
  js_Marshal :: "goval gomap option \<Rightarrow> liberror + string"

text \<open>\<^verbatim>\<open>github.com/hashicorp/go-version\<close>: versions \<open>'v\<close> and constraints \<open>'c\<close>.\<close>

record ('v, 'c) version_lib =
  vl_NewVersion :: "string \<Rightarrow> liberror + 'v"
  vl_Segments :: "'v \<Rightarrow> int list"
  vl_String :: "'v \<Rightarrow> string"
  vl_GreaterThan :: "'v \<Rightarrow> 'v \<Rightarrow> bool"
  vl_NewConstraint :: "string \<Rightarrow> liberror + 'c"
  vl_Check :: "'c \<Rightarrow> 'v \<Rightarrow> bool"

section \<open>alias.go\<close>

record BackupSchedule =
  bsch_BackupHour :: int
  bsch_BackupMinute :: int

definition ToBackupSchedule :: "TimeOfDay \<Rightarrow> BackupSchedule \<times> goerror option" where
  "ToBackupSchedule day = (case Parse day of (backupHour, backupMin, _, err) \<Rightarrow>
     (\<lparr>bsch_BackupHour = backupHour, bsch_BackupMinute = backupMin\<rparr>, err))"

definition ToSlicePtr :: "string slice \<Rightarrow> string slice option" where
  "ToSlicePtr arr = Some arr"

definition ToSlice :: "string slice option \<Rightarrow> string slice" where
  "ToSlice arr = (case arr of Some xs \<Rightarrow> xs | None \<Rightarrow> Some [])"

text \<open>A node state of the SDK has the three fields of the API's type.\<close>

record DBAASNodeState =
  sdk_ns_Name :: string
  sdk_ns_Role :: string
  sdk_ns_State :: string

definition ToNodeStates :: "DBAASNodeState list option \<Rightarrow> NodeState list" where
  "ToNodeStates states = (case states of
     None \<Rightarrow> []
   | Some ss \<Rightarrow> map (\<lambda>state. \<lparr>ns_Name = sdk_ns_Name state, ns_Role = sdk_ns_Role state,
                              ns_State = sdk_ns_State state\<rparr>) ss)"

definition ToMap :: "json_lib \<Rightarrow> RawExtension \<Rightarrow> goval gomap option outcome" where
  "ToMap js raw = (if raw = [] then Ret (Some []) else of_lib (js_Unmarshal js raw))"

definition ToRawExtension :: "json_lib \<Rightarrow> goval gomap option option \<Rightarrow> RawExtension outcome" where
  "ToRawExtension js m = (case m of None \<Rightarrow> Ret [] | Some mp \<Rightarrow> of_lib (js_Marshal js mp))"

record DBAASServiceNotification =
  sdk_nt_Level :: string
  sdk_nt_Message :: string
  sdk_nt_Type :: string
  sdk_nt_Metadata :: "goval gomap option"

fun ToNotifications :: "json_lib \<Rightarrow> DBAASServiceNotification list \<Rightarrow> Notification list outcome" where
  "ToNotifications js [] = Ret []"
| "ToNotifications js (notification # rest) =
     (case ToRawExtension js (Some (sdk_nt_Metadata notification)) of
        Fail e \<Rightarrow> Fail (Wrapf ''unable to convert metadata: %w'' [] e)
      | Panic p \<Rightarrow> Panic p
      | Ret metadata \<Rightarrow>
          bind_outcome (ToNotifications js rest) (\<lambda>s. Ret (
            \<lparr>nt_Level = sdk_nt_Level notification, nt_Message = sdk_nt_Message notification,
             nt_Type = sdk_nt_Type notification, nt_Metadata = metadata\<rparr> # s)))"

definition ToBackupSpec :: "BackupSchedule option \<Rightarrow> BackupSpec" where
  "ToBackupSpec schedule = (case schedule of
     None \<Rightarrow> \<lparr>bs_TimeOfDay = []\<rparr>
   | Some sch \<Rightarrow> \<lparr>bs_TimeOfDay =
       Pad2 (bsch_BackupHour sch) @ '':'' @ Pad2 (bsch_BackupMinute sch) @ '':00''\<rparr>)"

definition ToDBaaSParameters :: "bool option \<Rightarrow> string \<Rightarrow> string slice option \<Rightarrow> DBaaSParameters" where
  "ToDBaaSParameters tp plan ipf =
     \<lparr>dp_TerminationProtection = (case tp of Some b \<Rightarrow> b | None \<Rightarrow> False),
      dp_Size = \<lparr>ss_Plan = plan\<rparr>,
      dp_IPFilter = ToSlice ipf\<rparr>"

record DBAASServiceMaintenance =
  sdk_mt_Dow :: string
  sdk_mt_Time :: string

text \<open>The argument is a pointer; a nil one panics.\<close>

definition ToMaintenance :: "DBAASServiceMaintenance option \<Rightarrow> MaintenanceSpec outcome" where
  "ToMaintenance mp = bind_outcome (deref mp) (\<lambda>m.
     Ret \<lparr>ms_DayOfWeek = sdk_mt_Dow m, ms_TimeOfDay = sdk_mt_Time m\<rparr>)"

section \<open>conditions.go\<close>

fun FindStatusCondition :: "Condition list \<Rightarrow> string \<Rightarrow> Condition option" where
  "FindStatusCondition [] conditionType = None"
| "FindStatusCondition (condition # c) conditionType =
     (if cond_Type condition = conditionType then Some condition else FindStatusCondition c conditionType)"

lemma FindStatusCondition_None_iff:
  "FindStatusCondition c ty = None \<longleftrightarrow> ty \<notin> cond_Type ` set c"
  by (induction c) auto

section \<open>dbaas.go\<close>

text \<open>\<^verbatim>\<open>func set\<close>: the keys of a map.\<close>

definition string_set :: "string list \<Rightarrow> unit gomap" where
  "string_set s = foldl (\<lambda>m i. AList.update i () m) [] s"

definition IsSameStringSet :: "string slice \<Rightarrow> string slice option \<Rightarrow> bool" where
  "IsSameStringSet a b = (case b of
     None \<Rightarrow> elems a = []
   | Some bs \<Rightarrow>
       (let set1 = string_set (elems a); set2 = string_set (elems bs) in
        if length set1 \<noteq> length set2 then False
        else list_all (\<lambda>(ai, _). map_of set2 ai \<noteq> None) set1))"

text \<open>
  Go's \<open>==\<close> on two interface values: values of different dynamic types differ, scalars compare by
  value, and two values of the same uncomparable type (two maps, two slices) panic.
\<close>

fun ifaceEq :: "goval \<Rightarrow> goval \<Rightarrow> bool outcome" where
  "ifaceEq (VList _) (VList _) = Panic ''comparing uncomparable type []interface {}''"
| "ifaceEq (VMap _) (VMap _) = Panic ''comparing uncomparable type map[string]interface {}''"
| "ifaceEq a b = Ret (a = b)"

text \<open>The loop \<^verbatim>\<open>for k, va := range sa { if sb[k] != va { return false } }\<close>.\<close>

fun compareEntries :: "goval gomap \<Rightarrow> goval gomap \<Rightarrow> bool outcome" where
  "compareEntries [] sb = Ret True"
| "compareEntries ((k, va) # rest) sb = (case ifaceEq (getOr VNil sb k) va of
     Ret True \<Rightarrow> compareEntries rest sb
   | Ret False \<Rightarrow> Ret False
   | Fail e \<Rightarrow> Fail e
   | Panic p \<Rightarrow> Panic p)"

definition CompareSettings :: "json_lib \<Rightarrow> RawExtension \<Rightarrow> RawExtension \<Rightarrow> bool outcome" where
  "CompareSettings js a b = (case ToMap js a of
     Fail _ \<Rightarrow> Ret False
   | Panic p \<Rightarrow> Panic p
   | Ret sa \<Rightarrow> (case ToMap js b of
       Fail _ \<Rightarrow> Ret False
     | Panic p \<Rightarrow> Panic p
     | Ret sb \<Rightarrow>
         if length (map_entries sa) \<noteq> length (map_entries sb) then Ret False
         else compareEntries (map_entries sa) (map_entries sb)))"

text \<open>
  The first segment of both versions. The boolean is used together with the error, so both are
  returned; reading the first of no segments panics.
\<close>

definition CompareMajorVersion :: "('v, 'c) version_lib \<Rightarrow> string \<Rightarrow> string \<Rightarrow> (bool \<times> goerror option) outcome" where
  "CompareMajorVersion vl a b = (case vl_NewVersion vl a of
     Inl e \<Rightarrow> Ret (False, Some (Lib e))
   | Inr va \<Rightarrow> (case vl_NewVersion vl b of
       Inl e \<Rightarrow> Ret (False, Some (Lib e))
     | Inr vb \<Rightarrow> (case (vl_Segments vl va, vl_Segments vl vb) of
         (sa # _, sb # _) \<Rightarrow> Ret (sa = sb, None)
       | _ \<Rightarrow> Panic ''index out of range [0] with length 0'')))"

section \<open>Sets of strings\<close>

lemma string_set_fold:
  "wf_map m \<Longrightarrow> wf_map (foldl (\<lambda>m i. AList.update i () m) m s) \<and>
     dom (map_of (foldl (\<lambda>m i. AList.update i () m) m s)) = dom (map_of m) \<union> set s"
proof (induction s arbitrary: m)
  case Nil
  then show ?case by simp
next
  case (Cons x s)
  then show ?case using Cons.IH [of "AList.update x () m"] by auto
qed

lemma wf_string_set [simp]: "wf_map (string_set s)"
  using string_set_fold [of "[]" s] by (simp add: string_set_def)

lemma dom_string_set [simp]: "dom (map_of (string_set s)) = set s"
  using string_set_fold [of "[]" s] by (simp add: string_set_def)

lemma keys_string_set: "fst ` set (string_set s) = set s"
  using dom_string_set [of s] by (simp add: dom_map_of_conv_image_fst)

lemma list_all_lookup:
  "list_all (\<lambda>(k, _). map_of m k \<noteq> None) es \<longleftrightarrow> fst ` set es \<subseteq> dom (map_of m)"
  by (induction es) (auto simp: domIff)

lemma IsSameStringSet_Some: "IsSameStringSet a (Some b) \<longleftrightarrow> set (elems a) = set (elems b)"
proof -
  have len: "length (string_set x) = card (set x)" for x
    by (simp add: length_wf_map)
  have "list_all (\<lambda>(ai, _). map_of (string_set (elems b)) ai \<noteq> None) (string_set (elems a)) \<longleftrightarrow>
        fst ` set (string_set (elems a)) \<subseteq> dom (map_of (string_set (elems b)))"
    by (rule list_all_lookup)
  then have sub: "list_all (\<lambda>(ai, _). map_of (string_set (elems b)) ai \<noteq> None) (string_set (elems a)) \<longleftrightarrow> set (elems a) \<subseteq> set (elems b)"
    by (simp only: keys_string_set dom_string_set)
  have "card (set (elems a)) = card (set (elems b)) \<Longrightarrow> set (elems a) \<subseteq> set (elems b) \<Longrightarrow> set (elems a) = set (elems b)"
    by (simp add: card_subset_eq)
  then show ?thesis
    unfolding IsSameStringSet_def Let_def option.case(2) len sub by auto
qed

section \<open>Comparing settings\<close>

text \<open>The scalar values: what a setting may be for the validating webhooks.\<close>

fun scalar :: "goval \<Rightarrow> bool" where
  "scalar (VStr _) = True"
| "scalar (VInt _) = True"
| "scalar (VFloat _) = True"
| "scalar (VBool _) = True"
| "scalar _ = False"

fun nested :: "goval \<Rightarrow> bool" where
  "nested (VList _) = True"
| "nested (VMap _) = True"
| "nested _ = False"

lemma ifaceEq_scalar: "scalar b \<Longrightarrow> ifaceEq a b = Ret (a = b)"
  by (cases a; cases b) auto

lemma ifaceEq_flat: "\<not> nested a \<Longrightarrow> ifaceEq a b = Ret (a = b)"
  by (cases a; cases b) auto

lemma ifaceEq_self: "ifaceEq a a = (if nested a then ifaceEq a a else Ret True)"
  by (cases a) auto

lemma compareEntries_scalar:
  "list_all (scalar \<circ> snd) sa \<Longrightarrow>
     compareEntries sa sb = Ret (list_all (\<lambda>(k, va). getOr VNil sb k = va) sa)"
  by (induction sa) (auto simp: ifaceEq_scalar split: bool.splits)

lemma map_of_eq_iff_entries:
  assumes "wf_map sa" "wf_map sb" "length sa = length sb"
  shows "list_all (\<lambda>(k, va). map_of sb k = Some va) sa \<longleftrightarrow> map_of sa = map_of sb"
proof
  assume L: "list_all (\<lambda>(k, va). map_of sb k = Some va) sa"
  have sub: "map_of sa \<subseteq>\<^sub>m map_of sb"
  proof (unfold map_le_def, rule ballI)
    fix k assume "k \<in> dom (map_of sa)"
    then obtain v where v: "map_of sa k = Some v" by auto
    then have "(k, v) \<in> set sa" by (rule map_of_SomeD)
    with L v show "map_of sa k = map_of sb k" by (auto simp: list_all_iff)
  qed
  then have "dom (map_of sa) \<subseteq> dom (map_of sb)" by (rule map_le_implies_dom_le)
  moreover have "card (dom (map_of sa)) = card (dom (map_of sb))"
    using assms by (simp add: length_wf_map)
  ultimately have "dom (map_of sa) = dom (map_of sb)"
    by (simp add: card_subset_eq finite_dom_map_of)
  with sub show "map_of sa = map_of sb"
    by (metis map_le_antisym map_le_def)
next
  assume "map_of sa = map_of sb"
  then show "list_all (\<lambda>(k, va). map_of sb k = Some va) sa"
    using assms(1) by (auto simp: list_all_iff wf_map_lookup [symmetric])
qed

lemma getOr_VNil_scalar: "scalar v \<Longrightarrow> getOr VNil m k = v \<longleftrightarrow> map_of m k = Some v"
  by (auto simp: getOr_def split: option.splits)

lemma CompareSettings_scalar:
  assumes "ToMap js a = Ret sa" "ToMap js b = Ret sb"
    and "wf_map (map_entries sa)" "wf_map (map_entries sb)"
    and sc: "list_all (scalar \<circ> snd) (map_entries sa)"
  shows "CompareSettings js a b = Ret (map_of (map_entries sa) = map_of (map_entries sb))"
proof (cases "length (map_entries sa) = length (map_entries sb)")
  case True
  have "list_all (\<lambda>(k, va). getOr VNil (map_entries sb) k = va) (map_entries sa) \<longleftrightarrow>
        list_all (\<lambda>(k, va). map_of (map_entries sb) k = Some va) (map_entries sa)"
  proof (rule list.pred_cong [OF refl])
    fix e assume "e \<in> set (map_entries sa)"
    then have "scalar (snd e)" using sc by (simp add: list_all_iff)
    then show "(case e of (k, va) \<Rightarrow> getOr VNil (map_entries sb) k = va) =
      (case e of (k, va) \<Rightarrow> map_of (map_entries sb) k = Some va)"
      by (cases e) (simp add: getOr_VNil_scalar)
  qed
  then show ?thesis
    using assms True
    by (simp add: CompareSettings_def compareEntries_scalar map_of_eq_iff_entries)
next
  case False
  then have "map_of (map_entries sa) \<noteq> map_of (map_entries sb)"
    using assms(3,4) by (metis length_wf_map)
  then show ?thesis using assms False by (simp add: CompareSettings_def)
qed

lemma compareEntries_self_nested:
  assumes "wf_map m" "\<exists>v \<in> snd ` set sa. nested v" "set sa \<subseteq> set m"
  shows "\<exists>p. compareEntries sa m = Panic p"
  using assms(2,3)
proof (induction sa)
  case Nil
  then show ?case by simp
next
  case (Cons e sa)
  obtain k v where e: "e = (k, v)" by (cases e)
  then have kv: "getOr VNil m k = v"
    using assms(1) Cons.prems(2) wf_map_lookup [of m k v] by (simp add: getOr_def)
  show ?case
  proof (cases "nested v")
    case True
    then show ?thesis using e kv by (cases v) auto
  next
    case False
    then show ?thesis using Cons e kv by (simp add: ifaceEq_flat)
  qed
qed

section \<open>Backup schedules\<close>

lemma showTime_zero_seconds: "showTime h m 0 = Pad2 h @ '':'' @ Pad2 m @ '':00''"
proof -
  have "Pad2 0 = ''00''" using Pad2_small [of 0] by (simp add: digit_char_literals(1))
  then show ?thesis by (simp add: showTime_def)
qed

lemma ToBackupSpec_Some:
  "bs_TimeOfDay (ToBackupSpec (Some sch)) = showTime (bsch_BackupHour sch) (bsch_BackupMinute sch) 0"
  by (simp add: ToBackupSpec_def showTime_zero_seconds)

lemma showTime_inject:
  assumes "0 \<le> h" "h < 24" "0 \<le> m" "m < 60" "0 \<le> s" "s < 60"
    and "0 \<le> h'" "h' < 24" "0 \<le> m'" "m' < 60" "0 \<le> s'" "s' < 60"
  shows "showTime h m s = showTime h' m' s' \<longleftrightarrow> h = h' \<and> m = m' \<and> s = s'"
proof
  assume eq: "showTime h m s = showTime h' m' s'"
  have "Parse (showTime h m s) = (h, m, s, None)" using assms(1-6) by (simp add: Parse_accepts)
  moreover have "Parse (showTime h' m' s') = (h', m', s', None)" using assms(7-12) by (simp add: Parse_accepts)
  ultimately show "h = h' \<and> m = m' \<and> s = s'" using eq by (metis Pair_inject)
qed simp

text \<open>A backup time survives the way to the service and back exactly when it is spelled hh:mm:00.\<close>

lemma backup_time_stable_iff:
  assumes "Parse t = (h, m, s, None)"
  shows "bs_TimeOfDay (ToBackupSpec (Some (fst (ToBackupSchedule t)))) = t \<longleftrightarrow> t = showTime h m 0"
  using assms by (auto simp: ToBackupSchedule_def ToBackupSpec_Some)

section \<open>Properties\<close>

text \<open>
  \<^verbatim>\<open>IsSameStringSet\<close> holds exactly when the two slices have the same elements, whatever their order
  and however often each occurs; against a nil pointer only the empty slice compares equal.
\<close>

theorem IsSameStringSet_iff:
  "IsSameStringSet a b \<longleftrightarrow> (case b of None \<Rightarrow> elems a = [] | Some bs \<Rightarrow> set (elems a) = set (elems bs))"
  by (cases b) (simp_all add: IsSameStringSet_Some, simp add: IsSameStringSet_def)

text \<open>
  C16: on settings whose first argument holds only strings, numbers and booleans (what the admission
  webhooks let through), \<^verbatim>\<open>CompareSettings\<close> never panics and holds exactly when the two settings are the
  same map, whatever order the entries are visited in.
\<close>

theorem CompareSettings_correct:
  assumes "ToMap js a = Ret sa" "ToMap js b = Ret sb"
    and "wf_map (map_entries sa)" "wf_map (map_entries sb)"
    and "list_all (scalar \<circ> snd) (map_entries sa)"
  shows "CompareSettings js a b = Ret (map_of (map_entries sa) = map_of (map_entries sb))"
  using assms by (rule CompareSettings_scalar)

text \<open>A JSON library with two documents, for the closed examples.\<close>

definition two_docs :: "goval gomap \<Rightarrow> goval gomap \<Rightarrow> json_lib" where
  "two_docs x y = \<lparr>js_Unmarshal = (\<lambda>raw. if raw = ''x'' then Inr (Some x) else Inr (Some y)),
     js_Marshal = (\<lambda>m. Inr (if m = Some x then ''x'' else ''y''))\<rparr>"

lemma ToMap_two_docs [simp]:
  "ToMap (two_docs x y) ''x'' = Ret (Some x)" "ToMap (two_docs x y) ''y'' = Ret (Some y)"
  by (simp_all add: ToMap_def two_docs_def)

theorem CompareSettings_correct_witness:
  "CompareSettings (two_docs [(''a'', VBool True), (''b'', VInt 1)] [(''b'', VInt 1), (''a'', VBool True)])
     ''x'' ''y'' = Ret True"
  by (subst CompareSettings_correct [OF ToMap_two_docs(1) ToMap_two_docs(2)]) (auto simp: fun_eq_iff)

text \<open>
  \<^verbatim>\<open>CompareSettings\<close> panics on settings that hold a nested object or list, even when it compares them
  with themselves: interface values of map and slice types are not comparable. In whatever order the
  entries are visited, the equal scalars are passed over and the nested entry is reached.
\<close>

theorem CompareSettings_nested_panics:
  assumes "ToMap js a = Ret (Some m)" "wf_map m" "(k, v) \<in> set m" "nested v"
  shows "panics (CompareSettings js a a)"
proof -
  have "\<exists>v \<in> snd ` set m. nested v" using assms(3,4) by force
  then obtain p where "compareEntries m m = Panic p"
    using compareEntries_self_nested [OF assms(2)] by blast
  then show ?thesis using assms(1) by (simp add: CompareSettings_def)
qed

theorem CompareSettings_nested_panics_witness:
  "panics (CompareSettings (two_docs [(''a'', VInt 1), (''o'', VMap [])] []) ''x'' ''x'')"
  by (rule CompareSettings_nested_panics [OF ToMap_two_docs(1), where k = "''o''" and v = "VMap []"]) simp_all

text \<open>
  \<^verbatim>\<open>CompareSettings\<close> reads a missing key as nil, so a null setting matches any settings that lack
  the key: it reports two different settings as equal, and the opposite when they are swapped.
\<close>

theorem CompareSettings_null_asymmetric:
  "CompareSettings (two_docs [(''a'', VNil), (''b'', VInt 1)] [(''b'', VInt 1), (''c'', VInt 2)]) ''x'' ''y'' = Ret True \<and>
   CompareSettings (two_docs [(''a'', VNil), (''b'', VInt 1)] [(''b'', VInt 1), (''c'', VInt 2)]) ''y'' ''x'' = Ret False"
  by (simp add: CompareSettings_def getOr_def)

text \<open>
  A backup schedule within the day survives the round trip through its textual form: what
  \<^verbatim>\<open>ToBackupSpec\<close> prints, \<^verbatim>\<open>ToBackupSchedule\<close> reads back without an error.
\<close>

theorem backup_schedule_roundtrip:
  assumes "0 \<le> bsch_BackupHour sch" "bsch_BackupHour sch < 24"
    and "0 \<le> bsch_BackupMinute sch" "bsch_BackupMinute sch < 60"
  shows "ToBackupSchedule (bs_TimeOfDay (ToBackupSpec (Some (sch :: BackupSchedule)))) = (sch, None)"
proof -
  have "Parse (showTime (bsch_BackupHour sch) (bsch_BackupMinute sch) 0) =
    (bsch_BackupHour sch, bsch_BackupMinute sch, 0, None)"
    using assms by (simp add: Parse_accepts)
  then show ?thesis unfolding ToBackupSpec_Some ToBackupSchedule_def by simp
qed

theorem backup_schedule_roundtrip_witness:
  "ToBackupSchedule (bs_TimeOfDay (ToBackupSpec (Some \<lparr>bsch_BackupHour = 4, bsch_BackupMinute = 30\<rparr>)))
     = (\<lparr>bsch_BackupHour = 4, bsch_BackupMinute = 30\<rparr>, None)"
  by (rule backup_schedule_roundtrip) simp_all

end
