(* ===== verification/SettingsSchema.thy ===== *)
theory SettingsSchema
  imports Mapper
begin

text \<open>
  Package \<^verbatim>\<open>internal/settings\<close> (\<^verbatim>\<open>schema.go\<close>): decoding the JSON schemas of the service settings and
  filling in their defaults. The lexer of \<^verbatim>\<open>encoding/json\<close> is a parameter that gives the syntax tree
  of a document (a \<open>goval\<close> whose objects list their members in the order of the text); the decoding of
  the tree into the program's own types is modelled.
\<close>

section \<open>Schemas\<close>

datatype schema = Schema (schDefault: goval) (schProperties: "(string \<times> schema) list")

type_synonym schemas = "schema gomap"

text \<open>Decoding into \<open>interface{}\<close>: of a member given twice the last one counts.\<close>

fun ifaceOf :: "goval \<Rightarrow> goval" and ifaceMembers :: "goval gomap \<Rightarrow> goval gomap \<Rightarrow> goval gomap" where
  "ifaceOf (VMap ms) = VMap (ifaceMembers [] ms)"
| "ifaceOf (VList vs) = VList (map ifaceOf vs)"
| "ifaceOf VNil = VNil"
| "ifaceOf (VBool b) = VBool b"
| "ifaceOf (VInt i) = VInt i"
| "ifaceOf (VFloat q) = VFloat q"
| "ifaceOf (VStr s) = VStr s"
| "ifaceMembers acc [] = acc"
| "ifaceMembers acc ((k, v) # ms) = ifaceMembers (AList.update k (ifaceOf v) acc) ms"

text \<open>
  \<^verbatim>\<open>json.Unmarshal\<close> into the types \<open>schema\<close> and \<open>schemas\<close>: object members match struct fields
  without regard to case, unknown members are skipped, \<open>null\<close> leaves a struct alone and clears a map, a
  map element starts from the zero value, and any other kind of value is a type error (\<open>None\<close>).
\<close>

fun decSchema :: "schema \<Rightarrow> goval \<Rightarrow> schema option"
  and decFields :: "schema \<Rightarrow> goval gomap \<Rightarrow> schema option"
  and decSchemas :: "schemas \<Rightarrow> goval \<Rightarrow> schemas option"
  and decMembers :: "schemas \<Rightarrow> goval gomap \<Rightarrow> schemas option" where
  "decSchema sc v = (case v of
      VNil \<Rightarrow> Some sc
    | VMap ms \<Rightarrow> decFields sc ms
    | _ \<Rightarrow> None)"
| "decFields sc [] = Some sc"
| "decFields sc ((k, v) # ms) =
     (if EqualFold k ''Default'' then decFields (Schema (ifaceOf v) (schProperties sc)) ms
      else if EqualFold k ''Properties'' then
        (case decSchemas (schProperties sc) v of
           None \<Rightarrow> None
         | Some ps \<Rightarrow> decFields (Schema (schDefault sc) ps) ms)
      else decFields sc ms)"
| "decSchemas ss v = (case v of
      VNil \<Rightarrow> Some []
    | VMap ms \<Rightarrow> decMembers ss ms
    | _ \<Rightarrow> None)"
| "decMembers ss [] = Some ss"
| "decMembers ss ((k, v) # ms) =
     (case decSchema (Schema VNil []) v of
        None \<Rightarrow> None
      | Some sc \<Rightarrow> decMembers (AList.update k sc ss) ms)"

text \<open>The anonymous struct of \<^verbatim>\<open>ParseSchemas\<close> with its one field \<open>Settings\<close>.\<close>

fun decRequest :: "schemas \<Rightarrow> goval gomap \<Rightarrow> schemas option" where
  "decRequest ss [] = Some ss"
| "decRequest ss ((k, v) # ms) =
     (if EqualFold k ''Settings'' then
        (case decSchemas ss v of None \<Rightarrow> None | Some ss' \<Rightarrow> decRequest ss' ms)
      else decRequest ss ms)"

definition ParseSchemas :: "(string \<Rightarrow> liberror + goval) \<Rightarrow> string \<Rightarrow> schemas outcome" where
  "ParseSchemas parseJSON raw = bind_outcome (of_lib (parseJSON raw)) (\<lambda>v.
     case v of
       VNil \<Rightarrow> Ret []
     | VMap ms \<Rightarrow> (case decRequest [] ms of
           Some ss \<Rightarrow> Ret ss
         | None \<Rightarrow> Fail (Errorf ''json: cannot unmarshal into Go struct field'' []))
     | _ \<Rightarrow> Fail (Errorf ''json: cannot unmarshal into Go value of type struct'' []))"

section \<open>Defaults\<close>

text \<open>\<^verbatim>\<open>val.Default != nil && val.Default != "null"\<close>\<close>

definition usable :: "goval \<Rightarrow> bool" where
  "usable d \<longleftrightarrow> d \<noteq> VNil \<and> d \<noteq> VStr ''null''"

text \<open>
  \<^verbatim>\<open>setDefaults\<close> walks the properties of a schema (\<open>setProps\<close>) and writes to the input map; the result
  is whether it wrote and the map after the writes. \<open>writeFor\<close> is one round of the loop: what is written
  for a property, given what the input holds under its name. A property with properties of its own
  descends into the nested map, which Go shares with the input: the model puts the changed map back,
  which the source does itself whenever the nested call wrote anything.
\<close>

fun setDefaults :: "schema \<Rightarrow> goval gomap \<Rightarrow> bool \<times> goval gomap"
  and setProps :: "(string \<times> schema) list \<Rightarrow> bool \<Rightarrow> goval gomap \<Rightarrow> bool \<times> goval gomap"
  and writeFor :: "schema \<Rightarrow> goval option \<Rightarrow> goval option" where
  "setDefaults (Schema d props) input = setProps props False input"
| "setProps [] hasSetDefaults input = (hasSetDefaults, input)"
| "setProps ((key, val) # props) hasSetDefaults input =
     (case writeFor val (map_of input key) of
        None \<Rightarrow> setProps props hasSetDefaults input
      | Some v \<Rightarrow> setProps props True (AList.update key v input))"
| "writeFor val current =
     (if schProperties val \<noteq> [] then
        (case current of
           Some (VMap submap) \<Rightarrow>
             (case setDefaults val submap of (c, submap') \<Rightarrow> if c then Some (VMap submap') else None)
         | Some _ \<Rightarrow> None
         | None \<Rightarrow>
             (case setDefaults val [] of (c, submap') \<Rightarrow> if c then Some (VMap submap') else None))
      else
        (case current of
           Some _ \<Rightarrow> None
         | None \<Rightarrow> if usable (schDefault val) then Some (schDefault val) else None))"

declare writeFor.simps [simp del]

text \<open>
  \<^verbatim>\<open>schemas.SetDefaults\<close>. A JSON \<open>null\<close> decodes to a nil map: reading it is like reading an empty map,
  the first write to it panics.
\<close>

definition SetDefaults :: "json_lib \<Rightarrow> schemas \<Rightarrow> string \<Rightarrow> RawExtension \<Rightarrow> RawExtension outcome" where
  "SetDefaults js s name input = (case map_of s name of
     None \<Rightarrow> Fail (Errorf ''unknown schema: %q'' [name])
   | Some sc \<Rightarrow>
       bind_outcome (wrap_outcome (Wrapf ''failed to parse input: %w'' []) (ToMap js input)) (\<lambda>inMap.
       bind_outcome
         (case inMap of
            Some m \<Rightarrow> Ret (Some (snd (setDefaults sc m)))
          | None \<Rightarrow> if fst (setDefaults sc []) then Panic ''assignment to entry in nil map'' else Ret None)
         (\<lambda>outMap. wrap_outcome (Wrapf ''failed to parse defaulted setting: %w'' [])
            (ToRawExtension js (Some outMap)))))"

section \<open>What the defaulting writes\<close>

text \<open>A call that reports no write leaves the map as it was.\<close>

lemma setDefaults_unchanged:
  "fst (setDefaults sc m) = False \<Longrightarrow> snd (setDefaults sc m) = m"
  "fst (setProps ps h m) = False \<Longrightarrow> \<not> h \<and> snd (setProps ps h m) = m"
  "writeFor val cur = writeFor val cur"
  by (induction sc m and ps h m and val cur rule: setDefaults_setProps_writeFor.induct)
    (auto split: option.splits)

text \<open>What the input holds under a property's name after the defaulting.\<close>

definition resolve :: "schema \<Rightarrow> goval option \<Rightarrow> goval option" where
  "resolve val current = (case writeFor val current of Some v \<Rightarrow> Some v | None \<Rightarrow> current)"

lemma setProps_lookup:
  "wf_map ps \<Longrightarrow> map_of (snd (setProps ps h m)) k =
     (case map_of ps k of None \<Rightarrow> map_of m k | Some val \<Rightarrow> resolve val (map_of m k))"
proof (induction ps arbitrary: h m)
  case Nil
  then show ?case by simp
next
  case (Cons p ps)
  obtain key val where p: "p = (key, val)" by (cases p)
  with Cons.prems have wf: "wf_map ps" and "key \<notin> fst ` set ps" by auto
  then have none: "map_of ps key = None" by (simp add: map_of_eq_None_iff)
  show ?case
    using Cons.IH [OF wf] none p by (cases "k = key") (auto simp: resolve_def split: option.splits)
qed

lemma setDefaults_lookup:
  "wf_map (schProperties sc) \<Longrightarrow> map_of (snd (setDefaults sc m)) k =
     (case map_of (schProperties sc) k of None \<Rightarrow> map_of m k | Some val \<Rightarrow> resolve val (map_of m k))"
  by (cases sc) (simp add: setProps_lookup)

lemma setProps_wf: "wf_map m \<Longrightarrow> wf_map (snd (setProps ps h m))"
  by (induction ps arbitrary: h m) (auto split: option.splits)

lemma setDefaults_wf: "wf_map m \<Longrightarrow> wf_map (snd (setDefaults sc m))"
  by (cases sc) (simp add: setProps_wf)

text \<open>A schema is well formed when the names of its properties are distinct, at every level.\<close>

fun wf_schema :: "schema \<Rightarrow> bool" where
  "wf_schema (Schema d ps) \<longleftrightarrow> distinct (map fst ps) \<and> (\<forall>p \<in> set ps. wf_schema (snd p))"

lemma wf_schema_iff:
  "wf_schema sc \<longleftrightarrow> wf_map (schProperties sc) \<and> (\<forall>p \<in> set (schProperties sc). wf_schema (snd p))"
  by (cases sc) (simp add: wf_map_def)

lemma wf_schema_child: "wf_schema sc \<Longrightarrow> map_of (schProperties sc) k = Some val \<Longrightarrow> wf_schema val"
  by (metis map_of_SomeD snd_conv wf_schema_iff)

text \<open>Whether a schema offers any default at all, at any depth.\<close>

fun provides :: "schema \<Rightarrow> bool" where
  "provides (Schema d ps) \<longleftrightarrow>
     (\<exists>p \<in> set ps. if schProperties (snd p) \<noteq> [] then provides (snd p) else usable (schDefault (snd p)))"

lemma size_property: "p \<in> set (schProperties sc) \<Longrightarrow> size (snd p) < size sc"
proof (cases sc)
  case (Schema d ps)
  assume "p \<in> set (schProperties sc)"
  moreover obtain k v where p: "p = (k, v)" by (cases p)
  ultimately have "(k, v) \<in> set ps" by (simp add: Schema)
  then have "size (snd p) \<le> size_list (size_prod (\<lambda>_. 0) size) ps"
    by (induction ps) (auto simp: p)
  then show ?thesis by (simp add: Schema)
qed

text \<open>
  A map is saturated for a schema when no default is missing: every leaf property with a usable default
  has a value, every nested map is saturated for its property, and a nested property that is missing
  offers no default.
\<close>

function saturated :: "schema \<Rightarrow> goval gomap \<Rightarrow> bool" where
  "saturated sc m \<longleftrightarrow> (\<forall>p \<in> set (schProperties sc).
     if schProperties (snd p) \<noteq> [] then
       (case map_of m (fst p) of
          Some (VMap sub) \<Rightarrow> saturated (snd p) sub
        | Some _ \<Rightarrow> True
        | None \<Rightarrow> \<not> provides (snd p))
     else map_of m (fst p) \<noteq> None \<or> \<not> usable (schDefault (snd p)))"
  by pat_completeness auto
termination
  by (relation "measure (\<lambda>(sc, m). size sc)") (auto dest: size_property)

declare saturated.simps [simp del]

text \<open>The defaulting writes nothing exactly when the map is saturated.\<close>

lemma setProps_reports:
  assumes "wf_map ps"
  shows "fst (setProps ps h m) \<longleftrightarrow> h \<or> (\<exists>p \<in> set ps. writeFor (snd p) (map_of m (fst p)) \<noteq> None)"
  using assms
proof (induction ps arbitrary: h m)
  case Nil
  then show ?case by simp
next
  case (Cons p ps)
  obtain key val where p: "p = (key, val)" by (cases p)
  then have "\<forall>q \<in> set ps. fst q \<noteq> key" using Cons.prems by force
  then have same: "\<forall>q \<in> set ps. map_of (AList.update key v m) (fst q) = map_of m (fst q)" for v
    by simp
  show ?case using Cons p by (auto split: option.splits)
qed

lemma setDefaults_reports:
  "wf_schema sc \<Longrightarrow> fst (setDefaults sc m) \<longleftrightarrow>
     (\<exists>p \<in> set (schProperties sc). writeFor (snd p) (map_of m (fst p)) \<noteq> None)"
  by (cases sc) (simp add: setProps_reports wf_map_def)

lemma provides_iff: "wf_schema sc \<Longrightarrow> fst (setDefaults sc []) \<longleftrightarrow> provides sc"
proof (induction "size sc" arbitrary: sc rule: less_induct)
  case less
  obtain d ps where sc: "sc = Schema d ps" by (cases sc)
  have "(writeFor (snd p) None \<noteq> None) \<longleftrightarrow>
      (if schProperties (snd p) \<noteq> [] then provides (snd p) else usable (schDefault (snd p)))"
    if "p \<in> set ps" for p
  proof -
    have "size (snd p) < size sc" "wf_schema (snd p)"
      using that sc less.prems size_property [of p sc] by auto
    then have "fst (setDefaults (snd p) []) \<longleftrightarrow> provides (snd p)" using less.hyps by blast
    then show ?thesis by (auto simp: writeFor.simps split: prod.splits)
  qed
  then show ?case using setDefaults_reports [OF less.prems, of "[]"] sc by auto
qed

lemma saturated_iff: "wf_schema sc \<Longrightarrow> saturated sc m \<longleftrightarrow> \<not> fst (setDefaults sc m)"
proof (induction sc m rule: saturated.induct)
  case (1 sc m)
  have "(writeFor (snd p) (map_of m (fst p)) = None) \<longleftrightarrow>
      (if schProperties (snd p) \<noteq> [] then
         (case map_of m (fst p) of Some (VMap sub) \<Rightarrow> saturated (snd p) sub | Some _ \<Rightarrow> True
          | None \<Rightarrow> \<not> provides (snd p))
       else map_of m (fst p) \<noteq> None \<or> \<not> usable (schDefault (snd p)))"
    if p: "p \<in> set (schProperties sc)" for p
  proof -
    have wf: "wf_schema (snd p)" using 1(2) p wf_schema_iff by blast
    note IH = 1(1) [OF p _ _ _ wf]
    show ?thesis
      using IH provides_iff [OF wf]
      by (auto simp: writeFor.simps split: prod.splits option.splits goval.splits if_splits)
  qed
  then have "saturated sc m \<longleftrightarrow> (\<forall>p \<in> set (schProperties sc). writeFor (snd p) (map_of m (fst p)) = None)"
    unfolding saturated.simps [of sc m] by (intro ball_cong [OF refl]) (rule sym)
  then show ?case unfolding setDefaults_reports [OF 1(2)] by simp
qed

lemma setDefaults_idem_writes:
  "wf_schema sc \<Longrightarrow> \<not> fst (setDefaults sc (snd (setDefaults sc m)))"
proof (induction "size sc" arbitrary: sc m rule: less_induct)
  case less
  have "writeFor val (resolve val cur) = None" if "(k, val) \<in> set (schProperties sc)" for k val cur
  proof -
    have wf: "wf_schema val" and "size val < size sc"
      using that less.prems wf_schema_iff [of sc] size_property [of "(k, val)" sc] by force+
    then have IH: "\<not> fst (setDefaults val (snd (setDefaults val x)))" for x
      using less.hyps by blast
    then have "\<not> c" if "setDefaults val (snd (setDefaults val x)) = (c, y)" for x c y
      using that by (metis fst_conv)
    then show ?thesis
      using setDefaults_unchanged(1) [of val] IH
      by (auto simp: resolve_def writeFor.simps split: prod.splits option.splits goval.splits if_splits)
        (metis fst_conv snd_conv)+
  qed
  then show ?case
    unfolding setDefaults_reports [OF less.prems]
    using setDefaults_lookup [of sc m] less.prems
    by (auto simp: wf_schema_iff [of sc] wf_map_def)
qed

section \<open>What the user has set stays\<close>

text \<open>The value at a path of keys through nested objects.\<close>

fun lookup_path :: "goval \<Rightarrow> string list \<Rightarrow> goval option" where
  "lookup_path v [] = Some v"
| "lookup_path (VMap m) (k # ks) = (case map_of m k of None \<Rightarrow> None | Some v \<Rightarrow> lookup_path v ks)"
| "lookup_path _ (k # ks) = None"

fun is_object :: "goval \<Rightarrow> bool" where
  "is_object (VMap _) = True"
| "is_object _ = False"

lemma resolve_Some:
  "resolve val (Some v) =
     (case v of VMap sub \<Rightarrow> Some (if schProperties val \<noteq> [] then VMap (snd (setDefaults val sub)) else v)
      | _ \<Rightarrow> Some v)"
  using setDefaults_unchanged(1) [of val]
  by (auto simp: resolve_def writeFor.simps split: goval.splits prod.splits) (metis fst_conv snd_conv)

lemma setDefaults_keeps_path:
  "wf_schema sc \<Longrightarrow> lookup_path (VMap m) path = Some v \<Longrightarrow> \<not> is_object v \<Longrightarrow>
     lookup_path (VMap (snd (setDefaults sc m))) path = Some v"
proof (induction path arbitrary: sc m)
  case Nil
  then show ?case by auto
next
  case (Cons k ks)
  then obtain u where u: "map_of m k = Some u" "lookup_path u ks = Some v" by (auto split: option.splits)
  have "wf_map (schProperties sc)" using Cons.prems(1) wf_schema_iff by blast
  then have look: "map_of (snd (setDefaults sc m)) k =
     (case map_of (schProperties sc) k of None \<Rightarrow> Some u | Some val \<Rightarrow> resolve val (Some u))"
    by (simp only: setDefaults_lookup u(1))
  show ?case
  proof (cases "map_of (schProperties sc) k")
    case None
    then show ?thesis using look u by simp
  next
    case (Some val)
    then have "wf_schema val" using Cons.prems(1) by (metis wf_schema_child)
    then show ?thesis
      using look Some u Cons.IH [of val] Cons.prems(3) by (auto simp: resolve_Some split: goval.splits)
  qed
qed

section \<open>Properties\<close>

text \<open>
  C7: the value \<^verbatim>\<open>setDefaults\<close> leaves under a key, for every key: a key that is no property of the schema
  is not touched; a leaf that is set keeps its value and one that is missing gets the default, if the
  schema has one that is neither null nor the string "null"; a nested object is defaulted in turn; a
  missing nested object is created only when its schema offers a default at some depth.
\<close>

theorem setDefaults_value:
  assumes "wf_schema sc"
  shows "map_of (snd (setDefaults sc m)) k =
    (case map_of (schProperties sc) k of
       None \<Rightarrow> map_of m k
     | Some val \<Rightarrow>
         (case map_of m k of
            Some (VMap sub) \<Rightarrow>
              Some (if schProperties val = [] then VMap sub else VMap (snd (setDefaults val sub)))
          | Some v \<Rightarrow> Some v
          | None \<Rightarrow>
              if schProperties val = [] then (if usable (schDefault val) then Some (schDefault val) else None)
              else if provides val then Some (VMap (snd (setDefaults val []))) else None))"
proof (cases "map_of (schProperties sc) k")
  case None
  then show ?thesis using assms by (simp add: setDefaults_lookup wf_schema_iff [of sc])
next
  case (Some val)
  then have "fst (setDefaults val []) = provides val" using assms by (metis provides_iff wf_schema_child)
  then have "resolve val None =
     (if schProperties val = [] then (if usable (schDefault val) then Some (schDefault val) else None)
      else if provides val then Some (VMap (snd (setDefaults val []))) else None)"
    by (auto simp: resolve_def writeFor.simps split: prod.splits)
  then show ?thesis
    using Some assms
    by (auto simp: setDefaults_lookup wf_schema_iff [of sc] resolve_Some split: option.splits goval.splits)
qed

definition sampleSchema :: schema where
  "sampleSchema = Schema VNil [(''timeout'', Schema (VInt 30) []), (''ssl'', Schema VNil []),
     (''pool'', Schema VNil [(''size'', Schema (VInt 5) [])])]"

theorem setDefaults_value_witness:
  "map_of (snd (setDefaults sampleSchema [(''timeout'', VInt 60)])) ''pool'' = Some (VMap [(''size'', VInt 5)])"
proof -
  have "wf_schema sampleSchema" by (simp add: sampleSchema_def)
  then show ?thesis
    by (subst setDefaults_value) (simp_all add: sampleSchema_def writeFor.simps usable_def)
qed

text \<open>
  No default is missing afterwards, at any depth, and defaulting settings a second time changes
  nothing: the reconciler can default before every comparison without ever seeing a difference of its
  own making.
\<close>

theorem setDefaults_idempotent:
  assumes "wf_schema sc"
  shows "saturated sc (snd (setDefaults sc m)) \<and>
    setDefaults sc (snd (setDefaults sc m)) = (False, snd (setDefaults sc m))"
proof -
  have "\<not> fst (setDefaults sc (snd (setDefaults sc m)))" using assms by (rule setDefaults_idem_writes)
  then show ?thesis using assms setDefaults_unchanged(1) by (auto simp: saturated_iff prod_eq_iff)
qed

theorem setDefaults_idempotent_witness:
  "saturated sampleSchema (snd (setDefaults sampleSchema [(''timeout'', VInt 60)])) \<and>
   \<not> saturated sampleSchema [(''timeout'', VInt 60)]"
proof
  have wf: "wf_schema sampleSchema" by (simp add: sampleSchema_def)
  then show "saturated sampleSchema (snd (setDefaults sampleSchema [(''timeout'', VInt 60)]))"
    using setDefaults_idempotent by blast
  show "\<not> saturated sampleSchema [(''timeout'', VInt 60)]"
    unfolding saturated_iff [OF wf] by (simp add: sampleSchema_def writeFor.simps usable_def)
qed

text \<open>
  Defaulting never overwrites what the user has set: a string, number, boolean, list or null found
  at some path of the settings is found there unchanged afterwards, at any depth.
\<close>

theorem setDefaults_keeps_user_values:
  assumes "wf_schema sc" and "lookup_path (VMap m) path = Some v" and "\<not> is_object v"
  shows "lookup_path (VMap (snd (setDefaults sc m))) path = Some v"
  using assms by (rule setDefaults_keeps_path)

theorem setDefaults_keeps_user_values_witness:
  "lookup_path (VMap (snd (setDefaults sampleSchema [(''pool'', VMap [(''size'', VInt 9)])])))
     [''pool'', ''size''] = Some (VInt 9)"
  by (rule setDefaults_keeps_user_values) (simp_all add: sampleSchema_def)

text \<open>
  The order in which Go visits the properties of a schema does not matter: for any two orders of
  the same properties the defaulted settings are the same map.
\<close>

theorem setDefaults_order_irrelevant:
  assumes "wf_map ps" and "wf_map qs" and "set ps = set qs"
  shows "map_of (snd (setDefaults (Schema d ps) m)) = map_of (snd (setDefaults (Schema d qs) m))"
proof
  fix k
  have "map_of ps = map_of qs"
    using assms by (intro map_of_inject_set [THEN iffD2]) (auto simp: wf_map_def)
  then show "map_of (snd (setDefaults (Schema d ps) m)) k = map_of (snd (setDefaults (Schema d qs) m)) k"
    using assms by (simp add: setProps_lookup)
qed

theorem setDefaults_order_irrelevant_witness:
  "map_of (snd (setDefaults (Schema VNil [(''a'', Schema (VInt 1) []), (''b'', Schema (VInt 2) [])]) [])) =
   map_of (snd (setDefaults (Schema VNil [(''b'', Schema (VInt 2) []), (''a'', Schema (VInt 1) [])]) []))"
  by (rule setDefaults_order_irrelevant) auto

text \<open>
  \<^verbatim>\<open>SetDefaults\<close> panics on settings that are the JSON value null whenever the schema offers a
  default: null decodes to a nil map, and the first default is written to it. The same settings left out
  altogether are defaulted without a panic.
\<close>

theorem SetDefaults_null_panics:
  assumes "map_of s name = Some sc" and "wf_schema sc" and "provides sc"
    and "js_Unmarshal js ''null'' = Inr None"
  shows "panics (SetDefaults js s name ''null'') \<and> \<not> panics (SetDefaults js s name [])"
  using assms provides_iff [of sc]
  by (simp add: SetDefaults_def ToMap_def ToRawExtension_def split: outcome.splits)

theorem SetDefaults_null_panics_witness:
  "panics (SetDefaults \<lparr>js_Unmarshal = \<lambda>raw. Inr (if raw = ''null'' then None else Some []),
      js_Marshal = \<lambda>m. Inr ''{}''\<rparr> [(''mysql'', sampleSchema)] ''mysql'' ''null'')"
  by (rule SetDefaults_null_panics [where sc = sampleSchema, THEN conjunct1])
    (simp_all add: sampleSchema_def usable_def)

end
