(* ===== verification/Webhooks.thy ===== *)
theory Webhooks
  imports SettingsSchema
begin

text \<open>
  Package \<^verbatim>\<open>operator/webhook\<close> (\<^verbatim>\<open>validate.go\<close>): the checks the admission webhooks share, and the
  interface of an admission webhook that keeps a part of an object unchanged once the object is created.
  The webhooks of the controllers are in the theories of the controllers, which interpret the interface.
\<close>

section \<open>validate.go\<close>

text \<open>
  One entry of the settings, and the loop over the entries. \<^verbatim>\<open>switch v.(type)\<close> leaves every listed type
  to the next round of the loop.
\<close>

fun supportedType :: "goval \<Rightarrow> bool" where
  "supportedType (VStr _) = True"
| "supportedType (VInt _) = True"
| "supportedType (VFloat _) = True"
| "supportedType (VBool _) = True"
| "supportedType _ = False"

fun validateEntries :: "goval gomap \<Rightarrow> unit outcome" where
  "validateEntries [] = Ret ()"
| "validateEntries ((k, v) # m) =
     (if supportedType v then validateEntries m
      else Fail (Errorf ''validate: value of key %q is not a supported type (only strings, boolean and numbers): %v'' [k]))"

definition ValidateRawExtension :: "json_lib \<Rightarrow> RawExtension \<Rightarrow> unit outcome" where
  "ValidateRawExtension js raw =
     bind_outcome (wrap_outcome (Wrapf ''mapper.ToMap(%q): %w'' [raw]) (ToMap js raw))
       (\<lambda>m. validateEntries (map_entries m))"

definition ValidateUpdateVersion :: "('v, 'c) version_lib \<Rightarrow> string \<Rightarrow> string \<Rightarrow> string \<Rightarrow> unit outcome" where
  "ValidateUpdateVersion vl oldObs oldDes newDes =
     bind_outcome (wrap_outcome (Wrapf ''set old status version '%s' failed: %w'' [oldObs])
       (of_lib (vl_NewVersion vl oldObs))) (\<lambda>oldObserved.
     bind_outcome (wrap_outcome (Wrapf ''set old desired version '%s' failed: %w'' [oldDes])
       (of_lib (vl_NewVersion vl oldDes))) (\<lambda>oldDesired.
     bind_outcome (wrap_outcome (Wrapf ''set new desired version '%s' failed: %w'' [newDes])
       (of_lib (vl_NewVersion vl newDes))) (\<lambda>newDesired.
     bind_outcome (wrap_outcome (Wrapf ''set version constraint failed: %w'' [])
       (of_lib (vl_NewConstraint vl (''<= '' @ vl_String vl oldObserved)))) (\<lambda>c.
     if vl_GreaterThan vl newDesired oldDesired \<and> \<not> vl_Check vl c newDesired
     then Fail (Errorf ''field is immutable after creation: %s (old), %s (changed)''
            [vl_String vl oldDesired, vl_String vl newDesired])
     else Ret ()))))"

fun contains :: "string list \<Rightarrow> string \<Rightarrow> bool" where
  "contains [] e = False"
| "contains (a # s) e = (if a = e then True else contains s e)"

definition ValidateVersions :: "string \<Rightarrow> string list \<Rightarrow> unit outcome" where
  "ValidateVersions wanted admittedVersions =
     (if wanted = [] then Fail (Errorf ''version must be provided'' [])
      else if \<not> contains admittedVersions wanted then Fail (Errorf ''version not valid'' [])
      else Ret ())"

lemma contains_iff [simp]: "contains s e \<longleftrightarrow> e \<in> set s"
  by (induction s) auto

lemma supportedType_scalar: "supportedType v = scalar v"
  by (cases v) auto

lemma validateEntries_Ret_iff:
  "validateEntries m = Ret () \<longleftrightarrow> list_all (scalar \<circ> snd) m"
  by (induction m) (auto simp: supportedType_scalar split: if_splits)

lemma ValidateRawExtension_Ret_iff:
  "ValidateRawExtension js raw = Ret () \<longleftrightarrow>
     (\<exists>m. ToMap js raw = Ret m \<and> list_all (scalar \<circ> snd) (map_entries m))"
  by (cases "ToMap js raw") (auto simp: ValidateRawExtension_def validateEntries_Ret_iff)

text \<open>
  What go-version documents of the constraint \<^verbatim>\<open><= v\<close> on versions without a pre-release part: it can be
  made from the text of every version and holds of the versions that are not greater.
\<close>

definition constraint_law :: "('v, 'c) version_lib \<Rightarrow> bool" where
  "constraint_law vl \<longleftrightarrow> (\<forall>v. \<exists>c. vl_NewConstraint vl (''<= '' @ vl_String vl v) = Inr c \<and>
     (\<forall>x. vl_Check vl c x \<longleftrightarrow> \<not> vl_GreaterThan vl x v))"

lemma ValidateUpdateVersion_Ret_iff:
  assumes "constraint_law vl"
  shows "ValidateUpdateVersion vl oldObs oldDes newDes = Ret () \<longleftrightarrow>
    (\<exists>vo vd vn. vl_NewVersion vl oldObs = Inr vo \<and> vl_NewVersion vl oldDes = Inr vd \<and>
       vl_NewVersion vl newDes = Inr vn \<and>
       (\<not> vl_GreaterThan vl vn vd \<or> \<not> vl_GreaterThan vl vn vo))"
proof -
  have "\<exists>c. vl_NewConstraint vl (''<= '' @ vl_String vl vo) = Inr c \<and>
      vl_Check vl c = (\<lambda>x. \<not> vl_GreaterThan vl x vo)" for vo
    using assms unfolding constraint_law_def by metis
  then obtain C where C: "\<And>vo. vl_NewConstraint vl (''<= '' @ vl_String vl vo) = Inr (C vo)"
    "\<And>vo. vl_Check vl (C vo) = (\<lambda>x. \<not> vl_GreaterThan vl x vo)"
    by metis
  show ?thesis
    by (cases "vl_NewVersion vl oldObs"; cases "vl_NewVersion vl oldDes"; cases "vl_NewVersion vl newDes")
      (simp_all add: ValidateUpdateVersion_def C C(1) [simplified])
qed

section \<open>The life of an object behind a webhook\<close>

text \<open>
  An object changes in two ways: a user's update goes through the webhook and cannot touch the status
  (a subresource of its own); the controller writes the object itself (\<open>own\<close>). \<open>evolves\<close> is any sequence
  of such changes.
\<close>

inductive evolves :: "('r \<Rightarrow> 'r \<Rightarrow> unit outcome) \<Rightarrow> ('r \<Rightarrow> 'st) \<Rightarrow> ('r \<Rightarrow> 'r \<Rightarrow> bool) \<Rightarrow> 'r \<Rightarrow> 'r \<Rightarrow> bool"
  for validate :: "'r \<Rightarrow> 'r \<Rightarrow> unit outcome" and status :: "'r \<Rightarrow> 'st" and own :: "'r \<Rightarrow> 'r \<Rightarrow> bool" where
  refl: "evolves validate status own r r"
| update: "evolves validate status own r s \<Longrightarrow> validate s t = Ret () \<Longrightarrow> status t = status s \<Longrightarrow>
    evolves validate status own r t"
| own: "evolves validate status own r s \<Longrightarrow> own s t \<Longrightarrow> evolves validate status own r t"

text \<open>
  The contract of a validating webhook: an update it admits of an object that is \<open>locked\<close> (as its status
  tells) leaves the \<open>fixed\<close> part of the object alone, and an update it admits leaves an object whose
  specification is \<open>valid\<close>.
\<close>

locale validating_webhook =
  fixes validate :: "'r \<Rightarrow> 'r \<Rightarrow> unit outcome"
    and status :: "'r \<Rightarrow> 'st"
    and locked :: "'st \<Rightarrow> bool"
    and fixed :: "'r \<Rightarrow> 'f"
    and valid :: "'r \<Rightarrow> bool"
  assumes immutable: "validate old new = Ret () \<Longrightarrow> locked (status old) \<Longrightarrow> fixed new = fixed old"
    and checked: "validate old new = Ret () \<Longrightarrow> valid new"
begin

text \<open>The controller's writes respect the contract when they keep the lock, the fixed part and validity.\<close>

lemma fixed_forever:
  assumes "evolves validate status own r s"
    and "locked (status r)"
    and keeps: "\<And>s t. own s t \<Longrightarrow> locked (status s) \<Longrightarrow> locked (status t) \<and> fixed t = fixed s"
  shows "locked (status s) \<and> fixed s = fixed r"
  using assms(1,2)
proof (induction rule: evolves.induct)
  case (refl r)
  then show ?case by simp
next
  case (update r s t)
  then show ?case using immutable by metis
next
  case (own r s t)
  then show ?case using keeps by metis
qed

lemma valid_forever:
  assumes "evolves validate status own r s"
    and "valid r"
    and "\<And>s t. own s t \<Longrightarrow> valid s \<Longrightarrow> valid t"
  shows "valid s"
  using assms by (induction rule: evolves.induct) (auto intro: checked)

end

section \<open>Properties\<close>

text \<open>
  \<^verbatim>\<open>ValidateRawExtension\<close> admits settings exactly when they decode and every value in them is a
  string, a number or a boolean; absent settings and the JSON value null are admitted. Settings it admits
  are safe to compare: \<^verbatim>\<open>CompareSettings\<close> then never panics and decides whether the two are the same map.
\<close>

theorem ValidateRawExtension_admits:
  assumes "ToMap js raw = Ret m" and "wf_map (map_entries m)"
  shows "(ValidateRawExtension js raw = Ret () \<longleftrightarrow> list_all (scalar \<circ> snd) (map_entries m)) \<and>
    (ValidateRawExtension js raw = Ret () \<longrightarrow>
      (\<forall>other m'. ToMap js other = Ret m' \<longrightarrow> wf_map (map_entries m') \<longrightarrow>
         CompareSettings js raw other = Ret (map_of (map_entries m) = map_of (map_entries m'))))"
  using assms CompareSettings_scalar by (auto simp: ValidateRawExtension_Ret_iff)

theorem ValidateRawExtension_admits_witness:
  "ValidateRawExtension (two_docs [(''a'', VInt 1)] [(''o'', VMap [])]) ''x'' = Ret () \<and>
   ValidateRawExtension (two_docs [(''a'', VInt 1)] [(''o'', VMap [])]) ''y'' \<noteq> Ret ()"
  using ValidateRawExtension_admits [OF ToMap_two_docs(1) [of "[(''a'', VInt 1)]" "[(''o'', VMap [])]"]]
    ValidateRawExtension_admits [OF ToMap_two_docs(2) [of "[(''a'', VInt 1)]" "[(''o'', VMap [])]"]]
  by simp

text \<open>
  \<^verbatim>\<open>ValidateVersions\<close> admits a version exactly when it is not empty and one of those the cloud offers.
\<close>

theorem ValidateVersions_admits:
  "ValidateVersions wanted vs = Ret () \<longleftrightarrow> wanted \<noteq> [] \<and> wanted \<in> set vs"
  by (simp add: ValidateVersions_def)

text \<open>
  \<^verbatim>\<open>ValidateUpdateVersion\<close> admits a change of the desired version exactly when all three versions
  parse and the new one is either no upgrade of the old desired version or does not go beyond what is
  observed: a user can follow an upgrade the cloud has made, and cannot ask for one.
\<close>

theorem ValidateUpdateVersion_admits:
  assumes "constraint_law vl"
  shows "ValidateUpdateVersion vl oldObs oldDes newDes = Ret () \<longleftrightarrow>
    (\<exists>vo vd vn. vl_NewVersion vl oldObs = Inr vo \<and> vl_NewVersion vl oldDes = Inr vd \<and>
       vl_NewVersion vl newDes = Inr vn \<and>
       (\<not> vl_GreaterThan vl vn vd \<or> \<not> vl_GreaterThan vl vn vo))"
  using assms by (rule ValidateUpdateVersion_Ret_iff)

text \<open>A version library for the closed examples: the longer text is the greater version.\<close>

definition tally_versions :: "(string, string) version_lib" where
  "tally_versions = \<lparr>vl_NewVersion = Inr, vl_Segments = (\<lambda>v. [int (length v)]), vl_String = (\<lambda>v. v),
     vl_GreaterThan = (\<lambda>a b. length b < length a), vl_NewConstraint = (\<lambda>s. Inr (drop 3 s)),
     vl_Check = (\<lambda>c x. length x \<le> length c)\<rparr>"

lemma tally_constraint_law: "constraint_law tally_versions"
  by (auto simp: constraint_law_def tally_versions_def)

theorem ValidateUpdateVersion_admits_witness:
  "ValidateUpdateVersion tally_versions ''III'' ''I'' ''III'' = Ret () \<and>
   ValidateUpdateVersion tally_versions ''II'' ''I'' ''III'' \<noteq> Ret ()"
  unfolding ValidateUpdateVersion_admits [OF tally_constraint_law] by (simp add: tally_versions_def)

end
