(* ===== verification/GoUrl.thy ===== *)
theory GoUrl
  imports GoStrings
begin

text \<open>
  What the controllers use of \<^verbatim>\<open>net/url\<close> (Go 1.23): \<^verbatim>\<open>url.Parse\<close> and the methods \<open>Username\<close>, \<open>Hostname\<close>
  and \<open>Port\<close>, followed branch by branch. Connection strings of the database services and the endpoint
  of the object storage go through it.
\<close>

section \<open>Character classes and splitting\<close>

definition letter :: "char \<Rightarrow> bool" where
  "letter c \<longleftrightarrow> in_range CHR ''a'' CHR ''z'' c \<or> in_range CHR ''A'' CHR ''Z'' c"

definition digit :: "char \<Rightarrow> bool" where
  "digit c \<longleftrightarrow> in_range CHR ''0'' CHR ''9'' c"

definition hexval :: "char \<Rightarrow> nat option" where
  "hexval c = (if digit c then Some (of_char c - 48)
     else if in_range CHR ''a'' CHR ''f'' c then Some (of_char c - 87)
     else if in_range CHR ''A'' CHR ''F'' c then Some (of_char c - 55)
     else None)"

definition ctl :: "char \<Rightarrow> bool" where
  "ctl c \<longleftrightarrow> (of_char c :: nat) < 32 \<or> (of_char c :: nat) = 127"

text \<open>\<^verbatim>\<open>strings.LastIndex\<close> of one byte: what stands before and after its last occurrence.\<close>

fun cutLast :: "char \<Rightarrow> string \<Rightarrow> (string \<times> string) option" where
  "cutLast c [] = None"
| "cutLast c (x # xs) = (case cutLast c xs of
     Some (b, a) \<Rightarrow> Some (x # b, a)
   | None \<Rightarrow> if x = c then Some ([], xs) else None)"

text \<open>\<^verbatim>\<open>strings.Index\<close>: what stands before the first occurrence, and the rest from there on.\<close>

fun cutBefore :: "string \<Rightarrow> string \<Rightarrow> (string \<times> string) option" where
  "cutBefore sub [] = (if sub = [] then Some ([], []) else None)"
| "cutBefore sub (x # xs) =
     (if HasPrefix (x # xs) sub then Some ([], x # xs)
      else (case cutBefore sub xs of Some (b, r) \<Rightarrow> Some (x # b, r) | None \<Rightarrow> None))"

section \<open>Escapes\<close>

datatype encoding = encodePath | encodeHost | encodeZone | encodeUserPassword | encodeFragment

text \<open>\<^verbatim>\<open>shouldEscape(c, encodeHost)\<close>; \<open>encodeZone\<close> behaves alike.\<close>

definition shouldEscapeHost :: "char \<Rightarrow> bool" where
  "shouldEscapeHost c \<longleftrightarrow> \<not> (letter c \<or> digit c \<or> c \<in> set ''!$&()*+,;=:[]<>-_.~'' \<or>
     c = CHR 0x27 \<or> c = CHR 0x22)"

fun unescape :: "encoding \<Rightarrow> string \<Rightarrow> string outcome" where
  "unescape mode [] = Ret []"
| "unescape mode (c # cs) =
     (if c = CHR ''%'' then
        (case cs of
           a # b # rest \<Rightarrow>
             (case (hexval a, hexval b) of
                (Some u, Some v) \<Rightarrow>
                  (if (mode = encodeHost \<and> u < 8 \<and> [a, b] \<noteq> ''25'') \<or>
                      (mode = encodeZone \<and> [a, b] \<noteq> ''25'' \<and> 16 * u + v \<noteq> 32 \<and>
                         shouldEscapeHost (char_of (16 * u + v)))
                   then Fail (Errorf ''invalid URL escape %q'' [[c, a, b]])
                   else bind_outcome (unescape mode rest) (\<lambda>s. Ret (char_of (16 * u + v) # s)))
              | _ \<Rightarrow> Fail (Errorf ''invalid URL escape %q'' [take 3 (c # cs)]))
         | _ \<Rightarrow> Fail (Errorf ''invalid URL escape %q'' [take 3 (c # cs)]))
      else if (mode = encodeHost \<or> mode = encodeZone) \<and> (of_char c :: nat) < 128 \<and> shouldEscapeHost c
        then Fail (Errorf ''invalid character %q in host name'' [[c]])
      else bind_outcome (unescape mode cs) (\<lambda>s. Ret (c # s)))"

section \<open>url.Parse\<close>

record Userinfo =
  ui_Username :: string
  ui_Password :: "string option"

record URL =
  u_Scheme :: string
  u_Opaque :: string
  u_User :: "Userinfo option"
  u_Host :: string
  u_Path :: string
  u_RawQuery :: string
  u_Fragment :: string

text \<open>\<^verbatim>\<open>getScheme\<close>: the loop over the bytes, with the bytes already passed.\<close>

fun getScheme :: "string \<Rightarrow> string \<Rightarrow> (string \<times> string) outcome" where
  "getScheme before [] = Ret ([], before)"
| "getScheme before (c # cs) =
     (if letter c then getScheme (before @ [c]) cs
      else if digit c \<or> c \<in> set ''+-.'' then
        (if before = [] then Ret ([], c # cs) else getScheme (before @ [c]) cs)
      else if c = CHR '':'' then
        (if before = [] then Fail (Errorf ''missing protocol scheme'' []) else Ret (before, cs))
      else Ret ([], before @ c # cs))"

definition validOptionalPort :: "string \<Rightarrow> bool" where
  "validOptionalPort port = (case port of [] \<Rightarrow> True | c # ds \<Rightarrow> c = CHR '':'' \<and> list_all digit ds)"

definition validUserinfo :: "string \<Rightarrow> bool" where
  "validUserinfo s = list_all (\<lambda>c. letter c \<or> digit c \<or> c \<in> set ''-._:~!$&()*+,;=%@'' \<or> c = CHR 0x27) s"

definition parseHost :: "string \<Rightarrow> string outcome" where
  "parseHost host =
     (if HasPrefix host ''['' then
        (case cutLast CHR '']'' host of
           None \<Rightarrow> Fail (Errorf ''missing ']' in host'' [])
         | Some (inner, colonPort) \<Rightarrow>
             if \<not> validOptionalPort colonPort then Fail (Errorf ''invalid port %q after host'' [colonPort])
             else (case cutBefore ''%25'' inner of
                 Some (addr, zone) \<Rightarrow>
                   bind_outcome (unescape encodeHost addr) (\<lambda>host1.
                   bind_outcome (unescape encodeZone zone) (\<lambda>host2.
                   bind_outcome (unescape encodeHost (CHR '']'' # colonPort)) (\<lambda>host3.
                     Ret (host1 @ host2 @ host3))))
               | None \<Rightarrow> unescape encodeHost host))
      else (case cutLast CHR '':'' host of
          Some (_, port) \<Rightarrow>
            if \<not> validOptionalPort (CHR '':'' # port)
            then Fail (Errorf ''invalid port %q after host'' [CHR '':'' # port])
            else unescape encodeHost host
        | None \<Rightarrow> unescape encodeHost host))"

definition parseAuthority :: "string \<Rightarrow> (Userinfo option \<times> string) outcome" where
  "parseAuthority authority = (case cutLast CHR ''@'' authority of
     None \<Rightarrow> bind_outcome (parseHost authority) (\<lambda>host. Ret (None, host))
   | Some (userinfo, hostpart) \<Rightarrow>
       bind_outcome (parseHost hostpart) (\<lambda>host.
       if \<not> validUserinfo userinfo then Fail (Errorf ''net/url: invalid userinfo'' [])
       else (case Cut CHR '':'' userinfo of (username, password, found) \<Rightarrow>
         if \<not> found then
           bind_outcome (unescape encodeUserPassword userinfo) (\<lambda>name.
             Ret (Some \<lparr>ui_Username = name, ui_Password = None\<rparr>, host))
         else
           bind_outcome (unescape encodeUserPassword username) (\<lambda>name.
           bind_outcome (unescape encodeUserPassword password) (\<lambda>pw.
             Ret (Some \<lparr>ui_Username = name, ui_Password = Some pw\<rparr>, host))))))"

definition emptyURL :: URL where
  "emptyURL = \<lparr>u_Scheme = [], u_Opaque = [], u_User = None, u_Host = [], u_Path = [], u_RawQuery = [],
     u_Fragment = []\<rparr>"

text \<open>\<^verbatim>\<open>parse(rawURL, false)\<close> after the scheme and the query are taken off.\<close>

definition parseRest :: "string \<Rightarrow> string \<Rightarrow> string \<Rightarrow> URL outcome" where
  "parseRest scheme query rest =
     (let url = emptyURL\<lparr>u_Scheme := scheme, u_RawQuery := query\<rparr> in
      if \<not> HasPrefix rest ''/'' \<and> scheme \<noteq> [] then Ret (url\<lparr>u_Opaque := rest\<rparr>)
      else if \<not> HasPrefix rest ''/'' \<and> CHR '':'' \<in> set (fst (Cut CHR ''/'' rest)) then
        Fail (Errorf ''first path segment in URL cannot contain colon'' [])
      else if (scheme \<noteq> [] \<or> \<not> HasPrefix rest ''///'') \<and> HasPrefix rest ''//'' then
        (case Cut CHR ''/'' (drop 2 rest) of (authority, after, found) \<Rightarrow>
          bind_outcome (parseAuthority authority) (\<lambda>(user, host).
          bind_outcome (unescape encodePath (if found then CHR ''/'' # after else [])) (\<lambda>path.
            Ret (url\<lparr>u_User := user, u_Host := host, u_Path := path\<rparr>))))
      else bind_outcome (unescape encodePath rest) (\<lambda>path. Ret (url\<lparr>u_Path := path\<rparr>)))"

definition parseURL :: "string \<Rightarrow> URL outcome" where
  "parseURL rawURL =
     (if list_ex ctl rawURL then Fail (Errorf ''net/url: invalid control character in URL'' [])
      else if rawURL = ''*'' then Ret (emptyURL\<lparr>u_Path := ''*''\<rparr>)
      else bind_outcome (getScheme [] rawURL) (\<lambda>(scheme, rest).
        if HasSuffix rest ''?'' \<and> CHR ''?'' \<notin> set (butlast rest)
        then parseRest (ToLower scheme) [] (butlast rest)
        else (case Cut CHR ''?'' rest of (rest', query, _) \<Rightarrow> parseRest (ToLower scheme) query rest')))"

definition url_Parse :: "string \<Rightarrow> URL outcome" where
  "url_Parse rawURL = (case Cut CHR ''#'' rawURL of (u, frag, _) \<Rightarrow>
     wrap_outcome (Wrapf ''parse %q: %w'' [u])
       (bind_outcome (parseURL u) (\<lambda>url.
        if frag = [] then Ret url
        else bind_outcome (unescape encodeFragment frag) (\<lambda>f. Ret (url\<lparr>u_Fragment := f\<rparr>)))))"

text \<open>A nil \<^verbatim>\<open>*Userinfo\<close> has the empty user name.\<close>

definition Username :: "Userinfo option \<Rightarrow> string" where
  "Username u = (case u of None \<Rightarrow> [] | Some ui \<Rightarrow> ui_Username ui)"

definition splitHostPort :: "string \<Rightarrow> string \<times> string" where
  "splitHostPort hostPort =
     (let (host, port) = (case cutLast CHR '':'' hostPort of
            Some (h, p) \<Rightarrow> if validOptionalPort (CHR '':'' # p) then (h, p) else (hostPort, [])
          | None \<Rightarrow> (hostPort, []))
      in (if HasPrefix host ''['' \<and> HasSuffix host '']'' then butlast (tl host) else host, port))"

definition Hostname :: "URL \<Rightarrow> string" where
  "Hostname u = fst (splitHostPort (u_Host u))"

definition Port :: "URL \<Rightarrow> string" where
  "Port u = snd (splitHostPort (u_Host u))"

section \<open>Connection strings\<close>

text \<open>The unreserved characters of RFC 3986 and the characters of a scheme in lower case.\<close>

definition plain :: "char \<Rightarrow> bool" where
  "plain c \<longleftrightarrow> letter c \<or> digit c \<or> c \<in> set ''-._~''"

definition lowercase :: "char \<Rightarrow> bool" where
  "lowercase c \<longleftrightarrow> in_range CHR ''a'' CHR ''z'' c"

lemma plain_range: "plain c \<Longrightarrow> 45 \<le> (of_char c :: nat) \<and> (of_char c :: nat) \<le> 126"
  by (auto simp: plain_def letter_def digit_def in_range_def)

lemma plain_no_separator [simp]:
  "\<not> plain CHR '':''" "\<not> plain CHR ''/''" "\<not> plain CHR ''@''" "\<not> plain CHR ''?''" "\<not> plain CHR ''#''"
  "\<not> plain CHR ''%''" "\<not> plain CHR ''[''"
  by (simp_all add: plain_def letter_def digit_def in_range_def)

lemma digit_no_separator [simp]:
  "\<not> digit CHR '':''" "\<not> digit CHR ''/''" "\<not> digit CHR ''@''" "\<not> digit CHR ''?''" "\<not> digit CHR ''#''"
  "\<not> digit CHR ''%''"
  by (simp_all add: digit_def in_range_def)

lemma lowercase_no_separator [simp]: "\<not> lowercase CHR ''#''"
  by (simp add: lowercase_def in_range_def)

lemma digit_plain: "digit c \<Longrightarrow> plain c"
  by (simp add: plain_def)

lemma lowercase_letter: "lowercase c \<Longrightarrow> letter c"
  by (simp add: letter_def lowercase_def)

lemma lowercase_plain: "lowercase c \<Longrightarrow> plain c"
  by (simp add: plain_def lowercase_letter)

lemma plain_not_ctl: "plain c \<Longrightarrow> \<not> ctl c"
  using plain_range [of c] by (auto simp: ctl_def)

lemma plain_host: "plain c \<Longrightarrow> \<not> shouldEscapeHost c"
  by (auto simp: plain_def shouldEscapeHost_def)

lemma list_all_notin: "list_all P s \<Longrightarrow> \<not> P c \<Longrightarrow> c \<notin> set s"
  by (auto simp: list_all_iff)

lemma unescape_literal:
  assumes "CHR ''%'' \<notin> set s" "mode \<in> {encodeHost, encodeZone} \<longrightarrow> (\<forall>c \<in> set s. \<not> shouldEscapeHost c)"
  shows "unescape mode s = Ret s"
  using assms by (induction s) auto

lemma unescape_plain: "list_all plain s \<Longrightarrow> unescape mode s = Ret s"
  by (rule unescape_literal) (auto simp: list_all_iff plain_host)

lemma cutLast_absent [simp]: "c \<notin> set s \<Longrightarrow> cutLast c s = None"
  by (induction s) auto

lemma cutLast_found: "c \<notin> set a \<Longrightarrow> cutLast c (b @ c # a) = Some (b, a)"
  by (induction b) auto

lemma getScheme_letters:
  "list_all letter sch \<Longrightarrow> before @ sch \<noteq> [] \<Longrightarrow> getScheme before (sch @ CHR '':'' # rest) = Ret (before @ sch, rest)"
  by (induction sch arbitrary: before) (auto simp: letter_def digit_def in_range_def)

lemma ToLower_lowercase: "list_all lowercase s \<Longrightarrow> ToLower s = s"
  by (induction s) (auto simp: ToLower_def lower_char_def lowercase_def in_range_def Let_def)

lemma parseHost_plain:
  assumes "list_all plain host" "list_all digit port"
  shows "parseHost (host @ CHR '':'' # port) = Ret (host @ CHR '':'' # port)"
proof -
  have port: "CHR '':'' \<notin> set port"
    using assms(2) by (auto simp: list_all_iff)
  have "\<not> HasPrefix (host @ CHR '':'' # port) ''[''"
    using assms(1) by (cases host) (auto simp: list_all_iff)
  moreover have "unescape encodeHost (host @ CHR '':'' # port) = Ret (host @ CHR '':'' # port)"
    using assms by (intro unescape_literal)
      (auto simp: list_all_iff dest: plain_host digit_plain, auto simp: shouldEscapeHost_def)
  ultimately show ?thesis
    using assms(2) port by (simp add: parseHost_def cutLast_found validOptionalPort_def)
qed

lemma parseHost_no_port: "list_all plain host \<Longrightarrow> parseHost host = Ret host"
proof -
  assume h: "list_all plain host"
  then have "\<not> HasPrefix host ''[''" by (cases host) (auto simp: list_all_iff)
  moreover have "CHR '':'' \<notin> set host" using h by (auto simp: list_all_iff)
  ultimately show ?thesis using h by (simp add: parseHost_def unescape_plain)
qed

lemma validUserinfo_plain: "list_all plain s \<Longrightarrow> list_all plain t \<Longrightarrow> validUserinfo (s @ CHR '':'' # t)"
  by (auto simp: validUserinfo_def list_all_iff plain_def)

lemma parseAuthority_plain:
  assumes "list_all plain user" "list_all plain pw" "list_all plain host" "list_all digit port"
  shows "parseAuthority (user @ '':'' @ pw @ ''@'' @ host @ '':'' @ port) =
    Ret (Some \<lparr>ui_Username = user, ui_Password = Some pw\<rparr>, host @ '':'' @ port)"
proof -
  have "CHR ''@'' \<notin> set (host @ '':'' @ port)" "CHR '':'' \<notin> set user"
    using assms by (auto simp: list_all_iff)
  then show ?thesis
    using cutLast_found [of "CHR ''@''" "host @ '':'' @ port" "user @ '':'' @ pw"] assms
    by (simp add: parseAuthority_def parseHost_plain validUserinfo_plain Cut_found unescape_plain)
qed

text \<open>Whether or not the query is empty, everything before the first question mark is parsed alike.\<close>

lemma parseURL_query:
  assumes "list_all lowercase scheme" "scheme \<noteq> []" "CHR ''?'' \<notin> set a"
    and "\<not> list_ex ctl (scheme @ '':'' @ a @ ''?'' @ query)"
  shows "parseURL (scheme @ '':'' @ a @ ''?'' @ query) = parseRest scheme query a"
proof -
  have sch: "getScheme [] (scheme @ CHR '':'' # rest) = Ret (scheme, rest)" for rest
    using getScheme_letters [of scheme "[]"] assms(1,2) lowercase_letter by (auto simp: list_all_iff)
  have split: "CHR ''?'' \<notin> set (butlast (a @ CHR ''?'' # query)) \<Longrightarrow> query = [] \<and> butlast (a @ CHR ''?'' # query) = a"
    by (cases "query = []") (auto simp: butlast_append)
  have not_star: "scheme @ CHR '':'' # rest \<noteq> ''*''" for rest
    using assms(2) by (cases scheme) auto
  show ?thesis
    using assms(3,4) split Cut_found [of "CHR ''?''" a query]
    by (auto simp: parseURL_def sch ToLower_lowercase [OF assms(1)] assms(2) not_star)
qed

lemma parseRest_dsn:
  assumes "scheme \<noteq> []" "list_all plain user" "list_all plain pw" "list_all plain host" "list_all digit port"
    and "list_all plain db"
  shows "parseRest scheme query (''//'' @ user @ '':'' @ pw @ ''@'' @ host @ '':'' @ port @ ''/'' @ db) =
    Ret \<lparr>u_Scheme = scheme, u_Opaque = [], u_User = Some \<lparr>ui_Username = user, ui_Password = Some pw\<rparr>,
         u_Host = host @ '':'' @ port, u_Path = ''/'' @ db, u_RawQuery = query, u_Fragment = []\<rparr>"
proof -
  let ?auth = "user @ '':'' @ pw @ ''@'' @ host @ '':'' @ port"
  have "CHR ''/'' \<notin> set ?auth" using assms by (auto simp: list_all_iff)
  then have cut: "Cut CHR ''/'' (?auth @ CHR ''/'' # db) = (?auth, db, True)" by (rule Cut_found)
  have "unescape encodePath (CHR ''/'' # db) = Ret (CHR ''/'' # db)"
    using assms(6) by (simp add: unescape_plain)
  then show ?thesis
    using cut parseAuthority_plain [OF assms(2-5)] assms(1)
    by (simp add: parseRest_def Let_def emptyURL_def del: unescape.simps)
qed

lemma splitHostPort_plain:
  assumes "list_all plain host" "list_all digit port"
  shows "splitHostPort (host @ '':'' @ port) = (host, port)"
proof -
  have "CHR '':'' \<notin> set port" using assms(2) by (auto simp: list_all_iff)
  moreover have "\<not> HasPrefix host ''[''" using assms(1) by (cases host) (auto simp: list_all_iff)
  ultimately show ?thesis
    using assms(2) by (simp add: splitHostPort_def cutLast_found validOptionalPort_def)
qed

lemma url_Parse_dsn:
  assumes "list_all lowercase scheme" "scheme \<noteq> []" "list_all plain user" "list_all plain pw"
    and "list_all plain host" "list_all digit port" "list_all plain db"
    and "CHR ''#'' \<notin> set query" "\<not> list_ex ctl query"
  shows "url_Parse (scheme @ ''://'' @ user @ '':'' @ pw @ ''@'' @ host @ '':'' @ port @ ''/'' @ db @ ''?'' @ query) =
    Ret \<lparr>u_Scheme = scheme, u_Opaque = [], u_User = Some \<lparr>ui_Username = user, ui_Password = Some pw\<rparr>,
         u_Host = host @ '':'' @ port, u_Path = ''/'' @ db, u_RawQuery = query, u_Fragment = []\<rparr>"
proof -
  let ?a = "''//'' @ user @ '':'' @ pw @ ''@'' @ host @ '':'' @ port @ ''/'' @ db"
  have q: "CHR ''?'' \<notin> set ?a" and h: "CHR ''#'' \<notin> set (scheme @ '':'' @ ?a @ ''?'' @ query)"
    using assms by (auto simp: list_all_iff)
  have seps: "\<not> ctl CHR '':''" "\<not> ctl CHR ''/''" "\<not> ctl CHR ''@''" "\<not> ctl CHR ''?''"
    by (simp_all add: ctl_def)
  have c: "\<not> list_ex ctl (scheme @ '':'' @ ?a @ ''?'' @ query)"
    using assms seps by (auto simp: list_all_iff list_ex_iff dest!: plain_not_ctl digit_plain lowercase_plain)
  have "parseURL (scheme @ '':'' @ ?a @ ''?'' @ query) = parseRest scheme query ?a"
    by (rule parseURL_query [OF assms(1,2) q c])
  moreover have "url_Parse (scheme @ '':'' @ ?a @ ''?'' @ query) =
      wrap_outcome (Wrapf ''parse %q: %w'' [scheme @ '':'' @ ?a @ ''?'' @ query]) (parseURL (scheme @ '':'' @ ?a @ ''?'' @ query))"
    using Cut_absent [OF h] by (cases "parseURL (scheme @ '':'' @ ?a @ ''?'' @ query)") (simp_all add: url_Parse_def)
  ultimately show ?thesis using parseRest_dsn [OF assms(2-7)] by simp
qed

lemma url_Parse_origin:
  assumes "list_all lowercase scheme" "scheme \<noteq> []" "list_all plain host"
  shows "url_Parse (scheme @ ''://'' @ host) = Ret (emptyURL\<lparr>u_Scheme := scheme, u_Host := host\<rparr>)"
proof -
  have none: "c \<notin> set host" "c \<notin> set (''//'' @ host)" if "c \<in> set ''?#@''" for c
    using that assms(3) by (auto simp: list_all_iff)
  have slash: "CHR ''/'' \<notin> set host" using assms(3) by (auto simp: list_all_iff)
  have seps: "\<not> ctl CHR '':''" "\<not> ctl CHR ''/''" by (simp_all add: ctl_def)
  have c: "\<not> list_ex ctl (scheme @ CHR '':'' # ''//'' @ host)"
    using assms seps by (auto simp: list_all_iff list_ex_iff dest!: plain_not_ctl lowercase_plain)
  have sch: "getScheme [] (scheme @ CHR '':'' # rest) = Ret (scheme, rest)" for rest
    using getScheme_letters [of scheme "[]"] assms(1,2) lowercase_letter by (auto simp: list_all_iff)
  have suf: "\<not> HasSuffix (''//'' @ host) ''?''"
    using none(1) [of "CHR ''?''"] by (cases host rule: rev_cases) (auto simp: HasSuffix_def)
  have not_star: "scheme @ CHR '':'' # rest \<noteq> ''*''" for rest
    using assms(2) by (cases scheme) auto
  have auth: "parseAuthority host = Ret (None, host)"
    using none(1) [of "CHR ''@''"] by (simp add: parseAuthority_def parseHost_no_port [OF assms(3)])
  have "parseURL (scheme @ CHR '':'' # ''//'' @ host) = parseRest scheme [] (''//'' @ host)"
    using c suf Cut_absent [OF none(2) [of "CHR ''?''"]] ToLower_lowercase [OF assms(1)]
    by (simp add: parseURL_def sch not_star)
  also have "\<dots> = Ret (emptyURL\<lparr>u_Scheme := scheme, u_Host := host\<rparr>)"
    using Cut_absent [OF slash] auth assms(2)
    by (simp add: parseRest_def Let_def emptyURL_def)
  finally have p: "parseURL (scheme @ ''://'' @ host) = Ret (emptyURL\<lparr>u_Scheme := scheme, u_Host := host\<rparr>)"
    by simp
  have "CHR ''#'' \<notin> set (scheme @ ''://'' @ host)" using assms by (auto simp: list_all_iff)
  then show ?thesis using p Cut_absent by (simp add: url_Parse_def)
qed

end
