(* ===== verification/Connector.thy ===== *)
theory Connector
  imports Webhooks GoUrl
begin

text \<open>
  Package \<^verbatim>\<open>operator/pipelineutil\<close> (how a controller gets from a resource to an API client: the
  ProviderConfig it names, the secret that names, the credentials in it) and \<^verbatim>\<open>operator/common\<close> (the API
  endpoint of a zone). The Kubernetes client, the constructor of the Exoscale client and the pipeline
  runner of go-command-pipeline are parameters.
\<close>

section \<open>Steps on the world alone\<close>

definition onWorld :: "('w \<Rightarrow> 'a outcome \<times> 'w) \<Rightarrow> ('m \<times> 'w, 'a) act" where
  "onWorld f = (\<lambda>(m, w). case f w of (r, w') \<Rightarrow> (r, (m, w')))"

lemma onWorld_apply: "onWorld f (m, w) = (fst (f w), (m, snd (f w)))"
  by (simp add: onWorld_def split: prod.splits)

lemma steady_onWorld [steady_intros]: "steady (\<lambda>s. f (fst s)) (onWorld g)"
  by (auto simp: steady_def onWorld_apply)

section \<open>The pipeline runner\<close>

text \<open>
  Steps have names and run one after the other on a shared context. What go-command-pipeline documents:
  a pipeline without steps succeeds, a step that succeeds hands over to the next, and the first error
  ends the pipeline and is returned with the name of its step (\<open>wrap\<close>). A panic is not caught.
\<close>

type_synonym 's step = "string \<times> ('s, unit) act"
type_synonym 's runner = "'s step list \<Rightarrow> ('s, unit) act"

definition pipeline_laws :: "(string \<Rightarrow> goerror \<Rightarrow> goerror) \<Rightarrow> 's runner \<Rightarrow> bool" where
  "pipeline_laws wrap run \<longleftrightarrow> (\<forall>s. run [] s = (Ret (), s)) \<and>
     (\<forall>n f fs s. run ((n, f) # fs) s = andThen (wrapErr (wrap n) f) (\<lambda>_. run fs) s)"

lemma run_Nil: "pipeline_laws wrap run \<Longrightarrow> run [] = ret ()"
  by (auto simp: pipeline_laws_def fun_eq_iff)

lemma run_Cons: "pipeline_laws wrap run \<Longrightarrow> run ((n, f) # fs) = andThen (wrapErr (wrap n) f) (\<lambda>_. run fs)"
  by (auto simp: pipeline_laws_def fun_eq_iff)

lemmas run_steps = run_Nil run_Cons

text \<open>A runner with these laws, for the closed examples.\<close>

fun runSteps :: "(string \<Rightarrow> goerror \<Rightarrow> goerror) \<Rightarrow> 's runner" where
  "runSteps wrap [] = ret ()"
| "runSteps wrap ((n, f) # fs) = andThen (wrapErr (wrap n) f) (\<lambda>_. runSteps wrap fs)"

lemma runSteps_laws: "pipeline_laws wrap (runSteps wrap)"
  by (simp add: pipeline_laws_def)

text \<open>The laws leave no freedom, and what every step leaves alone the pipeline leaves alone.\<close>

lemma pipeline_laws_runSteps: "pipeline_laws wrap run \<longleftrightarrow> run = runSteps wrap"
proof
  assume laws: "pipeline_laws wrap run"
  show "run = runSteps wrap"
  proof
    fix steps
    show "run steps = runSteps wrap steps"
      by (induction steps) (auto simp: run_Nil [OF laws] run_Cons [OF laws])
  qed
qed (simp add: runSteps_laws)

lemma steady_runSteps: "(\<And>n f. (n, f) \<in> set steps \<Longrightarrow> steady g f) \<Longrightarrow> steady g (runSteps wrap steps)"
proof (induction steps)
  case Nil
  show ?case by (simp only: runSteps.simps steady_intros)
next
  case (Cons step steps)
  obtain n f where step: "step = (n, f)" by (cases step)
  have "steady g f" using Cons.prems step by auto
  moreover have "steady g (runSteps wrap steps)" using Cons by auto
  ultimately show ?case unfolding step runSteps.simps by (intro steady_intros)
qed

section \<open>exoscale\_connector.go\<close>

record ProviderConfig =
  pc_Name :: string
  pc_Source :: string
  pc_APISecretRef :: SecretReference

record Secret =
  sec_Name :: string
  sec_Namespace :: string
  sec_Data :: "string gomap option"

record 'w kube_lib =
  kb_GetProviderConfig :: "string \<Rightarrow> ('w, ProviderConfig) call"
  kb_GetSecret :: "SecretReference \<Rightarrow> ('w, Secret) call"

text \<open>The endpoints the SDK defines; \<open>NoEndpoint\<close> is the zero value of the type.\<close>

datatype Endpoint = CHDk2 | CHGva2 | DEFra1 | DEMuc1 | ATVie1 | ATVie2 | BGSof1 | NoEndpoint

datatype ClientOpt = ClientOptWithEndpoint Endpoint

type_synonym 'c new_client = "string \<Rightarrow> string \<Rightarrow> ClientOpt list \<Rightarrow> liberror + 'c"

definition ExoscaleAPIKey :: string where
  "ExoscaleAPIKey = ''EXOSCALE_API_KEY''"

definition ExoscaleAPISecret :: string where
  "ExoscaleAPISecret = ''EXOSCALE_API_SECRET''"

record 'c ExoscaleConnector =
  ec_ApiKey :: string
  ec_ApiSecret :: string
  ec_Exoscale :: "'c option"

record 'c connectContext =
  cx_ProviderConfigName :: string
  cx_providerConfig :: "ProviderConfig option"
  cx_credentialSecret :: "Secret option"
  cx_apiKey :: string
  cx_apiSecret :: string
  cx_exoscaleClient :: "'c option"
  cx_opts :: "ClientOpt list"

text \<open>
  \<^verbatim>\<open>kube.Get\<close> fills the object the context points to; the pointer to the empty object is set before the
  call and stays when it fails.
\<close>

definition emptyProviderConfig :: ProviderConfig where
  "emptyProviderConfig = \<lparr>pc_Name = [], pc_Source = [], pc_APISecretRef = \<lparr>sr_Name = [], sr_Namespace = []\<rparr>\<rparr>"

definition emptySecret :: Secret where
  "emptySecret = \<lparr>sec_Name = [], sec_Namespace = [], sec_Data = None\<rparr>"

definition fetchProviderConfig :: "'w kube_lib \<Rightarrow> ('c connectContext \<times> 'w, unit) act" where
  "fetchProviderConfig kb =
     andThen (modifyObj (\<lambda>cx. cx\<lparr>cx_providerConfig := Some emptyProviderConfig\<rparr>)) (\<lambda>_.
     andThen getObj (\<lambda>cx.
     andThen (wrapErr (Wrapf ''cannot get ProviderConfig'' [])
       (invoke (kb_GetProviderConfig kb (cx_ProviderConfigName cx)))) (\<lambda>pc.
     modifyObj (\<lambda>cx. cx\<lparr>cx_providerConfig := Some pc\<rparr>))))"

definition fetchSecret :: "'w kube_lib \<Rightarrow> ('c connectContext \<times> 'w, unit) act" where
  "fetchSecret kb =
     andThen getObj (\<lambda>cx.
     andThen (lift (deref (cx_providerConfig cx))) (\<lambda>pc.
     andThen (modifyObj (\<lambda>cx. cx\<lparr>cx_credentialSecret := Some emptySecret\<rparr>)) (\<lambda>_.
     andThen (wrapErr (Wrapf ''cannot get secret with API token'' [])
       (invoke (kb_GetSecret kb (pc_APISecretRef pc)))) (\<lambda>sec.
     modifyObj (\<lambda>cx. cx\<lparr>cx_credentialSecret := Some sec\<rparr>)))))"

definition validateSecret :: "('c connectContext \<times> 'w, unit) act" where
  "validateSecret =
     andThen getObj (\<lambda>cx.
     andThen (lift (deref (cx_credentialSecret cx))) (\<lambda>secret.
     case (map_of (map_entries (sec_Data secret)) ExoscaleAPIKey,
           map_of (map_entries (sec_Data secret)) ExoscaleAPISecret) of
       (Some apiKey, Some apiSecret) \<Rightarrow>
         (if apiKey \<noteq> [] \<and> apiSecret \<noteq> []
          then modifyObj (\<lambda>cx. cx\<lparr>cx_apiKey := apiKey, cx_apiSecret := apiSecret\<rparr>)
          else fail (Errorf ''%s or %s doesn't exist in secret %s/%s''
                 [ExoscaleAPIKey, ExoscaleAPISecret, sec_Namespace secret, sec_Name secret]))
     | _ \<Rightarrow> fail (Errorf ''%s or %s doesn't exist in secret %s/%s''
              [ExoscaleAPIKey, ExoscaleAPISecret, sec_Namespace secret, sec_Name secret])))"

definition createExoscaleClient :: "'c new_client \<Rightarrow> ('c connectContext \<times> 'w, unit) act" where
  "createExoscaleClient NewClient =
     andThen getObj (\<lambda>cx.
     case NewClient (cx_apiKey cx) (cx_apiSecret cx) (cx_opts cx) of
       Inl err \<Rightarrow> andThen (modifyObj (\<lambda>cx. cx\<lparr>cx_exoscaleClient := None\<rparr>)) (\<lambda>_. fail (Lib err))
     | Inr ec \<Rightarrow> modifyObj (\<lambda>cx. cx\<lparr>cx_exoscaleClient := Some ec\<rparr>))"

definition newContext :: "string \<Rightarrow> ClientOpt list \<Rightarrow> 'c connectContext" where
  "newContext ref opts = \<lparr>cx_ProviderConfigName = ref, cx_providerConfig = None, cx_credentialSecret = None,
     cx_apiKey = [], cx_apiSecret = [], cx_exoscaleClient = None, cx_opts = opts\<rparr>"

definition OpenExoscaleClient ::
  "('c connectContext \<times> 'w) runner \<Rightarrow> 'w kube_lib \<Rightarrow> 'c new_client \<Rightarrow> string \<Rightarrow> ClientOpt list \<Rightarrow>
   'w \<Rightarrow> 'c ExoscaleConnector outcome \<times> 'w" where
  "OpenExoscaleClient run kb NewClient providerConfigRef opts w =
     (case run [(''fetch provider config'', fetchProviderConfig kb),
                (''fetch secret'', fetchSecret kb),
                (''validate secret'', validateSecret),
                (''create exoscale client'', createExoscaleClient NewClient)]
             (newContext providerConfigRef opts, w) of
        (Ret _, (pctx, w')) \<Rightarrow>
          (Ret \<lparr>ec_ApiKey = cx_apiKey pctx, ec_ApiSecret = cx_apiSecret pctx,
                ec_Exoscale = cx_exoscaleClient pctx\<rparr>, w')
      | (Fail e, (pctx, w')) \<Rightarrow> (Fail e, w')
      | (Panic p, (pctx, w')) \<Rightarrow> (Panic p, w'))"

definition FetchProviderConfig ::
  "('c connectContext \<times> 'w) runner \<Rightarrow> 'w kube_lib \<Rightarrow> string \<Rightarrow> 'w \<Rightarrow> (string \<times> string) outcome \<times> 'w" where
  "FetchProviderConfig run kb providerConfigRef w =
     (case run [(''fetch provider config'', fetchProviderConfig kb),
                (''fetch secret'', fetchSecret kb),
                (''validate secret'', validateSecret)]
             (newContext providerConfigRef [], w) of
        (Ret _, (pctx, w')) \<Rightarrow> (Ret (cx_apiKey pctx, cx_apiSecret pctx), w')
      | (Fail e, (pctx, w')) \<Rightarrow> (Fail e, w')
      | (Panic p, (pctx, w')) \<Rightarrow> (Panic p, w'))"

section \<open>common/utils.go\<close>

definition zoneTable :: "(Zone \<times> Endpoint) list" where
  "zoneTable =
     [(''CH-DK-2'', CHDk2), (''CH-GVA-2'', CHGva2), (''DE-FRA-1'', DEFra1), (''DE-MUC-1'', DEMuc1),
      (''AT-VIE-1'', ATVie1), (''AT-VIE-2'', ATVie2), (''BG-SOF-1'', BGSof1),
      (''ch-dk-2'', CHDk2), (''ch-gva-2'', CHGva2), (''de-fra-1'', DEFra1), (''de-muc-1'', DEMuc1),
      (''at-vie-1'', ATVie1), (''at-vie-2'', ATVie2), (''bg-sof-1'', BGSof1)]"

text \<open>Indexing the map with a zone it does not have gives the zero value.\<close>

definition ZoneTranslation :: "Zone \<Rightarrow> Endpoint" where
  "ZoneTranslation z = getOr NoEndpoint zoneTable z"

section \<open>What a connection needs\<close>

text \<open>The credentials a ProviderConfig leads to, and the world after the two reads.\<close>

definition credentials :: "'w kube_lib \<Rightarrow> string \<Rightarrow> 'w \<Rightarrow> (string \<times> string) option \<times> 'w" where
  "credentials kb ref w = (case kb_GetProviderConfig kb ref w of
     (Inl _, w1) \<Rightarrow> (None, w1)
   | (Inr pc, w1) \<Rightarrow> (case kb_GetSecret kb (pc_APISecretRef pc) w1 of
       (Inl _, w2) \<Rightarrow> (None, w2)
     | (Inr sec, w2) \<Rightarrow>
         (let key = getOr [] (map_entries (sec_Data sec)) ExoscaleAPIKey;
              secret = getOr [] (map_entries (sec_Data sec)) ExoscaleAPISecret
          in (if key = [] \<or> secret = [] then None else Some (key, secret), w2))))"

lemmas connector_steps = fetchProviderConfig_def fetchSecret_def validateSecret_def createExoscaleClient_def
  newContext_def run_simps

lemma FetchProviderConfig_spec:
  assumes "pipeline_laws wrap run"
  shows "case credentials kb ref w of
     (Some ks, w') \<Rightarrow> FetchProviderConfig run kb ref w = (Ret ks, w')
   | (None, w') \<Rightarrow> \<exists>e. FetchProviderConfig run kb ref w = (Fail e, w')"
  by (simp add: FetchProviderConfig_def run_steps [OF assms] connector_steps credentials_def getOr_def Let_def
      split: prod.splits sum.splits option.splits)

lemma OpenExoscaleClient_spec:
  assumes "pipeline_laws wrap run"
  shows "case credentials kb ref w of
     (Some (key, secret), w') \<Rightarrow>
       (case NewClient key secret opts of
          Inr cl \<Rightarrow> OpenExoscaleClient run kb NewClient ref opts w =
            (Ret \<lparr>ec_ApiKey = key, ec_ApiSecret = secret, ec_Exoscale = Some cl\<rparr>, w')
        | Inl _ \<Rightarrow> \<exists>e. OpenExoscaleClient run kb NewClient ref opts w = (Fail e, w'))
   | (None, w') \<Rightarrow> \<exists>e. OpenExoscaleClient run kb NewClient ref opts w = (Fail e, w')"
  by (simp add: OpenExoscaleClient_def run_steps [OF assms] connector_steps credentials_def getOr_def Let_def
      split: prod.splits sum.splits option.splits)

lemma credentials_Some_iff:
  "credentials kb ref w = (Some (key, secret), w2) \<longleftrightarrow>
     (\<exists>pc w1 sec. kb_GetProviderConfig kb ref w = (Inr pc, w1) \<and>
       kb_GetSecret kb (pc_APISecretRef pc) w1 = (Inr sec, w2) \<and>
       map_of (map_entries (sec_Data sec)) ExoscaleAPIKey = Some key \<and> key \<noteq> [] \<and>
       map_of (map_entries (sec_Data sec)) ExoscaleAPISecret = Some secret \<and> secret \<noteq> [])"
  by (auto simp: credentials_def getOr_def Let_def split: prod.splits sum.splits option.splits if_splits)

lemma OpenExoscaleClient_Ret_iff:
  assumes "pipeline_laws wrap run" and "pipeline_laws wrap' run'"
  shows "fst (OpenExoscaleClient run kb NewClient ref opts w) = Ret c \<longleftrightarrow>
    (\<exists>key secret w2 cl. credentials kb ref w = (Some (key, secret), w2) \<and> NewClient key secret opts = Inr cl \<and>
       c = \<lparr>ec_ApiKey = key, ec_ApiSecret = secret, ec_Exoscale = Some cl\<rparr> \<and>
       FetchProviderConfig run' kb ref w = (Ret (key, secret), w2))"
proof (cases "credentials kb ref w")
  case (Pair cr w2)
  note spec = OpenExoscaleClient_spec [OF assms(1), where kb = kb and ref = ref and w = w and NewClient = NewClient
      and opts = opts] FetchProviderConfig_spec [OF assms(2), of kb ref w]
  show ?thesis
  proof (cases cr)
    case None
    then show ?thesis using spec Pair by auto
  next
    case (Some ks)
    obtain key secret where "ks = (key, secret)" by (cases ks)
    then show ?thesis using spec Pair Some by (cases "NewClient key secret opts") auto
  qed
qed

lemma OpenExoscaleClient_nopanic:
  assumes "pipeline_laws wrap run"
  shows "\<not> panics (fst (OpenExoscaleClient run kb NewClient ref opts w))"
  using OpenExoscaleClient_spec [OF assms, where kb = kb and ref = ref and w = w and NewClient = NewClient
      and opts = opts]
  by (cases "credentials kb ref w") (auto split: option.splits sum.splits, (metis fst_conv panics.simps sumE)+)

section \<open>Properties\<close>

text \<open>
  C10: \<^verbatim>\<open>OpenExoscaleClient\<close> never panics, and it succeeds exactly when the ProviderConfig named by the
  resource exists, the secret it refers to exists, that secret holds a non-empty API key and API secret,
  and the SDK makes a client from exactly these two and the given options. \<^verbatim>\<open>FetchProviderConfig\<close> then
  hands out the same credentials.
\<close>

theorem OpenExoscaleClient_correct:
  assumes "pipeline_laws wrap run" and "pipeline_laws wrap' run'"
  shows "\<not> panics (fst (OpenExoscaleClient run kb NewClient ref opts w)) \<and>
    (fst (OpenExoscaleClient run kb NewClient ref opts w) = Ret c \<longleftrightarrow>
      (\<exists>pc w1 sec w2 key secret cl.
         kb_GetProviderConfig kb ref w = (Inr pc, w1) \<and>
         kb_GetSecret kb (pc_APISecretRef pc) w1 = (Inr sec, w2) \<and>
         map_of (map_entries (sec_Data sec)) ExoscaleAPIKey = Some key \<and> key \<noteq> [] \<and>
         map_of (map_entries (sec_Data sec)) ExoscaleAPISecret = Some secret \<and> secret \<noteq> [] \<and>
         NewClient key secret opts = Inr cl \<and>
         c = \<lparr>ec_ApiKey = key, ec_ApiSecret = secret, ec_Exoscale = Some cl\<rparr> \<and>
         FetchProviderConfig run' kb ref w = (Ret (key, secret), w2)))"
  unfolding OpenExoscaleClient_Ret_iff [OF assms] credentials_Some_iff
  using OpenExoscaleClient_nopanic [OF assms(1)] by blast

text \<open>A cluster with one ProviderConfig and one secret, for the closed examples.\<close>

definition sampleKube :: "string gomap \<Rightarrow> unit kube_lib" where
  "sampleKube d = \<lparr>kb_GetProviderConfig = (\<lambda>n w. (Inr \<lparr>pc_Name = n, pc_Source = ''Secret'',
       pc_APISecretRef = \<lparr>sr_Name = ''api'', sr_Namespace = ''ns''\<rparr>\<rparr>, w)),
     kb_GetSecret = (\<lambda>r w. (Inr \<lparr>sec_Name = sr_Name r, sec_Namespace = sr_Namespace r, sec_Data = Some d\<rparr>, w))\<rparr>"

theorem OpenExoscaleClient_correct_witness:
  "fst (OpenExoscaleClient (runSteps (\<lambda>n e. e)) (sampleKube [(ExoscaleAPIKey, ''EXO''), (ExoscaleAPISecret, ''s'')])
     (\<lambda>k s opts. Inr (k, s)) ''cfg'' [] ()) = Ret \<lparr>ec_ApiKey = ''EXO'', ec_ApiSecret = ''s'', ec_Exoscale = Some (''EXO'', ''s'')\<rparr>"
  using OpenExoscaleClient_correct [OF runSteps_laws [of "\<lambda>n e. e"] runSteps_laws [of "\<lambda>n e. e"],
      where kb = "sampleKube [(ExoscaleAPIKey, ''EXO''), (ExoscaleAPISecret, ''s'')]" and ref = "''cfg''" and
        NewClient = "\<lambda>k s opts. Inr (k, s)" and opts = "[]" and w = "()" and
        c = "\<lparr>ec_ApiKey = ''EXO'', ec_ApiSecret = ''s'', ec_Exoscale = Some (''EXO'', ''s'')\<rparr>", THEN conjunct2]
  by (simp add: sampleKube_def ExoscaleAPIKey_def ExoscaleAPISecret_def FetchProviderConfig_def connector_steps)

text \<open>The name of an endpoint's zone in lower case.\<close>

fun zoneName :: "Endpoint \<Rightarrow> Zone" where
  "zoneName CHDk2 = ''ch-dk-2''"
| "zoneName CHGva2 = ''ch-gva-2''"
| "zoneName DEFra1 = ''de-fra-1''"
| "zoneName DEMuc1 = ''de-muc-1''"
| "zoneName ATVie1 = ''at-vie-1''"
| "zoneName ATVie2 = ''at-vie-2''"
| "zoneName BGSof1 = ''bg-sof-1''"
| "zoneName NoEndpoint = []"

lemma zoneName_inject: "zoneName a = zoneName b \<longleftrightarrow> a = b"
  by (cases a; cases b) simp_all

lemma lower_letters:
  "lower_char CHR ''A'' = CHR ''a''"
  "lower_char CHR ''B'' = CHR ''b''"
  "lower_char CHR ''C'' = CHR ''c''"
  "lower_char CHR ''D'' = CHR ''d''"
  "lower_char CHR ''E'' = CHR ''e''"
  "lower_char CHR ''F'' = CHR ''f''"
  "lower_char CHR ''G'' = CHR ''g''"
  "lower_char CHR ''H'' = CHR ''h''"
  "lower_char CHR ''I'' = CHR ''i''"
  "lower_char CHR ''K'' = CHR ''k''"
  "lower_char CHR ''M'' = CHR ''m''"
  "lower_char CHR ''O'' = CHR ''o''"
  "lower_char CHR ''R'' = CHR ''r''"
  "lower_char CHR ''S'' = CHR ''s''"
  "lower_char CHR ''T'' = CHR ''t''"
  "lower_char CHR ''U'' = CHR ''u''"
  "lower_char CHR ''V'' = CHR ''v''"
  "lower_char CHR ''-'' = CHR ''-''"
  "lower_char CHR ''1'' = CHR ''1''"
  "lower_char CHR ''2'' = CHR ''2''"
  "lower_char CHR ''a'' = CHR ''a''"
  "lower_char CHR ''b'' = CHR ''b''"
  "lower_char CHR ''c'' = CHR ''c''"
  "lower_char CHR ''d'' = CHR ''d''"
  "lower_char CHR ''e'' = CHR ''e''"
  "lower_char CHR ''f'' = CHR ''f''"
  "lower_char CHR ''g'' = CHR ''g''"
  "lower_char CHR ''h'' = CHR ''h''"
  "lower_char CHR ''i'' = CHR ''i''"
  "lower_char CHR ''k'' = CHR ''k''"
  "lower_char CHR ''m'' = CHR ''m''"
  "lower_char CHR ''o'' = CHR ''o''"
  "lower_char CHR ''r'' = CHR ''r''"
  "lower_char CHR ''s'' = CHR ''s''"
  "lower_char CHR ''t'' = CHR ''t''"
  "lower_char CHR ''u'' = CHR ''u''"
  "lower_char CHR ''v'' = CHR ''v''"
  by (simp_all add: lower_char_def char_of_eq_iff)

lemma zoneTable_lower: "list_all (\<lambda>p. ToLower (fst p) = zoneName (snd p)) zoneTable"
  by (simp add: zoneTable_def ToLower_def lower_letters)

lemma wf_zoneTable: "wf_map zoneTable"
  by (simp add: zoneTable_def)

lemma ZoneTranslation_entry: "(z, e) \<in> set zoneTable \<Longrightarrow> ZoneTranslation z = e"
  by (simp add: ZoneTranslation_def getOr_def wf_map_lookup [OF wf_zoneTable, THEN iffD2])

lemma zoneTable_endpoint: "list_all (\<lambda>p. snd p \<noteq> NoEndpoint) zoneTable"
  by (simp add: zoneTable_def)

lemma ToLower_zone: "z \<in> fst ` set zoneTable \<Longrightarrow> ToLower z = zoneName (ZoneTranslation z)"
  using zoneTable_lower by (auto simp: list_all_iff ZoneTranslation_entry)

text \<open>
  The table of zones gives an endpoint to a zone exactly when its lower case form is one of the seven
  zones and it is written wholly in lower or wholly in upper case; two zones share an endpoint only when
  they differ in case. Any other zone gets the empty endpoint.
\<close>

theorem ZoneTranslation_correct:
  "(ZoneTranslation z \<noteq> NoEndpoint \<longleftrightarrow> z \<in> fst ` set zoneTable) \<and>
   (\<forall>z'. ZoneTranslation z = ZoneTranslation z' \<and> ZoneTranslation z \<noteq> NoEndpoint \<longleftrightarrow>
      z \<in> fst ` set zoneTable \<and> z' \<in> fst ` set zoneTable \<and> EqualFold z z')"
proof (intro conjI allI)
  have all: "ZoneTranslation z \<noteq> NoEndpoint" if "z \<in> fst ` set zoneTable" for z
    using that zoneTable_endpoint by (auto simp: list_all_iff ZoneTranslation_entry)
  have none: "z \<in> fst ` set zoneTable" if "ZoneTranslation z \<noteq> NoEndpoint" for z
    using that by (auto simp: ZoneTranslation_def getOr_def map_of_eq_None_iff split: option.splits)
      (metis map_of_eq_None_iff option.distinct(1))
  show iff: "ZoneTranslation z \<noteq> NoEndpoint \<longleftrightarrow> z \<in> fst ` set zoneTable" for z
    using all none by blast
  fix z'
  have same: "ZoneTranslation z = ZoneTranslation z' \<longleftrightarrow> EqualFold z z'"
    if "z \<in> fst ` set zoneTable" "z' \<in> fst ` set zoneTable"
    using that by (simp add: EqualFold_def ToLower_zone zoneName_inject)
  show "ZoneTranslation z = ZoneTranslation z' \<and> ZoneTranslation z \<noteq> NoEndpoint \<longleftrightarrow>
      z \<in> fst ` set zoneTable \<and> z' \<in> fst ` set zoneTable \<and> EqualFold z z'"
    using same iff [of z] iff [of z'] by metis
qed

end
