(* ===== verification/ExternalClient.thy ===== *)
theory ExternalClient
  imports Connector
begin

text \<open>
  The interface every controller offers to the crossplane reconciler (\<^verbatim>\<open>managed.ExternalClient\<close>): the
  results of its operations, the runs the reconciler can make of them, and the contract of a client as a
  locale. The theories of the controllers interpret it.
\<close>

section \<open>Results of the operations\<close>

type_synonym ConnectionDetails = "string gomap"

record ExternalObservation =
  eo_ResourceExists :: bool
  eo_ResourceUpToDate :: bool
  eo_ConnectionDetails :: ConnectionDetails

record ExternalCreation =
  ecr_ConnectionDetails :: ConnectionDetails

text \<open>\<^verbatim>\<open>managed.ExternalUpdate{}\<close> is only ever returned empty, \<^verbatim>\<open>managed.ExternalDelete\<close> has no fields.\<close>

datatype ExternalUpdate = ExternalUpdate
datatype ExternalDelete = ExternalDelete

definition noObservation :: ExternalObservation where
  "noObservation = \<lparr>eo_ResourceExists = False, eo_ResourceUpToDate = False, eo_ConnectionDetails = []\<rparr>"

definition noCreation :: ExternalCreation where
  "noCreation = \<lparr>ecr_ConnectionDetails = []\<rparr>"

section \<open>Invariants of the object\<close>

text \<open>\<open>keeps P m\<close>: the action leaves an object that satisfies \<open>P\<close> satisfying it, however it ends.\<close>

named_theorems keeps_intros \<open>rules for: an action keeps a property of the object\<close>

definition keeps :: "('m \<Rightarrow> bool) \<Rightarrow> ('m \<times> 'w, 'a) act \<Rightarrow> bool" where
  "keeps P m \<longleftrightarrow> (\<forall>s. P (fst s) \<longrightarrow> P (fst (snd (m s))))"

lemma keeps_simple [keeps_intros]:
  "keeps P (ret a)" "keeps P (fail e)" "keeps P (panic p)" "keeps P (lift r)" "keeps P getObj"
  "keeps P (attempt c)" "keeps P (invoke c)" "keeps P (onWorld g)"
  by (auto simp: keeps_def attempt_apply invoke_apply onWorld_apply)

lemma keeps_andThen [keeps_intros]:
  fixes m :: "('m \<times> 'w, 'a) act"
  assumes "keeps P m" and "\<And>a. keeps P (k a)"
  shows "keeps P (andThen m k)"
  unfolding keeps_def
proof (intro allI impI)
  fix s :: "'m \<times> 'w" assume "P (fst s)"
  then have "P (fst (snd (m s)))" using assms(1) unfolding keeps_def by blast
  then show "P (fst (snd (andThen m k s)))"
    using assms(2) by (cases "m s"; cases "fst (m s)") (auto simp: andThen_apply keeps_def)
qed

lemma keeps_wrapErr [keeps_intros]: "keeps P m \<Longrightarrow> keeps P (wrapErr g m)"
  by (simp add: keeps_def wrapErr_apply)

lemma keeps_catch [keeps_intros]: "keeps P m \<Longrightarrow> keeps P (catch m)"
  unfolding keeps_def by (auto simp: catch_apply split: prod.splits outcome.splits) (metis fst_conv snd_conv)+

lemma keeps_if [keeps_intros]: "(b \<Longrightarrow> keeps P m) \<Longrightarrow> (\<not> b \<Longrightarrow> keeps P n) \<Longrightarrow> keeps P (if b then m else n)"
  by simp

lemma keeps_case_sum [keeps_intros]:
  "(\<And>a. keeps P (g a)) \<Longrightarrow> (\<And>b. keeps P (h b)) \<Longrightarrow> keeps P (case r of Inl a \<Rightarrow> g a | Inr b \<Rightarrow> h b)"
  by (simp split: sum.splits)

lemma keeps_case_option [keeps_intros]:
  "keeps P n \<Longrightarrow> (\<And>b. keeps P (h b)) \<Longrightarrow> keeps P (case r of None \<Rightarrow> n | Some b \<Rightarrow> h b)"
  by (simp split: option.splits)

lemma keeps_case_prod [keeps_intros]: "(\<And>a b. keeps P (h a b)) \<Longrightarrow> keeps P (case p of (a, b) \<Rightarrow> h a b)"
  by (cases p) simp

lemma steady_case_prod [steady_intros]: "(\<And>a b. steady f (h a b)) \<Longrightarrow> steady f (case p of (a, b) \<Rightarrow> h a b)"
  by (cases p) simp

lemma keeps_modifyObj: "(\<And>x. P x \<Longrightarrow> P (g x)) \<Longrightarrow> keeps P (modifyObj g)"
  by (auto simp: keeps_def)

lemma keeps_steady: "steady (\<lambda>s. f (fst s)) m \<Longrightarrow> keeps (\<lambda>x. P (f x)) m"
  by (simp add: keeps_def steady_def)

text \<open>A property of the typed object, on the interface value.\<close>

fun obj_all :: "('a \<Rightarrow> bool) \<Rightarrow> 'a obj \<Rightarrow> bool" where
  "obj_all P (Typed x) = P x"
| "obj_all P (Other t) = True"

lemma keeps_withTyped: "keeps P body \<Longrightarrow> keeps (obj_all P) (withTyped h body)"
  unfolding keeps_def by (auto simp: withTyped_def split: obj.splits prod.splits) (metis fst_conv snd_conv)

lemma obj_all_map_obj: "obj_all P (map_obj f ob) \<longleftrightarrow> obj_all (\<lambda>x. P (f x)) ob"
  by (cases ob) simp_all

lemma keeps_obj_steady: "steady (\<lambda>s. map_obj f (fst s)) m \<Longrightarrow> keeps (obj_all (\<lambda>x. P (f x))) m"
  unfolding keeps_def steady_def by (metis obj_all_map_obj)

section \<open>Runs of the reconciler\<close>

text \<open>
  Any sequence of calls of the four operations on one object, in any order, with whatever the rest of the
  world does in between.
\<close>

inductive reconciles ::
  "('r obj \<times> 'w, ExternalObservation) act \<Rightarrow> ('r obj \<times> 'w, ExternalCreation) act \<Rightarrow>
   ('r obj \<times> 'w, ExternalUpdate) act \<Rightarrow> ('r obj \<times> 'w, ExternalDelete) act \<Rightarrow>
   'r obj \<times> 'w \<Rightarrow> 'r obj \<times> 'w \<Rightarrow> bool"
  for observe create update delete where
  start: "reconciles observe create update delete s s"
| observe: "reconciles observe create update delete s t \<Longrightarrow>
    reconciles observe create update delete s (snd (observe t))"
| create: "reconciles observe create update delete s t \<Longrightarrow>
    reconciles observe create update delete s (snd (create t))"
| update: "reconciles observe create update delete s t \<Longrightarrow>
    reconciles observe create update delete s (snd (update t))"
| delete: "reconciles observe create update delete s t \<Longrightarrow>
    reconciles observe create update delete s (snd (delete t))"
| world: "reconciles observe create update delete s (ob, w) \<Longrightarrow>
    reconciles observe create update delete s (ob, w')"

lemma reconciles_keeps:
  assumes "reconciles observe create update delete s t" and "P (fst s)"
    and "keeps P observe" "keeps P create" "keeps P update" "keeps P delete"
  shows "P (fst t)"
  using assms by (induction rule: reconciles.induct) (auto simp: keeps_def)

text \<open>What the controller may turn an object into: the writes of its own that a webhook does not see.\<close>

definition own_writes ::
  "('r obj \<times> 'w, ExternalObservation) act \<Rightarrow> ('r obj \<times> 'w, ExternalCreation) act \<Rightarrow>
   ('r obj \<times> 'w, ExternalUpdate) act \<Rightarrow> ('r obj \<times> 'w, ExternalDelete) act \<Rightarrow> 'r \<Rightarrow> 'r \<Rightarrow> bool" where
  "own_writes observe create update delete x y \<longleftrightarrow>
     (\<exists>w w'. reconciles observe create update delete (Typed x, w) (Typed y, w'))"

text \<open>
  The contract of an external client: no operation writes the specification of the resource; it is the
  user's.
\<close>

locale external_client =
  fixes observe :: "('r obj \<times> 'w, ExternalObservation) act"
    and create :: "('r obj \<times> 'w, ExternalCreation) act"
    and update :: "('r obj \<times> 'w, ExternalUpdate) act"
    and delete :: "('r obj \<times> 'w, ExternalDelete) act"
    and spec :: "'r \<Rightarrow> 's"
  assumes observe_spec: "steady (\<lambda>s. map_obj spec (fst s)) observe"
    and create_spec: "steady (\<lambda>s. map_obj spec (fst s)) create"
    and update_spec: "steady (\<lambda>s. map_obj spec (fst s)) update"
    and delete_spec: "steady (\<lambda>s. map_obj spec (fst s)) delete"
begin

lemma spec_kept:
  assumes "reconciles observe create update delete s t"
  shows "map_obj spec (fst t) = map_obj spec (fst s)"
  using reconciles_keeps [OF assms, of "\<lambda>ob. map_obj spec ob = map_obj spec (fst s)"]
    observe_spec create_spec update_spec delete_spec
  by (simp add: keeps_def steady_def)

lemma own_writes_spec: "own_writes observe create update delete x y \<Longrightarrow> spec y = spec x"
  unfolding own_writes_def using spec_kept by fastforce

text \<open>A property of the object that every operation keeps is kept by the controller's writes.\<close>

lemma own_writes_keeps:
  assumes "own_writes observe create update delete x y" and "P x"
    and "keeps (obj_all P) observe" "keeps (obj_all P) create" "keeps (obj_all P) update"
    and "keeps (obj_all P) delete"
  shows "P y"
proof -
  obtain w w' where "reconciles observe create update delete (Typed x, w) (Typed y, w')"
    using assms(1) by (auto simp: own_writes_def)
  then have "obj_all P (fst (Typed y, w'))"
    by (rule reconciles_keeps) (use assms in auto)
  then show ?thesis by simp
qed

end

text \<open>
  A resource whose controller and webhook work together: the part the webhook protects belongs to the
  specification.
\<close>

locale guarded_resource =
  external_client observe create update delete spec + validating_webhook validate status locked fixed valid
  for observe :: "('r obj \<times> 'w, ExternalObservation) act"
    and create :: "('r obj \<times> 'w, ExternalCreation) act"
    and update :: "('r obj \<times> 'w, ExternalUpdate) act"
    and delete :: "('r obj \<times> 'w, ExternalDelete) act"
    and spec :: "'r \<Rightarrow> 's"
    and validate :: "'r \<Rightarrow> 'r \<Rightarrow> unit outcome"
    and status :: "'r \<Rightarrow> 'st"
    and locked :: "'st \<Rightarrow> bool"
    and fixed :: "'r \<Rightarrow> 'f"
    and valid :: "'r \<Rightarrow> bool" +
  fixes part :: "'s \<Rightarrow> 'f"
    and ok :: "'s \<Rightarrow> bool"
  assumes fixed_part: "fixed x = part (spec x)"
    and valid_spec: "valid x = ok (spec x)"
begin

lemma protected:
  assumes "evolves validate status (own_writes observe create update delete) x y"
    and "locked (status x)"
    and "\<And>x y. own_writes observe create update delete x y \<Longrightarrow> locked (status x) \<Longrightarrow> locked (status y)"
  shows "locked (status y) \<and> fixed y = fixed x"
proof (rule fixed_forever [OF assms(1,2)])
  fix s t assume "own_writes observe create update delete s t" "locked (status s)"
  then show "locked (status t) \<and> fixed t = fixed s"
    using assms(3) own_writes_spec by (simp add: fixed_part)
qed

lemma always_valid:
  assumes "evolves validate status (own_writes observe create update delete) x y" and "valid x"
  shows "valid y"
  using assms by (rule valid_forever) (simp add: valid_spec own_writes_spec)

end

end
