(* ===== verification/Dbaas.thy ===== *)
theory Dbaas
  imports ExternalClient
begin

text \<open>
  What the five database controllers (MySQL, PostgreSQL, Redis, Kafka, OpenSearch) share: the services of
  the SDK, the calls they make, the switch over the service states, decoding and defaulting of settings,
  the idempotent create, and the generic proofs about them. The SDK, JSON coding of its structs and the
  version package are parameters.
\<close>

section \<open>The SDK\<close>

text \<open>\<^verbatim>\<open>exoscalesdk.EnumServiceState\<close>; any other value, the empty one included, is \<open>StateOther\<close>.\<close>

datatype ServiceState = StateRunning | StateRebuilding | StatePoweroff | StateRebalancing | StateOther string

text \<open>The fields all services have; \<open>'s\<close> is the SDK's struct of settings.\<close>

record 's DBAASService =
  sv_Name :: string
  sv_State :: ServiceState
  sv_Plan :: string
  sv_IPFilter :: "string slice"
  sv_Maintenance :: "DBAASServiceMaintenance option"
  sv_TerminationProtection :: "bool option"
  sv_NodeStates :: "DBAASNodeState list option"
  sv_Notifications :: "DBAASServiceNotification list"
  sv_Version :: string
  sv_URI :: string
  sv_Settings :: 's

text \<open>
  The calls of the client: services \<open>'svc\<close>, create and update requests \<open>'cr\<close> and \<open>'ur\<close>, the response
  with the schemas of the settings \<open>'q\<close>. A request that succeeds answers with a pointer to an operation.
\<close>

record DBaaSOperation =
  dop_Message :: string

record ('svc, 'cr, 'ur, 'q, 'w) dbaas_api =
  api_Get :: "string \<Rightarrow> ('w, 'svc) call"
  api_Create :: "string \<Rightarrow> 'cr \<Rightarrow> ('w, DBaaSOperation option) call"
  api_Update :: "string \<Rightarrow> 'ur \<Rightarrow> ('w, DBaaSOperation option) call"
  api_Delete :: "string \<Rightarrow> ('w, DBaaSOperation option) call"
  api_GetCACertificate :: "('w, string) call"
  api_RevealUserPassword :: "string \<Rightarrow> string \<Rightarrow> ('w, string) call"
  api_GetSettings :: "('w, 'q) call"
  api_MarshalSettings :: "'q \<Rightarrow> liberror + string"
  api_GetServiceType :: "string \<Rightarrow> ('w, string list option) call"

text \<open>\<^verbatim>\<open>encoding/json\<close> on the SDK's struct of settings.\<close>

record 's settings_codec =
  sc_Zero :: 's
  sc_Unmarshal :: "string \<Rightarrow> liberror + 's"
  sc_Marshal :: "'s \<Rightarrow> liberror + string"

text \<open>The libraries a controller is linked with.\<close>

record ('v, 'c) libs =
  lb_runtime :: runtime_lib
  lb_json :: json_lib
  lb_version :: "('v, 'c) version_lib"
  lb_parseJSON :: "string \<Rightarrow> liberror + goval"

section \<open>Shared pieces of the handlers\<close>

text \<open>\<^verbatim>\<open>GetInstanceName\<close>\<close>

definition instanceName :: "runtime_lib \<Rightarrow> ObjectMeta \<Rightarrow> string" where
  "instanceName rt om = (if rt_GetExternalName rt om \<noteq> [] then rt_GetExternalName rt om else om_Name om)"

text \<open>The switch over the state; an unknown state sets no condition.\<close>

definition stateCondition :: "runtime_lib \<Rightarrow> ServiceState \<Rightarrow> Condition option" where
  "stateCondition rt st = (case st of
     StateRunning \<Rightarrow> Some (Running rt)
   | StateRebuilding \<Rightarrow> Some (Rebuilding rt)
   | StatePoweroff \<Rightarrow> Some (PoweredOff rt)
   | StateRebalancing \<Rightarrow> Some (Rebalancing rt)
   | StateOther _ \<Rightarrow> None)"

definition setStateCondition :: "runtime_lib \<Rightarrow> ServiceState \<Rightarrow> ('p, 'o) resource \<Rightarrow> ('p, 'o) resource" where
  "setStateCondition rt st r = (case stateCondition rt st of None \<Rightarrow> r | Some c \<Rightarrow> set_condition rt c r)"

text \<open>\<^verbatim>\<open>ptr.Deref(p, false)\<close>\<close>

definition derefFalse :: "bool option \<Rightarrow> bool" where
  "derefFalse p = (case p of Some b \<Rightarrow> b | None \<Rightarrow> False)"

text \<open>Settings of a request: the zero value, or what the raw JSON decodes to.\<close>

definition decodeSettings :: "'s settings_codec \<Rightarrow> RawExtension \<Rightarrow> 's outcome" where
  "decodeSettings cd raw = (if raw = [] then Ret (sc_Zero cd) else of_lib (sc_Unmarshal cd raw))"

text \<open>\<^verbatim>\<open>strings.Contains(err.Error(), "Service name is already taken")\<close>\<close>

definition nameTaken :: "liberror \<Rightarrow> bool" where
  "nameTaken err = Contains (le_text err) ''Service name is already taken''"

text \<open>
  How every \<^verbatim>\<open>Observe\<close> begins: a service that is not found is reported as not existing, another error is
  returned (\<open>wrap\<close>), a service that is found is looked into.
\<close>

definition lookupService ::
  "('w, 'svc) call \<Rightarrow> (goerror \<Rightarrow> goerror) \<Rightarrow> ('svc \<Rightarrow> ('m \<times> 'w, ExternalObservation) act) \<Rightarrow>
   ('m \<times> 'w, ExternalObservation) act" where
  "lookupService get wrap found =
     andThen (attempt get) (\<lambda>r. case r of
       Inl err \<Rightarrow> (if le_notfound err then ret noObservation else fail (wrap (Lib err)))
     | Inr svc \<Rightarrow> found svc)"

text \<open>\<^verbatim>\<open>log.V(1).Info("response", "message", string(resp.Message))\<close>: the answer is dereferenced, whatever is logged.\<close>

definition logResponse :: "DBaaSOperation option \<Rightarrow> ('s, unit) act" where
  "logResponse resp = andThen (lift (deref resp)) (\<lambda>op. let message = dop_Message op in ret ())"

text \<open>How every \<^verbatim>\<open>Create\<close> ends: a name that is taken already counts as created.\<close>

definition createService :: "('w, DBaaSOperation option) call \<Rightarrow> (goerror \<Rightarrow> goerror) \<Rightarrow> ('m \<times> 'w, ExternalCreation) act" where
  "createService create wrap =
     andThen (attempt create) (\<lambda>r. case r of
       Inl err \<Rightarrow> (if nameTaken err then ret noCreation else fail (wrap (Lib err)))
     | Inr resp \<Rightarrow> andThen (logResponse resp) (\<lambda>_. ret noCreation))"

text \<open>\<^verbatim>\<open>fetchSettingSchema\<close>\<close>

definition fetchSchema ::
  "('v, 'c) libs \<Rightarrow> ('svc, 'cr, 'ur, 'q, 'w) dbaas_api \<Rightarrow> ('m \<times> 'w, schemas) act" where
  "fetchSchema lb api =
     andThen (invoke (api_GetSettings api)) (\<lambda>resp.
     andThen (lift (of_lib (api_MarshalSettings api resp))) (\<lambda>settingsJson.
     lift (ParseSchemas (lb_parseJSON lb) settingsJson)))"

text \<open>\<^verbatim>\<open>ok := true; for _, v := range checks { if !v { ok = false } }; return ok\<close>\<close>

fun allChecks :: "bool gomap \<Rightarrow> bool \<Rightarrow> bool" where
  "allChecks [] ok = ok"
| "allChecks ((k, v) # checks) ok = allChecks checks (if \<not> v then False else ok)"

lemma allChecks_iff [simp]: "allChecks checks ok \<longleftrightarrow> ok \<and> list_all snd checks"
  by (induction checks ok rule: allChecks.induct) simp_all

text \<open>The three IP filter, maintenance and settings checks of the validating webhooks.\<close>

definition checkIpFilter :: "string slice \<Rightarrow> unit outcome" where
  "checkIpFilter f = (if elems f = [] then Fail (Errorf ''IP filter cannot be empty'' []) else Ret ())"

definition checkMaintenance :: "MaintenanceSpec \<Rightarrow> unit outcome" where
  "checkMaintenance m = (case Parse (ms_TimeOfDay m) of (_, _, _, err) \<Rightarrow>
     (case err of Some e \<Rightarrow> Fail e | None \<Rightarrow> Ret ()))"

definition clockTime :: "TimeOfDay \<Rightarrow> bool" where
  "clockTime t \<longleftrightarrow> (\<exists>h m s. Parse t = (h, m, s, None))"

lemma checkIpFilter_iff [simp]: "checkIpFilter f = Ret () \<longleftrightarrow> elems f \<noteq> []"
  by (simp add: checkIpFilter_def)

lemma checkMaintenance_iff [simp]: "checkMaintenance m = Ret () \<longleftrightarrow> clockTime (ms_TimeOfDay m)"
  by (cases "Parse (ms_TimeOfDay m)" rule: prod_cases4)
    (simp add: checkMaintenance_def clockTime_def split: option.splits)

definition checkZone :: "string \<Rightarrow> Zone \<Rightarrow> Zone \<Rightarrow> unit outcome" where
  "checkZone fmt old new = (if old \<noteq> new then Fail (Errorf fmt [old, new]) else Ret ())"

lemma checkZone_iff [simp]: "checkZone fmt old new = Ret () \<longleftrightarrow> old = new"
  by (simp add: checkZone_def)

text \<open>\<^verbatim>\<open>compareVersion\<close> on the observed and desired versions of the old object and the new desired one.\<close>

definition checkVersion :: "('v, 'c) version_lib \<Rightarrow> string \<Rightarrow> string \<Rightarrow> string \<Rightarrow> unit outcome" where
  "checkVersion vl observed oldVersion newVersion =
     (if oldVersion = newVersion then Ret ()
      else ValidateUpdateVersion vl observed (if oldVersion = [] then observed else oldVersion) newVersion)"

lemma bind_unit_Ret_iff: "bind_outcome m (\<lambda>_. k) = Ret () \<longleftrightarrow> m = Ret () \<and> k = Ret ()"
  by (cases m) auto

section \<open>Generic facts\<close>

lemma setStateCondition_frame [simp]:
  "mr_Meta (setStateCondition rt st r) = mr_Meta r"
  "mr_ForProvider (setStateCondition rt st r) = mr_ForProvider r"
  "mr_AtProvider (setStateCondition rt st r) = mr_AtProvider r"
  "mr_ProviderConfigReference (setStateCondition rt st r) = mr_ProviderConfigReference r"
  "mr_WriteConnectionSecretToReference (setStateCondition rt st r) = mr_WriteConnectionSecretToReference r"
  by (simp_all add: setStateCondition_def split: option.splits)

text \<open>The part of a resource that is the user's: everything but the status.\<close>

definition resourceSpec :: "('p, 'o) resource \<Rightarrow> ObjectMeta \<times> string option \<times> SecretReference option \<times> 'p" where
  "resourceSpec r = (mr_Meta r, mr_ProviderConfigReference r, mr_WriteConnectionSecretToReference r, mr_ForProvider r)"

lemma steady_spec_writes [steady_intros]:
  "steady (\<lambda>s. resourceSpec (fst s)) (modifyObj (\<lambda>r. r\<lparr>mr_AtProvider := obs\<rparr>))"
  "steady (\<lambda>s. resourceSpec (fst s)) (modifyObj (setStateCondition rt st))"
  "steady (\<lambda>s. resourceSpec (fst s)) (modifyObj (set_condition rt c))"
  by (auto intro!: steady_modifyObj simp: resourceSpec_def)

text \<open>
  Buckets and IAM keys: their controllers write annotations as well, the user's part is the name, the
  references and the parameters. Both webhooks ask for the reference to the provider config.
\<close>

definition userSpec :: "('p, 'o, 'm) resource_scheme \<Rightarrow> string \<times> string option \<times> SecretReference option \<times> 'p" where
  "userSpec r = (om_Name (mr_Meta r), mr_ProviderConfigReference r, mr_WriteConnectionSecretToReference r,
     mr_ForProvider r)"

definition requireProviderConfig :: "string option \<Rightarrow> unit outcome" where
  "requireProviderConfig ref =
     (if ref = None \<or> ref = Some [] then Fail (Errorf ''.spec.providerConfigRef.name is required'' []) else Ret ())"

lemma requireProviderConfig_iff [simp]: "requireProviderConfig ref = Ret () \<longleftrightarrow> refName ref \<noteq> []"
  by (cases ref) (auto simp: requireProviderConfig_def refName_def)

lemma steady_fetchSchema [steady_intros]: "steady (\<lambda>s. f (fst s)) (fetchSchema lb api)"
  unfolding fetchSchema_def by (intro steady_intros)

text \<open>
  What the runtime documents of \<^verbatim>\<open>SetConditions\<close>: afterwards there is a condition of the new one's type,
  and no type of condition is lost.
\<close>

definition conditions_law :: "runtime_lib \<Rightarrow> bool" where
  "conditions_law rt \<longleftrightarrow> (\<forall>cs c. cond_Type ` set (rt_SetConditions rt cs c) = insert (cond_Type c) (cond_Type ` set cs))"

definition hasCondition :: "string \<Rightarrow> ('p, 'o) resource \<Rightarrow> bool" where
  "hasCondition ty r \<longleftrightarrow> ty \<in> cond_Type ` set (mr_Conditions r)"

lemma hasCondition_set_condition:
  "conditions_law rt \<Longrightarrow> hasCondition ty (set_condition rt c r) \<longleftrightarrow> ty = cond_Type c \<or> hasCondition ty r"
  by (simp add: conditions_law_def hasCondition_def set_condition_def)

lemma hasCondition_setStateCondition:
  "conditions_law rt \<Longrightarrow> hasCondition ty r \<Longrightarrow> hasCondition ty (setStateCondition rt st r)"
  by (simp add: setStateCondition_def hasCondition_set_condition split: option.splits)

lemma keeps_hasCondition [keeps_intros]:
  "keeps (hasCondition ty) (modifyObj (\<lambda>r. r\<lparr>mr_AtProvider := obs\<rparr>))"
  "conditions_law rt \<Longrightarrow> keeps (hasCondition ty) (modifyObj (setStateCondition rt st))"
  "conditions_law rt \<Longrightarrow> keeps (hasCondition ty) (modifyObj (set_condition rt c))"
  by (auto intro!: keeps_modifyObj simp: hasCondition_setStateCondition hasCondition_set_condition)
    (simp add: hasCondition_def)

text \<open>What a run that returns has gone through.\<close>

lemma andThen_Ret_iff:
  "andThen m k s = (Ret b, s') \<longleftrightarrow> (\<exists>a s1. m s = (Ret a, s1) \<and> k a s1 = (Ret b, s'))"
  by (simp add: andThen_apply split: prod.splits outcome.splits)

lemma wrapErr_Ret_iff: "wrapErr f m s = (Ret b, s') \<longleftrightarrow> m s = (Ret b, s')"
  by (cases "m s") (simp add: wrapErr_apply)

lemma invoke_Ret_iff: "invoke c s = (Ret b, s') \<longleftrightarrow> (\<exists>w'. c (snd s) = (Inr b, w') \<and> s' = (fst s, w'))"
  by (cases s; cases "c (snd s)") (auto simp: invoke_apply)

lemma attempt_Ret_iff: "attempt c s = (Ret r, s') \<longleftrightarrow> (\<exists>w'. c (snd s) = (r, w') \<and> s' = (fst s, w'))"
  by (cases s; cases "c (snd s)") (auto simp: attempt_apply)

lemma modifyObj_Ret_iff: "modifyObj f s = (Ret u, s') \<longleftrightarrow> s' = (f (fst s), snd s)"
  by (cases s) auto

lemma getObj_Ret_iff: "getObj s = (Ret m, s') \<longleftrightarrow> m = fst s \<and> s' = s"
  by (cases s) auto

lemma lift_Ret_iff: "lift r s = (Ret a, s') \<longleftrightarrow> r = Ret a \<and> s' = s"
  by auto

lemma ret_Ret_iff: "ret a s = (Ret b, s') \<longleftrightarrow> b = a \<and> s' = s"
  by auto

lemma catch_Ret_iff:
  "catch m s = (Ret r, s') \<longleftrightarrow> (case r of Inr a \<Rightarrow> m s = (Ret a, s') | Inl e \<Rightarrow> m s = (Fail e, s'))"
  by (cases "m s"; cases "fst (m s)") (auto simp: catch_apply split: sum.splits)

lemmas Ret_iffs = andThen_Ret_iff wrapErr_Ret_iff invoke_Ret_iff attempt_Ret_iff modifyObj_Ret_iff
  getObj_Ret_iff lift_Ret_iff ret_Ret_iff

lemma withTyped_Ret:
  assumes "fst (withTyped h body (Typed x, w)) = Ret a"
  obtains x' w' where "body (x, w) = (Ret a, (x', w'))" "snd (withTyped h body (Typed x, w)) = (Typed x', w')"
  using assms by (cases "body (x, w)") (auto simp: withTyped_Typed)

lemma typed_getObj_Ret:
  assumes "fst (withTyped h (andThen getObj k) (Typed x, w)) = Ret a"
  obtains x' w' where "k x (x, w) = (Ret a, (x', w'))" "snd (withTyped h (andThen getObj k) (Typed x, w)) = (Typed x', w')"
  using assms by (elim withTyped_Ret) (auto simp: Ret_iffs)

lemma typed_getObj_apply:
  "withTyped h (andThen getObj k) (Typed x, w) =
     (fst (k x (x, w)), (Typed (fst (snd (k x (x, w)))), snd (snd (k x (x, w)))))"
  by (simp add: withTyped_Typed andThen_apply)

lemma lookupService_exists:
  assumes "lookupService get wrap found (x, w) = (Ret obs, s')" "eo_ResourceExists obs"
  obtains svc w1 where "get w = (Inr svc, w1)" "found svc (x, w1) = (Ret obs, s')"
proof (cases "get w")
  case (Pair r w1)
  then show ?thesis
    using assms that by (cases r) (auto simp: lookupService_def Ret_iffs noObservation_def split: if_splits)
qed

lemma lookupService_missing:
  "get w = (Inl err, w') \<Longrightarrow> lookupService get wrap found (x, w) =
     (if le_notfound err then Ret noObservation else Fail (wrap (Lib err)), (x, w'))"
  by (simp add: lookupService_def run_simps)

lemma createService_apply:
  "create w = (r, w') \<Longrightarrow> createService create wrap (x, w) =
     (case r of Inr resp \<Rightarrow> map_outcome (\<lambda>_. noCreation) (deref resp) | Inl err \<Rightarrow> if nameTaken err then Ret noCreation else Fail (wrap (Lib err)),
      (x, w'))"
  by (cases r) (auto simp: createService_def logResponse_def run_simps deref_def split: option.splits)

lemma logResponse_Some [simp]: "logResponse (Some op) = ret ()"
  by (simp add: logResponse_def fun_eq_iff run_simps)

lemma logResponse_Ret_iff: "logResponse resp s = (Ret u, s') \<longleftrightarrow> resp \<noteq> None \<and> s' = s"
  by (cases resp) (auto simp: logResponse_def andThen_apply)

lemma steady_logResponse [steady_intros]: "steady f (logResponse resp)"
  unfolding logResponse_def Let_def by (intro steady_intros)

lemma keeps_logResponse [keeps_intros]: "keeps P (logResponse resp)"
  unfolding logResponse_def Let_def by (intro keeps_intros)

lemma steady_lookupService [steady_intros]:
  "(\<And>svc. steady (\<lambda>s. f (fst s)) (found svc)) \<Longrightarrow> steady (\<lambda>s. f (fst s)) (lookupService get wrap found)"
  unfolding lookupService_def by (intro steady_intros)

lemma steady_createService [steady_intros]: "steady (\<lambda>s. f (fst s)) (createService create wrap)"
  unfolding createService_def by (intro steady_intros)

lemma keeps_lookupService [keeps_intros]: "(\<And>svc. keeps P (found svc)) \<Longrightarrow> keeps P (lookupService get wrap found)"
  unfolding lookupService_def by (intro keeps_intros)

lemma keeps_createService [keeps_intros]: "keeps P (createService create wrap)"
  unfolding createService_def by (intro keeps_intros)

lemma keeps_fetchSchema [keeps_intros]: "keeps P (fetchSchema lb api)"
  unfolding fetchSchema_def by (intro keeps_intros)

text \<open>An observation of the object only is the same before and after a steady action.\<close>

lemma steady_objD: "steady (\<lambda>s. f (fst s)) m \<Longrightarrow> m s = (r, s') \<Longrightarrow> f (fst s') = f (fst s)"
  unfolding steady_def by (metis snd_conv)

text \<open>
  The desired parameters an observation compares: with the defaults of the schema, or as they are when
  completing them (\<open>act\<close>) fails.
\<close>

definition completed :: "('s, 'p) act \<Rightarrow> 'p \<Rightarrow> 'p \<Rightarrow> bool" where
  "completed act par cur \<longleftrightarrow> (\<exists>s r s'. act s = (r, s') \<and> (r = Ret cur \<or> (\<exists>e. r = Fail e) \<and> cur = par))"

lemma completed_catch:
  "catch act s = (Ret d, s') \<Longrightarrow> completed act par (case d of Inl _ \<Rightarrow> par | Inr q \<Rightarrow> q)"
  unfolding catch_Ret_iff completed_def by (cases d) (auto simp del: split_paired_Ex)

text \<open>A list of conditions kept by type, for the closed examples.\<close>

definition sampleRuntime :: runtime_lib where
  "sampleRuntime = (let cond = (\<lambda>ty st rs. \<lparr>cond_Type = ty, cond_Status = st, cond_Reason = rs,
       cond_Message = [], cond_LastTransitionTime = 0\<rparr>) in
     \<lparr>rt_GetExternalName = (\<lambda>om. case annotation om ''crossplane.io/external-name'' of Some n \<Rightarrow> n | None \<Rightarrow> []),
      rt_SetConditions = (\<lambda>cs c. c # filter (\<lambda>d. cond_Type d \<noteq> cond_Type c) cs),
      rt_Now = 0,
      rt_Available = cond ''Ready'' ''True'' ''Available'',
      rt_Creating = cond ''Ready'' ''False'' ''Creating'',
      rt_Deleting = cond ''Ready'' ''False'' ''Deleting'',
      rt_TypeReady = ''Ready'', rt_TypeSynced = ''Synced'', rt_ReasonDeleting = ''Deleting'',
      rt_ReasonReconcileSuccess = ''ReconcileSuccess'', rt_ConditionTrue = ''True'', rt_ConditionFalse = ''False''\<rparr>)"

lemma sampleRuntime_conditions: "conditions_law sampleRuntime"
  by (auto simp: conditions_law_def sampleRuntime_def Let_def)

text \<open>
  Libraries, settings and calls for the closed examples: settings are their own JSON text, every text
  decodes to no entries, the service is always there and the password is always the same.
\<close>

definition sampleLibs :: "(string, string) libs" where
  "sampleLibs = \<lparr>lb_runtime = sampleRuntime,
     lb_json = \<lparr>js_Unmarshal = (\<lambda>raw. Inr (Some [])), js_Marshal = (\<lambda>m. Inr ''{}'')\<rparr>,
     lb_version = tally_versions, lb_parseJSON = (\<lambda>raw. Inr (VMap []))\<rparr>"

definition sampleCodec :: "string settings_codec" where
  "sampleCodec = \<lparr>sc_Zero = ''{}'', sc_Unmarshal = Inr, sc_Marshal = Inr\<rparr>"

definition accepted :: DBaaSOperation where
  "accepted = \<lparr>dop_Message = ''accepted''\<rparr>"

definition sampleApi :: "'svc \<Rightarrow> ('svc, 'cr, 'ur, unit, unit) dbaas_api" where
  "sampleApi svc = \<lparr>api_Get = (\<lambda>n w. (Inr svc, w)), api_Create = (\<lambda>n b w. (Inr (Some accepted), w)),
     api_Update = (\<lambda>n b w. (Inr (Some accepted), w)), api_Delete = (\<lambda>n w. (Inr (Some accepted), w)),
     api_GetCACertificate = (\<lambda>w. (Inr ''CA'', w)), api_RevealUserPassword = (\<lambda>n u w. (Inr ''pw'', w)),
     api_GetSettings = (\<lambda>w. (Inr (), w)), api_MarshalSettings = (\<lambda>q. Inr ''{}''),
     api_GetServiceType = (\<lambda>t w. (Inr (Some [''8'']), w))\<rparr>"

definition sampleMeta :: ObjectMeta where
  "sampleMeta = \<lparr>om_Name = ''db'', om_Annotations = None, om_DeletionTimestamp = None\<rparr>"

definition sampleDBaaS :: DBaaSParameters where
  "sampleDBaaS = \<lparr>dp_TerminationProtection = True, dp_Size = \<lparr>ss_Plan = ''startup-4''\<rparr>, dp_IPFilter = Some [''10.0.0.0/8'']\<rparr>"

definition sampleMaintenance :: MaintenanceSpec where
  "sampleMaintenance = \<lparr>ms_DayOfWeek = ''monday'', ms_TimeOfDay = ''04:30:00''\<rparr>"

lemma showTime_examples: "showTime 4 30 0 = ''04:30:00''" "showTime 4 30 15 = ''04:30:15''"
  by (simp_all add: showTime_def Pad2_def Itoa_def decimal.simps digit_char_def char_of_eq_iff Let_def)

lemma Parse_examples:
  "Parse ''04:30:00'' = (4, 30, 0, None)" "Parse ''04:30:15'' = (4, 30, 15, None)"
  by (subst Parse_accepts, simp add: showTime_examples)+

lemma clockTime_examples: "clockTime ''04:30:00''" "clockTime ''04:30:15''"
  by (simp_all add: clockTime_def Parse_examples)

lemmas sample_defs = sampleLibs_def sampleCodec_def sampleApi_def sampleMeta_def sampleDBaaS_def sampleMaintenance_def

end
