(* ===== verification/PostgreSQLController.thy ===== *)
theory PostgreSQLController
  imports Dbaas
begin

text \<open>
  Package \<^verbatim>\<open>operator/postgresqlcontroller\<close> with its types of \<^verbatim>\<open>apis/exoscale/v1/postgresql_types.go\<close>:
  connector, external client, settings and admission webhook of a PostgreSQL service.
\<close>

section \<open>Types\<close>

record PostgreSQLParameters =
  pgp_Maintenance :: MaintenanceSpec
  pgp_Backup :: BackupSpec
  pgp_Zone :: Zone
  pgp_DBaaS :: DBaaSParameters
  pgp_Version :: string
  pgp_PGSettings :: RawExtension

record PostgreSQLObservation =
  pgo_DBaaS :: DBaaSParameters
  pgo_Version :: string
  pgo_Maintenance :: MaintenanceSpec
  pgo_Backup :: BackupSpec
  pgo_NodeStates :: "NodeState list"
  pgo_PGSettings :: RawExtension

type_synonym PostgreSQL = "(PostgreSQLParameters, PostgreSQLObservation) resource"

definition pg_GetProviderConfigName :: "PostgreSQL \<Rightarrow> string" where
  "pg_GetProviderConfigName inst = refName (mr_ProviderConfigReference inst)"

definition pg_GetInstanceName :: "runtime_lib \<Rightarrow> PostgreSQL \<Rightarrow> string" where
  "pg_GetInstanceName rt inst = instanceName rt (mr_Meta inst)"

text \<open>The SDK's service: \<open>ConnectionInfo\<close> is a pointer to a struct with a list of URIs.\<close>

record 's DBAASServicePG = "'s DBAASService" +
  pgs_BackupSchedule :: "BackupSchedule option"
  pgs_ConnectionInfo :: "string list option"

text \<open>The create request has a version that the update request lacks; the variant is always Aiven.\<close>

datatype PGVariant = VariantAiven

record 's UpdatePGRequest =
  pgu_Plan :: string
  pgu_BackupSchedule :: BackupSchedule
  pgu_Variant :: PGVariant
  pgu_TerminationProtection :: bool
  pgu_Maintenance :: DBAASServiceMaintenance
  pgu_IPFilter :: "string slice"
  pgu_PGSettings :: 's

record 's CreatePGRequest = "'s UpdatePGRequest" +
  pgc_Version :: string

type_synonym ('s, 'q, 'w) pg_api =
  "('s DBAASServicePG, 's CreatePGRequest, 's UpdatePGRequest, 'q, 'w) dbaas_api"

section \<open>Connector\<close>

text \<open>The type assertion is unchecked here.\<close>

definition pg_Connect ::
  "('cl connectContext \<times> 'w) runner \<Rightarrow> 'w kube_lib \<Rightarrow> 'cl new_client \<Rightarrow> (PostgreSQL obj \<times> 'w, 'cl option) act" where
  "pg_Connect run kb NewClient =
     withTyped assertPanic
       (andThen getObj (\<lambda>inst.
        andThen (onWorld (OpenExoscaleClient run kb NewClient (pg_GetProviderConfigName inst)
            [ClientOptWithEndpoint (ZoneTranslation (pgp_Zone (mr_ForProvider inst)))])) (\<lambda>exo.
        ret (ec_Exoscale exo))))"

section \<open>Settings\<close>

definition pg_fetchSettingSchema :: "('v, 'c) libs \<Rightarrow> ('s, 'q, 'w) pg_api \<Rightarrow> ('m \<times> 'w, schemas) act" where
  "pg_fetchSettingSchema lb api = fetchSchema lb api"

definition pg_setSettingsDefaults ::
  "('v, 'c) libs \<Rightarrow> ('s, 'q, 'w) pg_api \<Rightarrow> PostgreSQLParameters \<Rightarrow> ('m \<times> 'w, PostgreSQLParameters) act" where
  "pg_setSettingsDefaults lb api par =
     andThen (pg_fetchSettingSchema lb api) (\<lambda>s.
     andThen (lift (SetDefaults (lb_json lb) s ''pg'' (pgp_PGSettings par))) (\<lambda>st.
     ret (par\<lparr>pgp_PGSettings := st\<rparr>)))"

section \<open>Observe\<close>

definition pg_toBackupSpec :: "BackupSchedule option \<Rightarrow> BackupSpec" where
  "pg_toBackupSpec schedule = (case schedule of
     None \<Rightarrow> \<lparr>bs_TimeOfDay = []\<rparr>
   | Some sch \<Rightarrow> \<lparr>bs_TimeOfDay =
       Pad2 (bsch_BackupHour sch) @ '':'' @ Pad2 (bsch_BackupMinute sch) @ '':00''\<rparr>)"

definition emptyPGObservation :: PostgreSQLObservation where
  "emptyPGObservation = \<lparr>
     pgo_DBaaS = \<lparr>dp_TerminationProtection = False, dp_Size = \<lparr>ss_Plan = []\<rparr>, dp_IPFilter = None\<rparr>,
     pgo_Version = [], pgo_Maintenance = \<lparr>ms_DayOfWeek = [], ms_TimeOfDay = []\<rparr>,
     pgo_Backup = \<lparr>bs_TimeOfDay = []\<rparr>, pgo_NodeStates = [], pgo_PGSettings = []\<rparr>"

definition pg_mapObservation ::
  "'s settings_codec \<Rightarrow> 's DBAASServicePG \<Rightarrow> (PostgreSQLObservation \<times> goerror option) outcome" where
  "pg_mapObservation cd svc = (case sc_Marshal cd (sv_Settings svc) of
     Inl _ \<Rightarrow> Ret (emptyPGObservation, Some (Errorf ''error parsing PgSettings'' []))
   | Inr jsonSettings \<Rightarrow>
       bind_outcome (deref (sv_Maintenance svc)) (\<lambda>mt.
       Ret (\<lparr>pgo_DBaaS = \<lparr>dp_TerminationProtection = derefFalse (sv_TerminationProtection svc),
                dp_Size = \<lparr>ss_Plan = sv_Plan svc\<rparr>, dp_IPFilter = sv_IPFilter svc\<rparr>,
              pgo_Version = sv_Version svc,
              pgo_Maintenance = \<lparr>ms_DayOfWeek = sdk_mt_Dow mt, ms_TimeOfDay = sdk_mt_Time mt\<rparr>,
              pgo_Backup = pg_toBackupSpec (pgs_BackupSchedule svc),
              pgo_NodeStates = ToNodeStates (sv_NodeStates svc),
              pgo_PGSettings = jsonSettings\<rparr>, None)))"

definition pg_mapParameters ::
  "'s settings_codec \<Rightarrow> 's DBAASServicePG \<Rightarrow> Zone \<Rightarrow> PostgreSQLParameters outcome" where
  "pg_mapParameters cd svc zone =
     bind_outcome (wrap_outcome (Wrapf ''cannot parse pgInstance settings: %w'' [])
       (of_lib (sc_Marshal cd (sv_Settings svc)))) (\<lambda>jsonSettings.
     bind_outcome (deref (sv_Maintenance svc)) (\<lambda>mt.
     Ret \<lparr>pgp_Maintenance = \<lparr>ms_DayOfWeek = sdk_mt_Dow mt, ms_TimeOfDay = sdk_mt_Time mt\<rparr>,
          pgp_Backup = pg_toBackupSpec (pgs_BackupSchedule svc),
          pgp_Zone = zone,
          pgp_DBaaS = \<lparr>dp_TerminationProtection = derefFalse (sv_TerminationProtection svc),
            dp_Size = \<lparr>ss_Plan = sv_Plan svc\<rparr>, dp_IPFilter = sv_IPFilter svc\<rparr>,
          pgp_Version = sv_Version svc,
          pgp_PGSettings = jsonSettings\<rparr>))"

definition pg_setConditionFromState ::
  "runtime_lib \<Rightarrow> 's DBAASServicePG \<Rightarrow> PostgreSQL \<Rightarrow> PostgreSQL" where
  "pg_setConditionFromState rt svc inst = setStateCondition rt (sv_State svc) inst"

definition pg_connectionDetails ::
  "('s, 'q, 'w) pg_api \<Rightarrow> 's DBAASServicePG \<Rightarrow> string \<Rightarrow> ('m \<times> 'w, ConnectionDetails) act" where
  "pg_connectionDetails api svc ca =
     (let uri = (if sv_URI svc = [] then
            (case pgs_ConnectionInfo svc of None \<Rightarrow> None | Some [] \<Rightarrow> None | Some (u # _) \<Rightarrow> Some u)
          else Some (sv_URI svc))
      in case uri of
        None \<Rightarrow> ret []
      | Some uri \<Rightarrow>
          andThen (wrapErr (Wrapf ''cannot parse connection URL: %w'' []) (lift (url_Parse uri))) (\<lambda>parsed.
          andThen (wrapErr (Wrapf ''cannot reveal password for PostgreSQL instance: %w'' [])
            (invoke (api_RevealUserPassword api (sv_Name svc) (Username (u_User parsed))))) (\<lambda>password.
          ret [(''POSTGRESQL_USER'', Username (u_User parsed)),
               (''POSTGRESQL_PASSWORD'', password),
               (''POSTGRESQL_URL'', uri),
               (''POSTGRESQL_DB'', TrimPrefix (u_Path parsed) ''/''),
               (''POSTGRESQL_HOST'', Hostname parsed),
               (''POSTGRESQL_PORT'', Port parsed),
               (''ca.crt'', ca)])))"

definition pg_isUpToDate ::
  "('v, 'c) libs \<Rightarrow> PostgreSQLParameters \<Rightarrow> PostgreSQLParameters option \<Rightarrow> bool outcome" where
  "pg_isUpToDate lb current external = (case external of
     None \<Rightarrow> Ret False
   | Some ext \<Rightarrow>
       bind_outcome (CompareMajorVersion (lb_version lb) (pgp_Version current) (pgp_Version ext))
         (\<lambda>(sameMajorVersion, err).
       bind_outcome (CompareSettings (lb_json lb) (pgp_PGSettings current) (pgp_PGSettings ext)) (\<lambda>settings.
       Ret (allChecks
         [(''IPFilter'', IsSameStringSet (dp_IPFilter (pgp_DBaaS current)) (Some (dp_IPFilter (pgp_DBaaS ext)))),
          (''MajorVersion'', sameMajorVersion),
          (''Maintenance'', MaintenanceSpec_Equals (pgp_Maintenance current) (pgp_Maintenance ext)),
          (''BackupSchedule'', BackupSpec_Equals (pgp_Backup current) (pgp_Backup ext)),
          (''Size'', SizeSpec_Equals (dp_Size (pgp_DBaaS current)) (dp_Size (pgp_DBaaS ext))),
          (''TerminationProtection'',
             dp_TerminationProtection (pgp_DBaaS current) = dp_TerminationProtection (pgp_DBaaS ext)),
          (''PGSettings'', settings)] True))))"

text \<open>The part of \<^verbatim>\<open>Observe\<close> after the service was found.\<close>

definition pg_observeService ::
  "('v, 'c) libs \<Rightarrow> 's settings_codec \<Rightarrow> ('s, 'q, 'w) pg_api \<Rightarrow> PostgreSQL \<Rightarrow> 's DBAASServicePG \<Rightarrow>
   (PostgreSQL \<times> 'w, ExternalObservation) act" where
  "pg_observeService lb cd api inst pg =
     andThen (lift (pg_mapObservation cd pg)) (\<lambda>(obs, err).
     andThen (modifyObj (\<lambda>i. i\<lparr>mr_AtProvider := obs\<rparr>)) (\<lambda>_.
     case err of
       Some e \<Rightarrow> fail (Wrapf ''cannot parse instance status'' [] e)
     | None \<Rightarrow>
         andThen (modifyObj (pg_setConditionFromState (lb_runtime lb) pg)) (\<lambda>_.
         andThen (wrapErr (Wrapf ''cannot retrieve CA certificate'' []) (invoke (api_GetCACertificate api))) (\<lambda>caCert.
         andThen (lift (pg_mapParameters cd pg (pgp_Zone (mr_ForProvider inst)))) (\<lambda>params.
         andThen (wrapErr (Wrapf ''cannot read connection details'' []) (pg_connectionDetails api pg caCert))
           (\<lambda>connDetails.
         andThen (catch (pg_setSettingsDefaults lb api (mr_ForProvider inst))) (\<lambda>d.
         andThen (lift (pg_isUpToDate lb
             (case d of Inl _ \<Rightarrow> mr_ForProvider inst | Inr currentParams \<Rightarrow> currentParams) (Some params))) (\<lambda>up.
         ret \<lparr>eo_ResourceExists = True, eo_ResourceUpToDate = up, eo_ConnectionDetails = connDetails\<rparr>))))))))"

definition pg_Observe ::
  "('v, 'c) libs \<Rightarrow> 's settings_codec \<Rightarrow> ('s, 'q, 'w) pg_api \<Rightarrow> (PostgreSQL obj \<times> 'w, ExternalObservation) act" where
  "pg_Observe lb cd api = withTyped assertPanic
     (andThen getObj (\<lambda>inst.
      lookupService (api_Get api (pg_GetInstanceName (lb_runtime lb) inst))
        (Wrapf ''cannot observe pgInstance: %w'' []) (pg_observeService lb cd api inst)))"

section \<open>Create, update, delete\<close>

definition pg_fromSpecToUpdateBody :: "'s settings_codec \<Rightarrow> PostgreSQLParameters \<Rightarrow> 's UpdatePGRequest outcome" where
  "pg_fromSpecToUpdateBody cd spec =
     (case ToBackupSchedule (bs_TimeOfDay (pgp_Backup spec)) of (backupSchedule, err) \<Rightarrow>
       (case err of
          Some e \<Rightarrow> Fail (Wrapf ''invalid backup schedule: %w'' [] e)
        | None \<Rightarrow>
            bind_outcome (wrap_outcome (Wrapf ''invalid pgsettings: %w'' [])
              (decodeSettings cd (pgp_PGSettings spec))) (\<lambda>settings.
            Ret \<lparr>
              pgu_Plan = ss_Plan (dp_Size (pgp_DBaaS spec)),
              pgu_BackupSchedule = backupSchedule,
              pgu_Variant = VariantAiven,
              pgu_TerminationProtection = dp_TerminationProtection (pgp_DBaaS spec),
              pgu_Maintenance = \<lparr>sdk_mt_Dow = ms_DayOfWeek (pgp_Maintenance spec),
                sdk_mt_Time = ms_TimeOfDay (pgp_Maintenance spec)\<rparr>,
              pgu_IPFilter = dp_IPFilter (pgp_DBaaS spec),
              pgu_PGSettings = settings\<rparr>)))"

definition pg_fromSpecToCreateBody :: "'s settings_codec \<Rightarrow> PostgreSQLParameters \<Rightarrow> 's CreatePGRequest outcome" where
  "pg_fromSpecToCreateBody cd spec =
     (case ToBackupSchedule (bs_TimeOfDay (pgp_Backup spec)) of (backupSchedule, err) \<Rightarrow>
       (case err of
          Some e \<Rightarrow> Fail (Wrapf ''invalid backup schedule: %w'' [] e)
        | None \<Rightarrow>
            bind_outcome (wrap_outcome (Wrapf ''invalid pgsettings: %w'' [])
              (decodeSettings cd (pgp_PGSettings spec))) (\<lambda>settings.
            Ret \<lparr>
              pgu_Plan = ss_Plan (dp_Size (pgp_DBaaS spec)),
              pgu_BackupSchedule = backupSchedule,
              pgu_Variant = VariantAiven,
              pgu_TerminationProtection = dp_TerminationProtection (pgp_DBaaS spec),
              pgu_Maintenance = \<lparr>sdk_mt_Dow = ms_DayOfWeek (pgp_Maintenance spec),
                sdk_mt_Time = ms_TimeOfDay (pgp_Maintenance spec)\<rparr>,
              pgu_IPFilter = dp_IPFilter (pgp_DBaaS spec),
              pgu_PGSettings = settings,
              pgc_Version = pgp_Version spec\<rparr>)))"

text \<open>Create and update name the instance by \<^verbatim>\<open>metadata.name\<close>, not by its external name.\<close>

definition pg_Create ::
  "'s settings_codec \<Rightarrow> ('s, 'q, 'w) pg_api \<Rightarrow> (PostgreSQL obj \<times> 'w, ExternalCreation) act" where
  "pg_Create cd api = withTyped assertPanic
     (andThen getObj (\<lambda>inst.
      andThen (wrapErr (Wrapf ''cannot map spec to API request'' [])
        (lift (pg_fromSpecToCreateBody cd (mr_ForProvider inst)))) (\<lambda>body.
      createService (api_Create api (om_Name (mr_Meta inst)) body) (Wrapf ''cannot create instance'' []))))"

definition pg_Update ::
  "'s settings_codec \<Rightarrow> ('s, 'q, 'w) pg_api \<Rightarrow> (PostgreSQL obj \<times> 'w, ExternalUpdate) act" where
  "pg_Update cd api = withTyped assertPanic
     (andThen getObj (\<lambda>inst.
      andThen (wrapErr (Wrapf ''cannot map spec to API request'' [])
        (lift (pg_fromSpecToUpdateBody cd (mr_ForProvider inst)))) (\<lambda>body.
      andThen (wrapErr (Wrapf ''cannot update instance'' [])
        (invoke (api_Update api (om_Name (mr_Meta inst)) body))) (\<lambda>resp.
      andThen (logResponse resp) (\<lambda>_.
      ret ExternalUpdate)))))"

definition pg_Delete ::
  "runtime_lib \<Rightarrow> ('s, 'q, 'w) pg_api \<Rightarrow> (PostgreSQL obj \<times> 'w, ExternalDelete) act" where
  "pg_Delete rt api = withTyped assertPanic
     (andThen getObj (\<lambda>inst.
      andThen (wrapErr (Wrapf ''cannot delete instance: %w'' [])
        (invoke (api_Delete api (pg_GetInstanceName rt inst)))) (\<lambda>resp.
      andThen (logResponse resp) (\<lambda>_.
      ret ExternalDelete))))"

definition pg_Disconnect :: "('s, unit) act" where
  "pg_Disconnect = ret ()"

section \<open>Webhook\<close>

definition pg_validateIpFilter :: "PostgreSQLParameters \<Rightarrow> unit outcome" where
  "pg_validateIpFilter par = checkIpFilter (dp_IPFilter (pgp_DBaaS par))"

definition pg_validateMaintenanceSchedule :: "PostgreSQLParameters \<Rightarrow> unit outcome" where
  "pg_validateMaintenanceSchedule par = checkMaintenance (pgp_Maintenance par)"

definition pg_validatePGSettings :: "json_lib \<Rightarrow> PostgreSQLParameters \<Rightarrow> unit outcome" where
  "pg_validatePGSettings js par = ValidateRawExtension js (pgp_PGSettings par)"

definition pg_validateSpec :: "json_lib \<Rightarrow> PostgreSQL \<Rightarrow> unit outcome" where
  "pg_validateSpec js inst =
     firstError [pg_validateIpFilter, pg_validateMaintenanceSchedule, pg_validatePGSettings js]
       (mr_ForProvider inst)"

definition pg_getAvailableVersions ::
  "('cl connectContext \<times> 'w) runner \<Rightarrow> 'w kube_lib \<Rightarrow> 'cl new_client \<Rightarrow> ('cl \<Rightarrow> ('s, 'q, 'w) pg_api) \<Rightarrow>
   (PostgreSQL obj \<times> 'w, string list) act" where
  "pg_getAvailableVersions run kb NewClient apiOf = withTyped assertPanic
     (andThen getObj (\<lambda>inst.
      andThen (wrapErr (Wrapf ''open exoscale client failed: %w'' [])
        (onWorld (OpenExoscaleClient run kb NewClient (pg_GetProviderConfigName inst)
            [ClientOptWithEndpoint (ZoneTranslation (pgp_Zone (mr_ForProvider inst)))]))) (\<lambda>exo.
      andThen (lift (deref (ec_Exoscale exo))) (\<lambda>client.
      andThen (wrapErr (Wrapf ''get DBaaS service type failed: %w'' [])
        (invoke (api_GetServiceType (apiOf client) ''pg''))) (\<lambda>resp.
      case resp of
        None \<Rightarrow> fail (Errorf ''postgres available versions not found'' [])
      | Some vs \<Rightarrow> ret vs)))))"

definition pg_validateVersion :: "string list \<Rightarrow> (PostgreSQL obj \<times> 'w, unit) act" where
  "pg_validateVersion availableVersions = withTyped assertPanic
     (andThen getObj (\<lambda>inst. lift (ValidateVersions (pgp_Version (mr_ForProvider inst)) availableVersions)))"

definition pg_ValidateCreate ::
  "('cl connectContext \<times> 'w) runner \<Rightarrow> 'w kube_lib \<Rightarrow> 'cl new_client \<Rightarrow> ('cl \<Rightarrow> ('s, 'q, 'w) pg_api) \<Rightarrow>
   json_lib \<Rightarrow> (PostgreSQL obj \<times> 'w, unit) act" where
  "pg_ValidateCreate run kb NewClient apiOf js = (\<lambda>(ob, w). case ob of
     Other t \<Rightarrow> (Fail (Errorf ''invalid managed resource type %T for postgres webhook'' [t]), (ob, w))
   | Typed inst \<Rightarrow>
       andThen (pg_getAvailableVersions run kb NewClient apiOf) (\<lambda>availableVersions.
       andThen (pg_validateVersion availableVersions) (\<lambda>_.
       lift (pg_validateSpec js inst))) (ob, w))"

definition pg_compareZone :: "PostgreSQLParameters \<Rightarrow> PostgreSQLParameters \<Rightarrow> unit outcome" where
  "pg_compareZone oldParams newParams =
     checkZone ''field is immutable: %s (old), %s (changed)'' (pgp_Zone oldParams) (pgp_Zone newParams)"

definition pg_compareVersion :: "('v, 'c) version_lib \<Rightarrow> PostgreSQL \<Rightarrow> PostgreSQL \<Rightarrow> unit outcome" where
  "pg_compareVersion vl oldInst newInst =
     checkVersion vl (pgo_Version (mr_AtProvider oldInst)) (pgp_Version (mr_ForProvider oldInst))
       (pgp_Version (mr_ForProvider newInst))"

definition pg_validateImmutable :: "('v, 'c) version_lib \<Rightarrow> PostgreSQL \<Rightarrow> PostgreSQL \<Rightarrow> unit outcome" where
  "pg_validateImmutable vl oldInst newInst =
     bind_outcome (pg_compareZone (mr_ForProvider oldInst) (mr_ForProvider newInst))
       (\<lambda>_. pg_compareVersion vl oldInst newInst)"

definition pg_ValidateUpdate ::
  "('v, 'c) libs \<Rightarrow> PostgreSQL obj \<Rightarrow> PostgreSQL obj \<Rightarrow> unit outcome" where
  "pg_ValidateUpdate lb oldObj newObj = (case newObj of
     Other t \<Rightarrow> Fail (Errorf ''invalid managed resource type %T for postgres webhook'' [t])
   | Typed newInstance \<Rightarrow> (case oldObj of
       Other t \<Rightarrow> Fail (Errorf ''invalid managed resource type %T for postgres webhook'' [t])
     | Typed oldInstance \<Rightarrow>
         bind_outcome (pg_validateSpec (lb_json lb) newInstance)
           (\<lambda>_. pg_validateImmutable (lb_version lb) oldInstance newInstance)))"

definition pg_ValidateDelete :: "PostgreSQL obj \<Rightarrow> unit outcome" where
  "pg_ValidateDelete ob = Ret ()"

section \<open>Frame\<close>

lemma steady_pg_settings [steady_intros]: "steady (\<lambda>s. f (fst s)) (pg_setSettingsDefaults lb api par)"
  unfolding pg_setSettingsDefaults_def pg_fetchSettingSchema_def by (intro steady_intros)

lemma steady_pg_connectionDetails [steady_intros]:
  "steady (\<lambda>s. f (fst s)) (pg_connectionDetails api svc ca)"
  unfolding pg_connectionDetails_def Let_def by (intro steady_intros)

lemma steady_pg_observeService [steady_intros]:
  "steady (\<lambda>s. resourceSpec (fst s)) (pg_observeService lb cd api inst svc)"
  unfolding pg_observeService_def pg_setConditionFromState_def by (intro steady_intros)

lemma pg_Observe_spec: "steady (\<lambda>s. map_obj resourceSpec (fst s)) (pg_Observe lb cd api)"
  unfolding pg_Observe_def by (intro steady_withTyped steady_intros)

lemma pg_Create_spec: "steady (\<lambda>s. map_obj resourceSpec (fst s)) (pg_Create cd api)"
  unfolding pg_Create_def by (intro steady_withTyped steady_intros)

lemma pg_Update_spec: "steady (\<lambda>s. map_obj resourceSpec (fst s)) (pg_Update cd api)"
  unfolding pg_Update_def by (intro steady_withTyped steady_intros)

lemma pg_Delete_spec: "steady (\<lambda>s. map_obj resourceSpec (fst s)) (pg_Delete rt api)"
  unfolding pg_Delete_def by (intro steady_withTyped steady_intros)

section \<open>The webhook\<close>

definition pg_valid :: "json_lib \<Rightarrow> PostgreSQLParameters \<Rightarrow> bool" where
  "pg_valid js par \<longleftrightarrow> elems (dp_IPFilter (pgp_DBaaS par)) \<noteq> [] \<and> clockTime (ms_TimeOfDay (pgp_Maintenance par)) \<and>
     ValidateRawExtension js (pgp_PGSettings par) = Ret ()"

lemma pg_validateSpec_iff: "pg_validateSpec js inst = Ret () \<longleftrightarrow> pg_valid js (mr_ForProvider inst)"
  unfolding pg_validateSpec_def firstError_Ret_iff
  by (simp add: pg_valid_def pg_validateIpFilter_def pg_validateMaintenanceSchedule_def
      pg_validatePGSettings_def)

lemma pg_ValidateUpdate_iff:
  "pg_ValidateUpdate lb (Typed old) (Typed new) = Ret () \<longleftrightarrow>
     pg_valid (lb_json lb) (mr_ForProvider new) \<and>
     pgp_Zone (mr_ForProvider old) = pgp_Zone (mr_ForProvider new) \<and>
     pg_compareVersion (lb_version lb) old new = Ret ()"
  by (auto simp: pg_ValidateUpdate_def pg_validateImmutable_def pg_compareZone_def bind_unit_Ret_iff
      pg_validateSpec_iff)

interpretation pq: guarded_resource "pg_Observe lb cd api" "pg_Create cd api"
  "pg_Update cd api" "pg_Delete (lb_runtime lb) api" resourceSpec
  "\<lambda>old new. pg_ValidateUpdate lb (Typed old) (Typed new)" mr_AtProvider "\<lambda>_. True"
  "\<lambda>r. pgp_Zone (mr_ForProvider r)" "\<lambda>r. pg_valid (lb_json lb) (mr_ForProvider r)"
  "\<lambda>(_, _, _, par). pgp_Zone par" "\<lambda>(_, _, _, par). pg_valid (lb_json lb) par"
  for lb :: "('v, 'c) libs" and cd :: "'s settings_codec" and api :: "('s, 'q, 'w) pg_api"
  by unfold_locales
    (auto simp: pg_Observe_spec pg_Create_spec pg_Update_spec pg_Delete_spec
      pg_ValidateUpdate_iff resourceSpec_def)

section \<open>Comparison with the service\<close>

lemma pg_toBackupSpec_eq: "pg_toBackupSpec = ToBackupSpec"
  by (rule ext) (simp add: pg_toBackupSpec_def ToBackupSpec_def)

text \<open>A service that has taken over everything an update request says.\<close>

definition pg_reflects :: "'s UpdatePGRequest \<Rightarrow> 's DBAASServicePG \<Rightarrow> bool" where
  "pg_reflects body svc \<longleftrightarrow>
     sv_Maintenance svc = Some (pgu_Maintenance body) \<and>
     pgs_BackupSchedule svc = Some (pgu_BackupSchedule body) \<and>
     sv_TerminationProtection svc = Some (pgu_TerminationProtection body) \<and>
     sv_Plan svc = pgu_Plan body \<and>
     set (elems (sv_IPFilter svc)) = set (elems (pgu_IPFilter body)) \<and>
     sv_Settings svc = pgu_PGSettings body"

lemma pg_fromSpecToUpdateBody_Ret:
  assumes "pg_fromSpecToUpdateBody cd par = Ret body"
  obtains h m s where "Parse (bs_TimeOfDay (pgp_Backup par)) = (h, m, s, None)"
    "pgu_BackupSchedule body = \<lparr>bsch_BackupHour = h, bsch_BackupMinute = m\<rparr>"
    "pgu_Maintenance body = \<lparr>sdk_mt_Dow = ms_DayOfWeek (pgp_Maintenance par),
       sdk_mt_Time = ms_TimeOfDay (pgp_Maintenance par)\<rparr>"
    "pgu_TerminationProtection body = dp_TerminationProtection (pgp_DBaaS par)"
    "pgu_Plan body = ss_Plan (dp_Size (pgp_DBaaS par))"
    "pgu_IPFilter body = dp_IPFilter (pgp_DBaaS par)"
  using assms
  by (cases "Parse (bs_TimeOfDay (pgp_Backup par))" rule: prod_cases4)
    (auto simp: pg_fromSpecToUpdateBody_def bind_outcome_Ret_iff ToBackupSchedule_def split: option.splits)

lemma pg_mapParameters_reflects:
  assumes "pg_reflects body svc" "sc_Marshal cd (sv_Settings svc) = Inr raw"
  shows "pg_mapParameters cd svc zone = Ret \<lparr>
     pgp_Maintenance = \<lparr>ms_DayOfWeek = sdk_mt_Dow (pgu_Maintenance body), ms_TimeOfDay = sdk_mt_Time (pgu_Maintenance body)\<rparr>,
     pgp_Backup = ToBackupSpec (Some (pgu_BackupSchedule body)), pgp_Zone = zone,
     pgp_DBaaS = \<lparr>dp_TerminationProtection = pgu_TerminationProtection body,
       dp_Size = \<lparr>ss_Plan = pgu_Plan body\<rparr>, dp_IPFilter = sv_IPFilter svc\<rparr>,
     pgp_Version = sv_Version svc, pgp_PGSettings = raw\<rparr>"
  using assms by (simp add: pg_mapParameters_def pg_reflects_def pg_toBackupSpec_eq derefFalse_def)

lemma BackupSpec_eq_iff: "(b :: BackupSpec) = ToBackupSpec (Some sch) \<longleftrightarrow>
    bs_TimeOfDay b = showTime (bsch_BackupHour sch) (bsch_BackupMinute sch) 0"
  by (cases b) (simp add: ToBackupSpec_def showTime_zero_seconds)

section \<open>Properties\<close>

text \<open>
  In whatever order users send updates, the reconciler observes, creates, updates and deletes, and the
  cloud changes, the zone of a PostgreSQL resource stays what it was, and a specification that passes the
  checks of the webhook passes them forever.
\<close>

theorem pg_zone_immutable:
  fixes lb :: "('v, 'c) libs" and cd :: "'s settings_codec" and api :: "('s, 'q, 'w) pg_api"
  assumes "evolves (\<lambda>old new. pg_ValidateUpdate lb (Typed old) (Typed new)) mr_AtProvider
    (own_writes (pg_Observe lb cd api) (pg_Create cd api) (pg_Update cd api) (pg_Delete (lb_runtime lb) api)) x y"
  shows "pgp_Zone (mr_ForProvider y) = pgp_Zone (mr_ForProvider x) \<and>
    (pg_valid (lb_json lb) (mr_ForProvider x) \<longrightarrow> pg_valid (lb_json lb) (mr_ForProvider y))"
  using pq.protected [OF assms] pq.always_valid [OF assms] by blast

definition samplePG :: "TimeOfDay \<Rightarrow> ObjectMeta \<Rightarrow> PostgreSQL" where
  "samplePG t om = \<lparr>mr_Meta = om, mr_ProviderConfigReference = Some ''cfg'',
     mr_WriteConnectionSecretToReference = None,
     mr_ForProvider = \<lparr>pgp_Maintenance = sampleMaintenance, pgp_Backup = \<lparr>bs_TimeOfDay = t\<rparr>, pgp_Zone = ''ch-dk-2'',
       pgp_DBaaS = sampleDBaaS, pgp_Version = ''III'', pgp_PGSettings = []\<rparr>,
     mr_Conditions = [], mr_AtProvider = emptyPGObservation\<rparr>"

definition samplePGService :: "string DBAASServicePG" where
  "samplePGService = \<lparr>sv_Name = ''db'', sv_State = StateRunning, sv_Plan = ''STARTUP-4'', sv_IPFilter = Some [''10.0.0.0/8''],
     sv_Maintenance = Some \<lparr>sdk_mt_Dow = ''monday'', sdk_mt_Time = ''04:30:00''\<rparr>,
     sv_TerminationProtection = Some True, sv_NodeStates = None, sv_Notifications = [], sv_Version = ''III'',
     sv_URI = [], sv_Settings = ''{}'', pgs_BackupSchedule = Some \<lparr>bsch_BackupHour = 4, bsch_BackupMinute = 30\<rparr>,
     pgs_ConnectionInfo = None\<rparr>"

lemmas pg_sample = samplePG_def samplePGService_def sample_defs

theorem pg_zone_immutable_witness:
  "\<exists>y. pg_ValidateUpdate sampleLibs (Typed (samplePG ''04:30:00'' sampleMeta)) (Typed y) = Ret () \<and>
     pgp_Zone (mr_ForProvider y) = ''ch-dk-2'' \<and> pg_valid (lb_json sampleLibs) (mr_ForProvider y)"
proof -
  let ?x = "samplePG ''04:30:00'' sampleMeta" and ?y = "samplePG ''04:30:15'' sampleMeta"
  let ?api = "sampleApi samplePGService :: (string, unit, unit) pg_api"
  have adm: "pg_ValidateUpdate sampleLibs (Typed ?x) (Typed ?y) = Ret ()"
    and val: "pg_valid (lb_json sampleLibs) (mr_ForProvider ?x)"
    by (simp_all add: pg_ValidateUpdate_iff pg_valid_def pg_sample clockTime_examples
        ValidateRawExtension_Ret_iff ToMap_def pg_compareVersion_def checkVersion_def)
  have "mr_AtProvider ?y = mr_AtProvider ?x" by (simp add: samplePG_def)
  with adm have "evolves (\<lambda>old new. pg_ValidateUpdate sampleLibs (Typed old) (Typed new)) mr_AtProvider
      (own_writes (pg_Observe sampleLibs sampleCodec ?api) (pg_Create sampleCodec ?api)
         (pg_Update sampleCodec ?api) (pg_Delete (lb_runtime sampleLibs) ?api)) ?x ?y"
    by (blast intro: evolves.intros)
  from pg_zone_immutable [OF this] adm val show ?thesis by (auto simp: samplePG_def)
qed

text \<open>
  After an update that the service has taken over completely, the next observation finds the service
  up to date exactly when the desired backup time is spelled hh:mm:00.
\<close>

theorem pg_update_converges:
  assumes "pg_fromSpecToUpdateBody cd par = Ret body" and "pg_reflects body svc"
    and "sc_Marshal cd (sv_Settings svc) = Inr raw"
    and "CompareMajorVersion (lb_version lb) (pgp_Version par) (sv_Version svc) = Ret (True, err)"
    and "CompareSettings (lb_json lb) st raw = Ret True"
  shows "\<exists>ext h m s. pg_mapParameters cd svc (pgp_Zone par) = Ret ext \<and>
    Parse (bs_TimeOfDay (pgp_Backup par)) = (h, m, s, None) \<and>
    pg_isUpToDate lb (par\<lparr>pgp_PGSettings := st\<rparr>) (Some ext) =
      Ret (bs_TimeOfDay (pgp_Backup par) = showTime h m 0)"
proof -
  obtain h m s where p: "Parse (bs_TimeOfDay (pgp_Backup par)) = (h, m, s, None)"
    and b: "pgu_BackupSchedule body = \<lparr>bsch_BackupHour = h, bsch_BackupMinute = m\<rparr>"
    "pgu_Maintenance body = \<lparr>sdk_mt_Dow = ms_DayOfWeek (pgp_Maintenance par),
       sdk_mt_Time = ms_TimeOfDay (pgp_Maintenance par)\<rparr>"
    "pgu_TerminationProtection body = dp_TerminationProtection (pgp_DBaaS par)"
    "pgu_Plan body = ss_Plan (dp_Size (pgp_DBaaS par))"
    "pgu_IPFilter body = dp_IPFilter (pgp_DBaaS par)"
    using assms(1) by (rule pg_fromSpecToUpdateBody_Ret)
  have ip: "set (elems (sv_IPFilter svc)) = set (elems (dp_IPFilter (pgp_DBaaS par)))"
    using assms(2) b(5) by (simp add: pg_reflects_def)
  show ?thesis
    using p assms(4,5) pg_mapParameters_reflects [OF assms(2,3), of "pgp_Zone par"] b ip
    by (simp add: pg_isUpToDate_def BackupSpec_eq_iff SizeSpec_Equals_def IsSameStringSet_Some)
qed

theorem pg_update_converges_witness:
  "\<exists>ext. pg_mapParameters sampleCodec (samplePGService\<lparr>sv_Plan := ''startup-4''\<rparr>) ''ch-dk-2'' = Ret ext \<and>
    pg_isUpToDate sampleLibs (mr_ForProvider (samplePG ''04:30:00'' sampleMeta)) (Some ext) = Ret True"
proof -
  let ?par = "mr_ForProvider (samplePG ''04:30:00'' sampleMeta)"
  have body: "pg_fromSpecToUpdateBody sampleCodec ?par = Ret \<lparr>
      pgu_Plan = ''startup-4'', pgu_BackupSchedule = \<lparr>bsch_BackupHour = 4, bsch_BackupMinute = 30\<rparr>,
      pgu_Variant = VariantAiven, pgu_TerminationProtection = True,
      pgu_Maintenance = \<lparr>sdk_mt_Dow = ''monday'', sdk_mt_Time = ''04:30:00''\<rparr>,
      pgu_IPFilter = Some [''10.0.0.0/8''], pgu_PGSettings = ''{}''\<rparr>"
    by (simp add: pg_fromSpecToUpdateBody_def decodeSettings_def ToBackupSchedule_def Parse_examples pg_sample)
  show ?thesis
    using pg_update_converges [OF body, where svc = "samplePGService\<lparr>sv_Plan := ''startup-4''\<rparr>" and lb = sampleLibs
        and raw = "''{}''" and st = "[]" and err = None]
    by (simp add: pg_reflects_def pg_sample CompareMajorVersion_def tally_versions_def CompareSettings_def
        ToMap_def Parse_examples showTime_examples)
qed

text \<open>
  C38: \<^verbatim>\<open>Create\<close> names the new instance by \<^verbatim>\<open>metadata.name\<close> while \<^verbatim>\<open>Observe\<close> looks for the external name. In a
  cloud that remembers the names it was asked to create, a resource whose external name differs from its
  name and is not taken is still reported as not existing after it was created.
\<close>

theorem pg_external_name_not_found:
  assumes "pg_fromSpecToCreateBody cd (mr_ForProvider inst) = Ret body"
    and "rt_GetExternalName (lb_runtime lb) (mr_Meta inst) = ename" and "ename \<noteq> []"
    and "ename \<noteq> om_Name (mr_Meta inst)" and "ename \<notin> set names"
    and "\<And>n b ns. \<exists>op. api_Create api n b ns = (Inr (Some op), n # ns)"
    and "\<And>n ns. n \<notin> set ns \<Longrightarrow> api_Get api n ns = (Inl \<lparr>le_notfound = True, le_status = 404, le_text = []\<rparr>, ns)"
  shows "pg_Create cd api (Typed inst, names) = (Ret noCreation, (Typed inst, om_Name (mr_Meta inst) # names)) \<and>
    pg_Observe lb cd api (snd (pg_Create cd api (Typed inst, names))) =
      (Ret noObservation, (Typed inst, om_Name (mr_Meta inst) # names))"
proof -
  have get: "api_Get api ename (om_Name (mr_Meta inst) # names) =
      (Inl \<lparr>le_notfound = True, le_status = 404, le_text = []\<rparr>, om_Name (mr_Meta inst) # names)"
    by (rule assms(7)) (use assms(4,5) in auto)
  have created: "pg_Create cd api (Typed inst, names) = (Ret noCreation, (Typed inst, om_Name (mr_Meta inst) # names))"
  proof -
    obtain op where "api_Create api (om_Name (mr_Meta inst)) body names = (Inr (Some op), om_Name (mr_Meta inst) # names)"
      using assms(6) by blast
    then show ?thesis
      using assms(1) by (simp add: pg_Create_def typed_getObj_apply andThen_apply wrapErr_apply createService_apply)
  qed
  moreover have "pg_GetInstanceName (lb_runtime lb) inst = ename"
    using assms(2,3) by (simp add: pg_GetInstanceName_def instanceName_def)
  ultimately show ?thesis
    using get by (simp add: pg_Observe_def typed_getObj_apply lookupService_missing)
qed

definition rememberingApi :: "string DBAASServicePG \<Rightarrow> (string, unit, string list) pg_api" where
  "rememberingApi svc = \<lparr>
     api_Get = (\<lambda>n ns. (if n \<in> set ns then Inr svc else Inl \<lparr>le_notfound = True, le_status = 404, le_text = []\<rparr>, ns)),
     api_Create = (\<lambda>n b ns. (Inr (Some accepted), n # ns)), api_Update = (\<lambda>n b ns. (Inr (Some accepted), ns)),
     api_Delete = (\<lambda>n ns. (Inr (Some accepted), removeAll n ns)), api_GetCACertificate = (\<lambda>ns. (Inr ''CA'', ns)),
     api_RevealUserPassword = (\<lambda>n u ns. (Inr ''pw'', ns)), api_GetSettings = (\<lambda>ns. (Inr (), ns)),
     api_MarshalSettings = (\<lambda>q. Inr ''{}''), api_GetServiceType = (\<lambda>t ns. (Inr (Some [''15'']), ns))\<rparr>"

theorem pg_external_name_not_found_witness:
  "fst (pg_Observe sampleLibs sampleCodec (rememberingApi samplePGService)
     (snd (pg_Create sampleCodec (rememberingApi samplePGService)
       (Typed (samplePG ''04:30:00'' (sampleMeta\<lparr>om_Annotations := Some [(''crossplane.io/external-name'', ''prod'')]\<rparr>)), []))))
   = Ret noObservation"
proof -
  let ?inst = "samplePG ''04:30:00'' (sampleMeta\<lparr>om_Annotations := Some [(''crossplane.io/external-name'', ''prod'')]\<rparr>)"
  obtain body where body: "pg_fromSpecToCreateBody sampleCodec (mr_ForProvider ?inst) = Ret body"
    by (simp add: pg_fromSpecToCreateBody_def decodeSettings_def ToBackupSchedule_def Parse_examples pg_sample)
  have "pg_Create sampleCodec (rememberingApi samplePGService) (Typed ?inst, []) =
      (Ret noCreation, (Typed ?inst, om_Name (mr_Meta ?inst) # [])) \<and>
    pg_Observe sampleLibs sampleCodec (rememberingApi samplePGService)
      (snd (pg_Create sampleCodec (rememberingApi samplePGService) (Typed ?inst, []))) =
      (Ret noObservation, (Typed ?inst, om_Name (mr_Meta ?inst) # []))"
    by (rule pg_external_name_not_found [OF body, where ename = "''prod''"])
      (simp_all add: rememberingApi_def samplePG_def sampleMeta_def sampleLibs_def sampleRuntime_def annotation_def)
  then show ?thesis by (metis fst_conv)
qed

end
