(* ===== verification/RedisController.thy ===== *)
theory RedisController
  imports Dbaas
begin

text \<open>
  Package \<^verbatim>\<open>operator/rediscontroller\<close> with its types of \<^verbatim>\<open>apis/exoscale/v1/redis_types.go\<close>: connector,
  external client, settings and admission webhook of a Redis service.
\<close>

section \<open>Types\<close>

record RedisParameters =
  rdp_Maintenance :: MaintenanceSpec
  rdp_Zone :: Zone
  rdp_DBaaS :: DBaaSParameters
  rdp_RedisSettings :: RawExtension

record RedisObservation =
  rdo_Version :: string
  rdo_RedisSettings :: RawExtension
  rdo_NodeStates :: "NodeState list"
  rdo_Notifications :: "Notification list"

type_synonym Redis = "(RedisParameters, RedisObservation) resource"

definition redis_GetProviderConfigName :: "Redis \<Rightarrow> string" where
  "redis_GetProviderConfigName inst = refName (mr_ProviderConfigReference inst)"

definition redis_GetInstanceName :: "runtime_lib \<Rightarrow> Redis \<Rightarrow> string" where
  "redis_GetInstanceName rt inst = instanceName rt (mr_Meta inst)"

record 's DBAASServiceRedis = "'s DBAASService" +
  rds_ConnectionInfo :: "string list option"

text \<open>Create and update requests have the same fields.\<close>

record 's RedisRequest =
  rdr_IPFilter :: "string slice"
  rdr_Maintenance :: DBAASServiceMaintenance
  rdr_Plan :: string
  rdr_RedisSettings :: 's
  rdr_TerminationProtection :: bool

type_synonym ('s, 'q, 'w) redis_api =
  "('s DBAASServiceRedis, 's RedisRequest, 's RedisRequest, 'q, 'w) dbaas_api"

section \<open>Connector\<close>

definition redis_Connect ::
  "('cl connectContext \<times> 'w) runner \<Rightarrow> 'w kube_lib \<Rightarrow> 'cl new_client \<Rightarrow> (Redis obj \<times> 'w, 'cl option) act" where
  "redis_Connect run kb NewClient =
     withTyped assertPanic
       (andThen getObj (\<lambda>inst.
        andThen (onWorld (OpenExoscaleClient run kb NewClient (redis_GetProviderConfigName inst)
            [ClientOptWithEndpoint (ZoneTranslation (rdp_Zone (mr_ForProvider inst)))])) (\<lambda>exo.
        ret (ec_Exoscale exo))))"

section \<open>Settings\<close>

definition redis_fetchSettingSchema :: "('v, 'c) libs \<Rightarrow> ('s, 'q, 'w) redis_api \<Rightarrow> ('m \<times> 'w, schemas) act" where
  "redis_fetchSettingSchema lb api = fetchSchema lb api"

definition redis_setSettingsDefaults ::
  "('v, 'c) libs \<Rightarrow> ('s, 'q, 'w) redis_api \<Rightarrow> RedisParameters \<Rightarrow> ('m \<times> 'w, RedisParameters) act" where
  "redis_setSettingsDefaults lb api par =
     andThen (redis_fetchSettingSchema lb api) (\<lambda>s.
     andThen (lift (SetDefaults (lb_json lb) s ''redis'' (rdp_RedisSettings par))) (\<lambda>st.
     ret (par\<lparr>rdp_RedisSettings := st\<rparr>)))"

section \<open>Observe\<close>

definition redis_mapObservation ::
  "json_lib \<Rightarrow> 's settings_codec \<Rightarrow> 's DBAASServiceRedis \<Rightarrow> (RedisObservation \<times> goerror option) outcome" where
  "redis_mapObservation js cd svc = (case sc_Marshal cd (sv_Settings svc) of
     Inl _ \<Rightarrow> Ret (\<lparr>rdo_Version = [], rdo_RedisSettings = [], rdo_NodeStates = [], rdo_Notifications = []\<rparr>,
                  Some (Errorf ''error parsing RedisSettings'' []))
   | Inr jsonSettings \<Rightarrow>
       let observation = \<lparr>rdo_Version = sv_Version svc, rdo_RedisSettings = jsonSettings,
             rdo_NodeStates = ToNodeStates (sv_NodeStates svc), rdo_Notifications = []\<rparr>
       in (case ToNotifications js (sv_Notifications svc) of
             Fail e \<Rightarrow> Ret (observation, Some (Wrapf ''notifications: %w'' [] e))
           | Panic p \<Rightarrow> Panic p
           | Ret notifications \<Rightarrow> Ret (observation\<lparr>rdo_Notifications := notifications\<rparr>, None)))"

definition redis_mapParameters ::
  "'s settings_codec \<Rightarrow> 's DBAASServiceRedis \<Rightarrow> Zone \<Rightarrow> RedisParameters outcome" where
  "redis_mapParameters cd svc zone =
     bind_outcome (wrap_outcome (Wrapf ''cannot parse redisInstance settings: %w'' [])
       (of_lib (sc_Marshal cd (sv_Settings svc)))) (\<lambda>jsonSettings.
     bind_outcome (deref (sv_Maintenance svc)) (\<lambda>mt.
     Ret \<lparr>rdp_Maintenance = \<lparr>ms_DayOfWeek = sdk_mt_Dow mt, ms_TimeOfDay = sdk_mt_Time mt\<rparr>,
          rdp_Zone = zone,
          rdp_DBaaS = \<lparr>dp_TerminationProtection = derefFalse (sv_TerminationProtection svc),
            dp_Size = \<lparr>ss_Plan = sv_Plan svc\<rparr>, dp_IPFilter = sv_IPFilter svc\<rparr>,
          rdp_RedisSettings = jsonSettings\<rparr>))"

definition redis_connectionDetails ::
  "('s, 'q, 'w) redis_api \<Rightarrow> 's DBAASServiceRedis \<Rightarrow> ('m \<times> 'w, ConnectionDetails) act" where
  "redis_connectionDetails api svc =
     (let uri = (if sv_URI svc = [] then
            (case rds_ConnectionInfo svc of None \<Rightarrow> None | Some [] \<Rightarrow> None | Some (u # _) \<Rightarrow> Some u)
          else Some (sv_URI svc))
      in case uri of
        None \<Rightarrow> ret []
      | Some uri \<Rightarrow>
          andThen (wrapErr (Wrapf ''cannot parse connection URI: %w'' []) (lift (url_Parse uri))) (\<lambda>parsed.
          andThen (wrapErr (Wrapf ''cannot reveal password for Redis instance: %w'' [])
            (invoke (api_RevealUserPassword api (sv_Name svc) (Username (u_User parsed))))) (\<lambda>password.
          ret [(''REDIS_HOST'', Hostname parsed),
               (''REDIS_PORT'', Port parsed),
               (''REDIS_USERNAME'', Username (u_User parsed)),
               (''REDIS_PASSWORD'', password),
               (''REDIS_URL'', uri)])))"

definition redis_isUpToDate ::
  "('v, 'c) libs \<Rightarrow> RedisParameters \<Rightarrow> RedisParameters option \<Rightarrow> bool outcome" where
  "redis_isUpToDate lb current external = (case external of
     None \<Rightarrow> Ret False
   | Some ext \<Rightarrow>
       bind_outcome (CompareSettings (lb_json lb) (rdp_RedisSettings current) (rdp_RedisSettings ext)) (\<lambda>settings.
       Ret (allChecks
         [(''IPFilter'', IsSameStringSet (dp_IPFilter (rdp_DBaaS current)) (Some (dp_IPFilter (rdp_DBaaS ext)))),
          (''Maintenance'', MaintenanceSpec_Equals (rdp_Maintenance current) (rdp_Maintenance ext)),
          (''Size'', SizeSpec_Equals (dp_Size (rdp_DBaaS current)) (dp_Size (rdp_DBaaS ext))),
          (''TerminationProtection'',
             dp_TerminationProtection (rdp_DBaaS current) = dp_TerminationProtection (rdp_DBaaS ext)),
          (''RedisSettings'', settings)] True)))"

text \<open>The part of \<^verbatim>\<open>Observe\<close> after the service was found.\<close>

definition redis_observeService ::
  "('v, 'c) libs \<Rightarrow> 's settings_codec \<Rightarrow> ('s, 'q, 'w) redis_api \<Rightarrow> Redis \<Rightarrow> 's DBAASServiceRedis \<Rightarrow>
   (Redis \<times> 'w, ExternalObservation) act" where
  "redis_observeService lb cd api inst redis =
     andThen (lift (redis_mapObservation (lb_json lb) cd redis)) (\<lambda>(obs, err).
     andThen (modifyObj (\<lambda>i. i\<lparr>mr_AtProvider := obs\<rparr>)) (\<lambda>_.
     andThen (modifyObj (setStateCondition (lb_runtime lb) (sv_State redis))) (\<lambda>_.
     andThen (lift (redis_mapParameters cd redis (rdp_Zone (mr_ForProvider inst)))) (\<lambda>rp.
     andThen (wrapErr (Wrapf ''unable to parse connection details: %w'' []) (redis_connectionDetails api redis)) (\<lambda>conn.
     andThen (catch (redis_setSettingsDefaults lb api (mr_ForProvider inst))) (\<lambda>d.
     andThen (lift (redis_isUpToDate lb
         (case d of Inl _ \<Rightarrow> mr_ForProvider inst | Inr currentParams \<Rightarrow> currentParams) (Some rp))) (\<lambda>up.
     ret \<lparr>eo_ResourceExists = True, eo_ResourceUpToDate = up, eo_ConnectionDetails = conn\<rparr>)))))))"

definition redis_Observe ::
  "('v, 'c) libs \<Rightarrow> 's settings_codec \<Rightarrow> ('s, 'q, 'w) redis_api \<Rightarrow> (Redis obj \<times> 'w, ExternalObservation) act" where
  "redis_Observe lb cd api = withTyped assertPanic
     (andThen getObj (\<lambda>inst.
      lookupService (api_Get api (redis_GetInstanceName (lb_runtime lb) inst))
        (Wrapf ''unable to observe instance: %w'' []) (redis_observeService lb cd api inst)))"

section \<open>Create, update, delete\<close>

definition redis_createBody :: "'s settings_codec \<Rightarrow> RedisParameters \<Rightarrow> 's RedisRequest outcome" where
  "redis_createBody cd spec =
     bind_outcome (wrap_outcome (Wrapf ''cannot map redisInstance settings: %w'' [])
       (decodeSettings cd (rdp_RedisSettings spec))) (\<lambda>settings.
     Ret \<lparr>rdr_IPFilter = dp_IPFilter (rdp_DBaaS spec),
          rdr_Maintenance = \<lparr>sdk_mt_Dow = ms_DayOfWeek (rdp_Maintenance spec),
            sdk_mt_Time = ms_TimeOfDay (rdp_Maintenance spec)\<rparr>,
          rdr_Plan = ss_Plan (dp_Size (rdp_DBaaS spec)),
          rdr_RedisSettings = settings,
          rdr_TerminationProtection = dp_TerminationProtection (rdp_DBaaS spec)\<rparr>)"

definition redis_updateBody :: "'s settings_codec \<Rightarrow> RedisParameters \<Rightarrow> 's RedisRequest outcome" where
  "redis_updateBody cd spec =
     bind_outcome (wrap_outcome (Wrapf ''cannot map redisInstance settings: %w'' [])
       (decodeSettings cd (rdp_RedisSettings spec))) (\<lambda>settings.
     Ret \<lparr>rdr_IPFilter = dp_IPFilter (rdp_DBaaS spec),
          rdr_Maintenance = \<lparr>sdk_mt_Dow = ms_DayOfWeek (rdp_Maintenance spec),
            sdk_mt_Time = ms_TimeOfDay (rdp_Maintenance spec)\<rparr>,
          rdr_Plan = ss_Plan (dp_Size (rdp_DBaaS spec)),
          rdr_RedisSettings = settings,
          rdr_TerminationProtection = dp_TerminationProtection (rdp_DBaaS spec)\<rparr>)"

definition redis_Create ::
  "runtime_lib \<Rightarrow> 's settings_codec \<Rightarrow> ('s, 'q, 'w) redis_api \<Rightarrow> (Redis obj \<times> 'w, ExternalCreation) act" where
  "redis_Create rt cd api = withTyped assertPanic
     (andThen getObj (\<lambda>inst.
      andThen (lift (redis_createBody cd (mr_ForProvider inst))) (\<lambda>body.
      createService (api_Create api (redis_GetInstanceName rt inst) body)
        (Wrapf ''unable to create instance: %w'' []))))"

definition redis_Update ::
  "runtime_lib \<Rightarrow> 's settings_codec \<Rightarrow> ('s, 'q, 'w) redis_api \<Rightarrow> (Redis obj \<times> 'w, ExternalUpdate) act" where
  "redis_Update rt cd api = withTyped assertPanic
     (andThen getObj (\<lambda>inst.
      andThen (lift (redis_updateBody cd (mr_ForProvider inst))) (\<lambda>body.
      andThen (wrapErr (Wrapf ''unable to create instance: %w'' [])
        (invoke (api_Update api (redis_GetInstanceName rt inst) body))) (\<lambda>resp.
      andThen (logResponse resp) (\<lambda>_.
      ret ExternalUpdate)))))"

definition redis_Delete ::
  "runtime_lib \<Rightarrow> ('s, 'q, 'w) redis_api \<Rightarrow> (Redis obj \<times> 'w, ExternalDelete) act" where
  "redis_Delete rt api = withTyped assertPanic
     (andThen getObj (\<lambda>inst.
      andThen (wrapErr (Wrapf ''cannot delete instance: %w'' [])
        (invoke (api_Delete api (redis_GetInstanceName rt inst)))) (\<lambda>resp.
      andThen (logResponse resp) (\<lambda>_.
      ret ExternalDelete))))"

definition redis_Disconnect :: "('s, unit) act" where
  "redis_Disconnect = ret ()"

section \<open>Webhook\<close>

definition redis_validateIpFilter :: "RedisParameters \<Rightarrow> unit outcome" where
  "redis_validateIpFilter par = checkIpFilter (dp_IPFilter (rdp_DBaaS par))"

definition redis_validateMaintenanceSchedule :: "RedisParameters \<Rightarrow> unit outcome" where
  "redis_validateMaintenanceSchedule par = checkMaintenance (rdp_Maintenance par)"

definition redis_validateRedisSettings :: "json_lib \<Rightarrow> RedisParameters \<Rightarrow> unit outcome" where
  "redis_validateRedisSettings js par = ValidateRawExtension js (rdp_RedisSettings par)"

definition redis_validateSpec :: "json_lib \<Rightarrow> Redis \<Rightarrow> unit outcome" where
  "redis_validateSpec js inst =
     firstError [redis_validateIpFilter, redis_validateMaintenanceSchedule, redis_validateRedisSettings js]
       (mr_ForProvider inst)"

definition redis_ValidateCreate :: "json_lib \<Rightarrow> Redis obj \<Rightarrow> unit outcome" where
  "redis_ValidateCreate js ob = (case ob of Other t \<Rightarrow> assertPanic t | Typed inst \<Rightarrow> redis_validateSpec js inst)"

definition redis_isCreated :: "runtime_lib \<Rightarrow> Redis \<Rightarrow> bool" where
  "redis_isCreated rt inst \<longleftrightarrow> FindStatusCondition (mr_Conditions inst) (cond_Type (rt_Available rt)) \<noteq> None"

definition redis_compareZone :: "Redis \<Rightarrow> Redis \<Rightarrow> unit outcome" where
  "redis_compareZone old new = checkZone ''field is immutable after creation: %s (old), %s (changed)''
     (rdp_Zone (mr_ForProvider old)) (rdp_Zone (mr_ForProvider new))"

definition redis_compare :: "runtime_lib \<Rightarrow> Redis \<Rightarrow> Redis \<Rightarrow> unit outcome" where
  "redis_compare rt old new =
     (if \<not> redis_isCreated rt old then Ret ()
      else firstError [\<lambda>(old, new). redis_compareZone old new] (old, new))"

definition redis_ValidateUpdate :: "('v, 'c) libs \<Rightarrow> Redis obj \<Rightarrow> Redis obj \<Rightarrow> unit outcome" where
  "redis_ValidateUpdate lb oldObj newObj = (case newObj of
     Other t \<Rightarrow> assertPanic t
   | Typed newInstance \<Rightarrow> (case oldObj of
       Other t \<Rightarrow> assertPanic t
     | Typed oldInstance \<Rightarrow>
         bind_outcome (redis_validateSpec (lb_json lb) newInstance)
           (\<lambda>_. redis_compare (lb_runtime lb) oldInstance newInstance)))"

definition redis_ValidateDelete :: "Redis obj \<Rightarrow> unit outcome" where
  "redis_ValidateDelete ob = Ret ()"

section \<open>Frame\<close>

lemma steady_redis_settings [steady_intros]: "steady (\<lambda>s. f (fst s)) (redis_setSettingsDefaults lb api par)"
  unfolding redis_setSettingsDefaults_def redis_fetchSettingSchema_def by (intro steady_intros)

lemma steady_redis_connectionDetails [steady_intros]:
  "steady (\<lambda>s. f (fst s)) (redis_connectionDetails api svc)"
  unfolding redis_connectionDetails_def Let_def by (intro steady_intros)

lemma steady_redis_observeService [steady_intros]:
  "steady (\<lambda>s. resourceSpec (fst s)) (redis_observeService lb cd api inst svc)"
  unfolding redis_observeService_def by (intro steady_intros)

lemma redis_Observe_spec: "steady (\<lambda>s. map_obj resourceSpec (fst s)) (redis_Observe lb cd api)"
  unfolding redis_Observe_def by (intro steady_withTyped steady_intros)

lemma redis_Create_spec: "steady (\<lambda>s. map_obj resourceSpec (fst s)) (redis_Create rt cd api)"
  unfolding redis_Create_def by (intro steady_withTyped steady_intros)

lemma redis_Update_spec: "steady (\<lambda>s. map_obj resourceSpec (fst s)) (redis_Update rt cd api)"
  unfolding redis_Update_def by (intro steady_withTyped steady_intros)

lemma redis_Delete_spec: "steady (\<lambda>s. map_obj resourceSpec (fst s)) (redis_Delete rt api)"
  unfolding redis_Delete_def by (intro steady_withTyped steady_intros)

text \<open>A condition once set stays: what makes an instance count as created.\<close>

lemma keeps_redis_settings [keeps_intros]: "keeps P (redis_setSettingsDefaults lb api par)"
  unfolding redis_setSettingsDefaults_def redis_fetchSettingSchema_def by (intro keeps_intros)

lemma keeps_redis_connectionDetails [keeps_intros]: "keeps P (redis_connectionDetails api svc)"
  unfolding redis_connectionDetails_def Let_def by (intro keeps_intros)

lemma redis_conditions_kept:
  assumes "conditions_law (lb_runtime lb)"
  shows "keeps (obj_all (hasCondition ty)) (redis_Observe lb cd api)"
    "keeps (obj_all (hasCondition ty)) (redis_Create rt cd api)"
    "keeps (obj_all (hasCondition ty)) (redis_Update rt cd api)"
    "keeps (obj_all (hasCondition ty)) (redis_Delete rt api)"
  unfolding redis_Observe_def redis_observeService_def redis_Create_def redis_Update_def redis_Delete_def
  by (intro keeps_withTyped keeps_intros assms)+

section \<open>The webhook\<close>

definition redis_valid :: "json_lib \<Rightarrow> RedisParameters \<Rightarrow> bool" where
  "redis_valid js par \<longleftrightarrow> elems (dp_IPFilter (rdp_DBaaS par)) \<noteq> [] \<and> clockTime (ms_TimeOfDay (rdp_Maintenance par)) \<and>
     ValidateRawExtension js (rdp_RedisSettings par) = Ret ()"

lemma redis_validateSpec_iff: "redis_validateSpec js inst = Ret () \<longleftrightarrow> redis_valid js (mr_ForProvider inst)"
  unfolding redis_validateSpec_def firstError_Ret_iff
  by (simp add: redis_valid_def redis_validateIpFilter_def redis_validateMaintenanceSchedule_def
      redis_validateRedisSettings_def)

lemma redis_isCreated_iff: "redis_isCreated rt r \<longleftrightarrow> hasCondition (cond_Type (rt_Available rt)) r"
  by (simp add: redis_isCreated_def hasCondition_def FindStatusCondition_None_iff)

lemma redis_compare_iff:
  "redis_compare rt old new = Ret () \<longleftrightarrow>
     (redis_isCreated rt old \<longrightarrow> rdp_Zone (mr_ForProvider old) = rdp_Zone (mr_ForProvider new))"
  unfolding redis_compare_def by (simp add: firstError_Ret_iff redis_compareZone_def del: firstError.simps)

lemma redis_ValidateUpdate_iff:
  "redis_ValidateUpdate lb (Typed old) (Typed new) = Ret () \<longleftrightarrow>
     redis_valid (lb_json lb) (mr_ForProvider new) \<and>
     (redis_isCreated (lb_runtime lb) old \<longrightarrow> rdp_Zone (mr_ForProvider old) = rdp_Zone (mr_ForProvider new))"
  by (auto simp: redis_ValidateUpdate_def bind_unit_Ret_iff redis_validateSpec_iff redis_compare_iff)

interpretation rd: guarded_resource "redis_Observe lb cd api" "redis_Create (lb_runtime lb) cd api"
  "redis_Update (lb_runtime lb) cd api" "redis_Delete (lb_runtime lb) api" resourceSpec
  "\<lambda>old new. redis_ValidateUpdate lb (Typed old) (Typed new)" mr_Conditions
  "\<lambda>cs. cond_Type (rt_Available (lb_runtime lb)) \<in> cond_Type ` set cs"
  "\<lambda>r. rdp_Zone (mr_ForProvider r)" "\<lambda>r. redis_valid (lb_json lb) (mr_ForProvider r)"
  "\<lambda>(_, _, _, par). rdp_Zone par" "\<lambda>(_, _, _, par). redis_valid (lb_json lb) par"
  for lb :: "('v, 'c) libs" and cd :: "'s settings_codec" and api :: "('s, 'q, 'w) redis_api"
  by unfold_locales
    (auto simp: redis_Observe_spec redis_Create_spec redis_Update_spec redis_Delete_spec
      redis_ValidateUpdate_iff resourceSpec_def redis_isCreated_iff hasCondition_def)

section \<open>Comparison with the service\<close>

text \<open>A service that has taken over everything an update request says.\<close>

definition redis_reflects :: "'s RedisRequest \<Rightarrow> 's DBAASServiceRedis \<Rightarrow> bool" where
  "redis_reflects body svc \<longleftrightarrow>
     sv_Maintenance svc = Some (rdr_Maintenance body) \<and>
     sv_TerminationProtection svc = Some (rdr_TerminationProtection body) \<and>
     sv_Plan svc = rdr_Plan body \<and>
     set (elems (sv_IPFilter svc)) = set (elems (rdr_IPFilter body)) \<and>
     sv_Settings svc = rdr_RedisSettings body"

section \<open>Properties\<close>

text \<open>
  Once a Redis resource has a Ready condition, its zone never changes again, whatever updates users
  send and the reconciler does: the webhook refuses a change of the zone, no operation of the controller
  writes the specification, and none removes the condition by which the webhook recognises the resource as
  created. A specification that passes the checks passes them forever.
\<close>

theorem redis_zone_immutable:
  fixes lb :: "('v, 'c) libs" and cd :: "'s settings_codec" and api :: "('s, 'q, 'w) redis_api"
  assumes "evolves (\<lambda>old new. redis_ValidateUpdate lb (Typed old) (Typed new)) mr_Conditions
    (own_writes (redis_Observe lb cd api) (redis_Create (lb_runtime lb) cd api)
       (redis_Update (lb_runtime lb) cd api) (redis_Delete (lb_runtime lb) api)) x y"
    and "redis_isCreated (lb_runtime lb) x" and "conditions_law (lb_runtime lb)"
  shows "redis_isCreated (lb_runtime lb) y \<and> rdp_Zone (mr_ForProvider y) = rdp_Zone (mr_ForProvider x) \<and>
    (redis_valid (lb_json lb) (mr_ForProvider x) \<longrightarrow> redis_valid (lb_json lb) (mr_ForProvider y))"
proof -
  let ?ty = "cond_Type (rt_Available (lb_runtime lb))"
  have "?ty \<in> cond_Type ` set (mr_Conditions y) \<and> rdp_Zone (mr_ForProvider y) = rdp_Zone (mr_ForProvider x)"
  proof (rule rd.protected [OF assms(1)])
    show "?ty \<in> cond_Type ` set (mr_Conditions x)"
      using assms(2) by (simp add: redis_isCreated_iff hasCondition_def)
    fix s t
    assume w: "own_writes (redis_Observe lb cd api) (redis_Create (lb_runtime lb) cd api)
       (redis_Update (lb_runtime lb) cd api) (redis_Delete (lb_runtime lb) api) s t"
      and c: "?ty \<in> cond_Type ` set (mr_Conditions s)"
    have "hasCondition ?ty t"
      by (rule rd.own_writes_keeps [OF w])
        (use c in \<open>simp_all only: hasCondition_def redis_conditions_kept [OF assms(3), unfolded hasCondition_def]\<close>)
    then show "?ty \<in> cond_Type ` set (mr_Conditions t)" by (simp add: hasCondition_def)
  qed
  then show ?thesis
    using rd.always_valid [OF assms(1)] by (simp add: redis_isCreated_iff hasCondition_def)
qed

definition sampleRedis :: "Condition list \<Rightarrow> string list \<Rightarrow> Redis" where
  "sampleRedis cs ips = \<lparr>mr_Meta = sampleMeta, mr_ProviderConfigReference = Some ''cfg'',
     mr_WriteConnectionSecretToReference = None,
     mr_ForProvider = \<lparr>rdp_Maintenance = sampleMaintenance, rdp_Zone = ''ch-dk-2'',
       rdp_DBaaS = sampleDBaaS\<lparr>dp_IPFilter := Some ips\<rparr>, rdp_RedisSettings = []\<rparr>,
     mr_Conditions = cs,
     mr_AtProvider = \<lparr>rdo_Version = [], rdo_RedisSettings = [], rdo_NodeStates = [], rdo_Notifications = []\<rparr>\<rparr>"

definition sampleRedisService :: "string DBAASServiceRedis" where
  "sampleRedisService = \<lparr>sv_Name = ''db'', sv_State = StateRunning, sv_Plan = ''startup-4'',
     sv_IPFilter = Some [''10.0.0.0/8'', ''10.0.0.0/8''],
     sv_Maintenance = Some \<lparr>sdk_mt_Dow = ''monday'', sdk_mt_Time = ''04:30:00''\<rparr>,
     sv_TerminationProtection = Some True, sv_NodeStates = None, sv_Notifications = [], sv_Version = ''7'',
     sv_URI = [], sv_Settings = ''{}'', rds_ConnectionInfo = None\<rparr>"

lemmas redis_sample = sampleRedis_def sampleRedisService_def sample_defs

theorem redis_zone_immutable_witness:
  "\<exists>y. redis_ValidateUpdate sampleLibs (Typed (sampleRedis [Running sampleRuntime] [''10.0.0.0/8''])) (Typed y) = Ret () \<and>
     rdp_Zone (mr_ForProvider y) = ''ch-dk-2'' \<and> redis_isCreated sampleRuntime y"
proof -
  let ?x = "sampleRedis [Running sampleRuntime] [''10.0.0.0/8'']"
    and ?y = "sampleRedis [Running sampleRuntime] [''192.168.0.0/16'']"
  let ?api = "sampleApi sampleRedisService :: (string, unit, unit) redis_api"
  have adm: "redis_ValidateUpdate sampleLibs (Typed ?x) (Typed ?y) = Ret ()"
    by (simp add: redis_ValidateUpdate_iff redis_valid_def redis_sample clockTime_examples
        ValidateRawExtension_Ret_iff ToMap_def)
  have created: "redis_isCreated (lb_runtime sampleLibs) ?x"
    by (simp add: redis_isCreated_iff hasCondition_def sampleRedis_def sampleLibs_def Running_def)
  have "mr_Conditions ?y = mr_Conditions ?x" by (simp add: sampleRedis_def)
  with adm have "evolves (\<lambda>old new. redis_ValidateUpdate sampleLibs (Typed old) (Typed new)) mr_Conditions
      (own_writes (redis_Observe sampleLibs sampleCodec ?api) (redis_Create (lb_runtime sampleLibs) sampleCodec ?api)
         (redis_Update (lb_runtime sampleLibs) sampleCodec ?api) (redis_Delete (lb_runtime sampleLibs) ?api)) ?x ?y"
    by (blast intro: evolves.intros)
  from redis_zone_immutable [OF this created] adm show ?thesis
    by (auto simp: sampleRedis_def sampleLibs_def sampleRuntime_conditions)
qed

text \<open>
  The controller converges: after an update that the service has taken over (its IP filter perhaps in
  another order or with repetitions), and when the settings agree, the next observation finds the service
  up to date.
\<close>

theorem redis_update_converges:
  assumes "redis_updateBody cd par = Ret body" and "redis_reflects body svc"
    and "sc_Marshal cd (sv_Settings svc) = Inr raw"
    and "CompareSettings (lb_json lb) st raw = Ret True"
  shows "\<exists>ext. redis_mapParameters cd svc (rdp_Zone par) = Ret ext \<and>
    redis_isUpToDate lb (par\<lparr>rdp_RedisSettings := st\<rparr>) (Some ext) = Ret True"
proof -
  have b: "rdr_Maintenance body = \<lparr>sdk_mt_Dow = ms_DayOfWeek (rdp_Maintenance par),
       sdk_mt_Time = ms_TimeOfDay (rdp_Maintenance par)\<rparr>"
    "rdr_TerminationProtection body = dp_TerminationProtection (rdp_DBaaS par)"
    "rdr_Plan body = ss_Plan (dp_Size (rdp_DBaaS par))" "rdr_IPFilter body = dp_IPFilter (rdp_DBaaS par)"
    using assms(1) by (auto simp: redis_updateBody_def bind_outcome_Ret_iff)
  have "set (elems (sv_IPFilter svc)) = set (elems (dp_IPFilter (rdp_DBaaS par)))"
    using assms(2) b(4) by (simp add: redis_reflects_def)
  then show ?thesis
    using assms(2-4) b
    by (simp add: redis_mapParameters_def redis_reflects_def redis_isUpToDate_def SizeSpec_Equals_def
        IsSameStringSet_Some derefFalse_def)
qed

theorem redis_update_converges_witness:
  "\<exists>ext. redis_mapParameters sampleCodec sampleRedisService ''ch-dk-2'' = Ret ext \<and>
    redis_isUpToDate sampleLibs (mr_ForProvider (sampleRedis [] [''10.0.0.0/8''])) (Some ext) = Ret True"
proof -
  let ?par = "mr_ForProvider (sampleRedis [] [''10.0.0.0/8''])"
  have body: "redis_updateBody sampleCodec ?par = Ret \<lparr>rdr_IPFilter = Some [''10.0.0.0/8''],
      rdr_Maintenance = \<lparr>sdk_mt_Dow = ''monday'', sdk_mt_Time = ''04:30:00''\<rparr>, rdr_Plan = ''startup-4'',
      rdr_RedisSettings = ''{}'', rdr_TerminationProtection = True\<rparr>"
    by (simp add: redis_updateBody_def decodeSettings_def redis_sample)
  show ?thesis
    using redis_update_converges [OF body, where svc = sampleRedisService and lb = sampleLibs and raw = "''{}''" and st = "[]"]
    by (simp add: redis_reflects_def redis_sample CompareSettings_def ToMap_def)
qed

end
