(* ===== verification/OpenSearchController.thy ===== *)
theory OpenSearchController
  imports Dbaas
begin

text \<open>
  Package \<^verbatim>\<open>operator/opensearchcontroller\<close> with its types of \<^verbatim>\<open>apis/exoscale/v1/opensearch_types.go\<close>:
  connector, external client, settings and admission webhook of an OpenSearch service.
\<close>

section \<open>Types\<close>

record OpenSearchParameters =
  osp_Maintenance :: MaintenanceSpec
  osp_Backup :: BackupSpec
  osp_DBaaS :: DBaaSParameters
  osp_Zone :: Zone
  osp_MajorVersion :: string
  osp_OpenSearchSettings :: RawExtension

record OpenSearchObservation =
  oso_MajorVersion :: string
  oso_OpenSearchSettings :: RawExtension
  oso_NodeStates :: "NodeState list"
  oso_DBaaS :: DBaaSParameters
  oso_Notifications :: "Notification list"
  oso_Maintenance :: MaintenanceSpec

type_synonym OpenSearch = "(OpenSearchParameters, OpenSearchObservation) resource"

definition opensearch_GetInstanceName :: "runtime_lib \<Rightarrow> OpenSearch \<Rightarrow> string" where
  "opensearch_GetInstanceName rt inst = instanceName rt (mr_Meta inst)"

record OpenSearchConnectionInfo =
  osi_Username :: string
  osi_DashboardURI :: string

record 's DBAASServiceOpensearch = "'s DBAASService" +
  oss_ConnectionInfo :: "OpenSearchConnectionInfo option"
  oss_URIParams :: "goval gomap option"

record 's UpdateOpensearchRequest =
  osu_Maintenance :: DBAASServiceMaintenance
  osu_OpensearchSettings :: 's
  osu_Plan :: string
  osu_IPFilter :: "string slice"
  osu_TerminationProtection :: bool

record 's CreateOpensearchRequest = "'s UpdateOpensearchRequest" +
  osc_Version :: string

type_synonym ('s, 'q, 'w) opensearch_api =
  "('s DBAASServiceOpensearch, 's CreateOpensearchRequest, 's UpdateOpensearchRequest, 'q, 'w) dbaas_api"

section \<open>Connector\<close>

text \<open>\<^verbatim>\<open>GetProviderConfigReference().Name\<close> without a check for nil.\<close>

definition opensearch_Connect ::
  "('cl connectContext \<times> 'w) runner \<Rightarrow> 'w kube_lib \<Rightarrow> 'cl new_client \<Rightarrow> (OpenSearch obj \<times> 'w, 'cl option) act" where
  "opensearch_Connect run kb NewClient =
     withTyped assertPanic
       (andThen getObj (\<lambda>inst.
        andThen (lift (deref (mr_ProviderConfigReference inst))) (\<lambda>name.
        andThen (onWorld (OpenExoscaleClient run kb NewClient name
            [ClientOptWithEndpoint (ZoneTranslation (osp_Zone (mr_ForProvider inst)))])) (\<lambda>exo.
        ret (ec_Exoscale exo)))))"

section \<open>Settings\<close>

definition opensearch_fetchSettingSchema :: "('v, 'c) libs \<Rightarrow> ('s, 'q, 'w) opensearch_api \<Rightarrow> ('m \<times> 'w, schemas) act" where
  "opensearch_fetchSettingSchema lb api = fetchSchema lb api"

definition opensearch_setSettingsDefaults ::
  "('v, 'c) libs \<Rightarrow> ('s, 'q, 'w) opensearch_api \<Rightarrow> OpenSearchParameters \<Rightarrow> ('m \<times> 'w, OpenSearchParameters) act" where
  "opensearch_setSettingsDefaults lb api par =
     andThen (opensearch_fetchSettingSchema lb api) (\<lambda>s.
     andThen (lift (SetDefaults (lb_json lb) s ''opensearch'' (osp_OpenSearchSettings par))) (\<lambda>st.
     ret (par\<lparr>osp_OpenSearchSettings := st\<rparr>)))"

section \<open>Observe\<close>

definition emptyOpenSearchObservation :: OpenSearchObservation where
  "emptyOpenSearchObservation = \<lparr>oso_MajorVersion = [], oso_OpenSearchSettings = [], oso_NodeStates = [],
     oso_DBaaS = \<lparr>dp_TerminationProtection = False, dp_Size = \<lparr>ss_Plan = []\<rparr>, dp_IPFilter = None\<rparr>,
     oso_Notifications = [], oso_Maintenance = \<lparr>ms_DayOfWeek = [], ms_TimeOfDay = []\<rparr>\<rparr>"

definition opensearch_mapObservation ::
  "json_lib \<Rightarrow> 's settings_codec \<Rightarrow> 's DBAASServiceOpensearch \<Rightarrow> (OpenSearchObservation \<times> goerror option) outcome" where
  "opensearch_mapObservation js cd svc = (case sc_Marshal cd (sv_Settings svc) of
     Inl _ \<Rightarrow> Ret (emptyOpenSearchObservation, Some (Errorf ''error parsing OpenSearchSettings'' []))
   | Inr jsonSettings \<Rightarrow>
       bind_outcome (ToMaintenance (sv_Maintenance svc)) (\<lambda>maintenance.
       let observation = \<lparr>oso_MajorVersion = sv_Version svc, oso_OpenSearchSettings = jsonSettings,
             oso_NodeStates = ToNodeStates (sv_NodeStates svc),
             oso_DBaaS = ToDBaaSParameters (sv_TerminationProtection svc) (sv_Plan svc) (Some (sv_IPFilter svc)),
             oso_Notifications = [], oso_Maintenance = maintenance\<rparr>
       in (case ToNotifications js (sv_Notifications svc) of
             Fail e \<Rightarrow> Ret (observation, Some (Wrapf ''openSearchInstance notifications: %w'' [] e))
           | Panic p \<Rightarrow> Panic p
           | Ret notifications \<Rightarrow> Ret (observation\<lparr>oso_Notifications := notifications\<rparr>, None))))"

text \<open>The termination protection of the service is not read: the field keeps its zero value.\<close>

definition opensearch_mapParameters ::
  "'s settings_codec \<Rightarrow> 's DBAASServiceOpensearch \<Rightarrow> Zone \<Rightarrow> OpenSearchParameters outcome" where
  "opensearch_mapParameters cd svc zone =
     bind_outcome (wrap_outcome (Wrapf ''cannot parse openSearchInstance settings: %w'' [])
       (of_lib (sc_Marshal cd (sv_Settings svc)))) (\<lambda>jsonSettings.
     bind_outcome (deref (sv_Maintenance svc)) (\<lambda>mt.
     Ret \<lparr>osp_Maintenance = \<lparr>ms_DayOfWeek = sdk_mt_Dow mt, ms_TimeOfDay = sdk_mt_Time mt\<rparr>,
          osp_Backup = \<lparr>bs_TimeOfDay = []\<rparr>,
          osp_DBaaS = \<lparr>dp_TerminationProtection = False,
            dp_Size = \<lparr>ss_Plan = sv_Plan svc\<rparr>, dp_IPFilter = sv_IPFilter svc\<rparr>,
          osp_Zone = zone,
          osp_MajorVersion = [],
          osp_OpenSearchSettings = jsonSettings\<rparr>))"

text \<open>\<^verbatim>\<open>uriParams[key].(string)\<close>: a missing entry or one of another type panics.\<close>

definition uriParam :: "goval gomap option \<Rightarrow> string \<Rightarrow> string outcome" where
  "uriParam m k = (case getOr VNil (map_entries m) k of
     VStr v \<Rightarrow> Ret v
   | _ \<Rightarrow> Panic ''interface conversion: interface {} is not string'')"

definition opensearch_connectionDetails ::
  "('s, 'q, 'w) opensearch_api \<Rightarrow> 's DBAASServiceOpensearch \<Rightarrow> ('m \<times> 'w, ConnectionDetails) act" where
  "opensearch_connectionDetails api svc =
     andThen (lift (deref (oss_ConnectionInfo svc))) (\<lambda>info.
     andThen (wrapErr (Wrapf ''cannot reveal password for OpenSearch instance: %w'' [])
       (invoke (api_RevealUserPassword api (sv_Name svc) (osi_Username info)))) (\<lambda>password.
     andThen (lift (uriParam (oss_URIParams svc) ''host'')) (\<lambda>host.
     andThen (lift (uriParam (oss_URIParams svc) ''port'')) (\<lambda>port.
     ret [(''OPENSEARCH_USER'', osi_Username info),
          (''OPENSEARCH_PASSWORD'', password),
          (''OPENSEARCH_HOST'', host),
          (''OPENSEARCH_PORT'', port),
          (''OPENSEARCH_URI'', sv_URI svc),
          (''OPENSEARCH_DASHBOARD_URI'', osi_DashboardURI info)]))))"

definition opensearch_isUpToDate ::
  "('v, 'c) libs \<Rightarrow> OpenSearchParameters \<Rightarrow> OpenSearchParameters option \<Rightarrow> bool outcome" where
  "opensearch_isUpToDate lb current external = (case external of
     None \<Rightarrow> Ret False
   | Some ext \<Rightarrow>
       bind_outcome (CompareSettings (lb_json lb) (osp_OpenSearchSettings current) (osp_OpenSearchSettings ext)) (\<lambda>settings.
       Ret (allChecks
         [(''Maintenance'', MaintenanceSpec_Equals (osp_Maintenance current) (osp_Maintenance ext)),
          (''Zone'', osp_Zone current = osp_Zone ext),
          (''Size'', SizeSpec_Equals (dp_Size (osp_DBaaS current)) (dp_Size (osp_DBaaS ext))),
          (''IPFilter'', IsSameStringSet (dp_IPFilter (osp_DBaaS current)) (Some (dp_IPFilter (osp_DBaaS ext)))),
          (''OpenSearchSettings'', settings)] True)))"

text \<open>The part of \<^verbatim>\<open>Observe\<close> after the service was found.\<close>

definition opensearch_observeService ::
  "('v, 'c) libs \<Rightarrow> 's settings_codec \<Rightarrow> ('s, 'q, 'w) opensearch_api \<Rightarrow> OpenSearch \<Rightarrow> 's DBAASServiceOpensearch \<Rightarrow>
   (OpenSearch \<times> 'w, ExternalObservation) act" where
  "opensearch_observeService lb cd api inst svc =
     andThen (lift (opensearch_mapObservation (lb_json lb) cd svc)) (\<lambda>(obs, err).
     andThen (modifyObj (\<lambda>i. i\<lparr>mr_AtProvider := obs\<rparr>)) (\<lambda>_.
     andThen (modifyObj (setStateCondition (lb_runtime lb) (sv_State svc))) (\<lambda>_.
     andThen (wrapErr (Wrapf ''cannot parse connection details: %w'' []) (opensearch_connectionDetails api svc)) (\<lambda>conn.
     andThen (wrapErr (Wrapf ''cannot parse parameters: %w'' [])
       (lift (opensearch_mapParameters cd svc (osp_Zone (mr_ForProvider inst))))) (\<lambda>params.
     andThen (catch (opensearch_setSettingsDefaults lb api (mr_ForProvider inst))) (\<lambda>d.
     andThen (lift (opensearch_isUpToDate lb
         (case d of Inl _ \<Rightarrow> mr_ForProvider inst | Inr currentParams \<Rightarrow> currentParams) (Some params))) (\<lambda>up.
     ret \<lparr>eo_ResourceExists = True, eo_ResourceUpToDate = up, eo_ConnectionDetails = conn\<rparr>)))))))"

definition opensearch_Observe ::
  "('v, 'c) libs \<Rightarrow> 's settings_codec \<Rightarrow> ('s, 'q, 'w) opensearch_api \<Rightarrow> (OpenSearch obj \<times> 'w, ExternalObservation) act" where
  "opensearch_Observe lb cd api = withTyped assertPanic
     (andThen getObj (\<lambda>inst.
      lookupService (api_Get api (opensearch_GetInstanceName (lb_runtime lb) inst))
        (Wrapf ''cannot observe openSearchInstance: %w'' []) (opensearch_observeService lb cd api inst)))"

section \<open>Create, update, delete\<close>

definition opensearch_createBody :: "'s settings_codec \<Rightarrow> OpenSearchParameters \<Rightarrow> 's CreateOpensearchRequest outcome" where
  "opensearch_createBody cd spec =
     bind_outcome (wrap_outcome (Wrapf ''cannot map opensearchInstance settings: %w'' [])
       (decodeSettings cd (osp_OpenSearchSettings spec))) (\<lambda>settings.
     Ret \<lparr>osu_Maintenance = \<lparr>sdk_mt_Dow = ms_DayOfWeek (osp_Maintenance spec),
            sdk_mt_Time = ms_TimeOfDay (osp_Maintenance spec)\<rparr>,
          osu_OpensearchSettings = settings,
          osu_Plan = ss_Plan (dp_Size (osp_DBaaS spec)),
          osu_IPFilter = dp_IPFilter (osp_DBaaS spec),
          osu_TerminationProtection = dp_TerminationProtection (osp_DBaaS spec),
          osc_Version = osp_MajorVersion spec\<rparr>)"

definition opensearch_updateBody :: "'s settings_codec \<Rightarrow> OpenSearchParameters \<Rightarrow> 's UpdateOpensearchRequest outcome" where
  "opensearch_updateBody cd spec =
     bind_outcome (wrap_outcome (Wrapf ''cannot map opensearchInstance settings: %w'' [])
       (decodeSettings cd (osp_OpenSearchSettings spec))) (\<lambda>settings.
     Ret \<lparr>osu_Maintenance = \<lparr>sdk_mt_Dow = ms_DayOfWeek (osp_Maintenance spec),
            sdk_mt_Time = ms_TimeOfDay (osp_Maintenance spec)\<rparr>,
          osu_OpensearchSettings = settings,
          osu_Plan = ss_Plan (dp_Size (osp_DBaaS spec)),
          osu_IPFilter = dp_IPFilter (osp_DBaaS spec),
          osu_TerminationProtection = dp_TerminationProtection (osp_DBaaS spec)\<rparr>)"

definition opensearch_Create ::
  "runtime_lib \<Rightarrow> 's settings_codec \<Rightarrow> ('s, 'q, 'w) opensearch_api \<Rightarrow> (OpenSearch obj \<times> 'w, ExternalCreation) act" where
  "opensearch_Create rt cd api = withTyped assertPanic
     (andThen getObj (\<lambda>inst.
      andThen (lift (opensearch_createBody cd (mr_ForProvider inst))) (\<lambda>body.
      createService (api_Create api (opensearch_GetInstanceName rt inst) body)
        (Wrapf (''cannot create OpenSearch Instance: %v, '' @ CHR 0x0A # ''err: %w'')
          [opensearch_GetInstanceName rt inst]))))"

definition opensearch_Update ::
  "runtime_lib \<Rightarrow> 's settings_codec \<Rightarrow> ('s, 'q, 'w) opensearch_api \<Rightarrow> (OpenSearch obj \<times> 'w, ExternalUpdate) act" where
  "opensearch_Update rt cd api = withTyped assertPanic
     (andThen getObj (\<lambda>inst.
      andThen (lift (opensearch_updateBody cd (mr_ForProvider inst))) (\<lambda>body.
      andThen (invoke (api_Update api (opensearch_GetInstanceName rt inst) body)) (\<lambda>resp.
      andThen (logResponse resp) (\<lambda>_.
      ret ExternalUpdate)))))"

definition opensearch_Delete ::
  "runtime_lib \<Rightarrow> ('s, 'q, 'w) opensearch_api \<Rightarrow> (OpenSearch obj \<times> 'w, ExternalDelete) act" where
  "opensearch_Delete rt api = withTyped assertPanic
     (andThen getObj (\<lambda>inst.
      andThen (wrapErr (Wrapf ''cannot delete OpenSearch: %w'' [])
        (invoke (api_Delete api (opensearch_GetInstanceName rt inst)))) (\<lambda>resp.
      andThen (logResponse resp) (\<lambda>_.
      ret ExternalDelete))))"

definition opensearch_Disconnect :: "('s, unit) act" where
  "opensearch_Disconnect = ret ()"

section \<open>Webhook\<close>

definition opensearch_validateIpFilter :: "OpenSearchParameters \<Rightarrow> unit outcome" where
  "opensearch_validateIpFilter par = checkIpFilter (dp_IPFilter (osp_DBaaS par))"

definition opensearch_validateMaintenanceSchedule :: "OpenSearchParameters \<Rightarrow> unit outcome" where
  "opensearch_validateMaintenanceSchedule par = checkMaintenance (osp_Maintenance par)"

definition opensearch_validateSettings :: "json_lib \<Rightarrow> OpenSearchParameters \<Rightarrow> unit outcome" where
  "opensearch_validateSettings js par = ValidateRawExtension js (osp_OpenSearchSettings par)"

definition opensearch_validateSpec :: "json_lib \<Rightarrow> OpenSearch \<Rightarrow> unit outcome" where
  "opensearch_validateSpec js inst =
     firstError [opensearch_validateIpFilter, opensearch_validateMaintenanceSchedule, opensearch_validateSettings js]
       (mr_ForProvider inst)"

definition opensearch_getAvailableVersions ::
  "('cl connectContext \<times> 'w) runner \<Rightarrow> 'w kube_lib \<Rightarrow> 'cl new_client \<Rightarrow> ('cl \<Rightarrow> ('s, 'q, 'w) opensearch_api) \<Rightarrow>
   (OpenSearch obj \<times> 'w, string list) act" where
  "opensearch_getAvailableVersions run kb NewClient apiOf = withTyped assertPanic
     (andThen getObj (\<lambda>inst.
      andThen (lift (deref (mr_ProviderConfigReference inst))) (\<lambda>name.
      andThen (wrapErr (Wrapf ''open exoscale client failed: %w'' [])
        (onWorld (OpenExoscaleClient run kb NewClient name
            [ClientOptWithEndpoint (ZoneTranslation (osp_Zone (mr_ForProvider inst)))]))) (\<lambda>exo.
      andThen (lift (deref (ec_Exoscale exo))) (\<lambda>client.
      andThen (wrapErr (Wrapf ''get DBaaS service type failed: %w'' [])
        (invoke (api_GetServiceType (apiOf client) ''opensearch''))) (\<lambda>resp.
      case resp of
        None \<Rightarrow> fail (Errorf ''opensearch available versions not found'' [])
      | Some vs \<Rightarrow> ret vs))))))"

definition opensearch_validateVersion :: "string list \<Rightarrow> (OpenSearch obj \<times> 'w, unit) act" where
  "opensearch_validateVersion availableVersions = withTyped assertPanic
     (andThen getObj (\<lambda>inst. lift (ValidateVersions (osp_MajorVersion (mr_ForProvider inst)) availableVersions)))"

definition opensearch_ValidateCreate ::
  "('cl connectContext \<times> 'w) runner \<Rightarrow> 'w kube_lib \<Rightarrow> 'cl new_client \<Rightarrow> ('cl \<Rightarrow> ('s, 'q, 'w) opensearch_api) \<Rightarrow>
   json_lib \<Rightarrow> (OpenSearch obj \<times> 'w, unit) act" where
  "opensearch_ValidateCreate run kb NewClient apiOf js = (\<lambda>(ob, w). case ob of
     Other t \<Rightarrow> (Fail (Errorf ''invalid managed resource type %T for opensearch webhook'' [t]), (ob, w))
   | Typed inst \<Rightarrow>
       andThen (opensearch_getAvailableVersions run kb NewClient apiOf) (\<lambda>availableVersions.
       andThen (opensearch_validateVersion availableVersions) (\<lambda>_.
       lift (opensearch_validateSpec js inst))) (ob, w))"

definition opensearch_isCreated :: "runtime_lib \<Rightarrow> OpenSearch \<Rightarrow> bool" where
  "opensearch_isCreated rt inst \<longleftrightarrow> FindStatusCondition (mr_Conditions inst) (cond_Type (rt_Available rt)) \<noteq> None"

definition opensearch_compareZone :: "OpenSearch \<Rightarrow> OpenSearch \<Rightarrow> unit outcome" where
  "opensearch_compareZone old new = checkZone ''field is immutable after creation: %s (old), %s (changed)''
     (osp_Zone (mr_ForProvider old)) (osp_Zone (mr_ForProvider new))"

definition opensearch_compareVersion :: "('v, 'c) version_lib \<Rightarrow> OpenSearch \<Rightarrow> OpenSearch \<Rightarrow> unit outcome" where
  "opensearch_compareVersion vl old new =
     checkVersion vl (oso_MajorVersion (mr_AtProvider old)) (osp_MajorVersion (mr_ForProvider old))
       (osp_MajorVersion (mr_ForProvider new))"

definition opensearch_compare :: "('v, 'c) libs \<Rightarrow> OpenSearch \<Rightarrow> OpenSearch \<Rightarrow> unit outcome" where
  "opensearch_compare lb old new =
     (if \<not> opensearch_isCreated (lb_runtime lb) old then Ret ()
      else firstError [\<lambda>(old, new). opensearch_compareZone old new,
                       \<lambda>(old, new). opensearch_compareVersion (lb_version lb) old new] (old, new))"

definition opensearch_ValidateUpdate :: "('v, 'c) libs \<Rightarrow> OpenSearch obj \<Rightarrow> OpenSearch obj \<Rightarrow> unit outcome" where
  "opensearch_ValidateUpdate lb oldObj newObj = (case newObj of
     Other t \<Rightarrow> Fail (Errorf ''invalid managed resource type %T for opensearch webhook'' [t])
   | Typed newInstance \<Rightarrow> (case oldObj of
       Other t \<Rightarrow> Fail (Errorf ''invalid managed resource type %T for opensearch webhook'' [t])
     | Typed oldInstance \<Rightarrow>
         bind_outcome (opensearch_validateSpec (lb_json lb) newInstance)
           (\<lambda>_. opensearch_compare lb oldInstance newInstance)))"

definition opensearch_ValidateDelete :: "OpenSearch obj \<Rightarrow> unit outcome" where
  "opensearch_ValidateDelete ob = Ret ()"

section \<open>Frame\<close>

lemma steady_opensearch_settings [steady_intros]: "steady (\<lambda>s. f (fst s)) (opensearch_setSettingsDefaults lb api par)"
  unfolding opensearch_setSettingsDefaults_def opensearch_fetchSettingSchema_def by (intro steady_intros)

lemma steady_opensearch_connectionDetails [steady_intros]:
  "steady (\<lambda>s. f (fst s)) (opensearch_connectionDetails api svc)"
  unfolding opensearch_connectionDetails_def by (intro steady_intros)

lemma steady_opensearch_observeService [steady_intros]:
  "steady (\<lambda>s. resourceSpec (fst s)) (opensearch_observeService lb cd api inst svc)"
  unfolding opensearch_observeService_def by (intro steady_intros)

lemma opensearch_Observe_spec: "steady (\<lambda>s. map_obj resourceSpec (fst s)) (opensearch_Observe lb cd api)"
  unfolding opensearch_Observe_def by (intro steady_withTyped steady_intros)

lemma opensearch_Create_spec: "steady (\<lambda>s. map_obj resourceSpec (fst s)) (opensearch_Create rt cd api)"
  unfolding opensearch_Create_def by (intro steady_withTyped steady_intros)

lemma opensearch_Update_spec: "steady (\<lambda>s. map_obj resourceSpec (fst s)) (opensearch_Update rt cd api)"
  unfolding opensearch_Update_def by (intro steady_withTyped steady_intros)

lemma opensearch_Delete_spec: "steady (\<lambda>s. map_obj resourceSpec (fst s)) (opensearch_Delete rt api)"
  unfolding opensearch_Delete_def by (intro steady_withTyped steady_intros)

text \<open>A condition once set stays: what makes an instance count as created.\<close>

lemma keeps_opensearch_settings [keeps_intros]: "keeps P (opensearch_setSettingsDefaults lb api par)"
  unfolding opensearch_setSettingsDefaults_def opensearch_fetchSettingSchema_def by (intro keeps_intros)

lemma keeps_opensearch_connectionDetails [keeps_intros]: "keeps P (opensearch_connectionDetails api svc)"
  unfolding opensearch_connectionDetails_def by (intro keeps_intros)

lemma opensearch_conditions_kept:
  assumes "conditions_law (lb_runtime lb)"
  shows "keeps (obj_all (hasCondition ty)) (opensearch_Observe lb cd api)"
    "keeps (obj_all (hasCondition ty)) (opensearch_Create rt cd api)"
    "keeps (obj_all (hasCondition ty)) (opensearch_Update rt cd api)"
    "keeps (obj_all (hasCondition ty)) (opensearch_Delete rt api)"
  unfolding opensearch_Observe_def opensearch_observeService_def opensearch_Create_def opensearch_Update_def opensearch_Delete_def
  by (intro keeps_withTyped keeps_intros assms)+

section \<open>The webhook\<close>

definition opensearch_valid :: "json_lib \<Rightarrow> OpenSearchParameters \<Rightarrow> bool" where
  "opensearch_valid js par \<longleftrightarrow> elems (dp_IPFilter (osp_DBaaS par)) \<noteq> [] \<and> clockTime (ms_TimeOfDay (osp_Maintenance par)) \<and>
     ValidateRawExtension js (osp_OpenSearchSettings par) = Ret ()"

lemma opensearch_validateSpec_iff: "opensearch_validateSpec js inst = Ret () \<longleftrightarrow> opensearch_valid js (mr_ForProvider inst)"
  unfolding opensearch_validateSpec_def firstError_Ret_iff
  by (simp add: opensearch_valid_def opensearch_validateIpFilter_def opensearch_validateMaintenanceSchedule_def
      opensearch_validateSettings_def)

lemma opensearch_isCreated_iff: "opensearch_isCreated rt r \<longleftrightarrow> hasCondition (cond_Type (rt_Available rt)) r"
  by (simp add: opensearch_isCreated_def hasCondition_def FindStatusCondition_None_iff)

lemma opensearch_compare_iff:
  "opensearch_compare lb old new = Ret () \<longleftrightarrow>
     (opensearch_isCreated (lb_runtime lb) old \<longrightarrow> osp_Zone (mr_ForProvider old) = osp_Zone (mr_ForProvider new) \<and>
        opensearch_compareVersion (lb_version lb) old new = Ret ())"
  unfolding opensearch_compare_def by (simp add: firstError_Ret_iff opensearch_compareZone_def del: firstError.simps)

lemma opensearch_ValidateUpdate_iff:
  "opensearch_ValidateUpdate lb (Typed old) (Typed new) = Ret () \<longleftrightarrow>
     opensearch_valid (lb_json lb) (mr_ForProvider new) \<and>
     (opensearch_isCreated (lb_runtime lb) old \<longrightarrow> osp_Zone (mr_ForProvider old) = osp_Zone (mr_ForProvider new) \<and>
        opensearch_compareVersion (lb_version lb) old new = Ret ())"
  by (auto simp: opensearch_ValidateUpdate_def bind_unit_Ret_iff opensearch_validateSpec_iff opensearch_compare_iff)

interpretation opse: guarded_resource "opensearch_Observe lb cd api" "opensearch_Create (lb_runtime lb) cd api"
  "opensearch_Update (lb_runtime lb) cd api" "opensearch_Delete (lb_runtime lb) api" resourceSpec
  "\<lambda>old new. opensearch_ValidateUpdate lb (Typed old) (Typed new)" mr_Conditions
  "\<lambda>cs. cond_Type (rt_Available (lb_runtime lb)) \<in> cond_Type ` set cs"
  "\<lambda>r. osp_Zone (mr_ForProvider r)" "\<lambda>r. opensearch_valid (lb_json lb) (mr_ForProvider r)"
  "\<lambda>(_, _, _, par). osp_Zone par" "\<lambda>(_, _, _, par). opensearch_valid (lb_json lb) par"
  for lb :: "('v, 'c) libs" and cd :: "'s settings_codec" and api :: "('s, 'q, 'w) opensearch_api"
  by unfold_locales
    (auto simp: opensearch_Observe_spec opensearch_Create_spec opensearch_Update_spec opensearch_Delete_spec
      opensearch_ValidateUpdate_iff resourceSpec_def opensearch_isCreated_iff hasCondition_def)

section \<open>Properties\<close>

text \<open>
  Once an OpenSearch resource has a Ready condition, its zone never changes again and it keeps that
  condition, whatever updates users send and the reconciler does; a specification that passes the checks
  passes them forever.
\<close>

theorem opensearch_zone_immutable:
  fixes lb :: "('v, 'c) libs" and cd :: "'s settings_codec" and api :: "('s, 'q, 'w) opensearch_api"
  assumes "evolves (\<lambda>old new. opensearch_ValidateUpdate lb (Typed old) (Typed new)) mr_Conditions
    (own_writes (opensearch_Observe lb cd api) (opensearch_Create (lb_runtime lb) cd api)
       (opensearch_Update (lb_runtime lb) cd api) (opensearch_Delete (lb_runtime lb) api)) x y"
    and "opensearch_isCreated (lb_runtime lb) x" and "conditions_law (lb_runtime lb)"
  shows "opensearch_isCreated (lb_runtime lb) y \<and> osp_Zone (mr_ForProvider y) = osp_Zone (mr_ForProvider x) \<and>
    (opensearch_valid (lb_json lb) (mr_ForProvider x) \<longrightarrow> opensearch_valid (lb_json lb) (mr_ForProvider y))"
proof -
  let ?ty = "cond_Type (rt_Available (lb_runtime lb))"
  have "?ty \<in> cond_Type ` set (mr_Conditions y) \<and> osp_Zone (mr_ForProvider y) = osp_Zone (mr_ForProvider x)"
  proof (rule opse.protected [OF assms(1)])
    show "?ty \<in> cond_Type ` set (mr_Conditions x)"
      using assms(2) by (simp add: opensearch_isCreated_iff hasCondition_def)
    fix s t
    assume w: "own_writes (opensearch_Observe lb cd api) (opensearch_Create (lb_runtime lb) cd api)
       (opensearch_Update (lb_runtime lb) cd api) (opensearch_Delete (lb_runtime lb) api) s t"
      and c: "?ty \<in> cond_Type ` set (mr_Conditions s)"
    have "hasCondition ?ty t"
      by (rule opse.own_writes_keeps [OF w])
        (use c in \<open>simp_all only: hasCondition_def opensearch_conditions_kept [OF assms(3), unfolded hasCondition_def]\<close>)
    then show "?ty \<in> cond_Type ` set (mr_Conditions t)" by (simp add: hasCondition_def)
  qed
  then show ?thesis
    using opse.always_valid [OF assms(1)] by (simp add: opensearch_isCreated_iff hasCondition_def)
qed

definition sampleOpenSearch :: "Condition list \<Rightarrow> string list \<Rightarrow> OpenSearch" where
  "sampleOpenSearch cs ips = \<lparr>mr_Meta = sampleMeta, mr_ProviderConfigReference = None,
     mr_WriteConnectionSecretToReference = None,
     mr_ForProvider = \<lparr>osp_Maintenance = sampleMaintenance, osp_Backup = \<lparr>bs_TimeOfDay = []\<rparr>,
       osp_DBaaS = sampleDBaaS\<lparr>dp_IPFilter := Some ips\<rparr>, osp_Zone = ''ch-dk-2'', osp_MajorVersion = ''II'',
       osp_OpenSearchSettings = []\<rparr>,
     mr_Conditions = cs, mr_AtProvider = emptyOpenSearchObservation\<rparr>"

definition sampleOpenSearchService :: "string DBAASServiceOpensearch" where
  "sampleOpenSearchService = \<lparr>sv_Name = ''db'', sv_State = StateRunning, sv_Plan = ''startup-4'',
     sv_IPFilter = Some [''10.0.0.0/8''],
     sv_Maintenance = Some \<lparr>sdk_mt_Dow = ''monday'', sdk_mt_Time = ''04:30:00''\<rparr>,
     sv_TerminationProtection = Some False, sv_NodeStates = None, sv_Notifications = [], sv_Version = ''II'',
     sv_URI = [], sv_Settings = ''{}'',
     oss_ConnectionInfo = Some \<lparr>osi_Username = ''u'', osi_DashboardURI = []\<rparr>, oss_URIParams = None\<rparr>"

lemmas opensearch_sample = sampleOpenSearch_def sampleOpenSearchService_def sample_defs

theorem opensearch_zone_immutable_witness:
  "\<exists>y. opensearch_ValidateUpdate sampleLibs (Typed (sampleOpenSearch [Running sampleRuntime] [''10.0.0.0/8''])) (Typed y) = Ret () \<and>
     osp_Zone (mr_ForProvider y) = ''ch-dk-2'' \<and> opensearch_isCreated sampleRuntime y"
proof -
  let ?x = "sampleOpenSearch [Running sampleRuntime] [''10.0.0.0/8'']"
    and ?y = "sampleOpenSearch [Running sampleRuntime] [''192.168.0.0/16'']"
  let ?api = "sampleApi sampleOpenSearchService :: (string, unit, unit) opensearch_api"
  have adm: "opensearch_ValidateUpdate sampleLibs (Typed ?x) (Typed ?y) = Ret ()"
    by (simp add: opensearch_ValidateUpdate_iff opensearch_valid_def opensearch_sample clockTime_examples
        ValidateRawExtension_Ret_iff ToMap_def opensearch_compareVersion_def checkVersion_def)
  have created: "opensearch_isCreated (lb_runtime sampleLibs) ?x"
    by (simp add: opensearch_isCreated_iff hasCondition_def sampleOpenSearch_def sampleLibs_def Running_def)
  have "mr_Conditions ?y = mr_Conditions ?x" by (simp add: sampleOpenSearch_def)
  with adm have "evolves (\<lambda>old new. opensearch_ValidateUpdate sampleLibs (Typed old) (Typed new)) mr_Conditions
      (own_writes (opensearch_Observe sampleLibs sampleCodec ?api) (opensearch_Create (lb_runtime sampleLibs) sampleCodec ?api)
         (opensearch_Update (lb_runtime sampleLibs) sampleCodec ?api) (opensearch_Delete (lb_runtime sampleLibs) ?api)) ?x ?y"
    by (blast intro: evolves.intros)
  from opensearch_zone_immutable [OF this created] adm show ?thesis
    by (auto simp: sampleOpenSearch_def sampleLibs_def sampleRuntime_conditions)
qed

text \<open>
  The OpenSearch controller never notices a difference in termination protection: whatever the
  service has and whatever is desired, the comparison gives the same result. A service whose protection
  was switched off by hand, or a resource whose field was changed alone, is reported as up to date and
  not updated.
\<close>

theorem opensearch_termination_protection_ignored:
  assumes "opensearch_mapParameters cd svc zone = Ret ext"
  shows "opensearch_mapParameters cd (svc\<lparr>sv_TerminationProtection := tp\<rparr>) zone = Ret ext \<and>
    opensearch_isUpToDate lb (par\<lparr>osp_DBaaS := (osp_DBaaS par)\<lparr>dp_TerminationProtection := b\<rparr>\<rparr>) (Some ext) =
    opensearch_isUpToDate lb par (Some ext)"
  using assms by (simp add: opensearch_mapParameters_def opensearch_isUpToDate_def)

theorem opensearch_termination_protection_ignored_witness:
  "\<exists>ext. opensearch_mapParameters sampleCodec (sampleOpenSearchService\<lparr>sv_TerminationProtection := None\<rparr>) ''ch-dk-2'' = Ret ext"
proof -
  obtain ext where "opensearch_mapParameters sampleCodec sampleOpenSearchService ''ch-dk-2'' = Ret ext"
    by (simp add: opensearch_mapParameters_def opensearch_sample)
  then show ?thesis using opensearch_termination_protection_ignored by blast
qed

text \<open>
  Connecting an OpenSearch resource without a provider config reference panics before anything is
  read from the cluster, and so does the webhook that admits its creation.
\<close>

theorem opensearch_Connect_without_reference:
  assumes "mr_ProviderConfigReference inst = None"
  shows "panics (fst (opensearch_Connect run kb NewClient (Typed inst, w))) \<and>
    snd (opensearch_Connect run kb NewClient (Typed inst, w)) = (Typed inst, w) \<and>
    panics (fst (opensearch_ValidateCreate run kb NewClient apiOf js (Typed inst, w)))"
  using assms
  by (simp add: opensearch_Connect_def opensearch_ValidateCreate_def opensearch_getAvailableVersions_def
      typed_getObj_apply andThen_apply)

theorem opensearch_Connect_without_reference_witness:
  "panics (fst (opensearch_Connect (runSteps (\<lambda>n e. e)) (sampleKube []) (\<lambda>k s opts. Inr (k, s))
     (Typed (sampleOpenSearch [] []), ())))"
  by (rule opensearch_Connect_without_reference [THEN conjunct1]) (simp add: sampleOpenSearch_def)

end
