(* ===== verification/KafkaController.thy ===== *)
theory KafkaController
  imports Dbaas
begin

text \<open>
  Package \<^verbatim>\<open>operator/kafkacontroller\<close> with its types of \<^verbatim>\<open>apis/exoscale/v1/kafka_types.go\<close>: connector,
  external client, settings and admission webhook of a Kafka service. The comparison of structs by go-cmp
  is a parameter.
\<close>

section \<open>Types\<close>

record KafkaParameters =
  kfp_Maintenance :: MaintenanceSpec
  kfp_Zone :: Zone
  kfp_DBaaS :: DBaaSParameters
  kfp_Version :: string
  kfp_KafkaSettings :: RawExtension
  kfp_KafkaRestEnabled :: bool
  kfp_KafkaRestSettings :: RawExtension

record KafkaObservation =
  kfo_Version :: string
  kfo_KafkaSettings :: RawExtension
  kfo_KafkaRestEnabled :: bool
  kfo_KafkaRestSettings :: RawExtension
  kfo_NodeStates :: "NodeState list"
  kfo_Notifications :: "Notification list"

type_synonym Kafka = "(KafkaParameters, KafkaObservation) resource"

definition kafka_GetProviderConfigName :: "Kafka \<Rightarrow> string" where
  "kafka_GetProviderConfigName inst = refName (mr_ProviderConfigReference inst)"

definition kafka_GetInstanceName :: "runtime_lib \<Rightarrow> Kafka \<Rightarrow> string" where
  "kafka_GetInstanceName rt inst = instanceName rt (mr_Meta inst)"

record KafkaConnectionInfo =
  kfi_Nodes :: "string list"
  kfi_AccessCert :: string
  kfi_AccessKey :: string
  kfi_RestURI :: string

text \<open>Two structs of settings: \<open>'s\<close> of the broker, \<open>'r\<close> of the REST proxy.\<close>

record ('s, 'r) DBAASServiceKafka = "'s DBAASService" +
  kfs_ConnectionInfo :: "KafkaConnectionInfo option"
  kfs_URIParams :: "goval gomap option"
  kfs_KafkaRestEnabled :: "bool option"
  kfs_KafkaRestSettings :: 'r

record ('s, 'r) UpdateKafkaRequest =
  kfu_IPFilter :: "string slice"
  kfu_KafkaSettings :: 's
  kfu_Maintenance :: DBAASServiceMaintenance
  kfu_Plan :: string
  kfu_TerminationProtection :: bool
  kfu_KafkaRestEnabled :: bool
  kfu_KafkaRestSettings :: 'r

record ('s, 'r) CreateKafkaRequest = "('s, 'r) UpdateKafkaRequest" +
  kfc_Version :: string

type_synonym ('s, 'r, 'q, 'w) kafka_api =
  "(('s, 'r) DBAASServiceKafka, ('s, 'r) CreateKafkaRequest, ('s, 'r) UpdateKafkaRequest, 'q, 'w) dbaas_api"

text \<open>
  \<^verbatim>\<open>cmp.Equal\<close> on two parameter structs, given the comparer for raw settings; the comparer may panic.
\<close>

type_synonym kafka_cmp =
  "(RawExtension \<Rightarrow> RawExtension \<Rightarrow> bool outcome) \<Rightarrow> KafkaParameters \<Rightarrow> KafkaParameters \<Rightarrow> bool outcome"

section \<open>Connector\<close>

definition kafka_Connect ::
  "('cl connectContext \<times> 'w) runner \<Rightarrow> 'w kube_lib \<Rightarrow> 'cl new_client \<Rightarrow> (Kafka obj \<times> 'w, 'cl option) act" where
  "kafka_Connect run kb NewClient =
     withTyped (\<lambda>t. Fail (Errorf ''invalid managed resource type %T for kafka connector'' [t]))
       (andThen getObj (\<lambda>inst.
        andThen (onWorld (OpenExoscaleClient run kb NewClient (kafka_GetProviderConfigName inst)
            [ClientOptWithEndpoint (ZoneTranslation (kfp_Zone (mr_ForProvider inst)))])) (\<lambda>exo.
        ret (ec_Exoscale exo))))"

section \<open>Settings\<close>

definition kafka_fetchSettingSchema :: "('v, 'c) libs \<Rightarrow> ('s, 'r, 'q, 'w) kafka_api \<Rightarrow> ('m \<times> 'w, schemas) act" where
  "kafka_fetchSettingSchema lb api = fetchSchema lb api"

definition kafka_setSettingsDefaults ::
  "('v, 'c) libs \<Rightarrow> ('s, 'r, 'q, 'w) kafka_api \<Rightarrow> KafkaParameters \<Rightarrow> ('m \<times> 'w, KafkaParameters) act" where
  "kafka_setSettingsDefaults lb api par =
     andThen (kafka_fetchSettingSchema lb api) (\<lambda>s.
     andThen (lift (SetDefaults (lb_json lb) s ''kafka-rest'' (kfp_KafkaRestSettings par))) (\<lambda>rest.
     andThen (lift (SetDefaults (lb_json lb) s ''kafka'' (kfp_KafkaSettings par))) (\<lambda>st.
     ret (par\<lparr>kfp_KafkaRestSettings := rest, kfp_KafkaSettings := st\<rparr>))))"

section \<open>Observe\<close>

definition emptyKafkaObservation :: KafkaObservation where
  "emptyKafkaObservation = \<lparr>kfo_Version = [], kfo_KafkaSettings = [], kfo_KafkaRestEnabled = False,
     kfo_KafkaRestSettings = [], kfo_NodeStates = [], kfo_Notifications = []\<rparr>"

definition kafka_getObservation ::
  "json_lib \<Rightarrow> 's settings_codec \<Rightarrow> 'r settings_codec \<Rightarrow> ('s, 'r) DBAASServiceKafka \<Rightarrow>
   (KafkaObservation \<times> goerror option) outcome" where
  "kafka_getObservation js cd rcd svc = (case ToNotifications js (sv_Notifications svc) of
     Panic p \<Rightarrow> Panic p
   | Fail e \<Rightarrow> Ret (emptyKafkaObservation, Some (Wrapf ''error parsing notifications: %w'' [] e))
   | Ret notifications \<Rightarrow> (case sc_Marshal cd (sv_Settings svc) of
       Inl _ \<Rightarrow> Ret (emptyKafkaObservation, Some (Errorf ''error parsing KafkaSettings'' []))
     | Inr jsonSettings \<Rightarrow> (case sc_Marshal rcd (kfs_KafkaRestSettings svc) of
         Inl e \<Rightarrow> Ret (emptyKafkaObservation, Some (Wrapf ''error parsing kafka REST settings: %w'' [] (Lib e)))
       | Inr jsonRestSettings \<Rightarrow>
           Ret (\<lparr>kfo_Version = sv_Version svc, kfo_KafkaSettings = jsonSettings,
                 kfo_KafkaRestEnabled = derefFalse (kfs_KafkaRestEnabled svc),
                 kfo_KafkaRestSettings = jsonRestSettings,
                 kfo_NodeStates = ToNodeStates (sv_NodeStates svc), kfo_Notifications = notifications\<rparr>, None))))"

text \<open>An unknown state gives the zero value of a condition together with an error.\<close>

definition emptyCondition :: Condition where
  "emptyCondition = \<lparr>cond_Type = [], cond_Status = [], cond_Reason = [], cond_Message = [],
     cond_LastTransitionTime = 0\<rparr>"

definition kafka_getCondition ::
  "runtime_lib \<Rightarrow> ('s, 'r) DBAASServiceKafka \<Rightarrow> Condition \<times> goerror option" where
  "kafka_getCondition rt svc = (case sv_State svc of
     StateRunning \<Rightarrow> (Running rt, None)
   | StateRebuilding \<Rightarrow> (Rebuilding rt, None)
   | StatePoweroff \<Rightarrow> (PoweredOff rt, None)
   | StateRebalancing \<Rightarrow> (Rebalancing rt, None)
   | StateOther state \<Rightarrow> (emptyCondition, Some (Errorf ''unknown state %q'' [state])))"

text \<open>\<^verbatim>\<open>host, _ = uriParams["host"].(string)\<close>: anything but a string reads as the empty string.\<close>

definition kafka_uriParam :: "goval gomap option \<Rightarrow> string \<Rightarrow> string" where
  "kafka_uriParam m k = (case getOr VNil (map_entries m) k of VStr v \<Rightarrow> v | _ \<Rightarrow> [])"

definition kafka_getConnectionDetails ::
  "('s, 'r) DBAASServiceKafka \<Rightarrow> string \<Rightarrow> ConnectionDetails outcome" where
  "kafka_getConnectionDetails svc ca = (case kfs_ConnectionInfo svc of
     None \<Rightarrow> Fail (Errorf ''no connection details'' [])
   | Some info \<Rightarrow>
       if kfi_AccessCert info = [] then Fail (Errorf ''no certificate returned'' [])
       else if kfi_AccessKey info = [] then Fail (Errorf ''no key returned'' [])
       else if sv_URI svc = [] then Fail (Errorf ''no URI returned'' [])
       else
         (let details =
            [(''KAFKA_URI'', sv_URI svc),
             (''KAFKA_HOST'', kafka_uriParam (kfs_URIParams svc) ''host''),
             (''KAFKA_PORT'', kafka_uriParam (kfs_URIParams svc) ''port''),
             (''KAFKA_NODES'', Join (kfi_Nodes info) '' ''),
             (''service.cert'', kfi_AccessCert info),
             (''service.key'', kfi_AccessKey info),
             (''ca.crt'', ca)]
          in Ret (if derefFalse (kfs_KafkaRestEnabled svc) \<and> kfi_RestURI info \<noteq> []
                  then details @ [(''KAFKA_REST_URI'', kfi_RestURI info)] else details)))"

definition kafka_diffParameters ::
  "('v, 'c) libs \<Rightarrow> kafka_cmp \<Rightarrow> 's settings_codec \<Rightarrow> 'r settings_codec \<Rightarrow> ('s, 'r) DBAASServiceKafka \<Rightarrow>
   KafkaParameters \<Rightarrow> bool outcome" where
  "kafka_diffParameters lb cmpEqual cd rcd svc expected =
    (let actualIPFilter = (case sv_IPFilter svc of None \<Rightarrow> Some [] | Some ips \<Rightarrow> Some ips) in
     case sc_Marshal cd (sv_Settings svc) of
     Inl _ \<Rightarrow> Ret False
   | Inr jsonKafkaSettings \<Rightarrow> (case sc_Marshal rcd (kfs_KafkaRestSettings svc) of
       Inl _ \<Rightarrow> Ret False
     | Inr jsonKafkaRestSettings \<Rightarrow>
         bind_outcome (deref (sv_Maintenance svc)) (\<lambda>mt.
         cmpEqual (CompareSettings (lb_json lb)) expected
           \<lparr>kfp_Maintenance = \<lparr>ms_DayOfWeek = sdk_mt_Dow mt, ms_TimeOfDay = sdk_mt_Time mt\<rparr>,
            kfp_Zone = kfp_Zone expected,
            kfp_DBaaS = ToDBaaSParameters (sv_TerminationProtection svc) (sv_Plan svc) (Some actualIPFilter),
            kfp_Version = kfp_Version expected,
            kfp_KafkaSettings = jsonKafkaSettings,
            kfp_KafkaRestEnabled = derefFalse (kfs_KafkaRestEnabled svc),
            kfp_KafkaRestSettings = jsonKafkaRestSettings\<rparr>)))"

definition kafka_badType :: "string \<Rightarrow> 'b outcome" where
  "kafka_badType t = Fail (Errorf ''invalid managed resource type %T for kafka connection'' [t])"

text \<open>The part of \<^verbatim>\<open>Observe\<close> after the service was found.\<close>

definition kafka_observeService ::
  "('v, 'c) libs \<Rightarrow> kafka_cmp \<Rightarrow> 's settings_codec \<Rightarrow> 'r settings_codec \<Rightarrow> ('s, 'r, 'q, 'w) kafka_api \<Rightarrow> Kafka \<Rightarrow>
   ('s, 'r) DBAASServiceKafka \<Rightarrow> (Kafka \<times> 'w, ExternalObservation) act" where
  "kafka_observeService lb cmpEqual cd rcd api inst res =
     andThen (lift (kafka_getObservation (lb_json lb) cd rcd res)) (\<lambda>(obs, err).
     andThen (modifyObj (\<lambda>i. i\<lparr>mr_AtProvider := obs\<rparr>)) (\<lambda>_.
     andThen (modifyObj (set_condition (lb_runtime lb) (fst (kafka_getCondition (lb_runtime lb) res)))) (\<lambda>_.
     andThen (wrapErr (Wrapf ''cannot retrieve CA certificate: %w'' []) (invoke (api_GetCACertificate api))) (\<lambda>caCert.
     andThen (wrapErr (Wrapf ''failed to get kafka connection details: %w'' [])
       (lift (kafka_getConnectionDetails res caCert))) (\<lambda>connDetails.
     andThen (catch (kafka_setSettingsDefaults lb api (mr_ForProvider inst))) (\<lambda>d.
     andThen (lift (kafka_diffParameters lb cmpEqual cd rcd res
         (case d of Inl _ \<Rightarrow> mr_ForProvider inst | Inr currentParams \<Rightarrow> currentParams))) (\<lambda>upToDate.
     ret \<lparr>eo_ResourceExists = True, eo_ResourceUpToDate = upToDate, eo_ConnectionDetails = connDetails\<rparr>)))))))"

definition kafka_Observe ::
  "('v, 'c) libs \<Rightarrow> kafka_cmp \<Rightarrow> 's settings_codec \<Rightarrow> 'r settings_codec \<Rightarrow> ('s, 'r, 'q, 'w) kafka_api \<Rightarrow>
   (Kafka obj \<times> 'w, ExternalObservation) act" where
  "kafka_Observe lb cmpEqual cd rcd api = withTyped kafka_badType
     (andThen getObj (\<lambda>inst.
      lookupService (api_Get api (kafka_GetInstanceName (lb_runtime lb) inst)) (\<lambda>e. e)
        (kafka_observeService lb cmpEqual cd rcd api inst)))"

section \<open>Create, update, delete\<close>

definition kafka_createBody ::
  "'s settings_codec \<Rightarrow> 'r settings_codec \<Rightarrow> KafkaParameters \<Rightarrow> ('s, 'r) CreateKafkaRequest outcome" where
  "kafka_createBody cd rcd spec =
     bind_outcome (wrap_outcome (Wrapf ''cannot map kafkaInstance settings: %w'' [])
       (decodeSettings cd (kfp_KafkaSettings spec))) (\<lambda>settings.
     bind_outcome (wrap_outcome (Wrapf ''invalid kafka rest settings: %w'' [])
       (decodeSettings rcd (kfp_KafkaRestSettings spec))) (\<lambda>restSettings.
     Ret \<lparr>kfu_IPFilter = dp_IPFilter (kfp_DBaaS spec),
          kfu_KafkaSettings = settings,
          kfu_Maintenance = \<lparr>sdk_mt_Dow = ms_DayOfWeek (kfp_Maintenance spec),
            sdk_mt_Time = ms_TimeOfDay (kfp_Maintenance spec)\<rparr>,
          kfu_Plan = ss_Plan (dp_Size (kfp_DBaaS spec)),
          kfu_TerminationProtection = dp_TerminationProtection (kfp_DBaaS spec),
          kfu_KafkaRestEnabled = kfp_KafkaRestEnabled spec,
          kfu_KafkaRestSettings = restSettings,
          kfc_Version = kfp_Version spec\<rparr>))"

definition kafka_updateBody ::
  "'s settings_codec \<Rightarrow> 'r settings_codec \<Rightarrow> KafkaParameters \<Rightarrow> ('s, 'r) UpdateKafkaRequest outcome" where
  "kafka_updateBody cd rcd spec =
     bind_outcome (wrap_outcome (Wrapf ''cannot map kafkaInstance settings: %w'' [])
       (decodeSettings cd (kfp_KafkaSettings spec))) (\<lambda>settings.
     bind_outcome (wrap_outcome (Wrapf ''invalid kafka rest settings: %w'' [])
       (decodeSettings rcd (kfp_KafkaRestSettings spec))) (\<lambda>restSettings.
     Ret \<lparr>kfu_IPFilter = dp_IPFilter (kfp_DBaaS spec),
          kfu_KafkaSettings = settings,
          kfu_Maintenance = \<lparr>sdk_mt_Dow = ms_DayOfWeek (kfp_Maintenance spec),
            sdk_mt_Time = ms_TimeOfDay (kfp_Maintenance spec)\<rparr>,
          kfu_Plan = ss_Plan (dp_Size (kfp_DBaaS spec)),
          kfu_TerminationProtection = dp_TerminationProtection (kfp_DBaaS spec),
          kfu_KafkaRestEnabled = kfp_KafkaRestEnabled spec,
          kfu_KafkaRestSettings = restSettings\<rparr>))"

definition kafka_Create ::
  "runtime_lib \<Rightarrow> 's settings_codec \<Rightarrow> 'r settings_codec \<Rightarrow> ('s, 'r, 'q, 'w) kafka_api \<Rightarrow>
   (Kafka obj \<times> 'w, ExternalCreation) act" where
  "kafka_Create rt cd rcd api = withTyped kafka_badType
     (andThen getObj (\<lambda>inst.
      andThen (lift (kafka_createBody cd rcd (mr_ForProvider inst))) (\<lambda>body.
      createService (api_Create api (kafka_GetInstanceName rt inst) body)
        (Wrapf ''unable to create instance: %w'' []))))"

definition kafka_Update ::
  "runtime_lib \<Rightarrow> 's settings_codec \<Rightarrow> 'r settings_codec \<Rightarrow> ('s, 'r, 'q, 'w) kafka_api \<Rightarrow>
   (Kafka obj \<times> 'w, ExternalUpdate) act" where
  "kafka_Update rt cd rcd api = withTyped kafka_badType
     (andThen getObj (\<lambda>inst.
      andThen (lift (kafka_updateBody cd rcd (mr_ForProvider inst))) (\<lambda>body.
      andThen (wrapErr (Wrapf ''unable to update instance: %w'' [])
        (invoke (api_Update api (kafka_GetInstanceName rt inst) body))) (\<lambda>resp.
      andThen (logResponse resp) (\<lambda>_.
      ret ExternalUpdate)))))"

definition kafka_Delete ::
  "runtime_lib \<Rightarrow> ('s, 'r, 'q, 'w) kafka_api \<Rightarrow> (Kafka obj \<times> 'w, ExternalDelete) act" where
  "kafka_Delete rt api = withTyped kafka_badType
     (andThen getObj (\<lambda>inst.
      andThen (attempt (api_Delete api (kafka_GetInstanceName rt inst))) (\<lambda>r. case r of
        Inl err \<Rightarrow> (if le_notfound err then ret ExternalDelete
                    else fail (Wrapf ''cannot delete kafka instance: %w'' [] (Lib err)))
      | Inr resp \<Rightarrow> andThen (logResponse resp) (\<lambda>_. ret ExternalDelete))))"

definition kafka_Disconnect :: "('s, unit) act" where
  "kafka_Disconnect = ret ()"

section \<open>Webhook\<close>

definition kafka_validateIpFilter :: "KafkaParameters \<Rightarrow> unit outcome" where
  "kafka_validateIpFilter par = checkIpFilter (dp_IPFilter (kfp_DBaaS par))"

definition kafka_validateMaintenanceSchedule :: "KafkaParameters \<Rightarrow> unit outcome" where
  "kafka_validateMaintenanceSchedule par = checkMaintenance (kfp_Maintenance par)"

definition kafka_validateKafkaSettings :: "json_lib \<Rightarrow> KafkaParameters \<Rightarrow> unit outcome" where
  "kafka_validateKafkaSettings js par = ValidateRawExtension js (kfp_KafkaSettings par)"

definition kafka_validateSpec :: "json_lib \<Rightarrow> KafkaParameters \<Rightarrow> unit outcome" where
  "kafka_validateSpec js par =
     bind_outcome (kafka_validateIpFilter par) (\<lambda>_.
     bind_outcome (kafka_validateMaintenanceSchedule par) (\<lambda>_.
     kafka_validateKafkaSettings js par))"

definition kafka_getAvailableVersions :: "('s, 'r, 'q, 'w) kafka_api \<Rightarrow> ('m \<times> 'w, string list) act" where
  "kafka_getAvailableVersions exo =
     andThen (wrapErr (Wrapf ''get DBaaS service type failed: %w'' []) (invoke (api_GetServiceType exo ''kafka''))) (\<lambda>resp.
     case resp of
       None \<Rightarrow> fail (Errorf ''kafka available versions not found'' [])
     | Some vs \<Rightarrow> ret vs)"

definition kafka_validateVersion :: "Kafka \<Rightarrow> string list \<Rightarrow> unit outcome" where
  "kafka_validateVersion inst availableVersions = ValidateVersions (kfp_Version (mr_ForProvider inst)) availableVersions"

text \<open>The version is checked only when one is given; the error text lists the versions on offer.\<close>

definition kafka_validateCreateWithExoClient ::
  "json_lib \<Rightarrow> ('s, 'r, 'q, 'w) kafka_api \<Rightarrow> (Kafka obj \<times> 'w, unit) act" where
  "kafka_validateCreateWithExoClient js exo =
     withTyped (\<lambda>t. Fail (Errorf ''invalid managed resource type %T for kafka webhook'' [t]))
     (andThen getObj (\<lambda>inst.
      andThen (if kfp_Version (mr_ForProvider inst) \<noteq> [] then
          andThen (kafka_getAvailableVersions exo) (\<lambda>availableVersions.
          wrapErr (Wrapf ''invalid version, allowed versions are %v: %w'' availableVersions)
            (lift (kafka_validateVersion inst availableVersions)))
        else ret ()) (\<lambda>_.
      lift (kafka_validateSpec js (mr_ForProvider inst)))))"

definition kafka_ValidateCreate ::
  "('cl connectContext \<times> 'w) runner \<Rightarrow> 'w kube_lib \<Rightarrow> 'cl new_client \<Rightarrow> ('cl \<Rightarrow> ('s, 'r, 'q, 'w) kafka_api) \<Rightarrow>
   json_lib \<Rightarrow> (Kafka obj \<times> 'w, unit) act" where
  "kafka_ValidateCreate run kb NewClient apiOf js =
     andThen (withTyped assertPanic (andThen getObj (\<lambda>inst.
       andThen (wrapErr (Wrapf ''open exoscale client failed: %w'' [])
         (onWorld (OpenExoscaleClient run kb NewClient (kafka_GetProviderConfigName inst)
           [ClientOptWithEndpoint (ZoneTranslation (kfp_Zone (mr_ForProvider inst)))]))) (\<lambda>exo.
       lift (deref (ec_Exoscale exo)))))) (\<lambda>client.
     kafka_validateCreateWithExoClient js (apiOf client))"

definition kafka_compareZone :: "KafkaParameters \<Rightarrow> KafkaParameters \<Rightarrow> unit outcome" where
  "kafka_compareZone oldParams newParams =
     checkZone ''field is immutable: %s (old), %s (changed)'' (kfp_Zone oldParams) (kfp_Zone newParams)"

definition kafka_compareVersion :: "('v, 'c) version_lib \<Rightarrow> Kafka \<Rightarrow> Kafka \<Rightarrow> unit outcome" where
  "kafka_compareVersion vl oldInst newInst =
     checkVersion vl (kfo_Version (mr_AtProvider oldInst)) (kfp_Version (mr_ForProvider oldInst))
       (kfp_Version (mr_ForProvider newInst))"

definition kafka_validateImmutable :: "('v, 'c) version_lib \<Rightarrow> Kafka \<Rightarrow> Kafka \<Rightarrow> unit outcome" where
  "kafka_validateImmutable vl oldInst newInst =
     bind_outcome (kafka_compareZone (mr_ForProvider oldInst) (mr_ForProvider newInst))
       (\<lambda>_. kafka_compareVersion vl oldInst newInst)"

definition kafka_ValidateUpdate :: "('v, 'c) libs \<Rightarrow> Kafka obj \<Rightarrow> Kafka obj \<Rightarrow> unit outcome" where
  "kafka_ValidateUpdate lb oldObj newObj = (case newObj of
     Other t \<Rightarrow> Fail (Errorf ''invalid managed resource type %T for kafka webhook'' [t])
   | Typed newInstance \<Rightarrow> (case oldObj of
       Other t \<Rightarrow> Fail (Errorf ''invalid managed resource type %T for kafka webhook'' [t])
     | Typed oldInstance \<Rightarrow>
         bind_outcome (kafka_validateSpec (lb_json lb) (mr_ForProvider newInstance))
           (\<lambda>_. kafka_validateImmutable (lb_version lb) oldInstance newInstance)))"

definition kafka_ValidateDelete :: "Kafka obj \<Rightarrow> unit outcome" where
  "kafka_ValidateDelete ob = Ret ()"

section \<open>Frame\<close>

lemma steady_kafka_settings [steady_intros]: "steady (\<lambda>s. f (fst s)) (kafka_setSettingsDefaults lb api par)"
  unfolding kafka_setSettingsDefaults_def kafka_fetchSettingSchema_def by (intro steady_intros)

lemma steady_kafka_observeService [steady_intros]:
  "steady (\<lambda>s. resourceSpec (fst s)) (kafka_observeService lb cmpEqual cd rcd api inst svc)"
  unfolding kafka_observeService_def by (intro steady_intros)

lemma kafka_Observe_spec: "steady (\<lambda>s. map_obj resourceSpec (fst s)) (kafka_Observe lb cmpEqual cd rcd api)"
  unfolding kafka_Observe_def by (intro steady_withTyped steady_intros)

lemma kafka_Create_spec: "steady (\<lambda>s. map_obj resourceSpec (fst s)) (kafka_Create rt cd rcd api)"
  unfolding kafka_Create_def by (intro steady_withTyped steady_intros)

lemma kafka_Update_spec: "steady (\<lambda>s. map_obj resourceSpec (fst s)) (kafka_Update rt cd rcd api)"
  unfolding kafka_Update_def by (intro steady_withTyped steady_intros)

lemma kafka_Delete_spec: "steady (\<lambda>s. map_obj resourceSpec (fst s)) (kafka_Delete rt api)"
  unfolding kafka_Delete_def by (intro steady_withTyped steady_intros)

section \<open>The webhook\<close>

definition kafka_valid :: "json_lib \<Rightarrow> KafkaParameters \<Rightarrow> bool" where
  "kafka_valid js par \<longleftrightarrow> elems (dp_IPFilter (kfp_DBaaS par)) \<noteq> [] \<and> clockTime (ms_TimeOfDay (kfp_Maintenance par)) \<and>
     ValidateRawExtension js (kfp_KafkaSettings par) = Ret ()"

lemma kafka_validateSpec_iff: "kafka_validateSpec js par = Ret () \<longleftrightarrow> kafka_valid js par"
  by (simp add: kafka_validateSpec_def kafka_valid_def kafka_validateIpFilter_def bind_unit_Ret_iff
      kafka_validateMaintenanceSchedule_def kafka_validateKafkaSettings_def)

lemma kafka_ValidateUpdate_iff:
  "kafka_ValidateUpdate lb (Typed old) (Typed new) = Ret () \<longleftrightarrow>
     kafka_valid (lb_json lb) (mr_ForProvider new) \<and>
     kfp_Zone (mr_ForProvider old) = kfp_Zone (mr_ForProvider new) \<and>
     kafka_compareVersion (lb_version lb) old new = Ret ()"
  by (auto simp: kafka_ValidateUpdate_def kafka_validateImmutable_def kafka_compareZone_def bind_unit_Ret_iff
      kafka_validateSpec_iff)

interpretation kf: guarded_resource "kafka_Observe lb cmpEqual cd rcd api" "kafka_Create (lb_runtime lb) cd rcd api"
  "kafka_Update (lb_runtime lb) cd rcd api" "kafka_Delete (lb_runtime lb) api" resourceSpec
  "\<lambda>old new. kafka_ValidateUpdate lb (Typed old) (Typed new)" mr_AtProvider "\<lambda>_. True"
  "\<lambda>r. kfp_Zone (mr_ForProvider r)" "\<lambda>r. kafka_valid (lb_json lb) (mr_ForProvider r)"
  "\<lambda>(_, _, _, par). kfp_Zone par" "\<lambda>(_, _, _, par). kafka_valid (lb_json lb) par"
  for lb :: "('v, 'c) libs" and cmpEqual and cd :: "'s settings_codec" and rcd :: "'r settings_codec"
    and api :: "('s, 'r, 'q, 'w) kafka_api"
  by unfold_locales
    (auto simp: kafka_Observe_spec kafka_Create_spec kafka_Update_spec kafka_Delete_spec
      kafka_ValidateUpdate_iff resourceSpec_def)

section \<open>Comparison with the service\<close>

text \<open>
  What go-cmp documents of \<^verbatim>\<open>Equal\<close> on these structs: the fields are compared one by one, raw settings with
  the comparer, slices element by element, and a nil slice is not equal to an empty one. The comparer has to be total and symmetric.
\<close>

definition cmp_law :: "kafka_cmp \<Rightarrow> bool" where
  "cmp_law cmpEqual \<longleftrightarrow> (\<forall>f a b s r.
     f (kfp_KafkaSettings a) (kfp_KafkaSettings b) = Ret s \<longrightarrow> f (kfp_KafkaSettings b) (kfp_KafkaSettings a) = Ret s \<longrightarrow>
     f (kfp_KafkaRestSettings a) (kfp_KafkaRestSettings b) = Ret r \<longrightarrow>
     f (kfp_KafkaRestSettings b) (kfp_KafkaRestSettings a) = Ret r \<longrightarrow>
     cmpEqual f a b = Ret (s \<and> r \<and> kfp_Maintenance a = kfp_Maintenance b \<and> kfp_Zone a = kfp_Zone b \<and>
       kfp_DBaaS a = kfp_DBaaS b \<and> kfp_Version a = kfp_Version b \<and>
       kfp_KafkaRestEnabled a = kfp_KafkaRestEnabled b))"

text \<open>A comparison with this law, for the closed examples.\<close>

definition fieldwiseCmp :: kafka_cmp where
  "fieldwiseCmp f a b =
     bind_outcome (f (kfp_KafkaSettings a) (kfp_KafkaSettings b)) (\<lambda>s.
     bind_outcome (f (kfp_KafkaRestSettings a) (kfp_KafkaRestSettings b)) (\<lambda>r.
     Ret (s \<and> r \<and> kfp_Maintenance a = kfp_Maintenance b \<and> kfp_Zone a = kfp_Zone b \<and> kfp_DBaaS a = kfp_DBaaS b \<and>
       kfp_Version a = kfp_Version b \<and> kfp_KafkaRestEnabled a = kfp_KafkaRestEnabled b)))"

lemma fieldwiseCmp_law: "cmp_law fieldwiseCmp"
  by (simp add: cmp_law_def fieldwiseCmp_def)

lemma actualIPFilter_eq: "(case ips of None \<Rightarrow> Some [] | Some xs \<Rightarrow> Some xs) = Some (elems ips)"
  by (cases ips) simp_all

lemma DBaaSParameters_eq_iff:
  "(d :: DBaaSParameters) = ToDBaaSParameters tp plan (Some ips) \<longleftrightarrow>
     dp_TerminationProtection d = derefFalse tp \<and> ss_Plan (dp_Size d) = plan \<and> dp_IPFilter d = ips"
  by (cases d; cases "dp_Size d") (auto simp: ToDBaaSParameters_def ToSlice_def derefFalse_def split: option.splits)

section \<open>Properties\<close>

text \<open>
  In whatever order users send updates, the reconciler works and the cloud changes, the zone of a Kafka
  resource stays what it was, and a specification that passes the checks of the webhook passes them forever.
\<close>

theorem kafka_zone_immutable:
  fixes lb :: "('v, 'c) libs" and api :: "('s, 'r, 'q, 'w) kafka_api"
  assumes "evolves (\<lambda>old new. kafka_ValidateUpdate lb (Typed old) (Typed new)) mr_AtProvider
    (own_writes (kafka_Observe lb cmpEqual cd rcd api) (kafka_Create (lb_runtime lb) cd rcd api)
       (kafka_Update (lb_runtime lb) cd rcd api) (kafka_Delete (lb_runtime lb) api)) x y"
  shows "kfp_Zone (mr_ForProvider y) = kfp_Zone (mr_ForProvider x) \<and>
    (kafka_valid (lb_json lb) (mr_ForProvider x) \<longrightarrow> kafka_valid (lb_json lb) (mr_ForProvider y))"
  using kf.protected [OF assms] kf.always_valid [OF assms] by blast

definition sampleKafka :: "string list \<Rightarrow> Kafka" where
  "sampleKafka ips = \<lparr>mr_Meta = sampleMeta, mr_ProviderConfigReference = Some ''cfg'',
     mr_WriteConnectionSecretToReference = None,
     mr_ForProvider = \<lparr>kfp_Maintenance = sampleMaintenance, kfp_Zone = ''ch-dk-2'',
       kfp_DBaaS = sampleDBaaS\<lparr>dp_IPFilter := Some ips\<rparr>, kfp_Version = ''III'', kfp_KafkaSettings = [],
       kfp_KafkaRestEnabled = False, kfp_KafkaRestSettings = []\<rparr>,
     mr_Conditions = [], mr_AtProvider = emptyKafkaObservation\<rparr>"

definition sampleKafkaService :: "ServiceState \<Rightarrow> (string, string) DBAASServiceKafka" where
  "sampleKafkaService st = \<lparr>sv_Name = ''db'', sv_State = st, sv_Plan = ''startup-4'',
     sv_IPFilter = Some [''10.0.0.0/8'', ''192.168.0.0/16''],
     sv_Maintenance = Some \<lparr>sdk_mt_Dow = ''monday'', sdk_mt_Time = ''04:30:00''\<rparr>,
     sv_TerminationProtection = Some True, sv_NodeStates = None, sv_Notifications = [], sv_Version = ''III'',
     sv_URI = ''kafka.local:21701'', sv_Settings = ''{}'',
     kfs_ConnectionInfo = Some \<lparr>kfi_Nodes = [''10.1.1.1:21701''], kfi_AccessCert = ''cert'', kfi_AccessKey = ''key'',
       kfi_RestURI = []\<rparr>,
     kfs_URIParams = None, kfs_KafkaRestEnabled = None, kfs_KafkaRestSettings = ''{}''\<rparr>"

lemmas kafka_sample = sampleKafka_def sampleKafkaService_def sample_defs

theorem kafka_zone_immutable_witness:
  "\<exists>y. kafka_ValidateUpdate sampleLibs (Typed (sampleKafka [''10.0.0.0/8''])) (Typed y) = Ret () \<and>
     kfp_Zone (mr_ForProvider y) = ''ch-dk-2'' \<and> kafka_valid (lb_json sampleLibs) (mr_ForProvider y)"
proof -
  let ?x = "sampleKafka [''10.0.0.0/8'']" and ?y = "sampleKafka [''192.168.0.0/16'']"
  let ?api = "sampleApi (sampleKafkaService StateRunning) :: (string, string, unit, unit) kafka_api"
  have adm: "kafka_ValidateUpdate sampleLibs (Typed ?x) (Typed ?y) = Ret ()"
    and val: "kafka_valid (lb_json sampleLibs) (mr_ForProvider ?x)"
    by (simp_all add: kafka_ValidateUpdate_iff kafka_valid_def kafka_sample clockTime_examples
        ValidateRawExtension_Ret_iff ToMap_def kafka_compareVersion_def checkVersion_def)
  have "mr_AtProvider ?y = mr_AtProvider ?x" by (simp add: sampleKafka_def)
  with adm have "evolves (\<lambda>old new. kafka_ValidateUpdate sampleLibs (Typed old) (Typed new)) mr_AtProvider
      (own_writes (kafka_Observe sampleLibs fieldwiseCmp sampleCodec sampleCodec ?api)
         (kafka_Create (lb_runtime sampleLibs) sampleCodec sampleCodec ?api)
         (kafka_Update (lb_runtime sampleLibs) sampleCodec sampleCodec ?api)
         (kafka_Delete (lb_runtime sampleLibs) ?api)) ?x ?y"
    by (blast intro: evolves.intros)
  from kafka_zone_immutable [OF this] adm val show ?thesis by (auto simp: sampleKafka_def)
qed

text \<open>
  C21: a Kafka service counts as up to date exactly when both kinds of settings agree, the REST switch, the
  maintenance window and the termination protection agree, the plan is spelled alike and the desired IP filter
  is given and has the same entries in the same order as the service's. The version is never compared. A desired IP filter
  that is left out is a nil slice, the other side never is: then no service is up to date, not even one without a filter.
\<close>

theorem kafka_diffParameters_iff:
  assumes "cmp_law cmpEqual" and "sc_Marshal cd (sv_Settings svc) = Inr raw"
    and "sc_Marshal rcd (kfs_KafkaRestSettings svc) = Inr rawRest" and "sv_Maintenance svc = Some mt"
    and "CompareSettings (lb_json lb) (kfp_KafkaSettings par) raw = Ret s"
    and "CompareSettings (lb_json lb) raw (kfp_KafkaSettings par) = Ret s"
    and "CompareSettings (lb_json lb) (kfp_KafkaRestSettings par) rawRest = Ret r"
    and "CompareSettings (lb_json lb) rawRest (kfp_KafkaRestSettings par) = Ret r"
  shows "kafka_diffParameters lb cmpEqual cd rcd svc par = Ret (s \<and> r \<and>
      kfp_Maintenance par = \<lparr>ms_DayOfWeek = sdk_mt_Dow mt, ms_TimeOfDay = sdk_mt_Time mt\<rparr> \<and>
      dp_TerminationProtection (kfp_DBaaS par) = derefFalse (sv_TerminationProtection svc) \<and>
      ss_Plan (dp_Size (kfp_DBaaS par)) = sv_Plan svc \<and> dp_IPFilter (kfp_DBaaS par) = Some (elems (sv_IPFilter svc)) \<and>
      kfp_KafkaRestEnabled par = derefFalse (kfs_KafkaRestEnabled svc))"
  using assms by (auto simp: kafka_diffParameters_def actualIPFilter_eq cmp_law_def DBaaSParameters_eq_iff)

theorem kafka_diffParameters_iff_witness:
  "kafka_diffParameters sampleLibs fieldwiseCmp sampleCodec sampleCodec (sampleKafkaService StateRunning)
     (mr_ForProvider (sampleKafka [''192.168.0.0/16'', ''10.0.0.0/8''])) = Ret False \<and>
   kafka_diffParameters sampleLibs fieldwiseCmp sampleCodec sampleCodec (sampleKafkaService StateRunning\<lparr>sv_IPFilter := Some []\<rparr>)
     ((mr_ForProvider (sampleKafka []))\<lparr>kfp_DBaaS := sampleDBaaS\<lparr>dp_IPFilter := None\<rparr>\<rparr>) = Ret False \<and>
   kafka_diffParameters sampleLibs fieldwiseCmp sampleCodec sampleCodec (sampleKafkaService StateRunning\<lparr>sv_IPFilter := None\<rparr>)
     (mr_ForProvider (sampleKafka [])) = Ret True"
  using kafka_diffParameters_iff [OF fieldwiseCmp_law, of sampleCodec "sampleKafkaService StateRunning" "''{}''"
      sampleCodec "''{}''" "\<lparr>sdk_mt_Dow = ''monday'', sdk_mt_Time = ''04:30:00''\<rparr>" sampleLibs
      "mr_ForProvider (sampleKafka [''192.168.0.0/16'', ''10.0.0.0/8''])" True True]
    kafka_diffParameters_iff [OF fieldwiseCmp_law, of sampleCodec "sampleKafkaService StateRunning\<lparr>sv_IPFilter := Some []\<rparr>" "''{}''"
      sampleCodec "''{}''" "\<lparr>sdk_mt_Dow = ''monday'', sdk_mt_Time = ''04:30:00''\<rparr>" sampleLibs
      "(mr_ForProvider (sampleKafka []))\<lparr>kfp_DBaaS := sampleDBaaS\<lparr>dp_IPFilter := None\<rparr>\<rparr>" True True]
    kafka_diffParameters_iff [OF fieldwiseCmp_law, of sampleCodec "sampleKafkaService StateRunning\<lparr>sv_IPFilter := None\<rparr>" "''{}''"
      sampleCodec "''{}''" "\<lparr>sdk_mt_Dow = ''monday'', sdk_mt_Time = ''04:30:00''\<rparr>" sampleLibs
      "mr_ForProvider (sampleKafka [])" True True]
  by (simp add: kafka_sample CompareSettings_def ToMap_def derefFalse_def)

text \<open>
  Deleting is idempotent for Kafka: a service that is already gone counts as deleted, every other
  error is returned, and the object is left alone.
\<close>

theorem kafka_Delete_idempotent:
  assumes "api_Delete api (kafka_GetInstanceName rt inst) w = (r, w')"
  shows "kafka_Delete rt api (Typed inst, w) =
    (case r of
       Inr resp \<Rightarrow> map_outcome (\<lambda>_. ExternalDelete) (deref resp)
     | Inl e \<Rightarrow> if le_notfound e then Ret ExternalDelete else Fail (Wrapf ''cannot delete kafka instance: %w'' [] (Lib e)),
     (Typed inst, w'))"
  using assms by (cases r) (auto simp: kafka_Delete_def typed_getObj_apply logResponse_def run_simps deref_def split: option.splits)

theorem kafka_Delete_idempotent_witness:
  "kafka_Delete sampleRuntime ((sampleApi (sampleKafkaService StateRunning) :: (string, string, unit, unit) kafka_api)
     \<lparr>api_Delete := \<lambda>n w. (Inl \<lparr>le_notfound = True, le_status = 404, le_text = []\<rparr>, w)\<rparr>) (Typed (sampleKafka []), ()) =
   (Ret ExternalDelete, (Typed (sampleKafka []), ()))"
  by (subst kafka_Delete_idempotent [where r = "Inl \<lparr>le_notfound = True, le_status = 404, le_text = []\<rparr>" and w' = "()"])
    simp_all

text \<open>
  A Kafka service in a state the controller does not know gets a condition without a type: the status
  then holds a condition that says nothing.
\<close>

theorem kafka_unknown_state_condition:
  assumes "fst (kafka_Observe lb cmpEqual cd rcd api (Typed inst, w)) = Ret obs" and "eo_ResourceExists obs"
    and "api_Get api (kafka_GetInstanceName (lb_runtime lb) inst) w = (Inr svc, w1)"
    and "sv_State svc = StateOther st" and "conditions_law (lb_runtime lb)"
  shows "\<exists>inst' w'. snd (kafka_Observe lb cmpEqual cd rcd api (Typed inst, w)) = (Typed inst', w') \<and> hasCondition [] inst'"
proof -
  from assms(1) obtain x' w' where run: "snd (kafka_Observe lb cmpEqual cd rcd api (Typed inst, w)) = (Typed x', w')"
    and body: "lookupService (api_Get api (kafka_GetInstanceName (lb_runtime lb) inst)) (\<lambda>e. e)
        (kafka_observeService lb cmpEqual cd rcd api inst) (inst, w) = (Ret obs, (x', w'))"
    unfolding kafka_Observe_def by (rule typed_getObj_Ret)
  have "kafka_observeService lb cmpEqual cd rcd api inst svc (inst, w1) = (Ret obs, (x', w'))"
    using lookupService_exists [OF body assms(2)] assms(3) by (metis Inr_inject Pair_inject)
  then obtain mobs d w2 where
    "catch (kafka_setSettingsDefaults lb api (mr_ForProvider inst))
      (set_condition (lb_runtime lb) emptyCondition (inst\<lparr>mr_AtProvider := mobs\<rparr>), w2) = (Ret d, (x', w'))"
    using assms(4) unfolding kafka_observeService_def by (auto simp: Ret_iffs kafka_getCondition_def)
  from steady_objD [OF steady_catch [OF steady_kafka_settings] this, of "\<lambda>x. x"]
  have "x' = set_condition (lb_runtime lb) emptyCondition (inst\<lparr>mr_AtProvider := mobs\<rparr>)" by simp
  then have "hasCondition [] x'"
    using assms(5) by (simp add: hasCondition_set_condition emptyCondition_def)
  with run show ?thesis by blast
qed

theorem kafka_unknown_state_condition_witness:
  "\<exists>inst' w'. snd (kafka_Observe sampleLibs fieldwiseCmp sampleCodec sampleCodec
     (sampleApi (sampleKafkaService (StateOther ''migrating'')) :: (string, string, unit, unit) kafka_api)
     (Typed (sampleKafka [''10.0.0.0/8'']), ())) = (Typed inst', w') \<and> hasCondition [] inst'"
proof -
  let ?api = "sampleApi (sampleKafkaService (StateOther ''migrating'')) :: (string, string, unit, unit) kafka_api"
  have run: "\<exists>obs. fst (kafka_Observe sampleLibs fieldwiseCmp sampleCodec sampleCodec ?api (Typed (sampleKafka [''10.0.0.0/8'']), ())) =
      Ret obs \<and> eo_ResourceExists obs"
    by (simp add: kafka_Observe_def typed_getObj_apply lookupService_def kafka_observeService_def run_simps kafka_sample
        kafka_getObservation_def kafka_getConnectionDetails_def kafka_setSettingsDefaults_def kafka_fetchSettingSchema_def
        fetchSchema_def ParseSchemas_def SetDefaults_def kafka_diffParameters_def fieldwiseCmp_def CompareSettings_def
        ToMap_def ToNodeStates_def)
  then obtain obs where o: "fst (kafka_Observe sampleLibs fieldwiseCmp sampleCodec sampleCodec ?api
      (Typed (sampleKafka [''10.0.0.0/8'']), ())) = Ret obs" "eo_ResourceExists obs" by blast
  show ?thesis
    by (rule kafka_unknown_state_condition [OF o, where svc = "sampleKafkaService (StateOther ''migrating'')"
          and st = "''migrating''" and ?w1.0 = "()"])
      (simp_all add: sampleApi_def sampleKafkaService_def sampleLibs_def sampleRuntime_conditions)
qed

end
