(* ===== verification/BucketController.thy ===== *)
theory BucketController
  imports Dbaas
begin

text \<open>
  Package \<^verbatim>\<open>operator/bucketcontroller\<close> with its types of \<^verbatim>\<open>apis/exoscale/v1/bucket_types.go\<close>: connector,
  provisioning pipeline, client for deleted buckets and admission webhook of an S3 bucket. The S3 client of
  minio, the event recorder and the pipeline runner are parameters.
\<close>

section \<open>Types\<close>

datatype BucketDeletionPolicy = DeleteIfEmpty | DeleteAll | OtherPolicy string

record BucketParameters =
  bkp_BucketName :: string
  bkp_EndpointURL :: string
  bkp_Zone :: string
  bkp_BucketDeletionPolicy :: BucketDeletionPolicy

record BucketObservation =
  bko_BucketName :: string

record Bucket = "(BucketParameters, BucketObservation) resource" +
  bk_Endpoint :: string
  bk_EndpointURL :: string

definition GetBucketName :: "Bucket \<Rightarrow> string" where
  "GetBucketName b = (if bkp_BucketName (mr_ForProvider b) = [] then om_Name (mr_Meta b) else bkp_BucketName (mr_ForProvider b))"

definition bucket_GetProviderConfigName :: "Bucket \<Rightarrow> string" where
  "bucket_GetProviderConfigName b = refName (mr_ProviderConfigReference b)"

definition lockAnnotation :: string where
  "lockAnnotation = ''exoscale.crossplane.io/lock''"

text \<open>
  The S3 client. Listing yields object keys and errors; removing a list of objects yields those that could
  not be removed; the mode of the object lock is a pointer. The recorder's events are part of the world.
\<close>

record 'w minio =
  mc_BucketExists :: "string \<Rightarrow> ('w, bool) call"
  mc_MakeBucket :: "string \<Rightarrow> string \<Rightarrow> ('w, unit) call"
  mc_RemoveBucket :: "string \<Rightarrow> ('w, unit) call"
  mc_ListObjects :: "string \<Rightarrow> 'w \<Rightarrow> (liberror + string) list \<times> 'w"
  mc_RemoveObjects :: "string \<Rightarrow> string list \<Rightarrow> bool \<Rightarrow> 'w \<Rightarrow> (string \<times> liberror) list \<times> 'w"
  mc_GetObjectLockConfig :: "string \<Rightarrow> ('w, string option) call"
  ev_Event :: "string \<Rightarrow> string \<Rightarrow> 'w \<Rightarrow> 'w"

text \<open>
  \<^verbatim>\<open>pipe.When\<close>: a step of the given name that runs its action only when the predicate holds, as the pipeline
  package documents it.
\<close>

type_synonym 's conditional = "('s \<Rightarrow> bool) \<Rightarrow> string \<Rightarrow> ('s, unit) act \<Rightarrow> 's step"

definition when_law :: "'s conditional \<Rightarrow> bool" where
  "when_law wh \<longleftrightarrow> (\<forall>p n f. wh p n f = (n, \<lambda>s. if p s then f s else (Ret (), s)))"

section \<open>Connector\<close>

definition getEndpoint :: "Bucket \<Rightarrow> string" where
  "getEndpoint b = ''sos-'' @ bkp_Zone (mr_ForProvider b) @ ''.exo.io''"

definition getEndpointURL :: "Bucket \<Rightarrow> string" where
  "getEndpointURL b = ''https://'' @ getEndpoint b"

fun findCondition :: "Condition list \<Rightarrow> string \<Rightarrow> Condition option" where
  "findCondition [] condType = None"
| "findCondition (cond # conds) condType =
     (if cond_Type cond = condType then Some cond else findCondition conds condType)"

definition isBucketAlreadyDeleted :: "runtime_lib \<Rightarrow> Bucket \<Rightarrow> bool" where
  "isBucketAlreadyDeleted rt b =
     (case (findCondition (mr_Conditions b) (rt_TypeReady rt), findCondition (mr_Conditions b) (rt_TypeSynced rt)) of
        (Some readyCond, Some syncCond) \<Rightarrow>
          cond_Status readyCond = rt_ConditionFalse rt \<and> cond_Reason readyCond = rt_ReasonDeleting rt \<and>
          cond_Status syncCond = rt_ConditionTrue rt \<and> cond_Reason syncCond = rt_ReasonReconcileSuccess rt
      | _ \<Rightarrow> False)"

definition isTLSEnabled :: "URL \<Rightarrow> bool" where
  "isTLSEnabled u \<longleftrightarrow> \<not> EqualFold (u_Scheme u) ''http''"

text \<open>\<^verbatim>\<open>minio.New\<close>: host, access key, secret key, whether to use TLS.\<close>

type_synonym 'm new_minio = "string \<Rightarrow> string \<Rightarrow> string \<Rightarrow> bool \<Rightarrow> liberror + 'm"

definition createS3Client :: "'m new_minio \<Rightarrow> 'cl ExoscaleConnector \<Rightarrow> string \<Rightarrow> 'm outcome" where
  "createS3Client minioNew connector endpointURL =
     bind_outcome (url_Parse endpointURL) (\<lambda>parsed.
     let host = (if u_Host parsed = [] then u_Path parsed else u_Host parsed)
     in of_lib (minioNew host (ec_ApiKey connector) (ec_ApiSecret connector) (isTLSEnabled parsed)))"

text \<open>The connector gives a client that does nothing for a deleted bucket, and the pipeline otherwise.\<close>

datatype 'm bucket_client = NoopClient | ProvisioningPipeline 'm

definition bucket_Connect ::
  "runtime_lib \<Rightarrow> ('cl connectContext \<times> 'w) runner \<Rightarrow> 'w kube_lib \<Rightarrow> 'cl new_client \<Rightarrow> 'm new_minio \<Rightarrow>
   (Bucket obj \<times> 'w, 'm bucket_client) act" where
  "bucket_Connect rt run kb NewClient minioNew = withTyped assertPanic
     (andThen getObj (\<lambda>bucket.
      if isBucketAlreadyDeleted rt bucket then ret NoopClient
      else
        andThen (modifyObj (\<lambda>b. b\<lparr>bk_Endpoint := getEndpoint b, bk_EndpointURL := getEndpointURL b\<rparr>)) (\<lambda>_.
        andThen (onWorld (OpenExoscaleClient run kb NewClient (bucket_GetProviderConfigName bucket) [])) (\<lambda>exo.
        andThen (lift (createS3Client minioNew exo (getEndpointURL bucket))) (\<lambda>mc.
        ret (ProvisioningPipeline mc))))))"

section \<open>Observe\<close>

definition bucket_Observe :: "runtime_lib \<Rightarrow> 'w minio \<Rightarrow> (Bucket obj \<times> 'w, ExternalObservation) act" where
  "bucket_Observe rt mc = withTyped assertPanic
     (andThen getObj (\<lambda>bucket.
      andThen (attempt (mc_BucketExists mc (GetBucketName bucket))) (\<lambda>r. case r of
        Inl err \<Rightarrow>
          (if le_status err = 403 then
             fail (Wrapf ''wrong credentials or bucket exists already, try changing bucket name'' [] (Lib err))
           else if le_status err = 301 then
             fail (Wrapf ''mismatching endpointURL and zone, or bucket exists already in a different region, try changing bucket name'' [] (Lib err))
           else fail (Wrapf ''cannot determine whether bucket exists'' [] (Lib err)))
      | Inr exists \<Rightarrow>
          (if annotation (mr_Meta bucket) lockAnnotation \<noteq> None \<and> exists then
             andThen (modifyObj (\<lambda>b. b\<lparr>mr_AtProvider := \<lparr>bko_BucketName = GetBucketName b\<rparr>\<rparr>)) (\<lambda>_.
             andThen (modifyObj (set_condition rt (rt_Available rt))) (\<lambda>_.
             ret \<lparr>eo_ResourceExists = True, eo_ResourceUpToDate = True, eo_ConnectionDetails = []\<rparr>))
           else if exists then
             fail (Errorf ''bucket exists already, try changing bucket name: %s'' [GetBucketName bucket])
           else ret noObservation))))"

section \<open>Create\<close>

definition createS3Bucket :: "'w minio \<Rightarrow> (Bucket \<times> 'w, unit) act" where
  "createS3Bucket mc =
     andThen getObj (\<lambda>bucket.
     andThen (attempt (mc_MakeBucket mc (GetBucketName bucket) (bkp_Zone (mr_ForProvider bucket)))) (\<lambda>r. case r of
       Inl err \<Rightarrow>
         andThen (attempt (mc_BucketExists mc (GetBucketName bucket))) (\<lambda>e. case e of
           Inr exists \<Rightarrow> if exists then ret () else fail (Lib err)
         | Inl _ \<Rightarrow> fail (Lib err))
     | Inr _ \<Rightarrow> ret ()))"

definition lockedMeta :: "ObjectMeta \<Rightarrow> ObjectMeta" where
  "lockedMeta om = om\<lparr>om_Annotations := Some (AList.update lockAnnotation ''claimed'' (map_entries (om_Annotations om)))\<rparr>"

definition setLock :: "(Bucket \<times> 'w, unit) act" where
  "setLock = modifyObj (\<lambda>b. b\<lparr>mr_Meta := lockedMeta (mr_Meta b)\<rparr>)"

definition emitEvent :: "'w minio \<Rightarrow> string \<Rightarrow> string \<Rightarrow> ('m \<times> 'w, unit) act" where
  "emitEvent mc reason message = onWorld (\<lambda>w. (Ret (), ev_Event mc reason message w))"

definition bucket_emitCreationEvent :: "'w minio \<Rightarrow> (Bucket \<times> 'w, unit) act" where
  "bucket_emitCreationEvent mc = emitEvent mc ''Created'' ''Bucket successfully created''"

definition bucket_Create :: "(Bucket \<times> 'w) runner \<Rightarrow> 'w minio \<Rightarrow> (Bucket obj \<times> 'w, ExternalCreation) act" where
  "bucket_Create run mc = withTyped assertPanic
     (andThen (wrapErr (Wrapf ''cannot provision bucket'' [])
        (run [(''create bucket'', createS3Bucket mc),
              (''set lock'', setLock),
              (''emit event'', bucket_emitCreationEvent mc)])) (\<lambda>_.
      ret noCreation))"

section \<open>Delete\<close>

definition isBucketLockEnabled :: "'w minio \<Rightarrow> string \<Rightarrow> ('m \<times> 'w, goerror + bool) act" where
  "isBucketLockEnabled mc bucketName =
     andThen (attempt (mc_GetObjectLockConfig mc bucketName)) (\<lambda>r. case r of
       Inl err \<Rightarrow> (if le_text err = ''Object Lock configuration does not exist for this bucket'' then ret (Inr False)
                   else ret (Inl (Lib err)))
     | Inr mode \<Rightarrow> ret (Inr (mode \<noteq> None)))"

definition hasDeleteAllPolicy :: "Bucket \<times> 'w \<Rightarrow> bool" where
  "hasDeleteAllPolicy s \<longleftrightarrow> bkp_BucketDeletionPolicy (mr_ForProvider (fst s)) = DeleteAll"

text \<open>
  The goroutine lists the objects and hands on those that were listed without an error, while the removal
  consumes them; the model lists, looks up the lock and then removes. When the lock cannot be determined
  the governance bypass stays off. The first object that cannot be removed ends the loop.
\<close>

fun listed :: "(liberror + string) list \<Rightarrow> string list" where
  "listed [] = []"
| "listed (Inl _ # os) = listed os"
| "listed (Inr key # os) = key # listed os"

definition deleteAllObjects :: "'w minio \<Rightarrow> (Bucket \<times> 'w, unit) act" where
  "deleteAllObjects mc =
     andThen getObj (\<lambda>b.
     let bucketName = bko_BucketName (mr_AtProvider b) in
     andThen (onWorld (\<lambda>w. case mc_ListObjects mc bucketName w of (os, w') \<Rightarrow> (Ret (listed os), w'))) (\<lambda>objects.
     andThen (isBucketLockEnabled mc bucketName) (\<lambda>l.
     let bypassGovernance = (case l of Inl _ \<Rightarrow> False | Inr enabled \<Rightarrow> enabled) in
     andThen (onWorld (\<lambda>w. case mc_RemoveObjects mc bucketName objects bypassGovernance w of (es, w') \<Rightarrow> (Ret es, w')))
       (\<lambda>errs. case errs of
          [] \<Rightarrow> ret ()
        | (name, err) # _ \<Rightarrow> fail (Wrapf ''object %q cannot be removed: %w'' [name] (Lib err))))))"

definition deleteS3Bucket :: "'w minio \<Rightarrow> (Bucket \<times> 'w, unit) act" where
  "deleteS3Bucket mc = andThen getObj (\<lambda>b. invoke (mc_RemoveBucket mc (bko_BucketName (mr_AtProvider b))))"

definition bucket_emitDeletionEvent :: "'w minio \<Rightarrow> (Bucket \<times> 'w, unit) act" where
  "bucket_emitDeletionEvent mc = emitEvent mc ''Deleted'' ''Bucket deleted''"

definition bucket_Delete ::
  "(Bucket \<times> 'w) runner \<Rightarrow> (Bucket \<times> 'w) conditional \<Rightarrow> 'w minio \<Rightarrow> (Bucket obj \<times> 'w, ExternalDelete) act" where
  "bucket_Delete run wh mc = withTyped assertPanic
     (andThen (wrapErr (Wrapf ''cannot deprovision bucket'' [])
        (run [wh hasDeleteAllPolicy ''delete all objects'' (deleteAllObjects mc),
              (''delete bucket'', deleteS3Bucket mc),
              (''emit event'', bucket_emitDeletionEvent mc)])) (\<lambda>_.
      ret ExternalDelete))"

section \<open>Update, disconnect and the client for deleted buckets\<close>

definition bucket_Update :: "(Bucket obj \<times> 'w, ExternalUpdate) act" where
  "bucket_Update = ret ExternalUpdate"

definition bucket_Disconnect :: "('s, unit) act" where
  "bucket_Disconnect = ret ()"

definition noop_Observe :: "(Bucket obj \<times> 'w, ExternalObservation) act" where
  "noop_Observe = ret noObservation"

definition noop_Create :: "(Bucket obj \<times> 'w, ExternalCreation) act" where
  "noop_Create = ret noCreation"

definition noop_Update :: "(Bucket obj \<times> 'w, ExternalUpdate) act" where
  "noop_Update = ret ExternalUpdate"

definition noop_Delete :: "(Bucket obj \<times> 'w, ExternalDelete) act" where
  "noop_Delete = ret ExternalDelete"

definition noop_Disconnect :: "('s, unit) act" where
  "noop_Disconnect = ret ()"

section \<open>Webhook\<close>

definition bucket_ValidateCreate :: "Bucket obj \<Rightarrow> unit outcome" where
  "bucket_ValidateCreate ob = (case ob of
     Other t \<Rightarrow> assertPanic t
   | Typed b \<Rightarrow> requireProviderConfig (mr_ProviderConfigReference b))"

definition bucket_ValidateUpdate :: "Bucket obj \<Rightarrow> Bucket obj \<Rightarrow> unit outcome" where
  "bucket_ValidateUpdate oldObj newObj = (case newObj of
     Other t \<Rightarrow> assertPanic t
   | Typed newBucket \<Rightarrow> (case oldObj of
       Other t \<Rightarrow> assertPanic t
     | Typed oldBucket \<Rightarrow>
         let created = bko_BucketName (mr_AtProvider oldBucket) in
         if created \<noteq> [] \<and> GetBucketName newBucket \<noteq> created then
           Fail (Errorf ''a bucket named %q has been created already, you cannot rename it'' [created])
         else if created \<noteq> [] \<and> bkp_Zone (mr_ForProvider newBucket) \<noteq> bkp_Zone (mr_ForProvider oldBucket) then
           Fail (Errorf ''a bucket named %q has been created already, you cannot change the zone'' [created])
         else requireProviderConfig (mr_ProviderConfigReference newBucket)))"

definition bucket_ValidateDelete :: "Bucket obj \<Rightarrow> unit outcome" where
  "bucket_ValidateDelete ob = (case ob of Other t \<Rightarrow> assertPanic t | Typed b \<Rightarrow> Ret ())"

section \<open>Frame\<close>

definition whenStep :: "'s conditional" where
  "whenStep p n f = (n, \<lambda>s. if p s then f s else (Ret (), s))"

lemma when_law_whenStep: "when_law wh \<longleftrightarrow> wh = whenStep"
  by (auto simp: when_law_def whenStep_def fun_eq_iff)

lemma steady_emitEvent [steady_intros]: "steady (\<lambda>s. f (fst s)) (emitEvent mc reason message)"
  unfolding emitEvent_def by (intro steady_intros)

lemma steady_createS3Bucket [steady_intros]: "steady (\<lambda>s. f (fst s)) (createS3Bucket mc)"
  unfolding createS3Bucket_def by (intro steady_intros)

lemma steady_deleteAllObjects [steady_intros]: "steady (\<lambda>s. f (fst s)) (deleteAllObjects mc)"
  unfolding deleteAllObjects_def isBucketLockEnabled_def Let_def
  by (intro steady_intros) (simp split: list.splits prod.splits add: steady_intros)

lemma steady_deleteS3Bucket [steady_intros]: "steady (\<lambda>s. f (fst s)) (deleteS3Bucket mc)"
  unfolding deleteS3Bucket_def by (intro steady_intros)

lemma steady_conditional [steady_intros]: "steady g f \<Longrightarrow> steady g (\<lambda>s. if p s then f s else (Ret (), s))"
  by (simp add: steady_def)

lemma bucket_Observe_spec: "steady (\<lambda>s. map_obj userSpec (fst s)) (bucket_Observe rt mc)"
  unfolding bucket_Observe_def
  by (intro steady_withTyped steady_intros steady_modifyObj) (simp_all add: userSpec_def)

lemma bucket_Create_spec: "steady (\<lambda>s. map_obj userSpec (fst s)) (bucket_Create (runSteps wrap) mc)"
  unfolding bucket_Create_def runSteps.simps bucket_emitCreationEvent_def setLock_def
  by (intro steady_withTyped steady_intros steady_modifyObj) (simp add: userSpec_def lockedMeta_def)

lemma bucket_Update_steady: "steady f bucket_Update"
  unfolding bucket_Update_def by (intro steady_intros)

lemma bucket_Delete_steady: "steady (\<lambda>s. map_obj f (fst s)) (bucket_Delete (runSteps wrap) whenStep mc)"
  unfolding bucket_Delete_def bucket_emitDeletionEvent_def whenStep_def runSteps.simps
  by (intro steady_withTyped steady_intros)

section \<open>The webhook\<close>

lemma bucket_ValidateUpdate_iff:
  "bucket_ValidateUpdate (Typed old) (Typed new) = Ret () \<longleftrightarrow>
     (bko_BucketName (mr_AtProvider old) \<noteq> [] \<longrightarrow>
        GetBucketName new = bko_BucketName (mr_AtProvider old) \<and>
        bkp_Zone (mr_ForProvider new) = bkp_Zone (mr_ForProvider old)) \<and>
     refName (mr_ProviderConfigReference new) \<noteq> []"
  by (auto simp: bucket_ValidateUpdate_def Let_def)

interpretation bk: guarded_resource "bucket_Observe rt mc" "bucket_Create (runSteps wrap) mc" bucket_Update
  "bucket_Delete (runSteps wrap) whenStep mc" userSpec
  "\<lambda>old new. bucket_ValidateUpdate (Typed old) (Typed new)" mr_AtProvider "\<lambda>ob. bko_BucketName ob \<noteq> []"
  "\<lambda>b. bkp_Zone (mr_ForProvider b)" "\<lambda>b. refName (mr_ProviderConfigReference b) \<noteq> []"
  "\<lambda>(_, _, _, par). bkp_Zone par" "\<lambda>(_, ref, _, _). refName ref \<noteq> []"
  for rt :: runtime_lib and wrap :: "string \<Rightarrow> goerror \<Rightarrow> goerror" and mc :: "'w minio"
  by unfold_locales
    (auto simp: bucket_Observe_spec bucket_Create_spec bucket_Update_steady bucket_Delete_steady
      bucket_ValidateUpdate_iff userSpec_def)

text \<open>The client for deleted buckets leaves everything as it is.\<close>

interpretation noop: external_client noop_Observe noop_Create noop_Update noop_Delete "\<lambda>b. b"
  by unfold_locales
    (unfold noop_Observe_def noop_Create_def noop_Update_def noop_Delete_def, (rule steady_simple)+)

text \<open>A bucket the status knows by the name the specification gives it.\<close>

definition bucket_settled :: "string \<Rightarrow> string \<Rightarrow> Bucket \<Rightarrow> bool" where
  "bucket_settled name zone b \<longleftrightarrow> bko_BucketName (mr_AtProvider b) = name \<and> GetBucketName b = name \<and>
     bkp_Zone (mr_ForProvider b) = zone"

lemma bucket_settled_kept:
  "keeps (obj_all (bucket_settled name zone)) (bucket_Observe rt mc)"
  "keeps (obj_all (bucket_settled name zone)) (bucket_Create (runSteps wrap) mc)"
  "keeps (obj_all (bucket_settled name zone)) bucket_Update"
  "keeps (obj_all (bucket_settled name zone)) (bucket_Delete (runSteps wrap) whenStep mc)"
proof -
  show "keeps (obj_all (bucket_settled name zone)) (bucket_Observe rt mc)"
    unfolding bucket_Observe_def by (intro keeps_withTyped keeps_intros keeps_modifyObj)
      (auto simp: bucket_settled_def GetBucketName_def)
  show "keeps (obj_all (bucket_settled name zone)) (bucket_Create (runSteps wrap) mc)"
    unfolding bucket_Create_def runSteps.simps createS3Bucket_def setLock_def bucket_emitCreationEvent_def
      emitEvent_def
    by (intro keeps_withTyped keeps_intros keeps_modifyObj)
      (auto simp: bucket_settled_def GetBucketName_def lockedMeta_def)
  show "keeps (obj_all (bucket_settled name zone)) bucket_Update"
    unfolding bucket_Update_def by (intro keeps_intros)
  show "keeps (obj_all (bucket_settled name zone)) (bucket_Delete (runSteps wrap) whenStep mc)"
    using keeps_obj_steady [OF bucket_Delete_steady, of "\<lambda>b. b"] by fast
qed

lemma bucket_settled_evolves:
  fixes mc :: "'w minio"
  assumes "evolves (\<lambda>old new. bucket_ValidateUpdate (Typed old) (Typed new)) mr_AtProvider
      (own_writes (bucket_Observe rt mc) (bucket_Create (runSteps wrap) mc) bucket_Update
        (bucket_Delete (runSteps wrap) whenStep mc)) b c"
    and "bucket_settled name zone b" and "name \<noteq> []"
  shows "bucket_settled name zone c"
  using assms(1,2)
proof (induction rule: evolves.induct)
  case (refl r)
  then show ?case .
next
  case (update r s t)
  then show ?case using assms(3) by (auto simp: bucket_ValidateUpdate_iff bucket_settled_def)
next
  case (own r s t)
  then have "bucket_settled name zone s" by simp
  then show ?case
    by (rule bk.own_writes_keeps [OF own.hyps(2)]) (rule bucket_settled_kept)+
qed


section \<open>What the operations do\<close>

lemma bucket_Observe_exists:
  assumes "bucket_Observe rt mc (Typed b, w) = (Ret obs, (Typed b', w'))" "eo_ResourceExists obs"
  shows "annotation (mr_Meta b) lockAnnotation \<noteq> None \<and> mc_BucketExists mc (GetBucketName b) w = (Inr True, w') \<and>
    b' = set_condition rt (rt_Available rt) (b\<lparr>mr_AtProvider := \<lparr>bko_BucketName = GetBucketName b\<rparr>\<rparr>)"
  using assms unfolding bucket_Observe_def typed_getObj_apply
  by (cases "mc_BucketExists mc (GetBucketName b) w")
    (auto simp: run_simps noObservation_def split: sum.splits if_splits)

lemma bucket_Observe_settled:
  assumes "bucket_Observe rt mc (Typed b, w) = (Ret obs, (Typed b', w'))" "eo_ResourceExists obs"
  shows "bucket_settled (GetBucketName b) (bkp_Zone (mr_ForProvider b)) b'"
  using bucket_Observe_exists [OF assms] by (simp add: bucket_settled_def GetBucketName_def)

lemma bucket_Observe_unlocked:
  assumes "annotation (mr_Meta b) lockAnnotation = None"
  shows "bucket_Observe rt mc (Typed b, w) =
    ((case fst (mc_BucketExists mc (GetBucketName b) w) of
        Inr False \<Rightarrow> Ret noObservation
      | Inr True \<Rightarrow> Fail (Errorf ''bucket exists already, try changing bucket name: %s'' [GetBucketName b])
      | Inl err \<Rightarrow> Fail (Wrapf (if le_status err = 403 then ''wrong credentials or bucket exists already, try changing bucket name''
            else if le_status err = 301 then ''mismatching endpointURL and zone, or bucket exists already in a different region, try changing bucket name''
            else ''cannot determine whether bucket exists'') [] (Lib err))),
     (Typed b, snd (mc_BucketExists mc (GetBucketName b) w)))"
  using assms unfolding bucket_Observe_def typed_getObj_apply
  by (simp add: run_simps split: sum.splits bool.splits)

lemma bucket_Observe_locked:
  assumes "annotation (mr_Meta b) lockAnnotation \<noteq> None" "mc_BucketExists mc (GetBucketName b) w = (Inr True, w')"
  shows "bucket_Observe rt mc (Typed b, w) =
    (Ret \<lparr>eo_ResourceExists = True, eo_ResourceUpToDate = True, eo_ConnectionDetails = []\<rparr>,
     (Typed (set_condition rt (rt_Available rt) (b\<lparr>mr_AtProvider := \<lparr>bko_BucketName = GetBucketName b\<rparr>\<rparr>)), w'))"
  using assms unfolding bucket_Observe_def typed_getObj_apply by (simp add: run_simps GetBucketName_def)

text \<open>Creating a bucket either owns it afterwards or reports why it could not be made.\<close>

lemma createS3Bucket_cases:
  "(\<exists>w'. createS3Bucket mc (b, w) = (Ret (), (b, w')) \<and>
      (mc_MakeBucket mc (GetBucketName b) (bkp_Zone (mr_ForProvider b)) w = (Inr (), w') \<or>
       (\<exists>err w1. mc_MakeBucket mc (GetBucketName b) (bkp_Zone (mr_ForProvider b)) w = (Inl err, w1) \<and>
          mc_BucketExists mc (GetBucketName b) w1 = (Inr True, w')))) \<or>
   (\<exists>err w1 w'. createS3Bucket mc (b, w) = (Fail (Lib err), (b, w')) \<and>
      mc_MakeBucket mc (GetBucketName b) (bkp_Zone (mr_ForProvider b)) w = (Inl err, w1) \<and>
      fst (mc_BucketExists mc (GetBucketName b) w1) \<noteq> Inr True)"
proof (cases "mc_MakeBucket mc (GetBucketName b) (bkp_Zone (mr_ForProvider b)) w")
  case (Pair r w1)
  show ?thesis
    by (cases r; cases "mc_BucketExists mc (GetBucketName b) w1"; cases "fst (mc_BucketExists mc (GetBucketName b) w1)")
      (auto simp: Pair createS3Bucket_def run_simps)
qed

lemma bucket_Create_run:
  "bucket_Create (runSteps wrap) mc (Typed b, w) =
     (case createS3Bucket mc (b, w) of
        (Ret _, (b', w')) \<Rightarrow> (Ret noCreation, (Typed (b'\<lparr>mr_Meta := lockedMeta (mr_Meta b')\<rparr>),
           ev_Event mc ''Created'' ''Bucket successfully created'' w'))
      | (Fail e, (b', w')) \<Rightarrow> (Fail (Wrapf ''cannot provision bucket'' [] (wrap ''create bucket'' e)), (Typed b', w'))
      | (Panic p, (b', w')) \<Rightarrow> (Panic p, (Typed b', w')))"
  by (cases "createS3Bucket mc (b, w)"; cases "fst (createS3Bucket mc (b, w))")
    (auto simp: bucket_Create_def withTyped_Typed run_simps setLock_def bucket_emitCreationEvent_def emitEvent_def
      onWorld_apply)


lemma deleteAllObjects_run:
  assumes "mc_ListObjects mc (bko_BucketName (mr_AtProvider b)) w = (os, w1)"
    and "mc_GetObjectLockConfig mc (bko_BucketName (mr_AtProvider b)) w1 = (l, w2)"
    and "mc_RemoveObjects mc (bko_BucketName (mr_AtProvider b)) (listed os) (\<exists>mode. l = Inr (Some mode)) w2 = (es, w3)"
  shows "deleteAllObjects mc (b, w) =
    (case es of [] \<Rightarrow> Ret () | (name, err) # _ \<Rightarrow> Fail (Wrapf ''object %q cannot be removed: %w'' [name] (Lib err)),
     (b, w3))"
proof (cases l)
  case (Inl err)
  then show ?thesis
    using assms by (simp add: deleteAllObjects_def isBucketLockEnabled_def Let_def run_simps onWorld_apply split: list.splits)
next
  case (Inr mode)
  then show ?thesis
    using assms
    by (cases mode) (simp_all add: deleteAllObjects_def isBucketLockEnabled_def Let_def run_simps onWorld_apply split: list.splits)
qed

lemma bucket_Delete_run:
  "bucket_Delete (runSteps wrap) whenStep mc (Typed b, w) =
     (case (if bkp_BucketDeletionPolicy (mr_ForProvider b) = DeleteAll then deleteAllObjects mc (b, w) else (Ret (), (b, w))) of
        (Ret _, (b', w1)) \<Rightarrow>
          (case mc_RemoveBucket mc (bko_BucketName (mr_AtProvider b')) w1 of
             (Inr _, w2) \<Rightarrow> (Ret ExternalDelete, (Typed b', ev_Event mc ''Deleted'' ''Bucket deleted'' w2))
           | (Inl err, w2) \<Rightarrow> (Fail (Wrapf ''cannot deprovision bucket'' [] (wrap ''delete bucket'' (Lib err))), (Typed b', w2)))
      | (Fail e, (b', w')) \<Rightarrow> (Fail (Wrapf ''cannot deprovision bucket'' [] (wrap ''delete all objects'' e)), (Typed b', w'))
      | (Panic p, (b', w')) \<Rightarrow> (Panic p, (Typed b', w')))"
proof -
  have rest: "runSteps wrap [(''delete bucket'', deleteS3Bucket mc), (''emit event'', bucket_emitDeletionEvent mc)] (b', w1) =
    (case mc_RemoveBucket mc (bko_BucketName (mr_AtProvider b')) w1 of
       (Inr _, w2) \<Rightarrow> (Ret (), (b', ev_Event mc ''Deleted'' ''Bucket deleted'' w2))
     | (Inl err, w2) \<Rightarrow> (Fail (wrap ''delete bucket'' (Lib err)), (b', w2)))" for b' w1
    by (cases "mc_RemoveBucket mc (bko_BucketName (mr_AtProvider b')) w1"; cases "fst (mc_RemoveBucket mc (bko_BucketName (mr_AtProvider b')) w1)")
      (auto simp: run_simps deleteS3Bucket_def bucket_emitDeletionEvent_def emitEvent_def onWorld_apply)
  show ?thesis
    unfolding bucket_Delete_def withTyped_Typed whenStep_def runSteps.simps(2) [of wrap "''delete all objects''"]
    by (auto simp: run_simps rest hasDeleteAllPolicy_def simp del: runSteps.simps split: outcome.splits prod.splits sum.splits)
qed


section \<open>Properties\<close>

text \<open>An object store in memory, for the closed examples: it keeps the keys of every bucket and removes only empty ones.\<close>

definition sampleS3 :: "(string \<times> string list) list minio" where
  "sampleS3 = \<lparr>mc_BucketExists = (\<lambda>n w. (Inr (map_of w n \<noteq> None), w)),
     mc_MakeBucket = (\<lambda>n r w. (Inr (), (n, []) # w)),
     mc_RemoveBucket = (\<lambda>n w. if map_of w n = Some [] then (Inr (), AList.delete n w)
        else (Inl \<lparr>le_notfound = False, le_status = 409, le_text = ''BucketNotEmpty''\<rparr>, w)),
     mc_ListObjects = (\<lambda>n w. (map Inr (getOr [] w n), w)),
     mc_RemoveObjects = (\<lambda>n ks b w. ([], AList.update n (filter (\<lambda>k. k \<notin> set ks) (getOr [] w n)) w)),
     mc_GetObjectLockConfig = (\<lambda>n w. (Inr None, w)),
     ev_Event = (\<lambda>r m w. w)\<rparr>"

definition sampleBucket :: "BucketDeletionPolicy \<Rightarrow> Bucket" where
  "sampleBucket pol = \<lparr>mr_Meta = sampleMeta, mr_ProviderConfigReference = Some ''main'',
     mr_WriteConnectionSecretToReference = None,
     mr_ForProvider = \<lparr>bkp_BucketName = ''data'', bkp_EndpointURL = [], bkp_Zone = ''ch-gva-2'', bkp_BucketDeletionPolicy = pol\<rparr>,
     mr_Conditions = [], mr_AtProvider = \<lparr>bko_BucketName = ''data''\<rparr>, bk_Endpoint = [], bk_EndpointURL = []\<rparr>"

lemmas bucket_samples = sampleS3_def sampleBucket_def sampleMeta_def GetBucketName_def annotation_def

text \<open>
  C1: the lock against adopting a foreign bucket. Without the lock annotation \<^verbatim>\<open>Observe\<close> never reports an
  existing bucket, and a bucket of that name is an error. \<^verbatim>\<open>Create\<close> fails exactly when the request to make the bucket
  fails and the store does not then answer that the bucket exists: it says that there is none, or it answers with
  an error, as for a bucket that exists and is somebody else's. It then reports the error of the request and leaves the
  object as it was, without the lock. A \<^verbatim>\<open>Create\<close> that returns leaves the lock, and from then on every
  \<^verbatim>\<open>Observe\<close> that finds the bucket reports it as existing and up to date and puts its name in the status.
\<close>

theorem bucket_lock_protocol:
  assumes "pipeline_laws wrap run" "annotation (mr_Meta b) lockAnnotation = None"
  shows "\<not> (\<exists>obs. fst (bucket_Observe rt mc (Typed b, w)) = Ret obs \<and> eo_ResourceExists obs) \<and>
    (fst (mc_BucketExists mc (GetBucketName b) w) = Inr True \<longrightarrow> (\<exists>e. fst (bucket_Observe rt mc (Typed b, w)) = Fail e)) \<and>
    (case bucket_Create run mc (Typed b, w) of
       (Ret _, (Typed b', _)) \<Rightarrow>
         (\<forall>err w1. mc_MakeBucket mc (GetBucketName b) (bkp_Zone (mr_ForProvider b)) w = (Inl err, w1) \<longrightarrow>
            fst (mc_BucketExists mc (GetBucketName b) w1) = Inr True) \<and>
         annotation (mr_Meta b') lockAnnotation = Some ''claimed'' \<and> userSpec b' = userSpec b \<and>
         (\<forall>w1 w2. mc_BucketExists mc (GetBucketName b) w1 = (Inr True, w2) \<longrightarrow>
            (\<exists>b'' obs. bucket_Observe rt mc (Typed b', w1) = (Ret obs, (Typed b'', w2)) \<and> eo_ResourceExists obs \<and>
               eo_ResourceUpToDate obs \<and> bko_BucketName (mr_AtProvider b'') = GetBucketName b))
     | (Fail e, (Typed b', _)) \<Rightarrow> b' = b \<and>
         (\<exists>err w1. mc_MakeBucket mc (GetBucketName b) (bkp_Zone (mr_ForProvider b)) w = (Inl err, w1) \<and>
            (fst (mc_BucketExists mc (GetBucketName b) w1) = Inr False \<or>
             (\<exists>answer. fst (mc_BucketExists mc (GetBucketName b) w1) = Inl answer)) \<and>
            e = Wrapf ''cannot provision bucket'' [] (wrap ''create bucket'' (Lib err)))
     | _ \<Rightarrow> False)"
proof -
  have run: "run = runSteps wrap" using assms(1) by (simp add: pipeline_laws_runSteps)
  let ?b = "b\<lparr>mr_Meta := lockedMeta (mr_Meta b)\<rparr>"
  have lock: "annotation (mr_Meta ?b) lockAnnotation = Some ''claimed''"
    by (simp add: annotation_def lockedMeta_def)
  have name: "GetBucketName ?b = GetBucketName b" "userSpec ?b = userSpec b"
    by (simp_all add: GetBucketName_def userSpec_def lockedMeta_def)
  have found: "\<exists>b'' obs. bucket_Observe rt mc (Typed ?b, w1) = (Ret obs, (Typed b'', w2)) \<and> eo_ResourceExists obs \<and>
      eo_ResourceUpToDate obs \<and> bko_BucketName (mr_AtProvider b'') = GetBucketName b"
    if "mc_BucketExists mc (GetBucketName b) w1 = (Inr True, w2)" for w1 w2
    using bucket_Observe_locked [of ?b mc w1 w2 rt] that lock by (simp add: name)
  have unlocked: "\<not> (\<exists>obs. fst (bucket_Observe rt mc (Typed b, w)) = Ret obs \<and> eo_ResourceExists obs)"
    "fst (mc_BucketExists mc (GetBucketName b) w) = Inr True \<longrightarrow> (\<exists>e. fst (bucket_Observe rt mc (Typed b, w)) = Fail e)"
    using assms(2) by (auto simp: bucket_Observe_unlocked noObservation_def split: sum.splits bool.splits)
  have refused: "(fst (mc_BucketExists mc (GetBucketName b) w1) = Inr False \<or>
      (\<exists>answer. fst (mc_BucketExists mc (GetBucketName b) w1) = Inl answer)) \<longleftrightarrow> fst (mc_BucketExists mc (GetBucketName b) w1) \<noteq> Inr True" for w1
    by (cases "fst (mc_BucketExists mc (GetBucketName b) w1)") auto
  show ?thesis
    using createS3Bucket_cases [of mc b w] unlocked lock name found
    unfolding run bucket_Create_run refused by auto
qed

theorem bucket_lock_protocol_witness:
  "let b = (sampleBucket DeleteAll)\<lparr>mr_AtProvider := \<lparr>bko_BucketName = []\<rparr>\<rparr>;
       r = bucket_Create (runSteps (Wrapf ''step %q failed: %w'' \<circ> (\<lambda>n. [n]))) sampleS3 (Typed b, [])
   in annotation (mr_Meta b) lockAnnotation = None \<and> fst r = Ret noCreation \<and>
     (case r of (Ret _, (Typed b', _)) \<Rightarrow> annotation (mr_Meta b') lockAnnotation = Some ''claimed'' | _ \<Rightarrow> False)"
proof -
  let ?b = "(sampleBucket DeleteAll)\<lparr>mr_AtProvider := \<lparr>bko_BucketName = []\<rparr>\<rparr>"
  let ?wrap = "Wrapf ''step %q failed: %w'' \<circ> (\<lambda>n. [n])"
  have none: "annotation (mr_Meta ?b) lockAnnotation = None"
    by (simp add: bucket_samples)
  have ok: "fst (bucket_Create (runSteps ?wrap) sampleS3 (Typed ?b, [])) = Ret noCreation"
    unfolding bucket_Create_run by (simp add: createS3Bucket_def run_simps bucket_samples)
  show ?thesis
    using bucket_lock_protocol [OF runSteps_laws [of ?wrap] none, of sampleRuntime sampleS3 "[]"] none ok
    by (auto simp: Let_def split: prod.splits outcome.splits obj.splits)
qed


text \<open>
  C9: the deletion policy. Under any policy but \<open>DeleteAll\<close> no object is listed or removed: the run is the
  same whatever those two calls would do. Under \<open>DeleteAll\<close> the listed objects are removed first, and when
  one of them cannot be the bucket is left alone: the run is the same whatever \<^verbatim>\<open>RemoveBucket\<close> would do.
  A \<^verbatim>\<open>Delete\<close> that returns has removed the bucket the status names, after every listed object.
\<close>

theorem bucket_Delete_policy:
  assumes "pipeline_laws wrap run" "when_law wh"
  shows "(bkp_BucketDeletionPolicy (mr_ForProvider b) \<noteq> DeleteAll \<longrightarrow>
      bucket_Delete run wh (mc\<lparr>mc_ListObjects := ls, mc_RemoveObjects := rs\<rparr>) (Typed b, w) = bucket_Delete run wh mc (Typed b, w)) \<and>
    (bkp_BucketDeletionPolicy (mr_ForProvider b) = DeleteAll \<and> (\<exists>e. fst (deleteAllObjects mc (b, w)) = Fail e) \<longrightarrow>
      bucket_Delete run wh (mc\<lparr>mc_RemoveBucket := rb\<rparr>) (Typed b, w) = bucket_Delete run wh mc (Typed b, w) \<and>
      (\<exists>e. fst (bucket_Delete run wh mc (Typed b, w)) = Fail e)) \<and>
    (fst (bucket_Delete run wh mc (Typed b, w)) = Ret ExternalDelete \<longrightarrow>
      (\<exists>w1 w2. mc_RemoveBucket mc (bko_BucketName (mr_AtProvider b)) w1 = (Inr (), w2) \<and>
         (if bkp_BucketDeletionPolicy (mr_ForProvider b) = DeleteAll
          then \<exists>os w3 w4 bypass. mc_ListObjects mc (bko_BucketName (mr_AtProvider b)) w = (os, w3) \<and>
             mc_RemoveObjects mc (bko_BucketName (mr_AtProvider b)) (listed os) bypass w4 = ([], w1)
          else w1 = w)))"
proof -
  have laws: "run = runSteps wrap" "wh = whenStep"
    using assms by (simp_all add: pipeline_laws_runSteps when_law_whenStep)
  obtain os w3 l w4 es w1 where
    calls: "mc_ListObjects mc (bko_BucketName (mr_AtProvider b)) w = (os, w3)"
    "mc_GetObjectLockConfig mc (bko_BucketName (mr_AtProvider b)) w3 = (l, w4)"
    "mc_RemoveObjects mc (bko_BucketName (mr_AtProvider b)) (listed os) (\<exists>mode. l = Inr (Some mode)) w4 = (es, w1)"
    by (metis surj_pair)
  note all = deleteAllObjects_run [OF calls]
  have other: "deleteAllObjects (mc\<lparr>mc_RemoveBucket := rb\<rparr>) (b, w) = deleteAllObjects mc (b, w)"
    using deleteAllObjects_run [of "mc\<lparr>mc_RemoveBucket := rb\<rparr>" b w os w3 l w4 es w1] calls all by simp
  show ?thesis
    unfolding laws bucket_Delete_run other
    using calls by (auto simp: all split: prod.splits list.splits sum.splits)
qed

theorem bucket_Delete_policy_witness:
  "fst (bucket_Delete (runSteps (\<lambda>n e. e)) whenStep sampleS3 (Typed (sampleBucket DeleteAll), [(''data'', [''k''])])) = Ret ExternalDelete \<and>
   (\<exists>w2. mc_RemoveBucket sampleS3 ''data'' [(''data'', [])] = (Inr (), w2)) \<and>
   bucket_Delete (runSteps (\<lambda>n e. e)) whenStep (sampleS3\<lparr>mc_ListObjects := (\<lambda>n w. ([], [])), mc_RemoveObjects := (\<lambda>n k b w. ([], []))\<rparr>)
     (Typed (sampleBucket DeleteIfEmpty), [(''data'', [''k''])]) =
   bucket_Delete (runSteps (\<lambda>n e. e)) whenStep sampleS3 (Typed (sampleBucket DeleteIfEmpty), [(''data'', [''k''])])"
proof -
  have wh: "when_law whenStep" by (simp add: when_law_whenStep)
  have removed: "fst (bucket_Delete (runSteps (\<lambda>n e. e)) whenStep sampleS3 (Typed (sampleBucket DeleteAll), [(''data'', [''k''])])) = Ret ExternalDelete"
    unfolding bucket_Delete_run
    by (simp add: deleteAllObjects_def isBucketLockEnabled_def Let_def run_simps onWorld_apply bucket_samples getOr_def)
  show ?thesis
    using bucket_Delete_policy [OF runSteps_laws [of "\<lambda>n e. e"] wh, where b = "sampleBucket DeleteIfEmpty" and mc = sampleS3
        and ls = "\<lambda>n w. ([], [])" and rs = "\<lambda>n k b w. ([], [])" and w = "[(''data'', [''k''])]"]
      bucket_Delete_policy [OF runSteps_laws [of "\<lambda>n e. e"] wh, where b = "sampleBucket DeleteAll" and mc = sampleS3
        and w = "[(''data'', [''k''])]"] removed
    by (simp add: bucket_samples getOr_def)
qed

text \<open>
  C6: once \<^verbatim>\<open>Observe\<close> has reported a bucket to exist, its name and its zone never change again, through any
  sequence of updates the webhook admits and of runs of the controller: the specification keeps naming the
  bucket that was observed, the status keeps its name, and the reference to the provider config stays set
  once it is.
\<close>

theorem bucket_identity_immutable:
  fixes mc :: "'w minio"
  assumes "pipeline_laws wrap run" "when_law wh"
    and "bucket_Observe rt mc (Typed b0, w) = (Ret obs, (Typed b, w'))" "eo_ResourceExists obs"
    and "GetBucketName b0 \<noteq> []"
    and "evolves (\<lambda>old new. bucket_ValidateUpdate (Typed old) (Typed new)) mr_AtProvider
      (own_writes (bucket_Observe rt mc) (bucket_Create run mc) bucket_Update (bucket_Delete run wh mc)) b c"
  shows "GetBucketName c = GetBucketName b0 \<and> bko_BucketName (mr_AtProvider c) = GetBucketName b0 \<and>
    bkp_Zone (mr_ForProvider c) = bkp_Zone (mr_ForProvider b0) \<and>
    (refName (mr_ProviderConfigReference b) \<noteq> [] \<longrightarrow> refName (mr_ProviderConfigReference c) \<noteq> [])"
proof -
  have laws: "run = runSteps wrap" "wh = whenStep"
    using assms(1,2) by (simp_all add: pipeline_laws_runSteps when_law_whenStep)
  note ev = assms(6) [unfolded laws]
  have "bucket_settled (GetBucketName b0) (bkp_Zone (mr_ForProvider b0)) c"
    by (rule bucket_settled_evolves [OF ev bucket_Observe_settled [OF assms(3,4)] assms(5)])
  then show ?thesis
    using bk.always_valid [OF ev] by (auto simp: bucket_settled_def)
qed

theorem bucket_identity_immutable_witness:
  "let b0 = (sampleBucket DeleteAll)\<lparr>mr_Meta := lockedMeta sampleMeta, mr_AtProvider := \<lparr>bko_BucketName = []\<rparr>\<rparr>;
       b = set_condition sampleRuntime (rt_Available sampleRuntime) (b0\<lparr>mr_AtProvider := \<lparr>bko_BucketName = ''data''\<rparr>\<rparr>);
       c = b\<lparr>mr_ForProvider := (mr_ForProvider b)\<lparr>bkp_BucketDeletionPolicy := DeleteIfEmpty\<rparr>\<rparr>
   in GetBucketName c = ''data'' \<and> bkp_Zone (mr_ForProvider c) = ''ch-gva-2''"
proof -
  let ?start = "(sampleBucket DeleteAll)\<lparr>mr_Meta := lockedMeta sampleMeta, mr_AtProvider := \<lparr>bko_BucketName = []\<rparr>\<rparr>"
  let ?b = "set_condition sampleRuntime (rt_Available sampleRuntime) (?start\<lparr>mr_AtProvider := \<lparr>bko_BucketName = ''data''\<rparr>\<rparr>)"
  let ?c = "?b\<lparr>mr_ForProvider := (mr_ForProvider ?b)\<lparr>bkp_BucketDeletionPolicy := DeleteIfEmpty\<rparr>\<rparr>"
  let ?own = "own_writes (bucket_Observe sampleRuntime sampleS3) (bucket_Create (runSteps (\<lambda>n e. e)) sampleS3)
    bucket_Update (bucket_Delete (runSteps (\<lambda>n e. e)) whenStep sampleS3)"
  have name: "GetBucketName ?start = ''data''" by (simp add: bucket_samples)
  have there: "annotation (mr_Meta ?start) lockAnnotation \<noteq> None"
    "mc_BucketExists sampleS3 (GetBucketName ?start) [(''data'', [])] = (Inr True, [(''data'', [])])"
    by (simp_all add: bucket_samples lockedMeta_def)
  have obs: "bucket_Observe sampleRuntime sampleS3 (Typed ?start, [(''data'', [])]) =
      (Ret \<lparr>eo_ResourceExists = True, eo_ResourceUpToDate = True, eo_ConnectionDetails = []\<rparr>, (Typed ?b, [(''data'', [])]))"
    unfolding bucket_Observe_locked [OF there] name by simp
  have ev: "evolves (\<lambda>old new. bucket_ValidateUpdate (Typed old) (Typed new)) mr_AtProvider ?own ?b ?c"
    by (rule evolves.update [OF evolves.refl])
      (simp_all add: bucket_ValidateUpdate_iff bucket_samples lockedMeta_def refName_def)
  show ?thesis
    using bucket_identity_immutable [OF runSteps_laws _ obs _ _ ev] name
    by (simp add: when_law_whenStep bucket_samples)
qed

text \<open>
  C31: connecting. For a bucket whose conditions tell that its deletion succeeded \<^verbatim>\<open>Connect\<close> asks nobody
  for credentials, changes nothing and returns the client that does nothing. Otherwise it opens the
  connection of the provider config the bucket names, and in a zone of plain characters the S3 client gets
  the host of that zone, the credentials of the secret, and TLS; the status tells the endpoint.
\<close>

theorem bucket_Connect_correct:
  assumes "list_all plain (bkp_Zone (mr_ForProvider b))"
  shows "bucket_Connect rt run kb NewClient minioNew (Typed b, w) =
    (if isBucketAlreadyDeleted rt b then (Ret NoopClient, (Typed b, w))
     else case OpenExoscaleClient run kb NewClient (bucket_GetProviderConfigName b) [] w of
       (Ret exo, w') \<Rightarrow>
         ((case minioNew (''sos-'' @ bkp_Zone (mr_ForProvider b) @ ''.exo.io'') (ec_ApiKey exo) (ec_ApiSecret exo) True of
             Inr mc \<Rightarrow> Ret (ProvisioningPipeline mc) | Inl err \<Rightarrow> Fail (Lib err)),
          (Typed (b\<lparr>bk_Endpoint := getEndpoint b, bk_EndpointURL := getEndpointURL b\<rparr>), w'))
     | (Fail e, w') \<Rightarrow> (Fail e, (Typed (b\<lparr>bk_Endpoint := getEndpoint b, bk_EndpointURL := getEndpointURL b\<rparr>), w'))
     | (Panic p, w') \<Rightarrow> (Panic p, (Typed (b\<lparr>bk_Endpoint := getEndpoint b, bk_EndpointURL := getEndpointURL b\<rparr>), w')))"
proof -
  have host: "list_all plain (getEndpoint b)"
    using assms by (simp add: getEndpoint_def plain_def digit_def letter_def in_range_def)
  have "url_Parse (getEndpointURL b) = Ret (emptyURL\<lparr>u_Scheme := ''https'', u_Host := getEndpoint b\<rparr>)"
    using url_Parse_origin [of "''https''" "getEndpoint b"] host by (simp add: getEndpointURL_def lowercase_def in_range_def)
  then have client: "createS3Client minioNew exo (getEndpointURL b) =
      of_lib (minioNew (getEndpoint b) (ec_ApiKey exo) (ec_ApiSecret exo) True)" for exo
    by (simp add: createS3Client_def isTLSEnabled_def getEndpoint_def EqualFold_def ToLower_def lower_char_def)
  show ?thesis
    unfolding bucket_Connect_def typed_getObj_apply
    by (cases "OpenExoscaleClient run kb NewClient (bucket_GetProviderConfigName b) [] w")
      (auto simp: run_simps onWorld_apply client getEndpoint_def split: outcome.splits sum.splits)
qed


theorem bucket_Connect_correct_witness:
  "fst (bucket_Connect sampleRuntime (runSteps (\<lambda>n e. e)) (sampleKube [(ExoscaleAPIKey, ''EXO''), (ExoscaleAPISecret, ''s'')])
      (\<lambda>k s opts. Inr (k, s)) (\<lambda>h k s tls. Inr (h, k, s, tls)) (Typed (sampleBucket DeleteAll), ())) =
   Ret (ProvisioningPipeline (''sos-ch-gva-2.exo.io'', ''EXO'', ''s'', True))"
  using bucket_Connect_correct [of "sampleBucket DeleteAll" sampleRuntime "runSteps (\<lambda>n e. e)"
      "sampleKube [(ExoscaleAPIKey, ''EXO''), (ExoscaleAPISecret, ''s'')]" "\<lambda>k s opts. Inr (k, s)"
      "\<lambda>h k s tls. Inr (h, k, s, tls)" "()"]
  by (simp add: sampleBucket_def plain_def digit_def letter_def in_range_def isBucketAlreadyDeleted_def
      bucket_GetProviderConfigName_def refName_def sampleKube_def ExoscaleAPIKey_def ExoscaleAPISecret_def
      OpenExoscaleClient_def connector_steps getOr_def Let_def run_simps newContext_def)

end
