(* ===== verification/IAMKeyController.thy ===== *)
theory IAMKeyController
  imports Dbaas
begin

text \<open>
  Package \<^verbatim>\<open>operator/iamkeycontroller\<close> with its types of \<^verbatim>\<open>apis/exoscale/v1/iam_types.go\<close>: role, key and
  credentials secret of an IAM key for the object storage. The Exoscale API, the Kubernetes client, the
  event recorder, the parser of UUIDs, deep equality of apimachinery and the pipeline runner are parameters.
\<close>

section \<open>Types\<close>

record SOSSpec =
  sos_Buckets :: "string list"

record ServicesSpec =
  svs_SOS :: SOSSpec

record IAMKeyParameters =
  ikp_KeyName :: string
  ikp_Zone :: Zone
  ikp_Services :: ServicesSpec

record IAMKeyObservation =
  iko_KeyID :: string
  iko_RoleID :: string
  iko_KeyName :: string
  iko_ServicesSpec :: ServicesSpec

definition IAMKeyObservation_Equals :: "IAMKeyObservation \<Rightarrow> IAMKeyObservation \<Rightarrow> bool" where
  "IAMKeyObservation_Equals iamObs other \<longleftrightarrow> iko_KeyID iamObs = iko_KeyID other \<and>
     iko_RoleID iamObs = iko_RoleID other \<and> iko_KeyName iamObs = iko_KeyName other"

type_synonym IAMKey = "(IAMKeyParameters, IAMKeyObservation) resource"

definition AccessKeyIDName :: string where
  "AccessKeyIDName = ''AWS_ACCESS_KEY_ID''"

definition SecretAccessKeyName :: string where
  "SecretAccessKeyName = ''AWS_SECRET_ACCESS_KEY''"

definition GetKeyName :: "runtime_lib \<Rightarrow> IAMKey \<Rightarrow> string" where
  "GetKeyName rt r =
     (if ikp_KeyName (mr_ForProvider r) \<noteq> [] then ikp_KeyName (mr_ForProvider r)
      else if rt_GetExternalName rt (mr_Meta r) \<noteq> [] then rt_GetExternalName rt (mr_Meta r)
      else om_Name (mr_Meta r))"

definition iam_GetProviderConfigName :: "IAMKey \<Rightarrow> string" where
  "iam_GetProviderConfigName r = refName (mr_ProviderConfigReference r)"

definition iamBuckets :: "IAMKey \<Rightarrow> string list" where
  "iamBuckets r = sos_Buckets (svs_SOS (ikp_Services (mr_ForProvider r)))"

definition KeyIDAnnotationKey :: string where
  "KeyIDAnnotationKey = ''exoscale.crossplane.io/key-id''"

definition RoleIDAnnotationKey :: string where
  "RoleIDAnnotationKey = ''exoscale.crossplane.io/role-id''"

definition BucketResourceType :: string where
  "BucketResourceType = ''bucket''"

definition SOSResourceDomain :: string where
  "SOSResourceDomain = ''sos''"

text \<open>What the package uses of the API's types; \<^verbatim>\<open>Operation.Reference\<close> and \<^verbatim>\<open>IAMRole.Policy\<close> are pointers.\<close>

datatype PolicyAction = PolicyAllow | PolicyDeny
datatype PolicyStrategy = StrategyAllow | StrategyDeny
datatype PolicyType = TypeRules | TypeAllow | TypeDeny

record IAMServicePolicyRule =
  pr_Action :: PolicyAction
  pr_Expression :: string

record IAMServicePolicy =
  sp_Type :: PolicyType
  sp_Rules :: "IAMServicePolicyRule list"

record IAMPolicy =
  po_DefaultServiceStrategy :: PolicyStrategy
  po_Services :: "IAMServicePolicy gomap"

record CreateIAMRoleRequest =
  cr_Name :: string
  cr_Description :: string
  cr_Permissions :: "string list"
  cr_Editable :: "bool option"
  cr_Labels :: "string gomap option"
  cr_Policy :: "IAMPolicy option"

record UpdateIAMRoleRequest =
  ur_Description :: string
  ur_Labels :: "string gomap option"
  ur_Permissions :: "string list"
  ur_Policy :: "IAMPolicy option"

record CreateAPIKeyRequest =
  ca_Name :: string
  ca_RoleID :: string

datatype OperationState = OperationStateSuccess | OperationStatePending | OperationStateFailure | OperationStateTimeout

record Operation =
  op_State :: OperationState
  op_Reference :: "string option"

record IAMAPIKeyCreated =
  kc_Key :: string
  kc_Name :: string
  kc_Secret :: string

record IAMAPIKey =
  ak_Key :: string
  ak_Name :: string

record IAMRole =
  ir_ID :: string
  ir_Policy :: "IAMPolicy option"

record AccessKeyResource =
  ar_Domain :: string
  ar_ResourceName :: string

record AccessKey =
  acc_Key :: string
  acc_Name :: string
  acc_Secret :: string
  acc_Resources :: "AccessKeyResource list"

record CredentialsSecret = Secret +
  cs_Labels :: "string gomap option"
  cs_Immutable :: "bool option"
  cs_OwnerReferences :: "string list"

text \<open>
  The outside of the package. \<^verbatim>\<open>controllerutil.CreateOrUpdate\<close> takes the secret and a function that mutates
  what is stored under its name; it returns the secret as it was written.
\<close>

record 'w iam_api =
  ia_CreateIAMRole :: "CreateIAMRoleRequest \<Rightarrow> ('w, Operation) call"
  ia_CreateAPIKey :: "CreateAPIKeyRequest \<Rightarrow> ('w, IAMAPIKeyCreated) call"
  ia_GetAPIKey :: "string \<Rightarrow> ('w, IAMAPIKey) call"
  ia_GetIAMRole :: "string \<Rightarrow> ('w, IAMRole) call"
  ia_UpdateIAMRole :: "string \<Rightarrow> UpdateIAMRoleRequest \<Rightarrow> ('w, Operation) call"
  ia_DeleteAPIKey :: "string \<Rightarrow> ('w, Operation) call"
  ia_DeleteIAMRole :: "string \<Rightarrow> ('w, Operation) call"
  ia_ParseUUID :: "string \<Rightarrow> liberror + string"
  ia_GetSecret :: "SecretReference \<Rightarrow> ('w, CredentialsSecret) call"
  ia_CreateOrUpdate :: "CredentialsSecret \<Rightarrow> (CredentialsSecret \<Rightarrow> CredentialsSecret outcome) \<Rightarrow>
     'w \<Rightarrow> CredentialsSecret outcome \<times> 'w"
  ia_SetOwnerReference :: "IAMKey \<Rightarrow> CredentialsSecret \<Rightarrow> liberror + CredentialsSecret"
  ia_Event :: "string \<Rightarrow> string \<Rightarrow> 'w \<Rightarrow> 'w"

text \<open>The context the steps of a pipeline share with their handler.\<close>

record iamContext =
  ic_iamKey :: IAMKey
  ic_iamExoscaleKey :: "AccessKey option"
  ic_credentialsSecret :: "CredentialsSecret option"

definition inPipeline :: "AccessKey option \<Rightarrow> (iamContext \<times> 'w, unit) act \<Rightarrow> (IAMKey \<times> 'w, iamContext) act" where
  "inPipeline key body = (\<lambda>(m, w).
     case body (\<lparr>ic_iamKey = m, ic_iamExoscaleKey = key, ic_credentialsSecret = None\<rparr>, w) of
       (r, (cx, w')) \<Rightarrow> (bind_outcome r (\<lambda>_. Ret cx), (ic_iamKey cx, w')))"

definition updateKey :: "(IAMKey \<Rightarrow> IAMKey) \<Rightarrow> iamContext \<Rightarrow> iamContext" where
  "updateKey f cx = cx\<lparr>ic_iamKey := f (ic_iamKey cx)\<rparr>"

text \<open>The client \<^verbatim>\<open>Connect\<close> returns keeps the API client and the credentials it was opened with.\<close>

record 'cl IAMKeyPipeline =
  ip_exoscaleClient :: "'cl option"
  ip_apiKey :: string
  ip_apiSecret :: string

section \<open>Connector\<close>

definition iam_Connect ::
  "('cl connectContext \<times> 'w) runner \<Rightarrow> 'w kube_lib \<Rightarrow> 'cl new_client \<Rightarrow> (IAMKey obj \<times> 'w, 'cl IAMKeyPipeline) act" where
  "iam_Connect run kb NewClient = withTyped assertPanic
     (andThen getObj (\<lambda>iamKey.
      andThen (onWorld (OpenExoscaleClient run kb NewClient (iam_GetProviderConfigName iamKey)
          [ClientOptWithEndpoint (ZoneTranslation (ikp_Zone (mr_ForProvider iamKey)))])) (\<lambda>exo.
      andThen (onWorld (FetchProviderConfig run kb (iam_GetProviderConfigName iamKey))) (\<lambda>(apiKey, apiSecret).
      ret \<lparr>ip_exoscaleClient = ec_Exoscale exo, ip_apiKey = apiKey, ip_apiSecret = apiSecret\<rparr>))))"

section \<open>Roles\<close>

definition IamRolePermissionsBypassGovernanceRetention :: string where
  "IamRolePermissionsBypassGovernanceRetention = ''bypass-governance-retention''"

text \<open>A string of the policy language, in single quotes.\<close>

definition quoted :: "string \<Rightarrow> string" where
  "quoted s = CHR 0x27 # s @ [CHR 0x27]"

definition denyListing :: string where
  "denyListing = ''operation in ['' @ quoted ''list-sos-buckets-usage'' @ '', '' @ quoted ''list-buckets'' @ '']''"

definition otherBucket :: "string \<Rightarrow> string" where
  "otherBucket bucket = ''resources.bucket != '' @ quoted bucket"

definition createRole :: "string \<Rightarrow> string list \<Rightarrow> CreateIAMRoleRequest" where
  "createRole keyName buckets =
     (let rules = [\<lparr>pr_Action = PolicyDeny, pr_Expression = denyListing\<rparr>] @
        map (\<lambda>bucket. \<lparr>pr_Action = PolicyDeny, pr_Expression = otherBucket bucket\<rparr>) buckets @
        [\<lparr>pr_Action = PolicyAllow, pr_Expression = ''true''\<rparr>]
      in \<lparr>cr_Name = keyName,
          cr_Description = ''IAM Role for SOS+IAM creation, it was autogenerated by provider-exoscale'',
          cr_Permissions = [IamRolePermissionsBypassGovernanceRetention], cr_Editable = Some True, cr_Labels = None,
          cr_Policy = Some \<lparr>po_DefaultServiceStrategy = StrategyDeny,
            po_Services = [(''sos'', \<lparr>sp_Type = TypeRules, sp_Rules = rules\<rparr>)]\<rparr>\<rparr>)"

section \<open>Connection details\<close>

definition iam_toConnectionDetails :: "AccessKey option \<Rightarrow> ConnectionDetails outcome" where
  "iam_toConnectionDetails key =
     bind_outcome (deref key) (\<lambda>iamKey.
     if acc_Key iamKey = [] then Fail (Errorf ''iamKey key not found in connection details'' [])
     else if acc_Secret iamKey = [] then Fail (Errorf ''iamKey secret not found in connection details'' [])
     else Ret [(AccessKeyIDName, acc_Key iamKey), (SecretAccessKeyName, acc_Secret iamKey)])"

section \<open>Create\<close>

text \<open>The loop around \<^verbatim>\<open>CreateAPIKey\<close>: at most so many requests, until one succeeds; \<open>r\<close> is the last answer.\<close>

fun createAPIKeyLoop :: "nat \<Rightarrow> ('w, 'k) call \<Rightarrow> liberror + 'k \<Rightarrow> ('w, 'k) call" where
  "createAPIKeyLoop 0 request r w = (r, w)"
| "createAPIKeyLoop (Suc n) request r w = (case request w of
     (Inl err, w') \<Rightarrow> createAPIKeyLoop n request (Inl err) w'
   | (Inr key, w') \<Rightarrow> (Inr key, w'))"

definition SetMetaDataAnnotation :: "string \<Rightarrow> string \<Rightarrow> IAMKey \<Rightarrow> IAMKey" where
  "SetMetaDataAnnotation k v r =
     r\<lparr>mr_Meta := (mr_Meta r)\<lparr>om_Annotations := Some (AList.update k v (map_entries (om_Annotations (mr_Meta r))))\<rparr>\<rparr>"

definition freshKey :: "IAMAPIKeyCreated \<Rightarrow> AccessKey" where
  "freshKey created = \<lparr>acc_Key = kc_Key created, acc_Name = kc_Name created, acc_Secret = kc_Secret created, acc_Resources = []\<rparr>"

definition createKeyForRole :: "'w iam_api \<Rightarrow> string \<Rightarrow> string \<Rightarrow> (iamContext \<times> 'w, unit) act" where
  "createKeyForRole api keyName iamRoleID =
     andThen (invoke (createAPIKeyLoop 10 (ia_CreateAPIKey api \<lparr>ca_Name = keyName, ca_RoleID = iamRoleID\<rparr>)
        (Inr \<lparr>kc_Key = [], kc_Name = [], kc_Secret = []\<rparr>))) (\<lambda>created.
     if kc_Key created = [] then ret ()
     else
       andThen (modifyObj (\<lambda>cx. cx\<lparr>ic_iamExoscaleKey := Some (freshKey created)\<rparr>)) (\<lambda>_.
       andThen (modifyObj (updateKey (SetMetaDataAnnotation KeyIDAnnotationKey (kc_Key created)))) (\<lambda>_.
       modifyObj (updateKey (SetMetaDataAnnotation RoleIDAnnotationKey iamRoleID)))))"

definition createIAMKey :: "'w iam_api \<Rightarrow> (iamContext \<times> 'w, unit) act" where
  "createIAMKey api =
     andThen getObj (\<lambda>cx.
     let iamKey = ic_iamKey cx; keyName = ikp_KeyName (mr_ForProvider iamKey) in
     andThen (invoke (ia_CreateIAMRole api (createRole keyName (iamBuckets iamKey)))) (\<lambda>op.
     if op_State op \<noteq> OperationStateSuccess then ret ()
     else andThen (lift (deref (op_Reference op))) (createKeyForRole api keyName)))"

definition getCommonLabels :: "string \<Rightarrow> string gomap" where
  "getCommonLabels name =
     [(''app.kubernetes.io/instance'', name),
      (''app.kubernetes.io/managed-by'', ''exoscale.crossplane.io''),
      (''app.kubernetes.io/created-by'', ''controller-iamkey'')]"

text \<open>Writing all entries of a map into another, as \<^verbatim>\<open>labels.Merge\<close> and the loop over the details do.\<close>

definition mergeMap :: "'v gomap option \<Rightarrow> 'v gomap \<Rightarrow> 'v gomap option" where
  "mergeMap m add = Some (fold (\<lambda>(k, v). AList.update k v) add (map_entries m))"

definition mutateSecret :: "'w iam_api \<Rightarrow> iamContext \<Rightarrow> CredentialsSecret \<Rightarrow> CredentialsSecret outcome" where
  "mutateSecret api cx secret =
     (let labelled = secret\<lparr>cs_Labels := mergeMap (cs_Labels secret) (getCommonLabels (om_Name (mr_Meta (ic_iamKey cx))))\<rparr> in
      bind_outcome (wrap_outcome (Wrapf ''cannot parse connection details: %w'' []) (iam_toConnectionDetails (ic_iamExoscaleKey cx)))
        (\<lambda>connDetails. of_lib (ia_SetOwnerReference api (ic_iamKey cx)
           (labelled\<lparr>sec_Data := mergeMap (sec_Data labelled) connDetails, cs_Immutable := Some True\<rparr>))))"

definition namedSecret :: "SecretReference \<Rightarrow> CredentialsSecret" where
  "namedSecret ref = \<lparr>sec_Name = sr_Name ref, sec_Namespace = sr_Namespace ref, sec_Data = None,
     cs_Labels = None, cs_Immutable = None, cs_OwnerReferences = []\<rparr>"

definition createCredentialsSecret :: "'w iam_api \<Rightarrow> (iamContext \<times> 'w, unit) act" where
  "createCredentialsSecret api =
     andThen getObj (\<lambda>cx.
     andThen (lift (deref (mr_WriteConnectionSecretToReference (ic_iamKey cx)))) (\<lambda>secretRef.
     andThen (modifyObj (\<lambda>cx. cx\<lparr>ic_credentialsSecret := Some (namedSecret secretRef)\<rparr>)) (\<lambda>_.
     andThen (onWorld (ia_CreateOrUpdate api (namedSecret secretRef) (mutateSecret api cx))) (\<lambda>secret.
     modifyObj (\<lambda>cx. cx\<lparr>ic_credentialsSecret := Some secret\<rparr>)))))"

definition iam_emitEvent :: "'w iam_api \<Rightarrow> string \<Rightarrow> string \<Rightarrow> (iamContext \<times> 'w, unit) act" where
  "iam_emitEvent api reason message = onWorld (\<lambda>w. (Ret (), ia_Event api reason message w))"

definition iam_emitCreationEvent :: "'w iam_api \<Rightarrow> (iamContext \<times> 'w, unit) act" where
  "iam_emitCreationEvent api = iam_emitEvent api ''Created'' ''IAMKey successfully created''"

definition iam_Create ::
  "runtime_lib \<Rightarrow> (iamContext \<times> 'w) runner \<Rightarrow> 'w iam_api \<Rightarrow> (IAMKey obj \<times> 'w, ExternalCreation) act" where
  "iam_Create rt run api = withTyped assertPanic
     (andThen (modifyObj (set_condition rt (rt_Creating rt))) (\<lambda>_.
      andThen getObj (\<lambda>iam.
      if iko_KeyID (mr_AtProvider iam) \<noteq> [] then ret noCreation
      else
        andThen (wrapErr (Wrapf ''cannot create IAM Key'' [])
          (inPipeline None (run
            [(''create IAM key'', createIAMKey api),
             (''create credentials secret'', createCredentialsSecret api),
             (''emit event'', iam_emitCreationEvent api)]))) (\<lambda>pctx.
        andThen (wrapErr (Wrapf ''cannot parse connection details: %w'' [])
          (lift (iam_toConnectionDetails (ic_iamExoscaleKey pctx)))) (\<lambda>connDetails.
        ret \<lparr>ecr_ConnectionDetails = connDetails\<rparr>)))))"

section \<open>Observe\<close>

text \<open>\<^verbatim>\<open>delete\<close> on the annotations, which may be a nil map.\<close>

definition dropAnnotation :: "string \<Rightarrow> IAMKey \<Rightarrow> IAMKey" where
  "dropAnnotation k r =
     r\<lparr>mr_Meta := (mr_Meta r)\<lparr>om_Annotations := map_option (AList.delete k) (om_Annotations (mr_Meta r))\<rparr>\<rparr>"

definition setRoleID :: "string \<Rightarrow> IAMKey \<Rightarrow> IAMKey" where
  "setRoleID rid r = dropAnnotation RoleIDAnnotationKey (r\<lparr>mr_AtProvider := (mr_AtProvider r)\<lparr>iko_RoleID := rid\<rparr>\<rparr>)"

definition setKeyID :: "string \<Rightarrow> IAMKey \<Rightarrow> IAMKey" where
  "setKeyID kid r = dropAnnotation KeyIDAnnotationKey (r\<lparr>mr_AtProvider := (mr_AtProvider r)\<lparr>iko_KeyID := kid\<rparr>\<rparr>)"

definition fetchCredentialsSecret :: "'w iam_api \<Rightarrow> (iamContext \<times> 'w, unit) act" where
  "fetchCredentialsSecret api =
     andThen getObj (\<lambda>cx.
     andThen (modifyObj (\<lambda>cx. cx\<lparr>ic_credentialsSecret := Some (namedSecret \<lparr>sr_Name = [], sr_Namespace = []\<rparr>)\<rparr>)) (\<lambda>_.
     andThen (lift (deref (mr_WriteConnectionSecretToReference (ic_iamKey cx)))) (\<lambda>secretRef.
     andThen (invoke (ia_GetSecret api secretRef)) (\<lambda>secret.
     modifyObj (\<lambda>cx. cx\<lparr>ic_credentialsSecret := Some secret\<rparr>)))))"

definition checkSecret :: "(iamContext \<times> 'w, unit) act" where
  "checkSecret =
     andThen getObj (\<lambda>cx.
     andThen (lift (deref (ic_credentialsSecret cx))) (\<lambda>sec.
     if map_entries (sec_Data sec) = [] then
       fail (Errorf ''secret %q does not have any data'' [sec_Namespace sec @ ''/'' @ sec_Name sec])
     else
       andThen (lift (deref (ic_iamExoscaleKey cx))) (\<lambda>key.
       modifyObj (\<lambda>cx. cx\<lparr>ic_iamExoscaleKey :=
         Some (key\<lparr>acc_Secret := getOr [] (map_entries (sec_Data sec)) SecretAccessKeyName\<rparr>)\<rparr>))))"

fun getBuckets :: "AccessKeyResource list \<Rightarrow> string list" where
  "getBuckets [] = []"
| "getBuckets (r # rs) = (if ar_Domain r = SOSResourceDomain then ar_ResourceName r # getBuckets rs else getBuckets rs)"

definition observeRole :: "'w iam_api \<Rightarrow> (iamContext \<times> 'w, IAMRole option) act" where
  "observeRole api =
     andThen getObj (\<lambda>cx.
     andThen (invoke (ia_GetIAMRole api (iko_RoleID (mr_AtProvider (ic_iamKey cx))))) (\<lambda>respRole.
     if ir_ID respRole = [] then ret None else ret (Some respRole)))"

text \<open>\<^verbatim>\<open>reflect.DeepEqual\<close> on two policies: their maps of services have the same entries.\<close>

definition policyEqual :: "IAMPolicy option \<Rightarrow> IAMPolicy option \<Rightarrow> bool" where
  "policyEqual p q = (case (p, q) of
     (None, None) \<Rightarrow> True
   | (Some a, Some b) \<Rightarrow> po_DefaultServiceStrategy a = po_DefaultServiceStrategy b \<and>
       length (po_Services a) = length (po_Services b) \<and>
       list_all (\<lambda>(k, v). map_of (po_Services b) k = Some v) (po_Services a)
   | _ \<Rightarrow> False)"

definition isRoleUptodate :: "'w iam_api \<Rightarrow> (iamContext \<times> 'w, unit) act" where
  "isRoleUptodate api =
     andThen getObj (\<lambda>cx.
     if annotation (mr_Meta (ic_iamKey cx)) ''newKeyType'' = None then ret ()
     else
       let errNotUpToDate = Errorf ''roles are not equal, IAM Key is not up to date'' [] in
       andThen (catch (observeRole api)) (\<lambda>r. case r of
         Inl _ \<Rightarrow> fail errNotUpToDate
       | Inr obsRole \<Rightarrow>
           andThen (lift (deref obsRole)) (\<lambda>role.
           let desiredRole = createRole (ikp_KeyName (mr_ForProvider (ic_iamKey cx))) (iamBuckets (ic_iamKey cx)) in
           if policyEqual (ir_Policy role) (cr_Policy desiredRole) then ret () else fail errNotUpToDate)))"

text \<open>The part of \<^verbatim>\<open>Observe\<close> after the key was found.\<close>

definition observeKey ::
  "runtime_lib \<Rightarrow> (iamContext \<times> 'w) runner \<Rightarrow> 'w iam_api \<Rightarrow> IAMAPIKey \<Rightarrow> (IAMKey \<times> 'w, ExternalObservation) act" where
  "observeKey rt run api apiKey =
     andThen (catch (inPipeline (Some \<lparr>acc_Key = ak_Key apiKey, acc_Name = ak_Name apiKey, acc_Secret = [], acc_Resources = []\<rparr>)
       (run [(''fetch credentials secret'', fetchCredentialsSecret api),
             (''check credentials'', checkSecret),
             (''check if role is up to date'', isRoleUptodate api)]))) (\<lambda>p. case p of
       Inl _ \<Rightarrow> ret \<lparr>eo_ResourceExists = True, eo_ResourceUpToDate = False, eo_ConnectionDetails = []\<rparr>
     | Inr pctx \<Rightarrow>
         andThen (lift (deref (ic_iamExoscaleKey pctx))) (\<lambda>key.
         andThen (modifyObj (\<lambda>r. r\<lparr>mr_AtProvider := (mr_AtProvider r)\<lparr>iko_KeyName := acc_Name key,
            iko_ServicesSpec := \<lparr>svs_SOS = \<lparr>sos_Buckets =
              (if iko_RoleID (mr_AtProvider r) = [] then getBuckets (acc_Resources key) else iamBuckets r)\<rparr>\<rparr>\<rparr>\<rparr>)) (\<lambda>_.
         andThen (wrapErr (Wrapf ''cannot parse connection details: %w'' []) (lift (iam_toConnectionDetails (Some key)))) (\<lambda>connDetails.
         andThen (modifyObj (set_condition rt (rt_Available rt))) (\<lambda>_.
         ret \<lparr>eo_ResourceExists = True, eo_ResourceUpToDate = True, eo_ConnectionDetails = connDetails\<rparr>)))))"

text \<open>
  What \<^verbatim>\<open>Create\<close> left in the annotations moves to the status, unless the status has it already; the result
  tells whether the status has it then.
\<close>

definition recoverRoleID :: "'w iam_api \<Rightarrow> (IAMKey \<times> 'w, bool) act" where
  "recoverRoleID api =
     andThen getObj (\<lambda>iamKey.
     if iko_RoleID (mr_AtProvider iamKey) = [] then
       (case ia_ParseUUID api (getOr [] (map_entries (om_Annotations (mr_Meta iamKey))) RoleIDAnnotationKey) of
          Inr roleID \<Rightarrow> andThen (modifyObj (setRoleID roleID)) (\<lambda>_. ret True)
        | Inl _ \<Rightarrow> ret False)
     else ret True)"

definition recoverKeyID :: "(IAMKey \<times> 'w, bool) act" where
  "recoverKeyID =
     andThen getObj (\<lambda>iamKey.
     if iko_KeyID (mr_AtProvider iamKey) = [] then
       (case annotation (mr_Meta iamKey) KeyIDAnnotationKey of
          Some keyID \<Rightarrow> andThen (modifyObj (setKeyID keyID)) (\<lambda>_. ret True)
        | None \<Rightarrow> ret False)
     else ret True)"

definition iam_Observe ::
  "runtime_lib \<Rightarrow> (iamContext \<times> 'w) runner \<Rightarrow> 'w iam_api \<Rightarrow> (IAMKey obj \<times> 'w, ExternalObservation) act" where
  "iam_Observe rt run api = withTyped assertPanic
     (andThen (recoverRoleID api) (\<lambda>hasRole.
      if \<not> hasRole then ret noObservation
      else
        andThen recoverKeyID (\<lambda>hasKey.
        if \<not> hasKey then ret noObservation
        else
          andThen getObj (\<lambda>iamKey.
          andThen (attempt (ia_GetAPIKey api (iko_KeyID (mr_AtProvider iamKey)))) (\<lambda>r. case r of
            Inl err \<Rightarrow>
              (if om_DeletionTimestamp (mr_Meta iamKey) \<noteq> None then ret noObservation else fail (Lib err))
          | Inr apiKey \<Rightarrow> observeKey rt run api apiKey)))))"

section \<open>Update, delete, disconnect\<close>

definition iam_Update :: "runtime_lib \<Rightarrow> 'w iam_api \<Rightarrow> (IAMKey obj \<times> 'w, ExternalUpdate) act" where
  "iam_Update rt api = withTyped assertPanic
     (andThen (modifyObj (set_condition rt (Updating rt))) (\<lambda>_.
      andThen getObj (\<lambda>iamKey.
      let role = createRole (ikp_KeyName (mr_ForProvider iamKey)) (iamBuckets iamKey);
          updateRole = \<lparr>ur_Description = cr_Description role, ur_Labels = cr_Labels role,
            ur_Permissions = cr_Permissions role, ur_Policy = None\<rparr> in
      andThen (invoke (ia_UpdateIAMRole api (iko_RoleID (mr_AtProvider iamKey)) updateRole)) (\<lambda>_.
      ret ExternalUpdate))))"

definition deleteIAMKey :: "'w iam_api \<Rightarrow> (iamContext \<times> 'w, unit) act" where
  "deleteIAMKey api =
     andThen getObj (\<lambda>cx.
     andThen (invoke (ia_DeleteAPIKey api (iko_KeyID (mr_AtProvider (ic_iamKey cx))))) (\<lambda>op.
     if op_State op \<noteq> OperationStateSuccess then ret ()
     else
       andThen (invoke (ia_DeleteIAMRole api (iko_RoleID (mr_AtProvider (ic_iamKey cx))))) (\<lambda>op.
       ret ())))"

definition iam_emitDeletionEvent :: "'w iam_api \<Rightarrow> (iamContext \<times> 'w, unit) act" where
  "iam_emitDeletionEvent api = iam_emitEvent api ''Deleted'' ''IAMKey deleted''"

definition iam_Delete ::
  "runtime_lib \<Rightarrow> (iamContext \<times> 'w) runner \<Rightarrow> 'w iam_api \<Rightarrow> (IAMKey obj \<times> 'w, ExternalDelete) act" where
  "iam_Delete rt run api = withTyped assertPanic
     (andThen (modifyObj (set_condition rt (rt_Deleting rt))) (\<lambda>_.
      andThen (wrapErr (Wrapf ''cannot deprovision iam key'' [])
        (inPipeline None (run
          [(''delete IAM key'', deleteIAMKey api),
           (''emit event'', iam_emitDeletionEvent api)]))) (\<lambda>_.
      ret ExternalDelete)))"

definition iam_Disconnect :: "('s, unit) act" where
  "iam_Disconnect = ret ()"

section \<open>Webhook\<close>

text \<open>\<^verbatim>\<open>equality.Semantic.DeepEqual\<close> on the parameters and on the secret reference.\<close>

record iam_equality =
  eq_ForProvider :: "IAMKeyParameters \<Rightarrow> IAMKeyParameters \<Rightarrow> bool"
  eq_SecretRef :: "SecretReference option \<Rightarrow> SecretReference option \<Rightarrow> bool"

definition iam_ValidateCreate :: "IAMKey obj \<Rightarrow> unit outcome" where
  "iam_ValidateCreate ob = (case ob of
     Other t \<Rightarrow> assertPanic t
   | Typed iamKey \<Rightarrow>
       if iamBuckets iamKey = [] then
         Fail (Errorf ''an IAMKey named %q should have at least 1 allowed bucket'' [om_Name (mr_Meta iamKey)])
       else (case mr_WriteConnectionSecretToReference iamKey of
         None \<Rightarrow> Fail (Errorf ''.spec.writeConnectionSecretToRef.name and .spec.writeConnectionSecretToRef.namespace are required'' [])
       | Some ref \<Rightarrow>
           if sr_Name ref = [] \<or> sr_Namespace ref = [] then
             Fail (Errorf ''.spec.writeConnectionSecretToRef.name and .spec.writeConnectionSecretToRef.namespace are required'' [])
           else requireProviderConfig (mr_ProviderConfigReference iamKey)))"

definition iam_ValidateUpdate :: "iam_equality \<Rightarrow> IAMKey obj \<Rightarrow> IAMKey obj \<Rightarrow> unit outcome" where
  "iam_ValidateUpdate eq oldObj newObj = (case newObj of
     Other t \<Rightarrow> assertPanic t
   | Typed newIAMKey \<Rightarrow> (case oldObj of
       Other t \<Rightarrow> assertPanic t
     | Typed oldIAMKey \<Rightarrow>
         let created = iko_KeyID (mr_AtProvider oldIAMKey) \<noteq> [] in
         if created \<and> \<not> eq_ForProvider eq (mr_ForProvider newIAMKey) (mr_ForProvider oldIAMKey) then
           Fail (Errorf ''an IAMKey named %q has been created already, you cannot update it'' [om_Name (mr_Meta oldIAMKey)])
         else if created \<and> \<not> eq_SecretRef eq (mr_WriteConnectionSecretToReference newIAMKey)
             (mr_WriteConnectionSecretToReference oldIAMKey) then
           Fail (Errorf ''an IAMKey named %q has been created already, you cannot update the connection secret reference''
             [om_Name (mr_Meta oldIAMKey)])
         else requireProviderConfig (mr_ProviderConfigReference newIAMKey)))"

definition iam_ValidateDelete :: "IAMKey obj \<Rightarrow> unit outcome" where
  "iam_ValidateDelete ob = (case ob of Other t \<Rightarrow> assertPanic t | Typed b \<Rightarrow> Ret ())"


section \<open>Frame\<close>

lemma inPipeline_apply:
  "inPipeline key body (m, w) =
     (let r = body (\<lparr>ic_iamKey = m, ic_iamExoscaleKey = key, ic_credentialsSecret = None\<rparr>, w)
      in (bind_outcome (fst r) (\<lambda>_. Ret (fst (snd r))), (ic_iamKey (fst (snd r)), snd (snd r))))"
  by (simp add: inPipeline_def Let_def split: prod.splits)

lemma steady_inPipeline [steady_intros]:
  "steady (\<lambda>s. f (ic_iamKey (fst s))) body \<Longrightarrow> steady (\<lambda>s. f (fst s)) (inPipeline key body)"
  by (auto simp: steady_def inPipeline_apply Let_def)

lemma keeps_inPipeline [keeps_intros]: "keeps (\<lambda>cx. P (ic_iamKey cx)) body \<Longrightarrow> keeps P (inPipeline key body)"
  by (auto simp: keeps_def inPipeline_apply Let_def)

lemma userSpec_annotations [simp]:
  "userSpec (SetMetaDataAnnotation k v r) = userSpec r" "userSpec (setRoleID rid r) = userSpec r"
  "userSpec (setKeyID kid r) = userSpec r" "userSpec (set_condition rt c r) = userSpec r"
  "userSpec (r\<lparr>mr_AtProvider := ob\<rparr>) = userSpec r"
  for r :: IAMKey
  by (simp_all add: userSpec_def SetMetaDataAnnotation_def setRoleID_def setKeyID_def dropAnnotation_def)

lemma steady_createIAMKey [steady_intros]: "steady (\<lambda>s. userSpec (ic_iamKey (fst s))) (createIAMKey api)"
  unfolding createIAMKey_def createKeyForRole_def Let_def
  by (intro steady_intros steady_modifyObj) (simp_all add: updateKey_def)

lemma steady_createCredentialsSecret [steady_intros]:
  "steady (\<lambda>s. f (ic_iamKey (fst s))) (createCredentialsSecret api)"
  unfolding createCredentialsSecret_def by (intro steady_intros steady_modifyObj) simp_all

lemma steady_iam_emitEvent [steady_intros]: "steady (\<lambda>s. f (fst s)) (iam_emitEvent api reason message)"
  unfolding iam_emitEvent_def by (intro steady_intros)

lemma steady_iam_checks [steady_intros]:
  "steady (\<lambda>s. f (ic_iamKey (fst s))) (fetchCredentialsSecret api)"
  "steady (\<lambda>s. f (ic_iamKey (fst s))) checkSecret"
  "steady (\<lambda>s. f (ic_iamKey (fst s))) (isRoleUptodate api)"
  unfolding fetchCredentialsSecret_def checkSecret_def isRoleUptodate_def observeRole_def Let_def
  by (intro steady_intros steady_modifyObj; simp)+

lemma iam_Create_spec: "steady (\<lambda>s. map_obj userSpec (fst s)) (iam_Create rt (runSteps wrap) api)"
  unfolding iam_Create_def runSteps.simps iam_emitCreationEvent_def
  by (intro steady_withTyped steady_intros steady_modifyObj) simp_all

lemma iam_Observe_spec: "steady (\<lambda>s. map_obj userSpec (fst s)) (iam_Observe rt (runSteps wrap) api)"
  unfolding iam_Observe_def recoverRoleID_def recoverKeyID_def observeKey_def runSteps.simps
  by (intro steady_withTyped steady_intros steady_modifyObj) simp_all

lemma iam_Update_spec: "steady (\<lambda>s. map_obj userSpec (fst s)) (iam_Update rt api)"
  unfolding iam_Update_def Let_def
  by (intro steady_withTyped steady_intros steady_modifyObj) simp_all

lemma steady_deleteIAMKey [steady_intros]: "steady (\<lambda>s. f (fst s)) (deleteIAMKey api)"
  unfolding deleteIAMKey_def by (intro steady_intros)

lemma iam_Delete_spec: "steady (\<lambda>s. map_obj userSpec (fst s)) (iam_Delete rt (runSteps wrap) api)"
  unfolding iam_Delete_def runSteps.simps iam_emitDeletionEvent_def
  by (intro steady_withTyped steady_intros steady_modifyObj) simp_all

text \<open>A key the status knows stays known.\<close>

definition hasKeyID :: "IAMKey \<Rightarrow> bool" where
  "hasKeyID r \<longleftrightarrow> iko_KeyID (mr_AtProvider r) \<noteq> []"

lemma hasKeyID_writes [simp]:
  "hasKeyID (SetMetaDataAnnotation k v r) = hasKeyID r" "hasKeyID (setRoleID rid r) = hasKeyID r"
  "hasKeyID (set_condition rt c r) = hasKeyID r"
  by (simp_all add: hasKeyID_def SetMetaDataAnnotation_def setRoleID_def dropAnnotation_def)

lemma keeps_recoverKeyID: "keeps hasKeyID recoverKeyID"
  by (auto simp: keeps_def recoverKeyID_def hasKeyID_def run_simps)

lemma keeps_key_steady: "steady (\<lambda>s. hasKeyID (ic_iamKey (fst s))) m \<Longrightarrow> keeps (\<lambda>cx. hasKeyID (ic_iamKey cx)) m"
  by (rule keeps_steady [where f = "\<lambda>cx. hasKeyID (ic_iamKey cx)" and P = "\<lambda>b. b"])

lemma keeps_createIAMKey: "keeps (\<lambda>cx. hasKeyID (ic_iamKey cx)) (createIAMKey api)"
  unfolding createIAMKey_def createKeyForRole_def Let_def
  by (intro keeps_intros keeps_modifyObj) (simp_all add: updateKey_def)

lemmas keeps_iam_steps = keeps_key_steady [OF steady_createCredentialsSecret]
  keeps_key_steady [OF steady_iam_checks(1)] keeps_key_steady [OF steady_iam_checks(2)]
  keeps_key_steady [OF steady_iam_checks(3)] keeps_key_steady [OF steady_deleteIAMKey]
  keeps_key_steady [OF steady_iam_emitEvent] keeps_createIAMKey

lemma iam_key_kept:
  "keeps (obj_all hasKeyID) (iam_Observe rt (runSteps wrap) api)"
  "keeps (obj_all hasKeyID) (iam_Create rt (runSteps wrap) api)"
  "keeps (obj_all hasKeyID) (iam_Update rt api)"
  "keeps (obj_all hasKeyID) (iam_Delete rt (runSteps wrap) api)"
proof -
  show "keeps (obj_all hasKeyID) (iam_Observe rt (runSteps wrap) api)"
    unfolding iam_Observe_def recoverRoleID_def observeKey_def runSteps.simps
    by (intro keeps_withTyped keeps_intros keeps_modifyObj keeps_recoverKeyID keeps_iam_steps)
      (simp_all add: hasKeyID_def setRoleID_def dropAnnotation_def)
  show "keeps (obj_all hasKeyID) (iam_Create rt (runSteps wrap) api)"
    unfolding iam_Create_def runSteps.simps iam_emitCreationEvent_def
    by (intro keeps_withTyped keeps_intros keeps_modifyObj keeps_iam_steps) simp
  show "keeps (obj_all hasKeyID) (iam_Update rt api)"
    unfolding iam_Update_def Let_def by (intro keeps_withTyped keeps_intros keeps_modifyObj) simp
  show "keeps (obj_all hasKeyID) (iam_Delete rt (runSteps wrap) api)"
    unfolding iam_Delete_def runSteps.simps iam_emitDeletionEvent_def
    by (intro keeps_withTyped keeps_intros keeps_modifyObj keeps_iam_steps) simp
qed

section \<open>The webhook\<close>

text \<open>Deep equality tells the parameters, and the references, apart exactly when they differ.\<close>

definition equality_law :: "iam_equality \<Rightarrow> bool" where
  "equality_law eq \<longleftrightarrow> (\<forall>a b. eq_ForProvider eq a b \<longleftrightarrow> a = b) \<and> (\<forall>a b. eq_SecretRef eq a b \<longleftrightarrow> a = b)"

definition sameValue :: iam_equality where
  "sameValue = \<lparr>eq_ForProvider = (=), eq_SecretRef = (=)\<rparr>"

lemma equality_law_sameValue: "equality_law eq \<longleftrightarrow> eq = sameValue"
  by (cases eq) (auto simp: equality_law_def sameValue_def fun_eq_iff)

lemma iam_ValidateUpdate_iff:
  "iam_ValidateUpdate sameValue (Typed old) (Typed new) = Ret () \<longleftrightarrow>
     (iko_KeyID (mr_AtProvider old) \<noteq> [] \<longrightarrow> mr_ForProvider new = mr_ForProvider old \<and>
        mr_WriteConnectionSecretToReference new = mr_WriteConnectionSecretToReference old) \<and>
     refName (mr_ProviderConfigReference new) \<noteq> []"
  by (auto simp: iam_ValidateUpdate_def sameValue_def Let_def)

interpretation ik: guarded_resource "iam_Observe rt (runSteps wrap) api" "iam_Create rt (runSteps wrap) api"
  "iam_Update rt api" "iam_Delete rt (runSteps wrap) api" userSpec
  "\<lambda>old new. iam_ValidateUpdate sameValue (Typed old) (Typed new)" mr_AtProvider "\<lambda>ob. iko_KeyID ob \<noteq> []"
  "\<lambda>r. (mr_WriteConnectionSecretToReference r, mr_ForProvider r)" "\<lambda>r. refName (mr_ProviderConfigReference r) \<noteq> []"
  "\<lambda>(_, _, sec, par). (sec, par)" "\<lambda>(_, ref, _, _). refName ref \<noteq> []"
  for rt :: runtime_lib and wrap :: "string \<Rightarrow> goerror \<Rightarrow> goerror" and api :: "'w iam_api"
  by unfold_locales
    (auto simp: iam_Observe_spec iam_Create_spec iam_Update_spec iam_Delete_spec iam_ValidateUpdate_iff userSpec_def)


section \<open>What the operations do\<close>

text \<open>The loop ends with the first success, or with the last error.\<close>

lemma createAPIKeyLoop_Inr:
  "createAPIKeyLoop n request r w = (Inr key, w') \<Longrightarrow> (\<exists>w0. request w0 = (Inr key, w')) \<or> (n = 0 \<and> r = Inr key \<and> w' = w)"
proof (induction n arbitrary: r w)
  case (Suc n)
  obtain a w0 where "request w = (a, w0)" by fastforce
  then show ?case using Suc by (cases a) auto
qed simp

lemma createAPIKeyLoop_last: "request w0 = (Inr key, w') \<Longrightarrow> createAPIKeyLoop (Suc n) request r w0 = (Inr key, w')"
  by simp

definition annotatedKey :: "IAMAPIKeyCreated \<Rightarrow> string \<Rightarrow> IAMKey \<Rightarrow> IAMKey" where
  "annotatedKey created roleID r =
     SetMetaDataAnnotation RoleIDAnnotationKey roleID (SetMetaDataAnnotation KeyIDAnnotationKey (kc_Key created) r)"

text \<open>A run of \<^verbatim>\<open>createIAMKey\<close> that leaves a key behind went through the role and the key request.\<close>

lemma createKeyForRole_key:
  assumes "createKeyForRole api name roleID (cx, w) = (Ret (), (cx', w'))" "ic_iamExoscaleKey cx = None" "ic_iamExoscaleKey cx' = Some key"
  shows "\<exists>created w0. ia_CreateAPIKey api \<lparr>ca_Name = name, ca_RoleID = roleID\<rparr> w0 = (Inr created, w') \<and>
    key = freshKey created \<and>
    cx' = cx\<lparr>ic_iamKey := annotatedKey created roleID (ic_iamKey cx), ic_iamExoscaleKey := Some key\<rparr>"
proof -
  obtain created w2 where
    loop: "createAPIKeyLoop 10 (ia_CreateAPIKey api \<lparr>ca_Name = name, ca_RoleID = roleID\<rparr>)
       (Inr \<lparr>kc_Key = [], kc_Name = [], kc_Secret = []\<rparr>) w = (Inr created, w2)"
    and rest: "(if kc_Key created = [] then ret () else
       andThen (modifyObj (\<lambda>cx. cx\<lparr>ic_iamExoscaleKey := Some (freshKey created)\<rparr>)) (\<lambda>_.
       andThen (modifyObj (updateKey (SetMetaDataAnnotation KeyIDAnnotationKey (kc_Key created)))) (\<lambda>_.
       modifyObj (updateKey (SetMetaDataAnnotation RoleIDAnnotationKey roleID))))) (cx, w2) = (Ret (), (cx', w'))"
    using assms(1) by (auto simp: createKeyForRole_def Ret_iffs)
  have "kc_Key created \<noteq> []" "w' = w2"
    "cx' = updateKey (SetMetaDataAnnotation RoleIDAnnotationKey roleID) (updateKey (SetMetaDataAnnotation KeyIDAnnotationKey (kc_Key created))
       (cx\<lparr>ic_iamExoscaleKey := Some (freshKey created)\<rparr>))"
    using rest assms(2,3) by (auto simp: Ret_iffs split: if_splits)
  then show ?thesis
    using createAPIKeyLoop_Inr [OF loop] assms(3) by (auto simp: updateKey_def annotatedKey_def)
qed

lemma createIAMKey_key:
  assumes "createIAMKey api (cx, w) = (Ret (), (cx', w'))" "ic_iamExoscaleKey cx = None" "ic_iamExoscaleKey cx' = Some key"
  shows "\<exists>op roleID created w1 w2. ia_CreateIAMRole api (createRole (ikp_KeyName (mr_ForProvider (ic_iamKey cx))) (iamBuckets (ic_iamKey cx))) w = (Inr op, w1) \<and>
    op_State op = OperationStateSuccess \<and> op_Reference op = Some roleID \<and>
    ia_CreateAPIKey api \<lparr>ca_Name = ikp_KeyName (mr_ForProvider (ic_iamKey cx)), ca_RoleID = roleID\<rparr> w2 = (Inr created, w') \<and>
    key = freshKey created \<and>
    cx' = cx\<lparr>ic_iamKey := annotatedKey created roleID (ic_iamKey cx), ic_iamExoscaleKey := Some key\<rparr>"
proof -
  let ?name = "ikp_KeyName (mr_ForProvider (ic_iamKey cx))"
  obtain op w1 where role: "ia_CreateIAMRole api (createRole ?name (iamBuckets (ic_iamKey cx))) w = (Inr op, w1)"
    and rest: "(if op_State op \<noteq> OperationStateSuccess then ret () else
       andThen (lift (deref (op_Reference op))) (createKeyForRole api ?name)) (cx, w1) = (Ret (), (cx', w'))"
    using assms(1) by (auto simp: createIAMKey_def Let_def Ret_iffs)
  have success: "op_State op = OperationStateSuccess"
    using rest assms(2,3) by (auto split: if_splits)
  obtain roleID where roleID: "op_Reference op = Some roleID"
    and key: "createKeyForRole api ?name roleID (cx, w1) = (Ret (), (cx', w'))"
    using rest success by (auto simp: Ret_iffs)
  obtain created w2 where "ia_CreateAPIKey api \<lparr>ca_Name = ?name, ca_RoleID = roleID\<rparr> w2 = (Inr created, w')"
    "key = freshKey created" "cx' = cx\<lparr>ic_iamKey := annotatedKey created roleID (ic_iamKey cx), ic_iamExoscaleKey := Some key\<rparr>"
    using createKeyForRole_key [OF key assms(2,3)] by (elim exE conjE)
  then show ?thesis
    using role success roleID
    by (intro exI [of _ op] exI [of _ roleID] exI [of _ created] exI [of _ w1] exI [of _ w2] conjI)
qed

text \<open>A \<^verbatim>\<open>Create\<close> that returns, for a key the status does not know: the role, the key, the secret, the annotations.\<close>

lemma toConnectionDetails_Ret:
  "iam_toConnectionDetails key = Ret details \<longleftrightarrow> (\<exists>k. key = Some k \<and> acc_Key k \<noteq> [] \<and> acc_Secret k \<noteq> [] \<and>
     details = [(AccessKeyIDName, acc_Key k), (SecretAccessKeyName, acc_Secret k)])"
  by (auto simp: iam_toConnectionDetails_def bind_outcome_Ret_iff)

lemma createCredentialsSecret_Ret:
  assumes "createCredentialsSecret api (cx, w) = (Ret (), (cx', w'))"
  shows "\<exists>ref sec. mr_WriteConnectionSecretToReference (ic_iamKey cx) = Some ref \<and>
    ia_CreateOrUpdate api (namedSecret ref) (mutateSecret api cx) w = (Ret sec, w') \<and>
    cx' = cx\<lparr>ic_credentialsSecret := Some sec\<rparr>"
proof -
  obtain ref where ref: "mr_WriteConnectionSecretToReference (ic_iamKey cx) = Some ref"
    using assms by (auto simp: createCredentialsSecret_def Ret_iffs)
  then show ?thesis
    using assms by (cases "ia_CreateOrUpdate api (namedSecret ref) (mutateSecret api cx) w";
        cases "fst (ia_CreateOrUpdate api (namedSecret ref) (mutateSecret api cx) w)")
      (auto simp: createCredentialsSecret_def andThen_apply onWorld_apply)
qed


definition created_with :: "'w iam_api \<Rightarrow> IAMKey \<Rightarrow> 'w \<Rightarrow> string \<Rightarrow> IAMAPIKeyCreated \<Rightarrow> bool" where
  "created_with api k w roleID created \<longleftrightarrow>
     (\<exists>op w1 w2 w3. ia_CreateIAMRole api (createRole (ikp_KeyName (mr_ForProvider k)) (iamBuckets k)) w = (Inr op, w1) \<and>
       op_State op = OperationStateSuccess \<and> op_Reference op = Some roleID \<and>
       ia_CreateAPIKey api \<lparr>ca_Name = ikp_KeyName (mr_ForProvider k), ca_RoleID = roleID\<rparr> w2 = (Inr created, w3)) \<and>
     kc_Key created \<noteq> [] \<and> kc_Secret created \<noteq> []"

definition stored_in :: "'w iam_api \<Rightarrow> SecretReference \<Rightarrow> ConnectionDetails \<Rightarrow> bool" where
  "stored_in api ref details \<longleftrightarrow> (\<exists>cx w sec w'. ia_CreateOrUpdate api (namedSecret ref) (mutateSecret api cx) w = (Ret sec, w') \<and>
     iam_toConnectionDetails (ic_iamExoscaleKey cx) = Ret details)"

lemma iam_pipeline_Ret:
  assumes "runSteps wrap [(''create IAM key'', createIAMKey api), (''create credentials secret'', createCredentialsSecret api),
      (''emit event'', iam_emitCreationEvent api)] (cx, w) = (Ret (), (cx', w'))"
    and "ic_iamExoscaleKey cx = None" "iam_toConnectionDetails (ic_iamExoscaleKey cx') = Ret details"
  shows "\<exists>roleID created ref. created_with api (ic_iamKey cx) w roleID created \<and>
    ic_iamKey cx' = annotatedKey created roleID (ic_iamKey cx) \<and>
    details = [(AccessKeyIDName, kc_Key created), (SecretAccessKeyName, kc_Secret created)] \<and>
    mr_WriteConnectionSecretToReference (ic_iamKey cx) = Some ref \<and> stored_in api ref details"
proof -
  obtain cx1 w1 cx2 w2 where one: "createIAMKey api (cx, w) = (Ret (), (cx1, w1))"
    and two: "createCredentialsSecret api (cx1, w1) = (Ret (), (cx2, w2))" and "cx' = cx2"
    using assms(1) by (auto simp: Ret_iffs iam_emitCreationEvent_def iam_emitEvent_def onWorld_apply)
  then obtain ref sec where ref: "mr_WriteConnectionSecretToReference (ic_iamKey cx1) = Some ref"
    and sec: "ia_CreateOrUpdate api (namedSecret ref) (mutateSecret api cx1) w1 = (Ret sec, w2)"
    and cx': "cx' = cx1\<lparr>ic_credentialsSecret := Some sec\<rparr>"
    using createCredentialsSecret_Ret [OF two] by auto
  obtain key where key: "ic_iamExoscaleKey cx1 = Some key" "acc_Key key \<noteq> []" "acc_Secret key \<noteq> []"
    "details = [(AccessKeyIDName, acc_Key key), (SecretAccessKeyName, acc_Secret key)]"
    using assms(3) cx' by (auto simp: toConnectionDetails_Ret)
  obtain op roleID created wa wb where made:
    "ia_CreateIAMRole api (createRole (ikp_KeyName (mr_ForProvider (ic_iamKey cx))) (iamBuckets (ic_iamKey cx))) w = (Inr op, wa)"
    "op_State op = OperationStateSuccess" "op_Reference op = Some roleID"
    "ia_CreateAPIKey api \<lparr>ca_Name = ikp_KeyName (mr_ForProvider (ic_iamKey cx)), ca_RoleID = roleID\<rparr> wb = (Inr created, w1)"
    and fresh: "key = freshKey created"
    and cx1: "cx1 = cx\<lparr>ic_iamKey := annotatedKey created roleID (ic_iamKey cx), ic_iamExoscaleKey := Some key\<rparr>"
    using createIAMKey_key [OF one assms(2) key(1)] by (elim exE conjE)
  have "created_with api (ic_iamKey cx) w roleID created"
    unfolding created_with_def using made key fresh
    by (intro conjI exI [of _ op] exI [of _ wa] exI [of _ wb] exI [of _ w1]) (simp_all add: freshKey_def)
  moreover have "mr_WriteConnectionSecretToReference (ic_iamKey cx) = Some ref"
    using ref by (simp add: cx1 annotatedKey_def SetMetaDataAnnotation_def)
  moreover have "stored_in api ref details"
    unfolding stored_in_def using sec assms(3) cx' by (intro exI [of _ cx1] exI [of _ w1] exI [of _ sec] exI [of _ w2]) simp
  ultimately show ?thesis using cx' cx1 key fresh by (auto simp: freshKey_def)
qed

lemma iam_Create_Ret:
  assumes "iam_Create rt (runSteps wrap) api (Typed k, w) = (Ret cr, (Typed k', w'))" "\<not> hasKeyID k"
  shows "\<exists>roleID created ref. created_with api k w roleID created \<and>
    k' = annotatedKey created roleID (set_condition rt (rt_Creating rt) k) \<and>
    ecr_ConnectionDetails cr = [(AccessKeyIDName, kc_Key created), (SecretAccessKeyName, kc_Secret created)] \<and>
    mr_WriteConnectionSecretToReference k = Some ref \<and> stored_in api ref (ecr_ConnectionDetails cr)"
proof -
  let ?k = "set_condition rt (rt_Creating rt) k"
  let ?cx = "\<lparr>ic_iamKey = ?k, ic_iamExoscaleKey = None, ic_credentialsSecret = None\<rparr>"
  obtain cx' w1 where pipe: "runSteps wrap [(''create IAM key'', createIAMKey api), (''create credentials secret'', createCredentialsSecret api),
      (''emit event'', iam_emitCreationEvent api)] (?cx, w) = (Ret (), (cx', w1))"
    and rest: "iam_toConnectionDetails (ic_iamExoscaleKey cx') = Ret (ecr_ConnectionDetails cr)" "k' = ic_iamKey cx'"
    using assms
    by (cases "runSteps wrap [(''create IAM key'', createIAMKey api), (''create credentials secret'', createCredentialsSecret api),
         (''emit event'', iam_emitCreationEvent api)] (?cx, w)")
      (auto simp: iam_Create_def withTyped_Typed hasKeyID_def run_simps inPipeline_apply Let_def bind_outcome_Ret_iff
        split: outcome.splits prod.splits simp del: runSteps.simps)
  have same: "created_with api ?k w = created_with api k w"
    by (simp add: created_with_def iamBuckets_def fun_eq_iff)
  show ?thesis
    using iam_pipeline_Ret [OF pipe _ rest(1)] rest(2) by (simp add: same)
qed


text \<open>An observation after a creation: from the annotations to the status, the key and the secret together.\<close>

lemma recover_fresh:
  assumes "iko_RoleID (mr_AtProvider k) = []" "iko_KeyID (mr_AtProvider k) = []"
    and "annotation (mr_Meta k) RoleIDAnnotationKey = Some rid" "ia_ParseUUID api rid = Inr rid"
    and "annotation (mr_Meta k) KeyIDAnnotationKey = Some kid"
  shows "recoverRoleID api (k, w) = (Ret True, (setRoleID rid k, w))"
    and "recoverKeyID (setRoleID rid k, w) = (Ret True, (setKeyID kid (setRoleID rid k), w))"
proof -
  have "getOr [] (map_entries (om_Annotations (mr_Meta k))) RoleIDAnnotationKey = rid"
    using assms(3) by (simp add: annotation_def getOr_def)
  then show "recoverRoleID api (k, w) = (Ret True, (setRoleID rid k, w))"
    using assms(1,4) by (simp add: recoverRoleID_def run_simps)
  have "KeyIDAnnotationKey \<noteq> RoleIDAnnotationKey"
    by (simp add: KeyIDAnnotationKey_def RoleIDAnnotationKey_def)
  then have "annotation (mr_Meta (setRoleID rid k)) KeyIDAnnotationKey = Some kid"
    using assms(5) by (cases "om_Annotations (mr_Meta k)")
      (simp_all add: annotation_def setRoleID_def dropAnnotation_def)
  then show "recoverKeyID (setRoleID rid k, w) = (Ret True, (setKeyID kid (setRoleID rid k), w))"
    using assms(2) by (simp add: recoverKeyID_def run_simps setRoleID_def dropAnnotation_def)
qed

definition observedKey :: "runtime_lib \<Rightarrow> IAMAPIKey \<Rightarrow> IAMKey \<Rightarrow> IAMKey" where
  "observedKey rt apiKey r = set_condition rt (rt_Available rt)
     (r\<lparr>mr_AtProvider := (mr_AtProvider r)\<lparr>iko_KeyName := ak_Name apiKey,
        iko_ServicesSpec := \<lparr>svs_SOS = \<lparr>sos_Buckets = iamBuckets r\<rparr>\<rparr>\<rparr>\<rparr>)"

lemma observeKey_found:
  assumes "mr_WriteConnectionSecretToReference r = Some ref" "ia_GetSecret api ref w = (Inr sec, w')"
    and "map_of (map_entries (sec_Data sec)) SecretAccessKeyName = Some secret" "secret \<noteq> []" "ak_Key apiKey \<noteq> []"
    and "annotation (mr_Meta r) ''newKeyType'' = None" "iko_RoleID (mr_AtProvider r) \<noteq> []"
  shows "observeKey rt (runSteps wrap) api apiKey (r, w) =
    (Ret \<lparr>eo_ResourceExists = True, eo_ResourceUpToDate = True,
       eo_ConnectionDetails = [(AccessKeyIDName, ak_Key apiKey), (SecretAccessKeyName, secret)]\<rparr>, (observedKey rt apiKey r, w'))"
proof -
  have "map_entries (sec_Data sec) \<noteq> []" using assms(3) by auto
  moreover have "getOr [] (map_entries (sec_Data sec)) SecretAccessKeyName = secret"
    using assms(3) by (simp add: getOr_def)
  ultimately show ?thesis
    using assms by (simp add: observeKey_def fetchCredentialsSecret_def checkSecret_def isRoleUptodate_def run_simps
        inPipeline_apply Let_def iam_toConnectionDetails_def observedKey_def)
qed

lemma iam_Observe_fresh:
  assumes "iko_RoleID (mr_AtProvider k) = []" "iko_KeyID (mr_AtProvider k) = []"
    and "annotation (mr_Meta k) RoleIDAnnotationKey = Some rid" "ia_ParseUUID api rid = Inr rid" "rid \<noteq> []"
    and "annotation (mr_Meta k) KeyIDAnnotationKey = Some kid"
    and "ia_GetAPIKey api kid w = (Inr apiKey, w1)" "ak_Key apiKey \<noteq> []"
    and "mr_WriteConnectionSecretToReference k = Some ref" "ia_GetSecret api ref w1 = (Inr sec, w2)"
    and "map_of (map_entries (sec_Data sec)) SecretAccessKeyName = Some secret" "secret \<noteq> []"
    and "annotation (mr_Meta k) ''newKeyType'' = None"
  shows "iam_Observe rt (runSteps wrap) api (Typed k, w) =
    (Ret \<lparr>eo_ResourceExists = True, eo_ResourceUpToDate = True,
       eo_ConnectionDetails = [(AccessKeyIDName, ak_Key apiKey), (SecretAccessKeyName, secret)]\<rparr>,
     (Typed (observedKey rt apiKey (setKeyID kid (setRoleID rid k))), w2))"
proof -
  let ?r = "setKeyID kid (setRoleID rid k)"
  have r: "mr_WriteConnectionSecretToReference ?r = Some ref" "iko_RoleID (mr_AtProvider ?r) \<noteq> []"
    "iko_KeyID (mr_AtProvider ?r) = kid" "annotation (mr_Meta ?r) ''newKeyType'' = None"
    using assms(5,9,13) by (cases "om_Annotations (mr_Meta k)";
        simp add: setKeyID_def setRoleID_def dropAnnotation_def annotation_def)+
  note found = observeKey_found [OF r(1) assms(10,11,12,8) r(4,2), of rt wrap]
  show ?thesis
    unfolding iam_Observe_def withTyped_Typed
    by (simp add: run_simps recover_fresh [OF assms(1,2,3,4,6)] r(3) assms(7) found)
qed


text \<open>
  What the Kubernetes client documents: a secret that was created or updated is the result of the mutating
  function, and an owner reference changes neither the data nor the flag. What the API documents: the id
  of a role is a UUID, which the parser gives back.
\<close>

definition secret_laws :: "'w iam_api \<Rightarrow> bool" where
  "secret_laws api \<longleftrightarrow>
     (\<forall>sec f w s w'. ia_CreateOrUpdate api sec f w = (Ret s, w') \<longrightarrow> (\<exists>s0. f s0 = Ret s)) \<and>
     (\<forall>k s s'. ia_SetOwnerReference api k s = Inr s' \<longrightarrow> sec_Data s' = sec_Data s \<and> cs_Immutable s' = cs_Immutable s)"

definition uuid_law :: "'w iam_api \<Rightarrow> bool" where
  "uuid_law api \<longleftrightarrow> (\<forall>req w op w' rid. ia_CreateIAMRole api req w = (Inr op, w') \<longrightarrow> op_Reference op = Some rid \<longrightarrow>
     rid \<noteq> [] \<and> ia_ParseUUID api rid = Inr rid)"

definition holds :: "CredentialsSecret \<Rightarrow> ConnectionDetails \<Rightarrow> bool" where
  "holds sec details \<longleftrightarrow> (\<forall>k v. map_of details k = Some v \<longrightarrow> map_of (map_entries (sec_Data sec)) k = Some v)"

lemma access_names [simp]: "AccessKeyIDName \<noteq> SecretAccessKeyName" "SecretAccessKeyName \<noteq> AccessKeyIDName"
  by (simp_all add: AccessKeyIDName_def SecretAccessKeyName_def)

lemma mutateSecret_holds:
  assumes "secret_laws api" "mutateSecret api cx s0 = Ret s" "iam_toConnectionDetails (ic_iamExoscaleKey cx) = Ret details"
  shows "holds s details \<and> cs_Immutable s = Some True"
proof -
  obtain k where "ic_iamExoscaleKey cx = Some k" "acc_Key k \<noteq> []" "acc_Secret k \<noteq> []"
    "details = [(AccessKeyIDName, acc_Key k), (SecretAccessKeyName, acc_Secret k)]"
    using assms(3) unfolding toConnectionDetails_Ret by (elim exE conjE)
  then show ?thesis
    using assms by (auto simp: mutateSecret_def Let_def secret_laws_def holds_def mergeMap_def)
qed

lemma stored_in_holds:
  assumes "secret_laws api" "stored_in api ref details"
  shows "\<exists>f w sec w'. ia_CreateOrUpdate api (namedSecret ref) f w = (Ret sec, w') \<and> holds sec details \<and> cs_Immutable sec = Some True"
proof -
  obtain cx w sec w' where c: "ia_CreateOrUpdate api (namedSecret ref) (mutateSecret api cx) w = (Ret sec, w')"
    and d: "iam_toConnectionDetails (ic_iamExoscaleKey cx) = Ret details"
    using assms(2) by (auto simp: stored_in_def)
  obtain s0 where "mutateSecret api cx s0 = Ret sec"
    using assms(1) c unfolding secret_laws_def by blast
  then show ?thesis using mutateSecret_holds [OF assms(1) _ d] c by blast
qed

lemma annotatedKey_meta [simp]:
  "annotation (mr_Meta (annotatedKey created rid k)) RoleIDAnnotationKey = Some rid"
  "annotation (mr_Meta (annotatedKey created rid k)) KeyIDAnnotationKey = Some (kc_Key created)"
  "annotation (mr_Meta (annotatedKey created rid k)) ''newKeyType'' = annotation (mr_Meta k) ''newKeyType''"
  "mr_AtProvider (annotatedKey created rid k) = mr_AtProvider k"
  "mr_WriteConnectionSecretToReference (annotatedKey created rid k) = mr_WriteConnectionSecretToReference k"
  by (simp_all add: annotation_def annotatedKey_def SetMetaDataAnnotation_def RoleIDAnnotationKey_def KeyIDAnnotationKey_def)

section \<open>Properties\<close>

definition sampleIAM :: "OperationState \<Rightarrow> CredentialsSecret option iam_api" where
  "sampleIAM st = (let missing = \<lparr>le_notfound = True, le_status = 404, le_text = ''not found''\<rparr>;
       op = \<lparr>op_State = st, op_Reference = Some ''role''\<rparr> in
     \<lparr>ia_CreateIAMRole = (\<lambda>req w. (Inr op, w)),
      ia_CreateAPIKey = (\<lambda>req w. (Inr \<lparr>kc_Key = ''EXO'', kc_Name = ca_Name req, kc_Secret = ''s''\<rparr>, w)),
      ia_GetAPIKey = (\<lambda>kid w. (Inr \<lparr>ak_Key = kid, ak_Name = ''n''\<rparr>, w)),
      ia_GetIAMRole = (\<lambda>rid w. (Inl missing, w)), ia_UpdateIAMRole = (\<lambda>rid req w. (Inr op, w)),
      ia_DeleteAPIKey = (\<lambda>kid w. (Inr op, w)), ia_DeleteIAMRole = (\<lambda>rid w. (Inr op, w)),
      ia_ParseUUID = (\<lambda>t. if t = [] then Inl missing else Inr t),
      ia_GetSecret = (\<lambda>ref w. (case w of None \<Rightarrow> Inl missing | Some s \<Rightarrow> Inr s, w)),
      ia_CreateOrUpdate = (\<lambda>sec f w. case f (case w of None \<Rightarrow> sec | Some s \<Rightarrow> s) of
         Ret s \<Rightarrow> (Ret s, Some s) | Fail e \<Rightarrow> (Fail e, w) | Panic p \<Rightarrow> (Panic p, w)),
      ia_SetOwnerReference = (\<lambda>k s. Inr (s\<lparr>cs_OwnerReferences := [om_Name (mr_Meta k)]\<rparr>)),
      ia_Event = (\<lambda>r m w. w)\<rparr>)"

definition sampleIAMKey :: IAMKey where
  "sampleIAMKey = \<lparr>mr_Meta = sampleMeta, mr_ProviderConfigReference = Some ''main'',
     mr_WriteConnectionSecretToReference = Some \<lparr>sr_Name = ''creds'', sr_Namespace = ''ns''\<rparr>,
     mr_ForProvider = \<lparr>ikp_KeyName = ''key'', ikp_Zone = ''ch-gva-2'', ikp_Services = \<lparr>svs_SOS = \<lparr>sos_Buckets = [''data'']\<rparr>\<rparr>\<rparr>,
     mr_Conditions = [],
     mr_AtProvider = \<lparr>iko_KeyID = [], iko_RoleID = [], iko_KeyName = [], iko_ServicesSpec = \<lparr>svs_SOS = \<lparr>sos_Buckets = []\<rparr>\<rparr>\<rparr>\<rparr>"

lemma sampleIAM_laws: "secret_laws (sampleIAM st)" "uuid_law (sampleIAM st)"
proof -
  show "secret_laws (sampleIAM st)"
    unfolding secret_laws_def sampleIAM_def Let_def by (auto split: outcome.splits option.splits)
  show "uuid_law (sampleIAM st)"
    unfolding uuid_law_def sampleIAM_def Let_def by auto
qed

text \<open>
  C8: provisioning of an IAM key. When the status knows a key already, \<^verbatim>\<open>Create\<close> asks the API for nothing.
  Otherwise a \<^verbatim>\<open>Create\<close> that returns has created a role restricted to the buckets of the specification, has
  got a key for exactly that role, has annotated the object with the ids of both, has stored the
  credentials in the secret the specification names, made immutable, and returns these same credentials.
\<close>

theorem iam_Create_provisions:
  assumes "pipeline_laws wrap run" "secret_laws api"
  shows "(hasKeyID k \<longrightarrow> iam_Create rt run api (Typed k, w) = (Ret noCreation, (Typed (set_condition rt (rt_Creating rt) k), w))) \<and>
    (\<forall>cr k' w'. \<not> hasKeyID k \<and> iam_Create rt run api (Typed k, w) = (Ret cr, (Typed k', w')) \<longrightarrow>
      (\<exists>roleID created ref f wa sec wb. created_with api k w roleID created \<and>
         annotation (mr_Meta k') RoleIDAnnotationKey = Some roleID \<and>
         annotation (mr_Meta k') KeyIDAnnotationKey = Some (kc_Key created) \<and>
         ecr_ConnectionDetails cr = [(AccessKeyIDName, kc_Key created), (SecretAccessKeyName, kc_Secret created)] \<and>
         mr_WriteConnectionSecretToReference k = Some ref \<and>
         ia_CreateOrUpdate api (namedSecret ref) f wa = (Ret sec, wb) \<and>
         holds sec (ecr_ConnectionDetails cr) \<and> cs_Immutable sec = Some True))"
proof -
  have run: "run = runSteps wrap" using assms(1) by (simp add: pipeline_laws_runSteps)
  have "iam_Create rt run api (Typed k, w) = (Ret noCreation, (Typed (set_condition rt (rt_Creating rt) k), w))" if "hasKeyID k"
    using that by (simp add: iam_Create_def withTyped_Typed hasKeyID_def run_simps)
  moreover have "\<exists>roleID created ref f wa sec wb. created_with api k w roleID created \<and>
         annotation (mr_Meta k') RoleIDAnnotationKey = Some roleID \<and>
         annotation (mr_Meta k') KeyIDAnnotationKey = Some (kc_Key created) \<and>
         ecr_ConnectionDetails cr = [(AccessKeyIDName, kc_Key created), (SecretAccessKeyName, kc_Secret created)] \<and>
         mr_WriteConnectionSecretToReference k = Some ref \<and>
         ia_CreateOrUpdate api (namedSecret ref) f wa = (Ret sec, wb) \<and>
         holds sec (ecr_ConnectionDetails cr) \<and> cs_Immutable sec = Some True"
    if nk: "\<not> hasKeyID k" and c: "iam_Create rt run api (Typed k, w) = (Ret cr, (Typed k', w'))" for cr k' w'
  proof -
    obtain roleID created ref where made: "created_with api k w roleID created"
      "k' = annotatedKey created roleID (set_condition rt (rt_Creating rt) k)"
      "ecr_ConnectionDetails cr = [(AccessKeyIDName, kc_Key created), (SecretAccessKeyName, kc_Secret created)]"
      "mr_WriteConnectionSecretToReference k = Some ref" and st: "stored_in api ref (ecr_ConnectionDetails cr)"
      using iam_Create_Ret [OF c [unfolded run] nk] by (elim exE conjE)
    obtain f wa sec wb where "ia_CreateOrUpdate api (namedSecret ref) f wa = (Ret sec, wb)"
      "holds sec (ecr_ConnectionDetails cr)" "cs_Immutable sec = Some True"
      using stored_in_holds [OF assms(2) st] by (elim exE conjE)
    then show ?thesis
      using made by (intro exI [of _ roleID] exI [of _ created] exI [of _ ref] exI [of _ f] exI [of _ wa] exI [of _ sec] exI [of _ wb]) simp
  qed
  ultimately show ?thesis by blast
qed


lemmas iam_samples = sampleIAM_def sampleIAMKey_def sampleMeta_def createIAMKey_def createKeyForRole_def
  createCredentialsSecret_def iam_emitCreationEvent_def iam_emitEvent_def iam_toConnectionDetails_def
  mutateSecret_def freshKey_def updateKey_def SetMetaDataAnnotation_def inPipeline_apply onWorld_apply Let_def run_simps

lemma sample_Create:
  "\<exists>k' w'. iam_Create sampleRuntime (runSteps (\<lambda>n e. e)) (sampleIAM OperationStateSuccess) (Typed sampleIAMKey, None) =
     (Ret \<lparr>ecr_ConnectionDetails = [(AccessKeyIDName, ''EXO''), (SecretAccessKeyName, ''s'')]\<rparr>, (Typed k', w'))"
  unfolding iam_Create_def withTyped_Typed by (simp add: iam_samples numeral_eq_Suc)

theorem iam_Create_provisions_witness:
  "\<exists>roleID created. created_with (sampleIAM OperationStateSuccess) sampleIAMKey None roleID created \<and> kc_Key created = ''EXO''"
proof -
  obtain k' w' where c: "iam_Create sampleRuntime (runSteps (\<lambda>n e. e)) (sampleIAM OperationStateSuccess) (Typed sampleIAMKey, None) =
     (Ret \<lparr>ecr_ConnectionDetails = [(AccessKeyIDName, ''EXO''), (SecretAccessKeyName, ''s'')]\<rparr>, (Typed k', w'))"
    using sample_Create by (elim exE)
  have nk: "\<not> hasKeyID sampleIAMKey" by (simp add: hasKeyID_def sampleIAMKey_def)
  have provisions: "\<exists>roleID created. created_with (sampleIAM OperationStateSuccess) sampleIAMKey None roleID created \<and>
      [(AccessKeyIDName, ''EXO''), (SecretAccessKeyName, ''s'')] = [(AccessKeyIDName, kc_Key created), (SecretAccessKeyName, kc_Secret created)]"
    using iam_Create_provisions [OF runSteps_laws [of "\<lambda>n e. e"] sampleIAM_laws(1), THEN conjunct2, rule_format, OF conjI [OF nk c]]
    by (elim exE conjE, intro exI conjI) simp_all
  then show ?thesis by (elim exE conjE, intro exI conjI) simp_all
qed

text \<open>
  C2: the ids travel from \<^verbatim>\<open>Create\<close> to the status. \<^verbatim>\<open>Create\<close> may not write the status, so it leaves the ids
  of key and role in annotations; the next \<^verbatim>\<open>Observe\<close> of that object, in any later world in which the API
  still knows the key and the secret still holds the credentials, moves both ids to the status, removes
  the annotations, and reports the key as existing and up to date with the connection details that
  \<^verbatim>\<open>Create\<close> returned.
\<close>

theorem iam_create_observe_roundtrip:
  assumes "pipeline_laws wrap run" "uuid_law api"
    and fresh: "iko_KeyID (mr_AtProvider k) = []" "iko_RoleID (mr_AtProvider k) = []" "annotation (mr_Meta k) ''newKeyType'' = None"
    and "iam_Create rt run api (Typed k, w) = (Ret cr, (Typed k', w'))"
    and key: "map_of (ecr_ConnectionDetails cr) AccessKeyIDName = Some kid"
      "ia_GetAPIKey api kid w1 = (Inr apiKey, w2)" "ak_Key apiKey = kid"
    and sec: "mr_WriteConnectionSecretToReference k = Some ref" "ia_GetSecret api ref w2 = (Inr sec, w3)"
      "holds sec (ecr_ConnectionDetails cr)"
  shows "\<exists>k'' obs. iam_Observe rt run api (Typed k', w1) = (Ret obs, (Typed k'', w3)) \<and>
    eo_ResourceExists obs \<and> eo_ResourceUpToDate obs \<and> eo_ConnectionDetails obs = ecr_ConnectionDetails cr \<and>
    iko_KeyID (mr_AtProvider k'') = kid \<and> Some (iko_RoleID (mr_AtProvider k'')) = annotation (mr_Meta k') RoleIDAnnotationKey \<and>
    annotation (mr_Meta k'') KeyIDAnnotationKey = None \<and> annotation (mr_Meta k'') RoleIDAnnotationKey = None"
proof -
  have run: "run = runSteps wrap" using assms(1) by (simp add: pipeline_laws_runSteps)
  have nk: "\<not> hasKeyID k" using fresh by (simp add: hasKeyID_def)
  obtain roleID created where made: "created_with api k w roleID created"
    "k' = annotatedKey created roleID (set_condition rt (rt_Creating rt) k)"
    "ecr_ConnectionDetails cr = [(AccessKeyIDName, kc_Key created), (SecretAccessKeyName, kc_Secret created)]"
    using iam_Create_Ret [OF assms(6) [unfolded run] nk] by (elim exE conjE)
  have kid: "kid = kc_Key created" using key(1) made(3) by simp
  have ids: "kc_Key created \<noteq> []" "kc_Secret created \<noteq> []" "roleID \<noteq> []" "ia_ParseUUID api roleID = Inr roleID"
    using made(1) assms(2) unfolding created_with_def uuid_law_def by blast+
  have secret: "map_of (map_entries (sec_Data sec)) SecretAccessKeyName = Some (kc_Secret created)"
    using sec(3) made(3) by (simp add: holds_def)
  have obs: "iam_Observe rt run api (Typed k', w1) =
    (Ret \<lparr>eo_ResourceExists = True, eo_ResourceUpToDate = True,
       eo_ConnectionDetails = [(AccessKeyIDName, ak_Key apiKey), (SecretAccessKeyName, kc_Secret created)]\<rparr>,
     (Typed (observedKey rt apiKey (setKeyID kid (setRoleID roleID k'))), w3))"
    unfolding run by (rule iam_Observe_fresh [where sec = sec and ref = ref and ?w1.0 = w2])
      (use made(2) fresh ids secret sec key kid in simp_all)
  have status: "mr_AtProvider (observedKey rt apiKey (setKeyID kid (setRoleID roleID k'))) =
      (mr_AtProvider k')\<lparr>iko_KeyID := kid, iko_RoleID := roleID, iko_KeyName := ak_Name apiKey,
         iko_ServicesSpec := \<lparr>svs_SOS = \<lparr>sos_Buckets = iamBuckets k'\<rparr>\<rparr>\<rparr>"
    by (simp add: observedKey_def setKeyID_def setRoleID_def dropAnnotation_def iamBuckets_def)
  have removed: "annotation (mr_Meta (observedKey rt apiKey (setKeyID kid (setRoleID roleID k')))) KeyIDAnnotationKey = None"
    "annotation (mr_Meta (observedKey rt apiKey (setKeyID kid (setRoleID roleID k')))) RoleIDAnnotationKey = None"
    by (cases "om_Annotations (mr_Meta k')";
        simp add: observedKey_def setKeyID_def setRoleID_def dropAnnotation_def annotation_def)+
  have role: "annotation (mr_Meta k') RoleIDAnnotationKey = Some roleID" unfolding made(2) by simp
  show ?thesis
    by (intro exI [of _ "observedKey rt apiKey (setKeyID kid (setRoleID roleID k'))"] exI conjI, rule obs)
      (use removed kid status in \<open>simp_all add: role made(3) key(3)\<close>)
qed


theorem iam_create_observe_roundtrip_witness:
  "let api = sampleIAM OperationStateSuccess; run = runSteps (\<lambda>n e. e);
       sec = (namedSecret \<lparr>sr_Name = ''creds'', sr_Namespace = ''ns''\<rparr>)\<lparr>sec_Data := Some [(AccessKeyIDName, ''EXO''), (SecretAccessKeyName, ''s'')]\<rparr>
   in \<exists>k' w' k'' obs. iam_Create sampleRuntime run api (Typed sampleIAMKey, None) =
       (Ret \<lparr>ecr_ConnectionDetails = [(AccessKeyIDName, ''EXO''), (SecretAccessKeyName, ''s'')]\<rparr>, (Typed k', w')) \<and>
     iam_Observe sampleRuntime run api (Typed k', Some sec) = (Ret obs, (Typed k'', Some sec)) \<and>
     eo_ResourceUpToDate obs \<and> iko_KeyID (mr_AtProvider k'') = ''EXO''"
proof -
  let ?api = "sampleIAM OperationStateSuccess" and ?run = "runSteps (\<lambda>n e. e)"
  let ?details = "[(AccessKeyIDName, ''EXO''), (SecretAccessKeyName, ''s'')]"
  let ?sec = "(namedSecret \<lparr>sr_Name = ''creds'', sr_Namespace = ''ns''\<rparr>)\<lparr>sec_Data := Some ?details\<rparr>"
  obtain k' w' where c: "iam_Create sampleRuntime ?run ?api (Typed sampleIAMKey, None) =
      (Ret \<lparr>ecr_ConnectionDetails = ?details\<rparr>, (Typed k', w'))"
    using sample_Create by (elim exE)
  have "\<exists>k'' obs. iam_Observe sampleRuntime ?run ?api (Typed k', Some ?sec) = (Ret obs, (Typed k'', Some ?sec)) \<and>
    eo_ResourceExists obs \<and> eo_ResourceUpToDate obs \<and>
    eo_ConnectionDetails obs = ecr_ConnectionDetails \<lparr>ecr_ConnectionDetails = ?details\<rparr> \<and>
    iko_KeyID (mr_AtProvider k'') = ''EXO'' \<and> Some (iko_RoleID (mr_AtProvider k'')) = annotation (mr_Meta k') RoleIDAnnotationKey \<and>
    annotation (mr_Meta k'') KeyIDAnnotationKey = None \<and> annotation (mr_Meta k'') RoleIDAnnotationKey = None"
    by (rule iam_create_observe_roundtrip [OF runSteps_laws sampleIAM_laws(2) _ _ _ c, where apiKey = "\<lparr>ak_Key = ''EXO'', ak_Name = ''n''\<rparr>"
          and ?w2.0 = "Some ?sec" and ref = "\<lparr>sr_Name = ''creds'', sr_Namespace = ''ns''\<rparr>" and sec = ?sec])
      (simp_all add: sampleIAMKey_def sampleIAM_def sampleMeta_def annotation_def holds_def Let_def)
  then show ?thesis
    unfolding Let_def using c by (elim exE conjE, intro exI conjI)
qed

text \<open>The world after some requests.\<close>

definition afterRequests :: "('w, 'k) call \<Rightarrow> nat \<Rightarrow> 'w \<Rightarrow> 'w" where
  "afterRequests request i = (\<lambda>w. snd (request w)) ^^ i"

lemma afterRequests_Suc: "afterRequests request (Suc i) w = afterRequests request i (snd (request w))"
  unfolding afterRequests_def funpow_Suc_right by simp

lemma createAPIKeyLoop_success:
  "i < n \<Longrightarrow> (\<And>j. j < i \<Longrightarrow> isl (fst (request (afterRequests request j w)))) \<Longrightarrow>
   request (afterRequests request i w) = (Inr key, w') \<Longrightarrow> createAPIKeyLoop n request r w = (Inr key, w')"
proof (induction i arbitrary: n r w)
  case 0
  then show ?case by (cases n) (simp_all add: afterRequests_def)
next
  case (Suc i)
  obtain m where n: "n = Suc m" using Suc.prems(1) by (cases n) auto
  obtain err w1 where first: "request w = (Inl err, w1)"
    using Suc.prems(2) [of 0] by (cases "request w"; cases "fst (request w)") (auto simp: afterRequests_def)
  have "createAPIKeyLoop m request (Inl err) w1 = (Inr key, w')"
  proof (rule Suc.IH)
    show "i < m" using Suc.prems(1) n by simp
    show "isl (fst (request (afterRequests request j w1)))" if "j < i" for j
      using Suc.prems(2) [of "Suc j"] that first by (simp add: afterRequests_Suc)
    show "request (afterRequests request i w1) = (Inr key, w')"
      using Suc.prems(3) first by (simp add: afterRequests_Suc)
  qed
  then show ?case by (simp add: n first)
qed

lemma createAPIKeyLoop_failure:
  "(\<And>j. j < Suc n \<Longrightarrow> isl (fst (request (afterRequests request j w)))) \<Longrightarrow>
   createAPIKeyLoop (Suc n) request r w = request (afterRequests request n w)"
proof (induction n arbitrary: r w)
  case 0
  then show ?case
    by (cases "request w"; cases "fst (request w)") (auto simp: afterRequests_def)
next
  case (Suc n)
  obtain err w1 where first: "request w = (Inl err, w1)"
    using Suc.prems [of 0] by (cases "request w"; cases "fst (request w)") (auto simp: afterRequests_def)
  have "createAPIKeyLoop (Suc n) request (Inl err) w1 = request (afterRequests request n w1)"
    by (rule Suc.IH) (use Suc.prems [of "Suc j" for j] first in \<open>simp add: afterRequests_Suc\<close>)
  then show ?case by (simp only: createAPIKeyLoop.simps(2) [of "Suc n"] first afterRequests_Suc) simp
qed

text \<open>The request for the key of a role, and what \<^verbatim>\<open>createIAMKey\<close> does with the last answer once the role has been created.\<close>

definition keyRequest :: "'w iam_api \<Rightarrow> iamContext \<Rightarrow> string \<Rightarrow> ('w, IAMAPIKeyCreated) call" where
  "keyRequest api cx roleID = ia_CreateAPIKey api \<lparr>ca_Name = ikp_KeyName (mr_ForProvider (ic_iamKey cx)), ca_RoleID = roleID\<rparr>"

lemma createIAMKey_run:
  assumes "ia_CreateIAMRole api (createRole (ikp_KeyName (mr_ForProvider (ic_iamKey cx))) (iamBuckets (ic_iamKey cx))) w = (Inr op, w1)"
    and "op_State op = OperationStateSuccess" and "op_Reference op = Some roleID"
    and "createAPIKeyLoop 10 (keyRequest api cx roleID) (Inr \<lparr>kc_Key = [], kc_Name = [], kc_Secret = []\<rparr>) w1 = (r, w')"
  shows "createIAMKey api (cx, w) =
    (case r of
       Inl err \<Rightarrow> (Fail (Lib err), (cx, w'))
     | Inr created \<Rightarrow> (Ret (), (if kc_Key created = [] then cx
         else cx\<lparr>ic_iamKey := annotatedKey created roleID (ic_iamKey cx), ic_iamExoscaleKey := Some (freshKey created)\<rparr>, w')))"
  using assms unfolding keyRequest_def
  by (cases r) (auto simp: createIAMKey_def createKeyForRole_def Let_def run_simps updateKey_def annotatedKey_def)

text \<open>
  C30: the requests for a key. Once the request for the role is answered with success and the role's id, \<^verbatim>\<open>createIAMKey\<close>
  asks for the key at most ten times and stops at the first answer that is no error. For every \<open>i\<close> below ten: when the first \<open>i\<close>
  answers are errors and answer \<open>i\<close> is none, the world is left as after request \<open>i\<close>; the call succeeds, and if the answer has a
  key, that key is the result and its id and the role's are in the annotations. When ten answers are errors,
  the call fails with the last of them, no eleventh request is made and neither key nor annotations are set.
\<close>

theorem iam_key_requests_bounded:
  assumes "ia_CreateIAMRole api (createRole (ikp_KeyName (mr_ForProvider (ic_iamKey cx))) (iamBuckets (ic_iamKey cx))) w = (Inr op, w1)"
    and "op_State op = OperationStateSuccess" and "op_Reference op = Some roleID"
  shows "(\<forall>i created w'. i < 10 \<longrightarrow> (\<forall>j<i. isl (fst (keyRequest api cx roleID (afterRequests (keyRequest api cx roleID) j w1)))) \<longrightarrow>
      keyRequest api cx roleID (afterRequests (keyRequest api cx roleID) i w1) = (Inr created, w') \<longrightarrow>
      createIAMKey api (cx, w) = (Ret (), (if kc_Key created = [] then cx
        else cx\<lparr>ic_iamKey := annotatedKey created roleID (ic_iamKey cx), ic_iamExoscaleKey := Some (freshKey created)\<rparr>, w'))) \<and>
    (\<forall>err w'. (\<forall>j<10. isl (fst (keyRequest api cx roleID (afterRequests (keyRequest api cx roleID) j w1)))) \<longrightarrow>
      keyRequest api cx roleID (afterRequests (keyRequest api cx roleID) 9 w1) = (Inl err, w') \<longrightarrow>
      createIAMKey api (cx, w) = (Fail (Lib err), (cx, w')))"
proof (intro conjI allI impI)
  let ?request = "keyRequest api cx roleID"
  let ?none = "Inr \<lparr>kc_Key = [], kc_Name = [], kc_Secret = []\<rparr>"
  show "createIAMKey api (cx, w) = (Ret (), (if kc_Key created = [] then cx
      else cx\<lparr>ic_iamKey := annotatedKey created roleID (ic_iamKey cx), ic_iamExoscaleKey := Some (freshKey created)\<rparr>, w'))"
    if "i < 10" "\<forall>j<i. isl (fst (?request (afterRequests ?request j w1)))" "?request (afterRequests ?request i w1) = (Inr created, w')"
    for i created w'
    using createIAMKey_run [OF assms createAPIKeyLoop_success [of i 10 ?request w1 created w' ?none]] that by simp
  show "createIAMKey api (cx, w) = (Fail (Lib err), (cx, w'))"
    if "\<forall>j<10. isl (fst (?request (afterRequests ?request j w1)))" "?request (afterRequests ?request 9 w1) = (Inl err, w')" for err w'
  proof -
    have "createAPIKeyLoop 10 ?request ?none w1 = (Inl err, w')"
      using createAPIKeyLoop_failure [of 9 ?request w1 ?none] that by simp
    from createIAMKey_run [OF assms this] show ?thesis by simp
  qed
qed

text \<open>An API that counts the requests for a key and answers the fourth, for the closed example.\<close>

definition countingIAM :: "nat iam_api" where
  "countingIAM = (let early = \<lparr>le_notfound = False, le_status = 400, le_text = ''role''\<rparr>;
       op = \<lparr>op_State = OperationStateSuccess, op_Reference = Some ''role''\<rparr> in
     \<lparr>ia_CreateIAMRole = (\<lambda>req w. (Inr op, 0)),
      ia_CreateAPIKey = (\<lambda>req w. (if w < 3 then Inl early else Inr \<lparr>kc_Key = ''EXO'', kc_Name = ca_Name req, kc_Secret = ''s''\<rparr>, w + 1)),
      ia_GetAPIKey = (\<lambda>kid w. (Inl early, w)), ia_GetIAMRole = (\<lambda>rid w. (Inl early, w)),
      ia_UpdateIAMRole = (\<lambda>rid req w. (Inr op, w)), ia_DeleteAPIKey = (\<lambda>kid w. (Inr op, w)), ia_DeleteIAMRole = (\<lambda>rid w. (Inr op, w)),
      ia_ParseUUID = Inr, ia_GetSecret = (\<lambda>ref w. (Inl early, w)), ia_CreateOrUpdate = (\<lambda>sec f w. (f sec, w)),
      ia_SetOwnerReference = (\<lambda>k s. Inr s), ia_Event = (\<lambda>r m w. w)\<rparr>)"

theorem iam_key_requests_bounded_witness:
  "\<exists>cx'. createIAMKey countingIAM (\<lparr>ic_iamKey = sampleIAMKey, ic_iamExoscaleKey = None, ic_credentialsSecret = None\<rparr>, 7) = (Ret (), (cx', 4)) \<and>
     annotation (mr_Meta (ic_iamKey cx')) KeyIDAnnotationKey = Some ''EXO''"
proof -
  let ?cx = "\<lparr>ic_iamKey = sampleIAMKey, ic_iamExoscaleKey = None, ic_credentialsSecret = None\<rparr>"
  let ?created = "\<lparr>kc_Key = ''EXO'', kc_Name = ''key'', kc_Secret = ''s''\<rparr>"
  let ?early = "\<lparr>le_notfound = False, le_status = 400, le_text = ''role''\<rparr>"
  have role: "ia_CreateIAMRole countingIAM (createRole (ikp_KeyName (mr_ForProvider (ic_iamKey ?cx))) (iamBuckets (ic_iamKey ?cx))) 7 =
      (Inr \<lparr>op_State = OperationStateSuccess, op_Reference = Some ''role''\<rparr>, 0)"
    by (simp add: countingIAM_def Let_def)
  have request: "keyRequest countingIAM ?cx ''role'' v = (if v < 3 then Inl ?early else Inr ?created, v + 1)" for v
    by (simp add: keyRequest_def countingIAM_def sampleIAMKey_def Let_def)
  have after: "afterRequests (keyRequest countingIAM ?cx ''role'') i 0 = i" for i
    by (induction i) (simp_all add: afterRequests_def request)
  have "createIAMKey countingIAM (?cx, 7) = (Ret (), (if kc_Key ?created = [] then ?cx
      else ?cx\<lparr>ic_iamKey := annotatedKey ?created ''role'' (ic_iamKey ?cx), ic_iamExoscaleKey := Some (freshKey ?created)\<rparr>, 4))"
    by (rule iam_key_requests_bounded [OF role, THEN conjunct1, rule_format, of _ 3]) (simp_all add: after request)
  then show ?thesis
    by (simp add: annotatedKey_def SetMetaDataAnnotation_def annotation_def KeyIDAnnotationKey_def RoleIDAnnotationKey_def map_entries_def)
qed


subsection \<open>What the role of a key permits\<close>

text \<open>
  The policy language as Exoscale documents it: the rules of a service are tried in order and the first
  whose expression holds decides; when none does the request is denied. \<open>eval\<close> evaluates an expression for
  an operation on a bucket; the law covers the three forms the program writes. A name without quotes and
  backslashes is written as it is between quotes.
\<close>

fun firstMatch :: "(string \<Rightarrow> bool) \<Rightarrow> IAMServicePolicyRule list \<Rightarrow> bool" where
  "firstMatch holdsNow [] = False"
| "firstMatch holdsNow (rule # rules) =
     (if holdsNow (pr_Expression rule) then pr_Action rule = PolicyAllow else firstMatch holdsNow rules)"

definition quotable :: "string \<Rightarrow> bool" where
  "quotable s \<longleftrightarrow> list_all (\<lambda>c. c \<noteq> CHR 0x27 \<and> c \<noteq> CHR 0x5C) s"

definition listOperations :: "string list" where
  "listOperations = [''list-sos-buckets-usage'', ''list-buckets'']"

definition expression_law :: "(string \<Rightarrow> string \<Rightarrow> string \<Rightarrow> bool) \<Rightarrow> bool" where
  "expression_law eval \<longleftrightarrow> (\<forall>operation bucket.
     eval operation bucket ''true'' \<and>
     (eval operation bucket denyListing \<longleftrightarrow> operation \<in> set listOperations) \<and>
     (\<forall>name. quotable name \<longrightarrow> (eval operation bucket (otherBucket name) \<longleftrightarrow> bucket \<noteq> name)))"

definition permits :: "(string \<Rightarrow> string \<Rightarrow> string \<Rightarrow> bool) \<Rightarrow> CreateIAMRoleRequest \<Rightarrow> string \<Rightarrow> string \<Rightarrow> string \<Rightarrow> bool" where
  "permits eval role service operation bucket = (case cr_Policy role of
     None \<Rightarrow> False
   | Some policy \<Rightarrow> (case map_of (po_Services policy) service of
       None \<Rightarrow> po_DefaultServiceStrategy policy = StrategyAllow
     | Some sp \<Rightarrow> (case sp_Type sp of
         TypeRules \<Rightarrow> firstMatch (eval operation bucket) (sp_Rules sp)
       | TypeAllow \<Rightarrow> True
       | TypeDeny \<Rightarrow> False)))"

lemma firstMatch_otherBuckets:
  assumes "expression_law eval" "list_all quotable buckets"
  shows "firstMatch (eval operation bucket)
      (map (\<lambda>b. \<lparr>pr_Action = PolicyDeny, pr_Expression = otherBucket b\<rparr>) buckets @ rules) \<longleftrightarrow>
    (\<forall>b\<in>set buckets. b = bucket) \<and> firstMatch (eval operation bucket) rules"
  using assms(2) by (induction buckets) (use assms(1) in \<open>auto simp: expression_law_def\<close>)

text \<open>The operations on buckets that the documentation lists as allowed (\<^verbatim>\<open>docs/modules/ROOT/pages/explanations/iamkey.adoc\<close>).\<close>

definition documentedOperations :: "string list" where
  "documentedOperations = [''abort-sos-multipart-upload'', ''delete-sos-object'', ''get-sos-bucket-acl'', ''get-sos-bucket-cors'',
     ''get-sos-bucket-location'', ''get-sos-object'', ''get-sos-object-acl'', ''get-sos-presigned-url'', ''list-sos-bucket'',
     ''list-sos-bucket-multipart-uploads'', ''put-sos-bucket-acl'', ''put-sos-bucket-cors'', ''put-sos-object'', ''put-sos-object-acl'']"

lemma documentedOperations_disjoint: "set documentedOperations \<inter> set listOperations = {}"
  by (simp add: documentedOperations_def listOperations_def)

text \<open>
  C12: what a key may do, for bucket names without quotes and backslashes. The role that \<^verbatim>\<open>createRole\<close> asks for permits an
  operation exactly when it is one of the object storage, is none of the two that list buckets, and the bucket it works on
  equals every bucket of the specification: with one bucket exactly that one is accessible, and with two different buckets
  none is. This is more than the documentation says: on the one bucket the key may do each of the fourteen operations listed
  there, and also every operation that is not listed there, but for the two.
\<close>

theorem createRole_permits:
  assumes "expression_law eval" "list_all quotable buckets"
  shows "(permits eval (createRole name buckets) service operation bucket \<longleftrightarrow>
      service = ''sos'' \<and> operation \<notin> set listOperations \<and> set buckets \<subseteq> {bucket}) \<and>
    (set buckets = {bucket} \<longrightarrow> {op. permits eval (createRole name buckets) ''sos'' op bucket} =
      set documentedOperations \<union> (- set documentedOperations - set listOperations))"
  using assms(1) documentedOperations_disjoint
  by (auto simp: permits_def createRole_def Let_def firstMatch_otherBuckets [OF assms] expression_law_def)

text \<open>An evaluator of the three forms, for the closed example.\<close>

definition sampleEval :: "string \<Rightarrow> string \<Rightarrow> string \<Rightarrow> bool" where
  "sampleEval operation bucket e \<longleftrightarrow> e = ''true'' \<or> (e = denyListing \<and> operation \<in> set listOperations) \<or>
     (HasPrefix e ''resources.bucket'' \<and> e \<noteq> otherBucket bucket)"

lemma sampleEval_law: "expression_law sampleEval"
  by (auto simp: expression_law_def sampleEval_def denyListing_def otherBucket_def quoted_def)

theorem createRole_permits_witness:
  "permits sampleEval (createRole ''k'' [''data'']) ''sos'' ''get-sos-object'' ''data'' \<and>
   \<not> permits sampleEval (createRole ''k'' [''data'']) ''sos'' ''get-sos-object'' ''other'' \<and>
   \<not> permits sampleEval (createRole ''k'' [''data'', ''logs'']) ''sos'' ''get-sos-object'' ''data'' \<and>
   permits sampleEval (createRole ''k'' [''data'']) ''sos'' ''delete-sos-bucket'' ''data'' \<and> ''delete-sos-bucket'' \<notin> set documentedOperations"
  using createRole_permits [OF sampleEval_law, of "[''data'']"] createRole_permits [OF sampleEval_law, of "[''data'', ''logs'']"]
  by (simp add: quotable_def listOperations_def documentedOperations_def)

subsection \<open>Deletion, failures and the webhook\<close>

lemma iam_Delete_run:
  "iam_Delete rt (runSteps wrap) api (Typed k, w) =
     (case deleteIAMKey api (\<lparr>ic_iamKey = set_condition rt (rt_Deleting rt) k, ic_iamExoscaleKey = None, ic_credentialsSecret = None\<rparr>, w) of
        (Ret _, (cx, w')) \<Rightarrow> (Ret ExternalDelete, (Typed (ic_iamKey cx), ia_Event api ''Deleted'' ''IAMKey deleted'' w'))
      | (Fail e, (cx, w')) \<Rightarrow> (Fail (Wrapf ''cannot deprovision iam key'' [] (wrap ''delete IAM key'' e)), (Typed (ic_iamKey cx), w'))
      | (Panic p, (cx, w')) \<Rightarrow> (Panic p, (Typed (ic_iamKey cx), w')))"
  by (cases "deleteIAMKey api (\<lparr>ic_iamKey = set_condition rt (rt_Deleting rt) k, ic_iamExoscaleKey = None, ic_credentialsSecret = None\<rparr>, w)";
      cases "fst (deleteIAMKey api (\<lparr>ic_iamKey = set_condition rt (rt_Deleting rt) k, ic_iamExoscaleKey = None, ic_credentialsSecret = None\<rparr>, w))")
    (auto simp: iam_Delete_def withTyped_Typed run_simps inPipeline_apply Let_def iam_emitDeletionEvent_def iam_emitEvent_def onWorld_apply)

text \<open>
  C36: deleting an IAM key. The key is deleted before its role. \<^verbatim>\<open>Delete\<close> fails exactly when one of the two
  requests it makes is answered with an error. It returns without an error, and announces the deletion,
  also when the API has not finished deleting the key; the role is then not asked to be deleted at all.
\<close>

theorem iam_Delete_outcome:
  assumes "pipeline_laws wrap run"
  shows "case ia_DeleteAPIKey api (iko_KeyID (mr_AtProvider k)) w of
     (Inl _, w1) \<Rightarrow> (\<exists>e k'. iam_Delete rt run api (Typed k, w) = (Fail e, (Typed k', w1)))
   | (Inr op, w1) \<Rightarrow>
       if op_State op = OperationStateSuccess then
         (case ia_DeleteIAMRole api (iko_RoleID (mr_AtProvider k)) w1 of
            (Inl _, w2) \<Rightarrow> (\<exists>e k'. iam_Delete rt run api (Typed k, w) = (Fail e, (Typed k', w2)))
          | (Inr _, w2) \<Rightarrow> (\<exists>k'. iam_Delete rt run api (Typed k, w) =
              (Ret ExternalDelete, (Typed k', ia_Event api ''Deleted'' ''IAMKey deleted'' w2))))
       else (\<exists>k'. iam_Delete rt run api (Typed k, w) =
              (Ret ExternalDelete, (Typed k', ia_Event api ''Deleted'' ''IAMKey deleted'' w1)))"
proof -
  have run: "run = runSteps wrap" using assms by (simp add: pipeline_laws_runSteps)
  show ?thesis
    unfolding run iam_Delete_run
    by (auto simp: deleteIAMKey_def run_simps split: prod.splits sum.splits)
qed

theorem iam_Delete_outcome_witness:
  "\<exists>k'. iam_Delete sampleRuntime (runSteps (\<lambda>n e. e)) (sampleIAM OperationStatePending) (Typed sampleIAMKey, None) =
     (Ret ExternalDelete, (Typed k', None))"
  using iam_Delete_outcome [OF runSteps_laws [of "\<lambda>n e. e"], where api = "sampleIAM OperationStatePending" and
      k = sampleIAMKey and w = None and rt = sampleRuntime]
  by (simp add: sampleIAM_def Let_def)

text \<open>
  C37: a role that is not ready. When the request for the role is answered without an error but with any
  state other than success, \<^verbatim>\<open>createIAMKey\<close> reports no error, the pipeline goes on to the secret without a
  key, and \<^verbatim>\<open>Create\<close> panics as soon as the secret is about to be filled.
\<close>

theorem iam_Create_pending_role_panics:
  assumes "pipeline_laws wrap run" "\<not> hasKeyID k"
    and "ia_CreateIAMRole api (createRole (ikp_KeyName (mr_ForProvider k)) (iamBuckets k)) w = (Inr op, w1)"
    and "op_State op \<noteq> OperationStateSuccess"
    and "mr_WriteConnectionSecretToReference k = Some ref"
    and mutates: "\<forall>f. (\<forall>s. panics (f s)) \<longrightarrow> panics (fst (ia_CreateOrUpdate api (namedSecret ref) f w1))"
  shows "panics (fst (iam_Create rt run api (Typed k, w)))"
proof -
  have run: "run = runSteps wrap" using assms(1) by (simp add: pipeline_laws_runSteps)
  let ?cx = "\<lparr>ic_iamKey = set_condition rt (rt_Creating rt) k, ic_iamExoscaleKey = None, ic_credentialsSecret = None\<rparr>"
  have one: "createIAMKey api (?cx, w) = (Ret (), (?cx, w1))"
    using assms(3,4) by (simp add: createIAMKey_def Let_def run_simps iamBuckets_def)
  have "panics (fst (ia_CreateOrUpdate api (namedSecret ref) (mutateSecret api ?cx) w1))"
    by (rule mutates [rule_format]) (simp add: mutateSecret_def iam_toConnectionDetails_def Let_def)
  then obtain p where "fst (ia_CreateOrUpdate api (namedSecret ref) (mutateSecret api ?cx) w1) = Panic p"
    by (cases "fst (ia_CreateOrUpdate api (namedSecret ref) (mutateSecret api ?cx) w1)") auto
  then have two: "fst (createCredentialsSecret api (?cx, w1)) = Panic p"
    using assms(5) by (simp add: createCredentialsSecret_def run_simps onWorld_apply)
  show ?thesis
    using assms(2) one two
    by (cases "createCredentialsSecret api (?cx, w1)")
      (simp add: iam_Create_def withTyped_Typed hasKeyID_def run run_simps inPipeline_apply Let_def)
qed

theorem iam_Create_pending_role_panics_witness:
  "panics (fst (iam_Create sampleRuntime (runSteps (\<lambda>n e. e)) (sampleIAM OperationStatePending) (Typed sampleIAMKey, None)))"
proof (rule iam_Create_pending_role_panics [OF runSteps_laws, where ?w1.0 = None
      and op = "\<lparr>op_State = OperationStatePending, op_Reference = Some ''role''\<rparr>"
      and ref = "\<lparr>sr_Name = ''creds'', sr_Namespace = ''ns''\<rparr>"])
  have stored: "panics (fst (case r of Ret s \<Rightarrow> (Ret s, Some s) | Fail e \<Rightarrow> (Fail e, w) | Panic p \<Rightarrow> (Panic p, w))) \<longleftrightarrow> panics r"
    for r :: "CredentialsSecret outcome" and w
    by (cases r) simp_all
  show "\<forall>f. (\<forall>s. panics (f s)) \<longrightarrow> panics (fst (ia_CreateOrUpdate (sampleIAM OperationStatePending)
      (namedSecret \<lparr>sr_Name = ''creds'', sr_Namespace = ''ns''\<rparr>) f None))"
    by (simp add: sampleIAM_def Let_def stored)
qed (simp_all add: hasKeyID_def sampleIAMKey_def sampleIAM_def Let_def)

text \<open>
  C13: once the status knows the id of the key, its parameters (name, zone, buckets) and the secret it is
  written to never change again, through any sequence of updates the webhook admits and of runs of the
  controller, and the status keeps knowing a key.
\<close>

theorem iam_key_immutable:
  fixes api :: "'w iam_api"
  assumes "pipeline_laws wrap run" "equality_law eq" "hasKeyID k"
    and "evolves (\<lambda>old new. iam_ValidateUpdate eq (Typed old) (Typed new)) mr_AtProvider
      (own_writes (iam_Observe rt run api) (iam_Create rt run api) (iam_Update rt api) (iam_Delete rt run api)) k k'"
  shows "hasKeyID k' \<and> mr_ForProvider k' = mr_ForProvider k \<and>
    mr_WriteConnectionSecretToReference k' = mr_WriteConnectionSecretToReference k"
proof -
  have laws: "run = runSteps wrap" "eq = sameValue"
    using assms(1,2) by (simp_all add: pipeline_laws_runSteps equality_law_sameValue)
  note ev = assms(4) [unfolded laws]
  have "iko_KeyID (mr_AtProvider t) \<noteq> []"
    if "own_writes (iam_Observe rt (runSteps wrap) api) (iam_Create rt (runSteps wrap) api) (iam_Update rt api)
        (iam_Delete rt (runSteps wrap) api) s t" "iko_KeyID (mr_AtProvider s) \<noteq> []" for s t
    using ik.own_writes_keeps [OF that(1) _ iam_key_kept] that(2) by (simp add: hasKeyID_def)
  from ik.protected [OF ev _ this] show ?thesis
    using assms(3) by (simp add: hasKeyID_def)
qed

theorem iam_key_immutable_witness:
  "let k = sampleIAMKey\<lparr>mr_AtProvider := (mr_AtProvider sampleIAMKey)\<lparr>iko_KeyID := ''EXO''\<rparr>\<rparr>;
       k' = k\<lparr>mr_ProviderConfigReference := Some ''other''\<rparr>
   in hasKeyID k' \<and> mr_ForProvider k' = mr_ForProvider k"
proof -
  let ?k = "sampleIAMKey\<lparr>mr_AtProvider := (mr_AtProvider sampleIAMKey)\<lparr>iko_KeyID := ''EXO''\<rparr>\<rparr>"
  let ?t = "?k\<lparr>mr_ProviderConfigReference := Some ''other''\<rparr>"
  let ?api = "sampleIAM OperationStateSuccess" and ?run = "runSteps (\<lambda>n e. e)"
  have "evolves (\<lambda>old new. iam_ValidateUpdate sameValue (Typed old) (Typed new)) mr_AtProvider
     (own_writes (iam_Observe sampleRuntime ?run ?api) (iam_Create sampleRuntime ?run ?api)
        (iam_Update sampleRuntime ?api) (iam_Delete sampleRuntime ?run ?api)) ?k ?t"
    by (rule evolves.update [OF evolves.refl]) (simp_all add: iam_ValidateUpdate_iff refName_def)
  then show ?thesis
    using iam_key_immutable [OF runSteps_laws [of "\<lambda>n e. e"], of sameValue ?k sampleRuntime ?api ?t]
    by (simp add: equality_law_sameValue hasKeyID_def)
qed

end
