(* ===== verification/Operator.thy ===== *)
theory Operator
  imports BucketController "HOL-Library.Word"
begin

text \<open>
  How the program starts: \<^verbatim>\<open>operator/operator.go\<close>, the \<^verbatim>\<open>setup.go\<close> of every controller, the registration of
  the API types (\<^verbatim>\<open>apis/init.go\<close>), the operator command (\<^verbatim>\<open>operator_command.go\<close>) and the log flags
  (\<^verbatim>\<open>flags.go\<close>, \<^verbatim>\<open>logger.go\<close>). The manager of controller-runtime, the names crossplane gives to controllers and
  the pipeline package are parameters.
\<close>

section \<open>The API groups\<close>

record GroupVersionKind =
  gvk_Group :: string
  gvk_Version :: string
  gvk_Kind :: string

definition exoscaleGroup :: string where
  "exoscaleGroup = ''exoscale.crossplane.io''"

definition exoscaleVersion :: string where
  "exoscaleVersion = ''v1''"

definition exoscaleKind :: "string \<Rightarrow> GroupVersionKind" where
  "exoscaleKind k = \<lparr>gvk_Group = exoscaleGroup, gvk_Version = exoscaleVersion, gvk_Kind = k\<rparr>"

definition providerGroup :: string where
  "providerGroup = ''exoscale.crossplane.io''"

definition providerVersion :: string where
  "providerVersion = ''v1''"

definition providerKind :: "string \<Rightarrow> GroupVersionKind" where
  "providerKind k = \<lparr>gvk_Group = providerGroup, gvk_Version = providerVersion, gvk_Kind = k\<rparr>"

text \<open>The types the two packages add to their scheme builders, in the order their files are initialised.\<close>

definition exoscaleTypes :: "GroupVersionKind list" where
  "exoscaleTypes = map exoscaleKind
     [''Bucket'', ''BucketList'', ''IAMKey'', ''IAMKeyList'', ''Kafka'', ''KafkaList'', ''MySQL'', ''MySQLList'',
      ''OpenSearch'', ''OpenSearchList'', ''PostgreSQL'', ''PostgreSQLList'', ''Redis'', ''RedisList'']"

definition providerTypes :: "GroupVersionKind list" where
  "providerTypes = map providerKind
     [''ProviderConfig'', ''ProviderConfigList'', ''ProviderConfigUsage'', ''ProviderConfigUsageList'']"

definition AddToSchemes :: "GroupVersionKind list list" where
  "AddToSchemes = [exoscaleTypes, providerTypes]"

section \<open>What the manager is asked to do\<close>

text \<open>Durations are in nanoseconds, as \<^verbatim>\<open>time.Duration\<close> has them.\<close>

definition Second :: int where
  "Second = 1000000000"

definition Minute :: int where
  "Minute = 60 * Second"

definition Hour :: int where
  "Hour = 60 * Minute"

text \<open>
  A reconciler: for a managed resource its kind, the poll interval and the creation grace period, where one is
  given; for provider configs the kinds of the config and of the list of its usages.
\<close>

datatype Reconciler =
    Managed GroupVersionKind int "int option"
  | ProviderConfigs GroupVersionKind GroupVersionKind

record ControllerSetup =
  cs_Named :: string
  cs_For :: GroupVersionKind
  cs_Watches :: "GroupVersionKind list"
  cs_Reconciler :: Reconciler

record WebhookSetup =
  ws_For :: GroupVersionKind
  ws_LogName :: "string list"

record ManagerOptions =
  mo_LeaderElection :: bool
  mo_LeaderElectionID :: string
  mo_LeaseDuration :: int
  mo_RenewDeadline :: int
  mo_WebhookPort :: nat
  mo_WebhookCertDir :: string

text \<open>
  The library: \<^verbatim>\<open>ctrl.GetConfig\<close>, \<^verbatim>\<open>ctrl.NewManager\<close>, the scheme builder's \<^verbatim>\<open>AddToScheme\<close> on the manager's scheme,
  the \<^verbatim>\<open>Complete\<close> of the two builders and \<^verbatim>\<open>Start\<close>.
\<close>

record ('cfg, 'mgr, 'w) manager_lib =
  ml_GetConfig :: "('w, 'cfg) call"
  ml_NewManager :: "'cfg option \<Rightarrow> ManagerOptions \<Rightarrow> ('w, 'mgr) call"
  ml_AddToScheme :: "'mgr \<Rightarrow> GroupVersionKind list list \<Rightarrow> ('w, unit) call"
  ml_Controller :: "'mgr \<Rightarrow> ControllerSetup \<Rightarrow> ('w, unit) call"
  ml_Webhook :: "'mgr \<Rightarrow> WebhookSetup \<Rightarrow> ('w, unit) call"
  ml_Start :: "'mgr \<Rightarrow> ('w, unit) call"

text \<open>
  Names: \<^verbatim>\<open>schema.GroupKind.String\<close>, \<^verbatim>\<open>managed.ControllerName\<close> and \<^verbatim>\<open>providerconfig.ControllerName\<close>, with what
  they are documented to return.
\<close>

record naming =
  nm_GroupKind :: "string \<Rightarrow> string \<Rightarrow> string"
  nm_Managed :: "string \<Rightarrow> string"
  nm_ProviderConfig :: "string \<Rightarrow> string"

definition naming_laws :: "naming \<Rightarrow> bool" where
  "naming_laws nm \<longleftrightarrow> (\<forall>g k. g \<noteq> [] \<longrightarrow> nm_GroupKind nm g k = k @ ''.'' @ g) \<and>
     (\<forall>k. nm_Managed nm k = ''managed/'' @ ToLower k) \<and> (\<forall>k. nm_ProviderConfig nm k = ''providerconfig/'' @ ToLower k)"

definition exoscaleGroupKind :: "naming \<Rightarrow> string \<Rightarrow> string" where
  "exoscaleGroupKind nm k = nm_GroupKind nm exoscaleGroup k"

section \<open>Controllers\<close>

text \<open>The part of the set-ups that all managed resources share.\<close>

definition managedController :: "string \<Rightarrow> string \<Rightarrow> int \<Rightarrow> int option \<Rightarrow> ControllerSetup" where
  "managedController name k poll grace =
     \<lparr>cs_Named = name, cs_For = exoscaleKind k, cs_Watches = [], cs_Reconciler = Managed (exoscaleKind k) poll grace\<rparr>"

definition bucket_SetupController ::
  "('cfg, 'mgr, 'w) manager_lib \<Rightarrow> naming \<Rightarrow> 'mgr \<Rightarrow> ('c \<times> 'w, unit) act" where
  "bucket_SetupController ml nm mgr = invoke (ml_Controller ml mgr
     (managedController (nm_Managed nm (exoscaleGroupKind nm ''Bucket'')) ''Bucket'' (1 * Hour) None))"

definition config_SetupController ::
  "('cfg, 'mgr, 'w) manager_lib \<Rightarrow> naming \<Rightarrow> 'mgr \<Rightarrow> ('c \<times> 'w, unit) act" where
  "config_SetupController ml nm mgr = invoke (ml_Controller ml mgr
     \<lparr>cs_Named = nm_ProviderConfig nm (nm_GroupKind nm providerGroup ''ProviderConfig''),
      cs_For = providerKind ''ProviderConfig'', cs_Watches = [providerKind ''ProviderConfigUsage''],
      cs_Reconciler = ProviderConfigs (providerKind ''ProviderConfig'') (providerKind ''ProviderConfigUsageList'')\<rparr>)"

definition iamkey_SetupController ::
  "('cfg, 'mgr, 'w) manager_lib \<Rightarrow> naming \<Rightarrow> 'mgr \<Rightarrow> ('c \<times> 'w, unit) act" where
  "iamkey_SetupController ml nm mgr = invoke (ml_Controller ml mgr
     (managedController (ToLower (exoscaleGroupKind nm ''IAMKey'')) ''IAMKey'' (1 * Hour) None))"

definition mysql_SetupController ::
  "('cfg, 'mgr, 'w) manager_lib \<Rightarrow> naming \<Rightarrow> 'mgr \<Rightarrow> ('c \<times> 'w, unit) act" where
  "mysql_SetupController ml nm mgr = invoke (ml_Controller ml mgr
     (managedController (ToLower (exoscaleGroupKind nm ''MySQL'')) ''MySQL'' (1 * Minute) None))"

definition postgresql_SetupController ::
  "('cfg, 'mgr, 'w) manager_lib \<Rightarrow> naming \<Rightarrow> 'mgr \<Rightarrow> ('c \<times> 'w, unit) act" where
  "postgresql_SetupController ml nm mgr = invoke (ml_Controller ml mgr
     (managedController (ToLower (exoscaleGroupKind nm ''PostgreSQL'')) ''PostgreSQL'' (1 * Minute) None))"

text \<open>The Redis package builds its reconciler in a function of its own, which takes the grace period.\<close>

definition redis_createReconciler :: "int \<Rightarrow> Reconciler" where
  "redis_createReconciler creationGracePeriod =
     Managed (exoscaleKind ''Redis'') (1 * Minute) (Some creationGracePeriod)"

definition redis_SetupControllerWithConnecter ::
  "('cfg, 'mgr, 'w) manager_lib \<Rightarrow> 'mgr \<Rightarrow> string \<Rightarrow> int \<Rightarrow> ('c \<times> 'w, unit) act" where
  "redis_SetupControllerWithConnecter ml mgr name creationGracePeriod = invoke (ml_Controller ml mgr
     \<lparr>cs_Named = name, cs_For = exoscaleKind ''Redis'', cs_Watches = [],
      cs_Reconciler = redis_createReconciler creationGracePeriod\<rparr>)"

definition redis_SetupController ::
  "('cfg, 'mgr, 'w) manager_lib \<Rightarrow> naming \<Rightarrow> 'mgr \<Rightarrow> ('c \<times> 'w, unit) act" where
  "redis_SetupController ml nm mgr =
     redis_SetupControllerWithConnecter ml mgr (ToLower (exoscaleGroupKind nm ''Redis'')) (30 * Second)"

definition kafka_SetupController ::
  "('cfg, 'mgr, 'w) manager_lib \<Rightarrow> naming \<Rightarrow> 'mgr \<Rightarrow> ('c \<times> 'w, unit) act" where
  "kafka_SetupController ml nm mgr = invoke (ml_Controller ml mgr
     (managedController (ToLower (exoscaleGroupKind nm ''Kafka'')) ''Kafka'' (1 * Minute) (Some (30 * Second))))"

definition opensearch_SetupController ::
  "('cfg, 'mgr, 'w) manager_lib \<Rightarrow> naming \<Rightarrow> 'mgr \<Rightarrow> ('c \<times> 'w, unit) act" where
  "opensearch_SetupController ml nm mgr = invoke (ml_Controller ml mgr
     (managedController ''opensearch'' ''OpenSearch'' (1 * Minute) None))"

text \<open>The loop of the two functions of \<^verbatim>\<open>operator.go\<close>: the first error ends it.\<close>

fun setupAll :: "('mgr \<Rightarrow> ('s, unit) act) list \<Rightarrow> 'mgr \<Rightarrow> ('s, unit) act" where
  "setupAll [] mgr = ret ()"
| "setupAll (f # fs) mgr = andThen (f mgr) (\<lambda>_. setupAll fs mgr)"

definition SetupControllers ::
  "('cfg, 'mgr, 'w) manager_lib \<Rightarrow> naming \<Rightarrow> 'mgr \<Rightarrow> ('c \<times> 'w, unit) act" where
  "SetupControllers ml nm = setupAll
     [bucket_SetupController ml nm,
      config_SetupController ml nm,
      iamkey_SetupController ml nm,
      mysql_SetupController ml nm,
      postgresql_SetupController ml nm,
      redis_SetupController ml nm,
      kafka_SetupController ml nm,
      opensearch_SetupController ml nm]"

section \<open>Webhooks\<close>

text \<open>All packages register their validator in the same way; the log of it is named after the kind.\<close>

definition registerWebhook :: "('cfg, 'mgr, 'w) manager_lib \<Rightarrow> string \<Rightarrow> 'mgr \<Rightarrow> ('c \<times> 'w, unit) act" where
  "registerWebhook ml k mgr =
     invoke (ml_Webhook ml mgr \<lparr>ws_For = exoscaleKind k, ws_LogName = [''webhook'', ToLower k]\<rparr>)"

definition bucket_SetupWebhook :: "('cfg, 'mgr, 'w) manager_lib \<Rightarrow> 'mgr \<Rightarrow> ('c \<times> 'w, unit) act" where
  "bucket_SetupWebhook ml = registerWebhook ml ''Bucket''"

definition iamkey_SetupWebhook :: "('cfg, 'mgr, 'w) manager_lib \<Rightarrow> 'mgr \<Rightarrow> ('c \<times> 'w, unit) act" where
  "iamkey_SetupWebhook ml = registerWebhook ml ''IAMKey''"

definition mysql_SetupWebhook :: "('cfg, 'mgr, 'w) manager_lib \<Rightarrow> 'mgr \<Rightarrow> ('c \<times> 'w, unit) act" where
  "mysql_SetupWebhook ml = registerWebhook ml ''MySQL''"

definition postgresql_SetupWebhook :: "('cfg, 'mgr, 'w) manager_lib \<Rightarrow> 'mgr \<Rightarrow> ('c \<times> 'w, unit) act" where
  "postgresql_SetupWebhook ml = registerWebhook ml ''PostgreSQL''"

definition redis_SetupWebhook :: "('cfg, 'mgr, 'w) manager_lib \<Rightarrow> 'mgr \<Rightarrow> ('c \<times> 'w, unit) act" where
  "redis_SetupWebhook ml = registerWebhook ml ''Redis''"

definition kafka_SetupWebhook :: "('cfg, 'mgr, 'w) manager_lib \<Rightarrow> 'mgr \<Rightarrow> ('c \<times> 'w, unit) act" where
  "kafka_SetupWebhook ml = registerWebhook ml ''Kafka''"

definition opensearch_SetupWebhook :: "('cfg, 'mgr, 'w) manager_lib \<Rightarrow> 'mgr \<Rightarrow> ('c \<times> 'w, unit) act" where
  "opensearch_SetupWebhook ml = registerWebhook ml ''OpenSearch''"

definition SetupWebhooks :: "('cfg, 'mgr, 'w) manager_lib \<Rightarrow> 'mgr \<Rightarrow> ('c \<times> 'w, unit) act" where
  "SetupWebhooks ml = setupAll
     [bucket_SetupWebhook ml,
      iamkey_SetupWebhook ml,
      mysql_SetupWebhook ml,
      postgresql_SetupWebhook ml,
      redis_SetupWebhook ml,
      kafka_SetupWebhook ml,
      opensearch_SetupWebhook ml]"

section \<open>The operator command\<close>

record ('cfg, 'mgr) operatorCommand =
  oc_LeaderElectionEnabled :: bool
  oc_WebhookCertDir :: string
  oc_manager :: "'mgr option"
  oc_kubeconfig :: "'cfg option"

definition getConfig :: "('cfg, 'mgr, 'w) manager_lib \<Rightarrow> (('cfg, 'mgr) operatorCommand \<times> 'w, unit) act" where
  "getConfig ml = andThen (attempt (ml_GetConfig ml)) (\<lambda>r. case r of
     Inl e \<Rightarrow> andThen (modifyObj (\<lambda>c. c\<lparr>oc_kubeconfig := None\<rparr>)) (\<lambda>_. fail (Lib e))
   | Inr cfg \<Rightarrow> modifyObj (\<lambda>c. c\<lparr>oc_kubeconfig := Some cfg\<rparr>))"

definition managerOptions :: "('cfg, 'mgr) operatorCommand \<Rightarrow> ManagerOptions" where
  "managerOptions c =
     \<lparr>mo_LeaderElection = oc_LeaderElectionEnabled c,
      mo_LeaderElectionID = ''leader-election-provider-exoscale'',
      mo_LeaseDuration = 60 * Second,
      mo_RenewDeadline = 50 * Second,
      mo_WebhookPort = 9443,
      mo_WebhookCertDir = oc_WebhookCertDir c\<rparr>"

definition createManager :: "('cfg, 'mgr, 'w) manager_lib \<Rightarrow> (('cfg, 'mgr) operatorCommand \<times> 'w, unit) act" where
  "createManager ml = andThen getObj (\<lambda>c.
     andThen (attempt (ml_NewManager ml (oc_kubeconfig c) (managerOptions c))) (\<lambda>r. case r of
       Inl e \<Rightarrow> andThen (modifyObj (\<lambda>c. c\<lparr>oc_manager := None\<rparr>)) (\<lambda>_. fail (Lib e))
     | Inr mgr \<Rightarrow> modifyObj (\<lambda>c. c\<lparr>oc_manager := Some mgr\<rparr>)))"

text \<open>A method of the manager the command holds; a nil manager panics.\<close>

definition withManager ::
  "('mgr \<Rightarrow> (('cfg, 'mgr) operatorCommand \<times> 'w, unit) act) \<Rightarrow> (('cfg, 'mgr) operatorCommand \<times> 'w, unit) act" where
  "withManager f = andThen getObj (\<lambda>c. andThen (lift (deref (oc_manager c))) f)"

definition AddToScheme :: "('cfg, 'mgr, 'w) manager_lib \<Rightarrow> 'mgr \<Rightarrow> ('c \<times> 'w, unit) act" where
  "AddToScheme ml mgr = invoke (ml_AddToScheme ml mgr AddToSchemes)"

text \<open>
  \<^verbatim>\<open>pipeline.WithNestedSteps\<close> without a predicate: a step that runs the given steps as a pipeline.
\<close>

type_synonym 's nesting = "string \<Rightarrow> 's step list \<Rightarrow> 's step"

definition nest_law :: "'s runner \<Rightarrow> 's nesting \<Rightarrow> bool" where
  "nest_law run nest \<longleftrightarrow> (\<forall>n steps. nest n steps = (n, run steps))"

definition execute ::
  "(('cfg, 'mgr) operatorCommand \<times> 'w) runner \<Rightarrow> (('cfg, 'mgr) operatorCommand \<times> 'w) conditional \<Rightarrow>
   (('cfg, 'mgr) operatorCommand \<times> 'w) nesting \<Rightarrow> ('cfg, 'mgr, 'w) manager_lib \<Rightarrow> naming \<Rightarrow>
   (('cfg, 'mgr) operatorCommand \<times> 'w, unit) act" where
  "execute run wh nest ml nm = andThen getObj (\<lambda>c. run
     [(''get config'', getConfig ml),
      (''create manager'', createManager ml),
      nest ''register schemes'' [(''register API schemes'', withManager (AddToScheme ml))],
      (''setup controllers'', withManager (SetupControllers ml nm)),
      wh (\<lambda>_. oc_WebhookCertDir c \<noteq> '''') ''setup webhook server'' (withManager (SetupWebhooks ml)),
      (''run manager'', withManager (\<lambda>mgr. invoke (ml_Start ml mgr)))])"

section \<open>Logging\<close>

text \<open>The log format flag admits two values; the logger compares without regard to case.\<close>

definition logFormatAction :: "string \<Rightarrow> unit outcome" where
  "logFormatAction format = (if format = ''console'' \<or> format = ''json'' then Ret ()
     else Fail (Errorf ''unknown log format: %s'' [format]))"

definition usesProductionLoggingConfig :: "string \<Rightarrow> bool" where
  "usesProductionLoggingConfig format \<longleftrightarrow> EqualFold ''JSON'' format"

text \<open>
  \<^verbatim>\<open>zapcore.Level(verbosityLevel * -1)\<close>: the flag is an \<^verbatim>\<open>int\<close> of 64 bits, the level an \<^verbatim>\<open>int8\<close>; the conversion
  keeps the low 8 bits.
\<close>

definition zapLevel :: "64 word \<Rightarrow> 8 word" where
  "zapLevel verbosityLevel = ucast (verbosityLevel * (- 1))"

section \<open>A manager that keeps a record\<close>

text \<open>
  The steps of a start, without the details of the set-ups, and a library that does what another one does and
  notes every call with whether it succeeded.
\<close>

datatype startStep =
    ReadConfig
  | CreateManager bool string
  | RegisterTypes
  | AddController string
  | AddWebhook string
  | StartManager

type_synonym journal = "(startStep \<times> bool) list"

definition noted :: "startStep \<Rightarrow> ('w, 'a) call \<Rightarrow> ('w \<times> journal, 'a) call" where
  "noted e f = (\<lambda>(w, j). case f w of (r, w') \<Rightarrow> (r, (w', j @ [(e, case r of Inl _ \<Rightarrow> False | Inr _ \<Rightarrow> True)])))"

definition journalled :: "('cfg, 'mgr, 'w) manager_lib \<Rightarrow> ('cfg, 'mgr, 'w \<times> journal) manager_lib" where
  "journalled ml =
     \<lparr>ml_GetConfig = noted ReadConfig (ml_GetConfig ml),
      ml_NewManager = (\<lambda>cfg opts. noted (CreateManager (mo_LeaderElection opts) (mo_WebhookCertDir opts)) (ml_NewManager ml cfg opts)),
      ml_AddToScheme = (\<lambda>mgr types. noted RegisterTypes (ml_AddToScheme ml mgr types)),
      ml_Controller = (\<lambda>mgr cs. noted (AddController (gvk_Kind (cs_For cs))) (ml_Controller ml mgr cs)),
      ml_Webhook = (\<lambda>mgr ws. noted (AddWebhook (gvk_Kind (ws_For ws))) (ml_Webhook ml mgr ws)),
      ml_Start = (\<lambda>mgr. noted StartManager (ml_Start ml mgr))\<rparr>"

text \<open>
  \<open>carriedOut plan r j\<close>: the journal is the plan with every step successful and the result is success, or it is
  the plan up to a step that failed and the result is an error.
\<close>

definition succeeded :: "startStep list \<Rightarrow> journal" where
  "succeeded plan = map (\<lambda>e. (e, True)) plan"

definition carriedOut :: "startStep list \<Rightarrow> unit outcome \<Rightarrow> journal \<Rightarrow> bool" where
  "carriedOut plan r j \<longleftrightarrow> (case r of
     Ret _ \<Rightarrow> j = succeeded plan
   | Fail _ \<Rightarrow> (\<exists>before e after. plan = before @ e # after \<and> j = succeeded before @ [(e, False)])
   | Panic _ \<Rightarrow> False)"

text \<open>An action that carries out a plan, from the commands in \<open>P\<close> to those in \<open>Q\<close>, and keeps the flags.\<close>

definition follows ::
  "(('cfg, 'mgr) operatorCommand \<Rightarrow> bool) \<Rightarrow> startStep list \<Rightarrow> (('cfg, 'mgr) operatorCommand \<Rightarrow> bool) \<Rightarrow>
   (('cfg, 'mgr) operatorCommand \<times> 'w \<times> journal, unit) act \<Rightarrow> bool" where
  "follows P plan Q m \<longleftrightarrow> (\<forall>c w j. P c \<longrightarrow> (\<exists>r c' w' j'. m (c, (w, j)) = (r, (c', (w', j @ j'))) \<and>
     carriedOut plan r j' \<and> (r = Ret () \<longrightarrow> Q c')))"

lemma followsI:
  assumes "\<And>c w j. P c \<Longrightarrow> \<exists>r c' w' j'. m (c, (w, j)) = (r, (c', (w', j @ j'))) \<and> carriedOut plan r j' \<and> (r = Ret () \<longrightarrow> Q c')"
  shows "follows P plan Q m"
  using assms by (simp add: follows_def)

lemma followsD:
  "follows P plan Q m \<Longrightarrow> P c \<Longrightarrow>
   \<exists>r c' w' j'. m (c, (w, j)) = (r, (c', (w', j @ j'))) \<and> carriedOut plan r j' \<and> (r = Ret () \<longrightarrow> Q c')"
  by (simp add: follows_def)

lemma succeeded_append [simp]: "succeeded (p @ q) = succeeded p @ succeeded q"
  by (simp add: succeeded_def)

lemma succeeded_Cons: "succeeded (e # p) = (e, True) # succeeded p"
  by (simp add: succeeded_def)

lemma carriedOut_first:
  assumes "carriedOut p (Fail e) j"
  shows "carriedOut (p @ q) (Fail e') j"
  using assms unfolding carriedOut_def by (force simp: append_assoc)

lemma carriedOut_second:
  assumes "carriedOut p (Ret u) i" "carriedOut q r j"
  shows "carriedOut (p @ q) r (i @ j)"
proof (cases r)
  case (Fail e)
  then obtain before x after where "q = before @ x # after" "j = succeeded before @ [(x, False)]"
    using assms(2) by (auto simp: carriedOut_def)
  then show ?thesis
    using assms(1) Fail by (simp add: carriedOut_def) (metis append.assoc succeeded_append)
qed (use assms in \<open>auto simp: carriedOut_def\<close>)

lemma carriedOut_wrap: "carriedOut p r j \<Longrightarrow> carriedOut p (wrap_outcome f r) j"
  by (cases r) (auto simp: carriedOut_def)

lemma follows_seq:
  assumes "follows P p Q m" and "\<And>u. follows Q q R (k u)"
  shows "follows P (p @ q) R (andThen m k)"
proof (rule followsI)
  fix c w j assume "P c"
  then obtain r c' w' j' where m: "m (c, (w, j)) = (r, (c', (w', j @ j')))" "carriedOut p r j'" "r = Ret () \<Longrightarrow> Q c'"
    using followsD [OF assms(1), of c w j] by blast
  show "\<exists>r c' w' j'. andThen m k (c, (w, j)) = (r, (c', (w', j @ j'))) \<and> carriedOut (p @ q) r j' \<and> (r = Ret () \<longrightarrow> R c')"
  proof (cases r)
    case (Ret u)
    then have "Q c'" using m(3) by simp
    then obtain r2 c2 w2 j2 where k: "k u (c', (w', j @ j')) = (r2, (c2, (w2, (j @ j') @ j2)))" "carriedOut q r2 j2"
      "r2 = Ret () \<Longrightarrow> R c2"
      using followsD [OF assms(2), of c' u w' "j @ j'"] by blast
    have "carriedOut (p @ q) r2 (j' @ j2)"
      using m(2) k(2) Ret carriedOut_second by simp
    then show ?thesis using m(1) k(1,3) Ret by (simp add: andThen_apply)
  next
    case (Fail e)
    then show ?thesis using m(1,2) by (auto simp: andThen_apply intro: carriedOut_first)
  next
    case (Panic x)
    then show ?thesis using m(2) by (simp add: carriedOut_def)
  qed
qed

lemma follows_wrapErr:
  assumes "follows P p Q m"
  shows "follows P p Q (wrapErr f m)"
proof (rule followsI)
  fix c w j assume "P c"
  then obtain r c' w' j' where "m (c, (w, j)) = (r, (c', (w', j @ j')))" "carriedOut p r j'" "r = Ret () \<Longrightarrow> Q c'"
    using followsD [OF assms, of c w j] by blast
  then show "\<exists>r c' w' j'. wrapErr f m (c, (w, j)) = (r, (c', (w', j @ j'))) \<and> carriedOut p r j' \<and> (r = Ret () \<longrightarrow> Q c')"
    by (auto simp: wrapErr_apply intro: carriedOut_wrap)
qed

lemma follows_ret: "follows P [] P (ret ())"
  by (rule followsI) (simp add: carriedOut_def succeeded_def)

lemma follows_skip: "follows P [] P (\<lambda>s. (Ret (), s))"
  by (rule followsI) (auto simp: carriedOut_def succeeded_def)

lemma carriedOut_single [simp]:
  "carriedOut [e] (Ret ()) [(e, True)]" "carriedOut [e] (Fail x) [(e, False)]"
  by (auto simp: carriedOut_def succeeded_def)

lemma noted_apply:
  "noted e f (w, j) = (fst (f w), (snd (f w), j @ [(e, case fst (f w) of Inl _ \<Rightarrow> False | Inr _ \<Rightarrow> True)]))"
  by (simp add: noted_def split: prod.splits)

lemma follows_invoke: "follows P [e] P (invoke (noted e f))"
  by (rule followsI) (auto simp: invoke_apply noted_apply split: sum.splits)

lemma journalled_simps [simp]:
  "ml_GetConfig (journalled ml) = noted ReadConfig (ml_GetConfig ml)"
  "ml_NewManager (journalled ml) cfg opts =
     noted (CreateManager (mo_LeaderElection opts) (mo_WebhookCertDir opts)) (ml_NewManager ml cfg opts)"
  "ml_AddToScheme (journalled ml) mgr types = noted RegisterTypes (ml_AddToScheme ml mgr types)"
  "ml_Controller (journalled ml) mgr cs = noted (AddController (gvk_Kind (cs_For cs))) (ml_Controller ml mgr cs)"
  "ml_Webhook (journalled ml) mgr ws = noted (AddWebhook (gvk_Kind (ws_For ws))) (ml_Webhook ml mgr ws)"
  "ml_Start (journalled ml) mgr = noted StartManager (ml_Start ml mgr)"
  by (simp_all add: journalled_def)

section \<open>The start follows a plan\<close>

text \<open>What a command does when it is started: the plan, from its flags.\<close>

definition controllerKinds :: "string list" where
  "controllerKinds = [''Bucket'', ''ProviderConfig'', ''IAMKey'', ''MySQL'', ''PostgreSQL'', ''Redis'', ''Kafka'', ''OpenSearch'']"

definition webhookKinds :: "string list" where
  "webhookKinds = [''Bucket'', ''IAMKey'', ''MySQL'', ''PostgreSQL'', ''Redis'', ''Kafka'', ''OpenSearch'']"

definition startPlan :: "bool \<Rightarrow> string \<Rightarrow> startStep list" where
  "startPlan elect certDir = [ReadConfig, CreateManager elect certDir, RegisterTypes] @ map AddController controllerKinds @
     (if certDir = '''' then [] else map AddWebhook webhookKinds) @ [StartManager]"

abbreviation flagged :: "bool \<Rightarrow> string \<Rightarrow> ('cfg, 'mgr) operatorCommand \<Rightarrow> bool" where
  "flagged elect certDir c \<equiv> oc_LeaderElectionEnabled c = elect \<and> oc_WebhookCertDir c = certDir"

abbreviation managing :: "bool \<Rightarrow> string \<Rightarrow> ('cfg, 'mgr) operatorCommand \<Rightarrow> bool" where
  "managing elect certDir c \<equiv> flagged elect certDir c \<and> oc_manager c \<noteq> None"

lemma follows_getConfig: "follows (flagged b d) [ReadConfig] (flagged b d) (getConfig (journalled ml))"
  unfolding getConfig_def
  by (rule followsI) (auto simp: run_simps noted_apply split: sum.splits)

lemma follows_createManager:
  "follows (flagged b d) [CreateManager b d] (managing b d) (createManager (journalled ml))"
  unfolding createManager_def
  by (rule followsI) (auto simp: run_simps noted_apply managerOptions_def split: sum.splits)

lemma follows_withManager:
  fixes f :: "'mgr \<Rightarrow> (('cfg, 'mgr) operatorCommand \<times> 'w \<times> journal, unit) act"
  assumes "\<And>mgr. follows (managing b d) p Q (f mgr)"
  shows "follows (managing b d) p Q (withManager f)"
proof (rule followsI)
  fix c :: "('cfg, 'mgr) operatorCommand" and w j
  assume c: "managing b d c"
  then obtain mgr where "oc_manager c = Some mgr" by auto
  then have "withManager f (c, (w, j)) = f mgr (c, (w, j))"
    by (simp add: withManager_def andThen_apply)
  then show "\<exists>r c' w' j'. withManager f (c, (w, j)) = (r, (c', (w', j @ j'))) \<and> carriedOut p r j' \<and> (r = Ret () \<longrightarrow> Q c')"
    using assms [of mgr] c unfolding follows_def by auto
qed

lemma follows_setupAll:
  assumes "list_all2 (\<lambda>e f. \<forall>mgr. follows P [e] P (f mgr)) es fs"
  shows "follows P es P (setupAll fs mgr)"
  using assms
proof (induction rule: list_all2_induct)
  case (Cons e es f fs)
  then have "follows P ([e] @ es) P (setupAll (f # fs) mgr)"
    unfolding setupAll.simps by (intro follows_seq) auto
  then show ?case by simp
qed (simp only: setupAll.simps follows_ret)

lemma managedController_kind [simp]: "cs_For (managedController n k p g) = exoscaleKind k"
  by (simp add: managedController_def)

lemma kind_simps [simp]: "gvk_Kind (exoscaleKind k) = k" "gvk_Kind (providerKind k) = k"
  by (simp_all add: exoscaleKind_def providerKind_def)

lemmas setup_defs =
  bucket_SetupController_def config_SetupController_def iamkey_SetupController_def
  mysql_SetupController_def postgresql_SetupController_def redis_SetupController_def
  redis_SetupControllerWithConnecter_def kafka_SetupController_def opensearch_SetupController_def registerWebhook_def
  bucket_SetupWebhook_def iamkey_SetupWebhook_def mysql_SetupWebhook_def postgresql_SetupWebhook_def
  redis_SetupWebhook_def kafka_SetupWebhook_def opensearch_SetupWebhook_def

lemma follows_SetupControllers:
  "follows P (map AddController controllerKinds) P (SetupControllers (journalled ml) nm mgr)"
  unfolding SetupControllers_def controllerKinds_def list.map
  by (rule follows_setupAll) (simp add: setup_defs follows_invoke)

lemma follows_SetupWebhooks:
  "follows P (map AddWebhook webhookKinds) P (SetupWebhooks (journalled ml) mgr)"
  unfolding SetupWebhooks_def webhookKinds_def list.map
  by (rule follows_setupAll) (simp add: setup_defs follows_invoke)

lemma follows_AddToScheme: "follows P [RegisterTypes] P (AddToScheme (journalled ml) mgr)"
  by (simp add: AddToScheme_def follows_invoke)

text \<open>A pipeline follows the plans of its steps.\<close>

lemma follows_runSteps:
  assumes "follows P p Q f" and "follows Q q R (runSteps wrap steps)"
  shows "follows P (p @ q) R (runSteps wrap ((n, f) # steps))"
  unfolding runSteps.simps by (rule follows_seq [OF follows_wrapErr [OF assms(1)] assms(2)])

lemma follows_runSteps_Nil: "follows P [] P (runSteps wrap [])"
  by (simp only: runSteps.simps follows_ret)

lemma follows_when:
  assumes "follows P p P f"
  shows "follows P (if b then p else []) P (\<lambda>s. if b then f s else (Ret (), s))"
  using assms by (cases b) (simp_all add: follows_skip)

lemma follows_execute_steps:
  "follows (flagged b d) (startPlan b d) (managing b d) (runSteps wrap
     [(''get config'', getConfig (journalled ml)),
      (''create manager'', createManager (journalled ml)),
      (''register schemes'', runSteps wrap [(''register API schemes'', withManager (AddToScheme (journalled ml)))]),
      (''setup controllers'', withManager (SetupControllers (journalled ml) nm)),
      whenStep (\<lambda>_. d \<noteq> '''') ''setup webhook server'' (withManager (SetupWebhooks (journalled ml))),
      (''run manager'', withManager (\<lambda>mgr. invoke (ml_Start (journalled ml) mgr)))])"
proof -
  have plan: "startPlan b d = [ReadConfig] @ [CreateManager b d] @ ([RegisterTypes] @ []) @ map AddController controllerKinds @
     (if d \<noteq> '''' then map AddWebhook webhookKinds else []) @ [StartManager] @ []"
    by (simp add: startPlan_def)
  show ?thesis
    unfolding plan whenStep_def journalled_simps
    by (rule follows_runSteps [OF follows_getConfig follows_runSteps [OF follows_createManager
          follows_runSteps [OF follows_runSteps [OF follows_withManager [OF follows_AddToScheme] follows_runSteps_Nil]
          follows_runSteps [OF follows_withManager [OF follows_SetupControllers]
          follows_runSteps [OF follows_when [OF follows_withManager [OF follows_SetupWebhooks]]
          follows_runSteps [OF follows_withManager [OF follows_invoke] follows_runSteps_Nil]]]]]])
qed

lemma execute_carriedOut:
  assumes "pipeline_laws wrap run" "when_law wh" "nest_law run nest"
    and "execute run wh nest (journalled ml) nm (c, (w, [])) = (r, (c', (w', j)))"
  shows "carriedOut (startPlan (oc_LeaderElectionEnabled c) (oc_WebhookCertDir c)) r j"
proof -
  have laws: "run = runSteps wrap" "wh = whenStep" "\<And>n steps. nest n steps = (n, runSteps wrap steps)"
    using assms(1-3) by (simp_all add: pipeline_laws_runSteps when_law_whenStep nest_law_def)
  show ?thesis
    using assms(4) followsD [OF follows_execute_steps [of "oc_LeaderElectionEnabled c" "oc_WebhookCertDir c" wrap ml nm], of c w "[]"]
    unfolding execute_def laws by (auto simp only: andThen_apply act_simps prod.case outcome.case append_Nil prod.inject)
qed

text \<open>The manager is the last step of a plan, so starting it means that all other steps were done.\<close>

lemma startPlan_start: "\<exists>steps. startPlan b d = steps @ [StartManager] \<and> StartManager \<notin> set steps"
proof (intro exI conjI)
  let ?steps = "[ReadConfig, CreateManager b d, RegisterTypes] @ map AddController controllerKinds @
    (if d = [] then [] else map AddWebhook webhookKinds)"
  show "startPlan b d = ?steps @ [StartManager]" "StartManager \<notin> set ?steps"
    by (auto simp: startPlan_def)
qed

lemma carriedOut_started:
  assumes "carriedOut (steps @ [e]) r j" "e \<notin> set steps" "e \<in> fst ` set j"
  shows "map fst j = steps @ [e]"
proof (cases r)
  case (Fail x)
  then obtain before y after where p: "steps @ [e] = before @ y # after" "j = succeeded before @ [(y, False)]"
    using assms(1) by (auto simp: carriedOut_def)
  have "after = []"
    using p assms(2,3) by (cases after rule: rev_cases) (auto simp: succeeded_def)
  then show ?thesis using p by (simp add: succeeded_def comp_def)
qed (use assms in \<open>auto simp: carriedOut_def succeeded_def comp_def\<close>)

text \<open>
  C11: Starting the operator follows a plan that depends on its two flags only: read the configuration, create the
  manager with leader election and certificate directory as given, register the API types, add the eight
  controllers, add the seven webhooks if and only if a certificate directory is given, and then start the manager.
  The first call that fails ends the start with an error; when the command returns without error every step was
  done, once and in this order; it never panics, so the manager is there whenever it is used. In particular the
  manager is never started with a controller or a webhook missing.
\<close>

theorem execute_follows_plan:
  assumes "pipeline_laws wrap run" "when_law wh" "nest_law run nest"
    and "execute run wh nest (journalled ml) nm (c, (w, [])) = (r, (c', (w', j)))"
  shows "carriedOut (startPlan (oc_LeaderElectionEnabled c) (oc_WebhookCertDir c)) r j \<and>
    (StartManager \<in> fst ` set j \<longrightarrow> map fst j = startPlan (oc_LeaderElectionEnabled c) (oc_WebhookCertDir c))"
  using execute_carriedOut [OF assms] carriedOut_started startPlan_start by metis

definition sampleManager :: "(unit, unit, nat) manager_lib" where
  "sampleManager =
     \<lparr>ml_GetConfig = (\<lambda>w. (Inr (), w)), ml_NewManager = (\<lambda>cfg opts w. (Inr (), w)),
      ml_AddToScheme = (\<lambda>mgr types w. (Inr (), w)), ml_Controller = (\<lambda>mgr cs w. (Inr (), Suc w)),
      ml_Webhook = (\<lambda>mgr ws w. (if gvk_Kind (ws_For ws) = ''MySQL'' then Inl \<lparr>le_notfound = False, le_status = 0, le_text = ''no''\<rparr> else Inr (), w)),
      ml_Start = (\<lambda>mgr w. (Inr (), w))\<rparr>"

definition sampleNaming :: naming where
  "sampleNaming = \<lparr>nm_GroupKind = (\<lambda>g k. k @ ''.'' @ g), nm_Managed = (\<lambda>k. ''managed/'' @ ToLower k),
     nm_ProviderConfig = (\<lambda>k. ''providerconfig/'' @ ToLower k)\<rparr>"

definition sampleCommand :: "string \<Rightarrow> (unit, unit) operatorCommand" where
  "sampleCommand d = \<lparr>oc_LeaderElectionEnabled = True, oc_WebhookCertDir = d, oc_manager = None, oc_kubeconfig = None\<rparr>"

lemma nest_law_pair: "nest_law run (\<lambda>n steps. (n, run steps))"
  by (simp add: nest_law_def)

text \<open>A start in which registering a webhook fails: the manager is not started.\<close>

theorem execute_follows_plan_witness:
  "\<exists>r c' w' j. execute (runSteps (\<lambda>n e. e)) whenStep (\<lambda>n steps. (n, runSteps (\<lambda>n e. e) steps)) (journalled sampleManager) sampleNaming
       (sampleCommand ''tls'', (0, [])) = (r, (c', (w', j))) \<and> carriedOut (startPlan True ''tls'') r j \<and>
     StartManager \<notin> fst ` set j \<and> w' = 8"
proof -
  let ?out = "execute (runSteps (\<lambda>n e. e)) whenStep (\<lambda>n steps. (n, runSteps (\<lambda>n e. e) steps)) (journalled sampleManager) sampleNaming
       (sampleCommand ''tls'', (0, []))"
  obtain r c' w' j where out: "?out = (r, (c', (w', j)))" by (metis surj_pair)
  have "snd (snd ?out) = (8, map (\<lambda>e. (e, True)) ([ReadConfig, CreateManager True ''tls'', RegisterTypes] @ map AddController controllerKinds @
       [AddWebhook ''Bucket'', AddWebhook ''IAMKey'']) @ [(AddWebhook ''MySQL'', False)])"
    by (simp add: execute_def run_simps sampleManager_def sampleCommand_def getConfig_def createManager_def withManager_def
        AddToScheme_def SetupControllers_def SetupWebhooks_def setup_defs noted_apply managerOptions_def whenStep_def controllerKinds_def)
  then have "w' = 8" "StartManager \<notin> fst ` set j" using out by (auto simp: controllerKinds_def)
  moreover have "carriedOut (startPlan True ''tls'') r j"
    using execute_follows_plan [OF runSteps_laws [of "\<lambda>n e. e"] _ nest_law_pair out]
    by (simp add: when_law_whenStep sampleCommand_def)
  ultimately show ?thesis using out by blast
qed

section \<open>The set-ups fit together\<close>

text \<open>A library that collects the set-ups it is given.\<close>

definition collecting :: "(unit, unit, ControllerSetup list \<times> WebhookSetup list) manager_lib" where
  "collecting =
     \<lparr>ml_GetConfig = (\<lambda>w. (Inr (), w)), ml_NewManager = (\<lambda>cfg opts w. (Inr (), w)),
      ml_AddToScheme = (\<lambda>mgr types w. (Inr (), w)),
      ml_Controller = (\<lambda>mgr cs (css, wss). (Inr (), (css @ [cs], wss))),
      ml_Webhook = (\<lambda>mgr ws (css, wss). (Inr (), (css, wss @ [ws]))),
      ml_Start = (\<lambda>mgr w. (Inr (), w))\<rparr>"

fun reconcilerKinds :: "Reconciler \<Rightarrow> GroupVersionKind \<times> GroupVersionKind list" where
  "reconcilerKinds (Managed k poll grace) = (k, [])"
| "reconcilerKinds (ProviderConfigs k usages) = (k, [usages])"

fun polled :: "Reconciler \<Rightarrow> bool" where
  "polled (Managed k poll grace) = (0 < poll)"
| "polled (ProviderConfigs k usages) = False"

definition setupKinds :: "ControllerSetup \<Rightarrow> GroupVersionKind list" where
  "setupKinds cs = cs_For cs # cs_Watches cs @ snd (reconcilerKinds (cs_Reconciler cs))"

lemma collected:
  "andThen (SetupControllers collecting nm ()) (\<lambda>_. SetupWebhooks collecting ()) (c, ([], [])) = (Ret (), (c,
     ([managedController (nm_Managed nm (exoscaleGroupKind nm ''Bucket'')) ''Bucket'' Hour None,
       \<lparr>cs_Named = nm_ProviderConfig nm (nm_GroupKind nm providerGroup ''ProviderConfig''),
        cs_For = providerKind ''ProviderConfig'', cs_Watches = [providerKind ''ProviderConfigUsage''],
        cs_Reconciler = ProviderConfigs (providerKind ''ProviderConfig'') (providerKind ''ProviderConfigUsageList'')\<rparr>,
       managedController (ToLower (exoscaleGroupKind nm ''IAMKey'')) ''IAMKey'' Hour None,
       managedController (ToLower (exoscaleGroupKind nm ''MySQL'')) ''MySQL'' Minute None,
       managedController (ToLower (exoscaleGroupKind nm ''PostgreSQL'')) ''PostgreSQL'' Minute None,
       managedController (ToLower (exoscaleGroupKind nm ''Redis'')) ''Redis'' Minute (Some (30 * Second)),
       managedController (ToLower (exoscaleGroupKind nm ''Kafka'')) ''Kafka'' Minute (Some (30 * Second)),
       managedController ''opensearch'' ''OpenSearch'' Minute None],
      map (\<lambda>k. \<lparr>ws_For = exoscaleKind k, ws_LogName = [''webhook'', ToLower k]\<rparr>) webhookKinds)))"
  by (simp add: SetupControllers_def SetupWebhooks_def setup_defs run_simps collecting_def webhookKinds_def
      managedController_def redis_createReconciler_def)

lemma ToLower_append: "ToLower (s @ t) = ToLower s @ ToLower t"
  by (simp add: ToLower_def)

lemma naming_names:
  assumes "naming_laws nm"
  shows "exoscaleGroupKind nm k = k @ ''.'' @ exoscaleGroup" "nm_GroupKind nm providerGroup k = k @ ''.'' @ providerGroup"
    "nm_Managed nm k = ''managed/'' @ ToLower k" "nm_ProviderConfig nm k = ''providerconfig/'' @ ToLower k"
  using assms by (simp_all add: naming_laws_def exoscaleGroupKind_def exoscaleGroup_def providerGroup_def)

text \<open>
  C23: The set-ups of the controllers and webhooks fit together. No two controllers have the same name; every
  controller reconciles the kind it is registered for; every kind a controller watches, reconciles or lists is a
  type that is registered with the scheme; the managed resources that have a controller are exactly the ones that
  have a webhook and exactly the types of the package \<^verbatim>\<open>exoscalev1\<close> that are not lists; and each of them is polled.
\<close>

theorem setups_consistent:
  assumes "naming_laws nm"
    and "andThen (SetupControllers collecting nm ()) (\<lambda>_. SetupWebhooks collecting ()) (c, ([], [])) = (r, (c', (css, wss)))"
  shows "r = Ret () \<and> distinct (map cs_Named css) \<and>
    list_all (\<lambda>cs. fst (reconcilerKinds (cs_Reconciler cs)) = cs_For cs) css \<and>
    list_all (\<lambda>cs. set (setupKinds cs) \<subseteq> set (concat AddToSchemes)) css \<and>
    map ws_For wss = map cs_For (filter (\<lambda>cs. polled (cs_Reconciler cs)) css) \<and>
    set (map ws_For wss) \<union> exoscaleKind ` (\<lambda>k. k @ ''List'') ` gvk_Kind ` set (map ws_For wss) = set exoscaleTypes"
proof -
  note out = assms(2) [unfolded collected]
  have r: "r = Ret ()" using out by simp
  have names: "distinct (map cs_Named css)"
    using out by (auto simp: naming_names [OF assms(1)] managedController_def ToLower_append ToLower_def lower_char_def)
  have kinds: "list_all (\<lambda>cs. fst (reconcilerKinds (cs_Reconciler cs)) = cs_For cs) css"
    using out by (auto simp: managedController_def)
  have registered: "list_all (\<lambda>cs. set (setupKinds cs) \<subseteq> set (concat AddToSchemes)) css"
    using out by (auto simp: managedController_def setupKinds_def AddToSchemes_def exoscaleTypes_def providerTypes_def)
  have webhooks: "map ws_For wss = map cs_For (filter (\<lambda>cs. polled (cs_Reconciler cs)) css)"
    using out by (auto simp: managedController_def webhookKinds_def Hour_def Minute_def Second_def)
  have types: "set (map ws_For wss) \<union> exoscaleKind ` (\<lambda>k. k @ ''List'') ` gvk_Kind ` set (map ws_For wss) = set exoscaleTypes"
    using out by (auto simp: webhookKinds_def exoscaleTypes_def)
  show ?thesis using r names kinds registered webhooks types by blast
qed

theorem setups_consistent_witness:
  "\<exists>css wss. andThen (SetupControllers collecting sampleNaming ()) (\<lambda>_. SetupWebhooks collecting ()) ((), ([], [])) = (Ret (), ((), (css, wss))) \<and>
     length css = 8 \<and> distinct (map cs_Named css)"
proof -
  have laws: "naming_laws sampleNaming" by (simp add: naming_laws_def sampleNaming_def)
  obtain r c' css wss where
    out: "andThen (SetupControllers collecting sampleNaming ()) (\<lambda>_. SetupWebhooks collecting ()) ((), ([], [])) = (r, (c', (css, wss)))"
    by (metis surj_pair)
  have "length css = 8" using out [unfolded collected] by auto
  then show ?thesis using setups_consistent [OF laws out] out by auto
qed

section \<open>Log level\<close>

lemma zapLevel_negates: "sint (zapLevel v) = signed_take_bit 7 (- sint v)"
proof -
  have neg: "v * (- 1) = word_of_int (- sint v)" by simp
  have "zapLevel v = word_of_int (- sint v)"
    unfolding zapLevel_def neg by (rule ucast_down_wi) (simp add: is_down)
  then show ?thesis using sint_sbintrunc' [of "- sint v", where ?'a = 8] by simp
qed

text \<open>
  C40: The verbosity of the log flag is turned into a level of zap by negating it and keeping 8 bits. Exactly for the
  verbosities from -127 to 128 the level is the negated verbosity; for the others the conversion to \<^verbatim>\<open>int8\<close> wraps
  around, so that verbosity 129, meant to be the next more verbose one, gives the least verbose level there is. A
  format is admitted by its flag and selects the production logger exactly when it is \<^verbatim>\<open>json\<close>.
\<close>

theorem zapLevel_bounds:
  "(sint (zapLevel v) = - sint v \<longleftrightarrow> - 127 \<le> sint v \<and> sint v \<le> 128) \<and> sint (zapLevel 129) = 127 \<and>
   (logFormatAction format = Ret () \<and> usesProductionLoggingConfig format \<longleftrightarrow> format = ''json'')"
proof (intro conjI)
  show "sint (zapLevel v) = - sint v \<longleftrightarrow> - 127 \<le> sint v \<and> sint v \<le> 128"
    unfolding zapLevel_negates signed_take_bit_int_eq_self_iff by auto
  show "sint (zapLevel 129) = 127"
    unfolding zapLevel_def by simp
  show "logFormatAction format = Ret () \<and> usesProductionLoggingConfig format \<longleftrightarrow> format = ''json''"
    by (auto simp: logFormatAction_def usesProductionLoggingConfig_def EqualFold_def ToLower_def lower_letters lower_char_def char_of_eq_iff)
qed

end
