(* ===== verification/Samples.thy ===== *)
theory Samples
  imports MySQLController PostgreSQLController RedisController OpenSearchController KafkaController
    BucketController IAMKeyController
begin

text \<open>
  \<^verbatim>\<open>generate_sample.go\<close>: the sample resources of the documentation and the files they are written to, and
  what the admission webhooks say about them. The program that writes them is in the theory \<open>Generator\<close>.
\<close>

section \<open>The sample resources\<close>

definition namedMeta :: "string \<Rightarrow> ObjectMeta" where
  "namedMeta name = \<lparr>om_Name = name, om_Annotations = None, om_DeletionTimestamp = None\<rparr>"

text \<open>A resource as the generator builds it: metadata, the two references, the parameters, a zero status.\<close>

definition newResource :: "string \<Rightarrow> SecretReference option \<Rightarrow> 'p \<Rightarrow> 'o \<Rightarrow> ('p, 'o) resource" where
  "newResource name secretRef par status = \<lparr>mr_Meta = namedMeta name,
     mr_ProviderConfigReference = Some ''provider-config'', mr_WriteConnectionSecretToReference = secretRef,
     mr_ForProvider = par, mr_Conditions = [], mr_AtProvider = status\<rparr>"

definition detailsOf :: "string \<Rightarrow> SecretReference option" where
  "detailsOf name = Some \<lparr>sr_Name = name @ ''-details'', sr_Namespace = ''default''\<rparr>"

definition mondayNoon :: MaintenanceSpec where
  "mondayNoon = \<lparr>ms_DayOfWeek = ''monday'', ms_TimeOfDay = ''12:00:00''\<rparr>"

definition openTo :: "string \<Rightarrow> DBaaSParameters" where
  "openTo plan = \<lparr>dp_TerminationProtection = False, dp_Size = \<lparr>ss_Plan = plan\<rparr>, dp_IPFilter = Some [''0.0.0.0/0'']\<rparr>"

definition newPostgresqlSample :: PostgreSQL where
  \<open>newPostgresqlSample = newResource ''postgresql-local-dev'' (detailsOf ''postgresql-local-dev'')
     \<lparr>pgp_Maintenance = mondayNoon, pgp_Backup = \<lparr>bs_TimeOfDay = ''13:00:00''\<rparr>, pgp_Zone = ''ch-dk-2'',
      pgp_DBaaS = openTo ''hobbyist-2'', pgp_Version = ''14'', pgp_PGSettings = ''{"timezone":"Europe/Zurich"}''\<rparr>
     emptyPGObservation\<close>

definition newMysqlSample :: MySQL where
  \<open>newMysqlSample = newResource ''mysql-local-dev'' (detailsOf ''mysql-local-dev'')
     \<lparr>myp_Maintenance = mondayNoon, myp_Backup = \<lparr>bs_TimeOfDay = ''13:00:00''\<rparr>, myp_Zone = ''ch-dk-2'',
      myp_Version = ''8'', myp_DBaaS = openTo ''hobbyist-2'', myp_MySQLSettings = ''{"default_time_zone":"+01:00"}''\<rparr>
     emptyMySQLObservation\<close>

definition newRedisSample :: Redis where
  \<open>newRedisSample = newResource ''redis-local-dev'' (detailsOf ''redis-local-dev'')
     \<lparr>rdp_Maintenance = mondayNoon, rdp_Zone = ''ch-dk-2'', rdp_DBaaS = openTo ''hobbyist-2'',
      rdp_RedisSettings = ''{"maxmemory_policy":"noeviction"}''\<rparr>
     \<lparr>rdo_Version = [], rdo_RedisSettings = [], rdo_NodeStates = [], rdo_Notifications = []\<rparr>\<close>

definition newKafkaSample :: Kafka where
  \<open>newKafkaSample = newResource ''kafka-local-dev'' (detailsOf ''kafka-local-dev'')
     \<lparr>kfp_Maintenance = mondayNoon, kfp_Zone = ''ch-dk-2'', kfp_DBaaS = openTo ''startup-2'', kfp_Version = [],
      kfp_KafkaSettings = ''{"connections_max_idle_ms": 60000}'', kfp_KafkaRestEnabled = False, kfp_KafkaRestSettings = []\<rparr>
     emptyKafkaObservation\<close>

definition newOpensearchSample :: OpenSearch where
  "newOpensearchSample = newResource ''opensearch-local-dev'' (detailsOf ''opensearch-local-dev'')
     \<lparr>osp_Maintenance = \<lparr>ms_DayOfWeek = ''monday'', ms_TimeOfDay = ''12:01:55''\<rparr>, osp_Backup = \<lparr>bs_TimeOfDay = []\<rparr>,
      osp_DBaaS = openTo ''hobbyist-2'', osp_Zone = ''ch-dk-2'', osp_MajorVersion = ''2'', osp_OpenSearchSettings = []\<rparr>
     emptyOpenSearchObservation"

definition newBucketSample :: Bucket where
  "newBucketSample = \<lparr>mr_Meta = namedMeta ''bucket-local-dev'', mr_ProviderConfigReference = Some ''provider-config'',
     mr_WriteConnectionSecretToReference = None,
     mr_ForProvider = \<lparr>bkp_BucketName = ''bucket-local-dev'', bkp_EndpointURL = [], bkp_Zone = ''ch-gva-2'',
       bkp_BucketDeletionPolicy = DeleteIfEmpty\<rparr>,
     mr_Conditions = [], mr_AtProvider = \<lparr>bko_BucketName = []\<rparr>, bk_Endpoint = [], bk_EndpointURL = []\<rparr>"

definition newIAMKeySample :: IAMKey where
  "newIAMKeySample = newResource ''iam-key-local-dev''
     (Some \<lparr>sr_Name = ''my-exoscale-user-credentials'', sr_Namespace = ''default''\<rparr>)
     \<lparr>ikp_KeyName = ''iam-key-local-dev'', ikp_Zone = ''CH-DK-2'',
      ikp_Services = \<lparr>svs_SOS = \<lparr>sos_Buckets = [''bucket-local-dev'']\<rparr>\<rparr>\<rparr>
     \<lparr>iko_KeyID = [], iko_RoleID = [], iko_KeyName = [], iko_ServicesSpec = \<lparr>svs_SOS = \<lparr>sos_Buckets = []\<rparr>\<rparr>\<rparr>"

definition newProviderConfigSample :: ProviderConfig where
  "newProviderConfigSample = \<lparr>pc_Name = ''provider-config'', pc_Source = ''InjectedIdentity'',
     pc_APISecretRef = \<lparr>sr_Name = ''api-secret'', sr_Namespace = ''crossplane-system''\<rparr>\<rparr>"

text \<open>The admission request: the old and the new object of an update.\<close>

definition IAMKeyAdmissionRequest :: "IAMKey \<times> IAMKey" where
  "IAMKeyAdmissionRequest =
     (let oldSpec = newIAMKeySample; newSpec = newIAMKeySample;
          newSpec' = newSpec\<lparr>mr_ForProvider := (mr_ForProvider newSpec)\<lparr>ikp_KeyName := ''another''\<rparr>\<rparr>;
          oldSpec' = oldSpec\<lparr>mr_AtProvider := (mr_AtProvider oldSpec)\<lparr>iko_KeyName := ikp_KeyName (mr_ForProvider oldSpec)\<rparr>\<rparr>
      in (oldSpec', newSpec'))"

section \<open>The files\<close>

definition serializeName :: "string \<Rightarrow> string \<Rightarrow> bool \<Rightarrow> string" where
  "serializeName grp kind useYaml =
     (let fileExt = (if useYaml then ''yaml'' else ''json'')
      in ToLower grp @ ''_'' @ ToLower kind @ ''.'' @ fileExt)"

text \<open>The files in the order \<^verbatim>\<open>main\<close> writes them.\<close>

definition sampleFiles :: "string list" where
  "sampleFiles =
     (let exoscale = (\<lambda>kind. serializeName ''exoscale.crossplane.io'' kind True) in
      [exoscale ''Bucket'', exoscale ''IAMKey'', exoscale ''ProviderConfig'',
       serializeName ''admission.k8s.io'' ''AdmissionReview'' False,
       exoscale ''MySQL'', exoscale ''PostgreSQL'', exoscale ''Redis'', exoscale ''Kafka'', exoscale ''OpenSearch''])"


section \<open>Properties\<close>

lemma sample_times: "clockTime ''12:00:00''" "clockTime ''12:01:55''"
proof -
  have "showTime 12 0 0 = ''12:00:00''" "showTime 12 1 55 = ''12:01:55''"
    by (simp_all add: showTime_def Pad2_def Itoa_def decimal.simps digit_char_def char_of_eq_iff Let_def)
  then have "Parse ''12:00:00'' = (12, 0, 0, None)" "Parse ''12:01:55'' = (12, 1, 55, None)"
    by (simp_all add: Parse_accepts)
  then show "clockTime ''12:00:00''" "clockTime ''12:01:55''" by (simp_all add: clockTime_def)
qed

lemma flat_settings:
  "js_Unmarshal js raw = Inr (Some [(k, v)]) \<Longrightarrow> scalar v \<Longrightarrow> ValidateRawExtension js raw = Ret ()"
  by (simp add: ValidateRawExtension_Ret_iff ToMap_def)

lemma no_settings: "ValidateRawExtension js [] = Ret ()"
  by (simp add: ValidateRawExtension_Ret_iff ToMap_def)

lemmas sample_resources = newResource_def mondayNoon_def openTo_def newMysqlSample_def newPostgresqlSample_def
  newRedisSample_def newKafkaSample_def newOpensearchSample_def newBucketSample_def newIAMKeySample_def

text \<open>
  The samples of the documentation pass the webhooks they are for. The specifications of the five
  database samples are valid, given that their settings decode to the entries they show; the Kafka sample,
  which asks for no version, is admitted without asking the cloud for the versions on offer; the bucket and
  the IAM key are admitted. The nine files have different names.
\<close>

theorem samples_admitted:
  assumes "js_Unmarshal js (pgp_PGSettings (mr_ForProvider newPostgresqlSample)) = Inr (Some [(''timezone'', VStr ''Europe/Zurich'')])"
    and "js_Unmarshal js (myp_MySQLSettings (mr_ForProvider newMysqlSample)) = Inr (Some [(''default_time_zone'', VStr ''+01:00'')])"
    and "js_Unmarshal js (rdp_RedisSettings (mr_ForProvider newRedisSample)) = Inr (Some [(''maxmemory_policy'', VStr ''noeviction'')])"
    and "js_Unmarshal js (kfp_KafkaSettings (mr_ForProvider newKafkaSample)) = Inr (Some [(''connections_max_idle_ms'', VInt 60000)])"
  shows "mysql_validateSpec js newMysqlSample = Ret () \<and> pg_validateSpec js newPostgresqlSample = Ret () \<and>
    redis_ValidateCreate js (Typed newRedisSample) = Ret () \<and>
    kafka_validateCreateWithExoClient js exo (Typed newKafkaSample, w) = (Ret (), (Typed newKafkaSample, w)) \<and>
    opensearch_validateSpec js newOpensearchSample = Ret () \<and>
    bucket_ValidateCreate (Typed newBucketSample) = Ret () \<and> iam_ValidateCreate (Typed newIAMKeySample) = Ret () \<and>
    distinct sampleFiles \<and> length sampleFiles = 9"
proof -
  note flat = assms [THEN flat_settings, simplified]
  have "mysql_validateSpec js newMysqlSample = Ret ()"
    using flat(2) unfolding mysql_validateSpec_iff mysql_valid_def
    by (simp add: newMysqlSample_def newResource_def mondayNoon_def openTo_def sample_times)
  moreover have "pg_validateSpec js newPostgresqlSample = Ret ()"
    using flat(1) unfolding pg_validateSpec_iff pg_valid_def
    by (simp add: newPostgresqlSample_def newResource_def mondayNoon_def openTo_def sample_times)
  moreover have "redis_ValidateCreate js (Typed newRedisSample) = Ret ()"
    using flat(3) unfolding redis_ValidateCreate_def obj.case redis_validateSpec_iff redis_valid_def
    by (simp add: newRedisSample_def newResource_def mondayNoon_def openTo_def sample_times)
  moreover have kafka: "kafka_validateSpec js (mr_ForProvider newKafkaSample) = Ret ()"
    using flat(4) unfolding kafka_validateSpec_iff kafka_valid_def
    by (simp add: newKafkaSample_def newResource_def mondayNoon_def openTo_def sample_times)
  moreover have "kfp_Version (mr_ForProvider newKafkaSample) = []"
    by (simp add: newKafkaSample_def newResource_def)
  moreover have "opensearch_validateSpec js newOpensearchSample = Ret ()"
    unfolding opensearch_validateSpec_iff opensearch_valid_def
    by (simp add: newOpensearchSample_def newResource_def openTo_def sample_times no_settings)
  moreover have "bucket_ValidateCreate (Typed newBucketSample) = Ret ()"
    by (simp add: bucket_ValidateCreate_def newBucketSample_def refName_def)
  moreover have "iam_ValidateCreate (Typed newIAMKeySample) = Ret ()"
    by (simp add: iam_ValidateCreate_def newIAMKeySample_def newResource_def iamBuckets_def refName_def)
  moreover have "distinct sampleFiles" "length sampleFiles = 9"
    by (simp_all add: sampleFiles_def serializeName_def ToLower_def lower_char_def Let_def)
  ultimately show ?thesis
    by (simp add: kafka_validateCreateWithExoClient_def withTyped_Typed run_simps)
qed

text \<open>A decoder for the settings of the samples.\<close>

definition sampleDecoder :: json_lib where
  "sampleDecoder = \<lparr>js_Unmarshal = (\<lambda>raw.
       if raw = pgp_PGSettings (mr_ForProvider newPostgresqlSample) then Inr (Some [(''timezone'', VStr ''Europe/Zurich'')])
       else if raw = myp_MySQLSettings (mr_ForProvider newMysqlSample) then Inr (Some [(''default_time_zone'', VStr ''+01:00'')])
       else if raw = rdp_RedisSettings (mr_ForProvider newRedisSample) then Inr (Some [(''maxmemory_policy'', VStr ''noeviction'')])
       else Inr (Some [(''connections_max_idle_ms'', VInt 60000)])),
     js_Marshal = (\<lambda>m. Inr [])\<rparr>"

theorem samples_admitted_witness:
  "mysql_validateSpec sampleDecoder newMysqlSample = Ret () \<and> pg_validateSpec sampleDecoder newPostgresqlSample = Ret () \<and>
   redis_ValidateCreate sampleDecoder (Typed newRedisSample) = Ret ()"
proof -
  have different: "myp_MySQLSettings (mr_ForProvider newMysqlSample) \<noteq> pgp_PGSettings (mr_ForProvider newPostgresqlSample)"
    "rdp_RedisSettings (mr_ForProvider newRedisSample) \<noteq> pgp_PGSettings (mr_ForProvider newPostgresqlSample)"
    "rdp_RedisSettings (mr_ForProvider newRedisSample) \<noteq> myp_MySQLSettings (mr_ForProvider newMysqlSample)"
    "kfp_KafkaSettings (mr_ForProvider newKafkaSample) \<noteq> pgp_PGSettings (mr_ForProvider newPostgresqlSample)"
    "kfp_KafkaSettings (mr_ForProvider newKafkaSample) \<noteq> myp_MySQLSettings (mr_ForProvider newMysqlSample)"
    "kfp_KafkaSettings (mr_ForProvider newKafkaSample) \<noteq> rdp_RedisSettings (mr_ForProvider newRedisSample)"
    by (simp_all add: sample_resources)
  have decodes:
    "js_Unmarshal sampleDecoder (pgp_PGSettings (mr_ForProvider newPostgresqlSample)) = Inr (Some [(''timezone'', VStr ''Europe/Zurich'')])"
    "js_Unmarshal sampleDecoder (myp_MySQLSettings (mr_ForProvider newMysqlSample)) = Inr (Some [(''default_time_zone'', VStr ''+01:00'')])"
    "js_Unmarshal sampleDecoder (rdp_RedisSettings (mr_ForProvider newRedisSample)) = Inr (Some [(''maxmemory_policy'', VStr ''noeviction'')])"
    "js_Unmarshal sampleDecoder (kfp_KafkaSettings (mr_ForProvider newKafkaSample)) = Inr (Some [(''connections_max_idle_ms'', VInt 60000)])"
    using different by (simp_all add: sampleDecoder_def)
  note admitted = samples_admitted [OF decodes]
  show ?thesis
    by (intro conjI) (rule admitted [THEN conjunct1], rule admitted [THEN conjunct2, THEN conjunct1],
        rule admitted [THEN conjunct2, THEN conjunct2, THEN conjunct1])
qed

text \<open>
  The sample of an update that is meant to be rejected. \<^verbatim>\<open>generateIAMKeyAdmissionRequest\<close> is documented to
  generate a request that will fail; the webhook recognises an existing key by the key id in the status,
  the sample sets the key name there, so the request is admitted. With a key id in the old status it would
  be rejected.
\<close>

theorem sample_admission_request_admitted:
  assumes "equality_law eq"
  shows "iam_ValidateUpdate eq (Typed (fst IAMKeyAdmissionRequest)) (Typed (snd IAMKeyAdmissionRequest)) = Ret () \<and>
    (\<forall>kid. kid \<noteq> [] \<longrightarrow> (let old = fst IAMKeyAdmissionRequest in
      iam_ValidateUpdate eq (Typed (old\<lparr>mr_AtProvider := (mr_AtProvider old)\<lparr>iko_KeyID := kid\<rparr>\<rparr>))
        (Typed (snd IAMKeyAdmissionRequest)) \<noteq> Ret ()))"
proof -
  have eq: "eq = sameValue" using assms by (simp add: equality_law_sameValue)
  show ?thesis
    unfolding eq Let_def iam_ValidateUpdate_iff
    by (simp add: IAMKeyAdmissionRequest_def Let_def newIAMKeySample_def newResource_def refName_def)
qed

theorem sample_admission_request_admitted_witness:
  "iam_ValidateUpdate sameValue (Typed (fst IAMKeyAdmissionRequest)) (Typed (snd IAMKeyAdmissionRequest)) = Ret ()"
  using sample_admission_request_admitted [of sameValue] by (simp add: equality_law_sameValue)

end
