(* ===== verification/GoStore.thy ===== *)
theory GoStore
  imports Prelude
begin

text \<open>
  Go's memory, for code whose point is aliasing: a store of blocks (the backing arrays of slices, the targets of
  pointers, the contents of maps), values that refer to blocks, and the forms the generated deep copies consist of. A
  value of a Go type stands for a tree, which is read off the store together with the addresses it passes. A deep copy
  reads as the same tree and passes only new addresses.
\<close>

section \<open>Values, types and stores\<close>

type_synonym addr = nat

text \<open>
  A slice is a block, an offset and a length; a pointer is a block and an index in it, so that a pointer can refer to
  an element of a slice; a map refers to a block with one struct, whose fields are the entries. Nil is \<open>None\<close>. Strings,
  numbers and booleans have no parts that could be shared.
\<close>

datatype gval =
    Scalar string
  | Struct "(string \<times> gval) list"
  | Slice "(addr \<times> nat \<times> nat) option"
  | Pointer "(addr \<times> nat) option"
  | MapRef "addr option"

type_synonym store = "gval list list"

datatype gtype =
    ScalarT
  | StructT "(string \<times> gtype) list"
  | SliceT gtype
  | PointerT gtype
  | MapT gtype

datatype tree =
    Leaf string
  | Absent
  | Fields "(string \<times> tree) list"
  | Elems "tree list"
  | Target tree
  | Entries "(string \<times> tree) list"

section \<open>Reading a value\<close>

fun readAll :: "(gval \<Rightarrow> (tree \<times> addr list) option) \<Rightarrow> gval list \<Rightarrow> (tree list \<times> addr list) option" where
  "readAll rd [] = Some ([], [])"
| "readAll rd (v # vs) = (case (rd v, readAll rd vs) of
     (Some (t, bs), Some (ts, cs)) \<Rightarrow> Some (t # ts, bs @ cs)
   | _ \<Rightarrow> None)"

text \<open>A window of a block: the elements of a slice.\<close>

definition window :: "nat \<Rightarrow> nat \<Rightarrow> gval list \<Rightarrow> gval list" where
  "window off len block = take len (drop off block)"

fun readGo :: "store \<Rightarrow> gtype \<Rightarrow> gval \<Rightarrow> (tree \<times> addr list) option"
  and readFields :: "store \<Rightarrow> (string \<times> gtype) list \<Rightarrow> (string \<times> gval) list \<Rightarrow> ((string \<times> tree) list \<times> addr list) option" where
  "readGo st ScalarT (Scalar s) = Some (Leaf s, [])"
| "readGo st (StructT fts) (Struct fvs) = map_option (\<lambda>(ts, as). (Fields ts, as)) (readFields st fts fvs)"
| "readGo st (SliceT ty) (Slice None) = Some (Absent, [])"
| "readGo st (SliceT ty) (Slice (Some (a, off, len))) =
     (if a < length st \<and> off + len \<le> length (st ! a)
      then map_option (\<lambda>(ts, as). (Elems ts, a # as)) (readAll (readGo st ty) (window off len (st ! a)))
      else None)"
| "readGo st (PointerT ty) (Pointer None) = Some (Absent, [])"
| "readGo st (PointerT ty) (Pointer (Some (a, i))) =
     (if a < length st \<and> i < length (st ! a)
      then map_option (\<lambda>(t, as). (Target t, a # as)) (readGo st ty (st ! a ! i))
      else None)"
| "readGo st (MapT ty) (MapRef None) = Some (Absent, [])"
| "readGo st (MapT ty) (MapRef (Some a)) =
     (if a < length st
      then (case st ! a of
              [Struct kvs] \<Rightarrow> map_option (\<lambda>(ts, as). (Entries (zip (map fst kvs) ts), a # as)) (readAll (readGo st ty) (map snd kvs))
            | _ \<Rightarrow> None)
      else None)"
| "readGo st _ _ = None"
| "readFields st [] [] = Some ([], [])"
| "readFields st ((f, ty) # fts) ((g, v) # fvs) =
     (if f = g
      then (case (readGo st ty v, readFields st fts fvs) of
              (Some (t, bs), Some (ts, cs)) \<Rightarrow> Some ((f, t) # ts, bs @ cs)
            | _ \<Rightarrow> None)
      else None)"
| "readFields st _ _ = None"

text \<open>Types whose values share nothing: an assignment copies them.\<close>

fun flat :: "gtype \<Rightarrow> bool" where
  "flat ScalarT = True"
| "flat (StructT fts) = list_all (flat \<circ> snd) fts"
| "flat _ = False"

section \<open>The forms of a generated deep copy\<close>

text \<open>
  \<^verbatim>\<open>in.DeepCopyInto(out)\<close> as a function from the value of \<^verbatim>\<open>*in\<close> and the store to the final value of \<^verbatim>\<open>*out\<close> and the store.
  \<open>None\<close> is a value that is not of the type.
\<close>

type_synonym copier = "gval \<Rightarrow> store \<Rightarrow> (gval \<times> store) option"

text \<open>The value a variable of a type has when it is made.\<close>

fun zeroGo :: "gtype \<Rightarrow> gval" where
  "zeroGo ScalarT = Scalar []"
| "zeroGo (StructT fts) = Struct (map (\<lambda>(f, ty). (f, zeroGo ty)) fts)"
| "zeroGo (SliceT ty) = Slice None"
| "zeroGo (PointerT ty) = Pointer None"
| "zeroGo (MapT ty) = MapRef None"

definition setField :: "string \<Rightarrow> gval \<Rightarrow> (string \<times> gval) list \<Rightarrow> (string \<times> gval) list" where
  "setField f y fvs = map (\<lambda>(g, x). (g, if g = f then y else x)) fvs"

text \<open>\<^verbatim>\<open>out.F = in.F\<close>\<close>

definition assign :: copier where
  "assign v st = Some (v, st)"

text \<open>A struct: \<^verbatim>\<open>*out = *in\<close>, then statements for some of the fields.\<close>

fun copySteps :: "(string \<times> copier) list \<Rightarrow> (string \<times> gval) list \<Rightarrow> (string \<times> gval) list \<Rightarrow> store \<Rightarrow>
    ((string \<times> gval) list \<times> store) option" where
  "copySteps [] ins outs st = Some (outs, st)"
| "copySteps ((f, c) # steps) ins outs st =
     (case map_of ins f of
        None \<Rightarrow> None
      | Some v \<Rightarrow> (case c v st of
          None \<Rightarrow> None
        | Some (y, st') \<Rightarrow> copySteps steps ins (setField f y outs) st'))"

definition structInto :: "(string \<times> copier) list \<Rightarrow> copier" where
  "structInto steps v st = (case v of
     Struct fvs \<Rightarrow> map_option (\<lambda>(outs, st'). (Struct outs, st')) (copySteps steps fvs fvs st)
   | _ \<Rightarrow> None)"

text \<open>\<^verbatim>\<open>make([]T, n)\<close>\<close>

definition makeSlice :: "gtype \<Rightarrow> nat \<Rightarrow> store \<Rightarrow> addr \<times> store" where
  "makeSlice ty n st = (length st, st @ [replicate n (zeroGo ty)])"

text \<open>\<^verbatim>\<open>if in.F != nil { out.F = make([]T, len(in.F)); copy(out.F, in.F) }\<close>\<close>

definition sliceCopy :: "gtype \<Rightarrow> copier" where
  "sliceCopy ty v st = (case v of
     Slice None \<Rightarrow> Some (v, st)
   | Slice (Some (a, off, len)) \<Rightarrow>
       (if a < length st \<and> off + len \<le> length (st ! a)
        then (case makeSlice ty len st of (b, st') \<Rightarrow>
                Some (Slice (Some (b, 0, len)), st'[b := window off len (st' ! a)]))
        else None)
   | _ \<Rightarrow> None)"

text \<open>\<^verbatim>\<open>for i := range in.F { in.F[i].DeepCopyInto(&out.F[i]) }\<close>\<close>

fun intoLoop :: "copier \<Rightarrow> addr \<Rightarrow> nat \<Rightarrow> addr \<Rightarrow> nat \<Rightarrow> nat \<Rightarrow> store \<Rightarrow> store option" where
  "intoLoop c a off b i 0 st = Some st"
| "intoLoop c a off b i (Suc n) st =
     (case c (st ! a ! (off + i)) st of
        None \<Rightarrow> None
      | Some (y, st') \<Rightarrow> intoLoop c a off b (Suc i) n (st'[b := (st' ! b)[i := y]]))"

definition sliceInto :: "gtype \<Rightarrow> copier \<Rightarrow> copier" where
  "sliceInto ty c v st = (case v of
     Slice None \<Rightarrow> Some (v, st)
   | Slice (Some (a, off, len)) \<Rightarrow>
       (if a < length st \<and> off + len \<le> length (st ! a)
        then (case makeSlice ty len st of (b, st') \<Rightarrow>
                map_option (\<lambda>st''. (Slice (Some (b, 0, len)), st'')) (intoLoop c a off b 0 len st'))
        else None)
   | _ \<Rightarrow> None)"

text \<open>\<^verbatim>\<open>in.DeepCopy()\<close>: nil for nil, otherwise \<^verbatim>\<open>out := new(T)\<close> and \<^verbatim>\<open>in.DeepCopyInto(out)\<close>.\<close>

definition deepCopy :: "gtype \<Rightarrow> copier \<Rightarrow> copier" where
  "deepCopy ty c v st = (case v of
     Pointer None \<Rightarrow> Some (Pointer None, st)
   | Pointer (Some (a, i)) \<Rightarrow>
       (if a < length st \<and> i < length (st ! a)
        then (case makeSlice ty 1 st of (b, st') \<Rightarrow>
                map_option (\<lambda>(y, st''). (Pointer (Some (b, 0)), st''[b := [y]])) (c (st ! a ! i) st'))
        else None)
   | _ \<Rightarrow> None)"

text \<open>
  \<^verbatim>\<open>in.DeepCopyObject()\<close>: an interface value, which is nil or a pointer with its type; the generated code takes care that
  a nil pointer becomes the nil interface.
\<close>

definition deepCopyObject :: "string \<Rightarrow> copier \<Rightarrow> gval \<Rightarrow> store \<Rightarrow> ((string \<times> addr \<times> nat) option \<times> store) option" where
  "deepCopyObject kind copy v st = (case copy v st of
     Some (Pointer (Some (b, i)), st') \<Rightarrow> Some (Some (kind, b, i), st')
   | Some (Pointer None, st') \<Rightarrow> Some (None, st')
   | _ \<Rightarrow> None)"

section \<open>The contract\<close>

text \<open>
  Nothing that was in the store changes, and the result reads as the same tree by new addresses only.
\<close>

definition deepCopies :: "gtype \<Rightarrow> copier \<Rightarrow> bool" where
  "deepCopies ty c \<longleftrightarrow> (\<forall>st v t as. readGo st ty v = Some (t, as) \<longrightarrow>
     (\<exists>v' new as'. c v st = Some (v', st @ new) \<and> readGo (st @ new) ty v' = Some (t, as') \<and>
        (\<forall>a\<in>set as'. length st \<le> a)))"

lemma deepCopiesI:
  assumes "\<And>st v t as. readGo st ty v = Some (t, as) \<Longrightarrow>
    \<exists>v' new as'. c v st = Some (v', st @ new) \<and> readGo (st @ new) ty v' = Some (t, as') \<and> (\<forall>a\<in>set as'. length st \<le> a)"
  shows "deepCopies ty c"
  using assms by (simp add: deepCopies_def)

lemma deepCopiesE:
  assumes "deepCopies ty c" "readGo st ty v = Some (t, as)"
  obtains v' new as' where "c v st = Some (v', st @ new)" "readGo (st @ new) ty v' = Some (t, as')"
    "\<forall>a\<in>set as'. length st \<le> a"
  using assms unfolding deepCopies_def by blast

subsection \<open>Reading depends on the addresses it passes\<close>

lemma readAll_frame:
  assumes "readAll rd vs = Some (ts, as)" and "\<And>a. a \<in> set as \<Longrightarrow> P a"
    and "\<And>v t bs. rd v = Some (t, bs) \<Longrightarrow> (\<And>a. a \<in> set bs \<Longrightarrow> P a) \<Longrightarrow> rd' v = Some (t, bs)"
  shows "readAll rd' vs = Some (ts, as)"
  using assms(1,2)
proof (induction vs arbitrary: ts as)
  case (Cons v vs)
  then obtain t bs us cs where rd: "rd v = Some (t, bs)" "readAll rd vs = Some (us, cs)" "ts = t # us" "as = bs @ cs"
    by (auto split: option.splits)
  have "readAll rd' vs = Some (us, cs)" using Cons rd by simp
  moreover have "rd' v = Some (t, bs)" using Cons.prems(2) rd assms(3) by simp
  ultimately show ?case using rd by simp
qed simp

lemma readAll_nth:
  assumes "readAll rd vs = Some (ts, as)"
  shows "length ts = length vs"
    and "j < length vs \<Longrightarrow> \<exists>bs. rd (vs ! j) = Some (ts ! j, bs) \<and> set bs \<subseteq> set as"
  using assms
proof (induction vs arbitrary: ts as j)
  case (Cons v vs)
  { case 1 then show ?case using Cons.IH(1) by (auto split: option.splits) }
  { case 2 then show ?case using Cons.IH(2) by (cases j) (fastforce split: option.splits)+ }
qed simp_all

lemma read_frame:
  "readGo st ty v = Some (t, as) \<Longrightarrow> (\<And>a. a \<in> set as \<Longrightarrow> a < length st' \<and> st' ! a = st ! a) \<Longrightarrow> readGo st' ty v = Some (t, as)"
  "readFields st fts fvs = Some (ts, as) \<Longrightarrow> (\<And>a. a \<in> set as \<Longrightarrow> a < length st' \<and> st' ! a = st ! a) \<Longrightarrow>
     readFields st' fts fvs = Some (ts, as)"
proof (induction st ty v and st fts fvs arbitrary: t as and ts as rule: readGo_readFields.induct)
  case (4 st ty a off len)
  then obtain us bs where rd: "a < length st" "off + len \<le> length (st ! a)"
    "readAll (readGo st ty) (window off len (st ! a)) = Some (us, bs)" "t = Elems us" "as = a # bs"
    by (auto split: if_splits)
  have "readAll (readGo st' ty) (window off len (st ! a)) = Some (us, bs)"
    by (rule readAll_frame [OF rd(3), where P = "\<lambda>a. a < length st' \<and> st' ! a = st ! a"])
      (use 4 rd in simp_all)
  then show ?case using rd 4(3) [of a] by simp
next
  case (6 st ty a i)
  then obtain u bs where rd: "a < length st" "i < length (st ! a)" "readGo st ty (st ! a ! i) = Some (u, bs)"
    "t = Target u" "as = a # bs"
    by (auto split: if_splits)
  have "readGo st' ty (st ! a ! i) = Some (u, bs)" using 6 rd by simp
  then show ?case using rd 6(3) [of a] by simp
next
  case (8 st ty a)
  then obtain kvs us bs where rd: "a < length st" "st ! a = [Struct kvs]"
    "readAll (readGo st ty) (map snd kvs) = Some (us, bs)" "t = Entries (zip (map fst kvs) us)" "as = a # bs"
    by (auto split: if_splits list.splits gval.splits)
  have "readAll (readGo st' ty) (map snd kvs) = Some (us, bs)"
    by (rule readAll_frame [OF rd(3), where P = "\<lambda>a. a < length st' \<and> st' ! a = st ! a"])
      (use 8 rd in simp_all)
  then show ?case using rd 8(3) [of a] by simp
qed (auto split: option.splits if_splits)

lemma readAll_bounds:
  assumes "readAll rd vs = Some (ts, as)" "a \<in> set as" "\<And>v t bs. rd v = Some (t, bs) \<Longrightarrow> a \<in> set bs \<Longrightarrow> P"
  shows P
  using assms(1,2)
proof (induction vs arbitrary: ts as)
  case (Cons v vs)
  then show ?case using assms(3) by (auto split: option.splits)
qed simp

lemma read_bounds:
  "readGo st ty v = Some (t, as) \<Longrightarrow> a \<in> set as \<Longrightarrow> a < length st"
  "readFields st fts fvs = Some (ts, as) \<Longrightarrow> a \<in> set as \<Longrightarrow> a < length st"
proof (induction st ty v and st fts fvs arbitrary: t as and ts as rule: readGo_readFields.induct)
  case (4 st ty b off len)
  then show ?case by (auto split: if_splits elim: readAll_bounds)
next
  case (8 st ty b)
  then show ?case by (auto split: if_splits list.splits gval.splits elim: readAll_bounds)
qed (auto split: option.splits if_splits)

lemma read_append: "readGo st ty v = Some (t, as) \<Longrightarrow> readGo (st @ new) ty v = Some (t, as)"
  by (rule read_frame(1)) (auto simp: nth_append dest: read_bounds)

lemma flat_addrs:
  "readGo st ty v = Some (t, as) \<Longrightarrow> flat ty \<Longrightarrow> as = []"
  "readFields st fts fvs = Some (ts, as) \<Longrightarrow> list_all (flat \<circ> snd) fts \<Longrightarrow> as = []"
  by (induction st ty v and st fts fvs arbitrary: t as and ts as rule: readGo_readFields.induct)
    (fastforce split: option.splits if_splits)+

lemma readAll_intro:
  assumes "length ts = length vs" and "\<And>j. j < length vs \<Longrightarrow> \<exists>bs. rd (vs ! j) = Some (ts ! j, bs) \<and> (\<forall>a\<in>set bs. P a)"
  shows "\<exists>as. readAll rd vs = Some (ts, as) \<and> (\<forall>a\<in>set as. P a)"
  using assms
proof (induction ts vs rule: list_induct2)
  case (Cons t ts v vs)
  obtain bs where "rd v = Some (t, bs)" "\<forall>a\<in>set bs. P a" using Cons.prems [of 0] by auto
  moreover obtain cs where "readAll rd vs = Some (ts, cs)" "\<forall>a\<in>set cs. P a"
    using Cons.IH Cons.prems [of "Suc j" for j] by auto
  ultimately show ?case by auto
qed simp

subsection \<open>Assignments and slices of flat elements\<close>

lemma deepCopies_assign: "flat ty \<Longrightarrow> deepCopies ty assign"
  by (rule deepCopiesI) (auto simp: assign_def dest: flat_addrs)

lemma window_nth: "j < len \<Longrightarrow> off + len \<le> length block \<Longrightarrow> window off len block ! j = block ! (off + j)"
  by (simp add: window_def)

lemma length_window: "off + len \<le> length block \<Longrightarrow> length (window off len block) = len"
  by (simp add: window_def)

lemma window_all: "window 0 (length block) block = block"
  by (simp add: window_def)

lemma slice_cases:
  assumes "readGo st (SliceT ty) v = Some (t, as)"
  obtains "v = Slice None" "t = Absent" "as = []"
    | a off len ts bs where "v = Slice (Some (a, off, len))" "a < length st" "off + len \<le> length (st ! a)"
        "readAll (readGo st ty) (window off len (st ! a)) = Some (ts, bs)" "t = Elems ts" "as = a # bs"
  using assms by (cases "(st, SliceT ty, v)" rule: readGo.cases) (auto split: if_splits)

lemma readAll_flat:
  assumes "readAll (readGo st ty) vs = Some (ts, bs)" "flat ty"
  shows "bs = []"
proof -
  have "a \<notin> set bs" for a
  proof
    assume "a \<in> set bs"
    then show False
      by (rule readAll_bounds [OF assms(1)]) (auto dest: flat_addrs(1) [OF _ assms(2)])
  qed
  then show ?thesis by (cases bs) auto
qed

lemma deepCopies_sliceCopy:
  assumes "flat ty"
  shows "deepCopies (SliceT ty) (sliceCopy ty)"
proof (rule deepCopiesI)
  fix st v t as assume "readGo st (SliceT ty) v = Some (t, as)"
  then show "\<exists>v' new as'. sliceCopy ty v st = Some (v', st @ new) \<and> readGo (st @ new) (SliceT ty) v' = Some (t, as') \<and>
    (\<forall>a\<in>set as'. length st \<le> a)"
  proof (cases rule: slice_cases)
    case 1
    then show ?thesis by (auto simp: sliceCopy_def intro: exI [of _ "[]"])
  next
    case (2 a off len ts bs)
    let ?elems = "window off len (st ! a)"
    have "bs = []" using 2(4) assms by (rule readAll_flat)
    moreover have "readAll (readGo (st @ [?elems]) ty) ?elems = Some (ts, bs)"
      by (rule readAll_frame [OF 2(4), where P = "\<lambda>_. True"]) (simp_all add: read_append)
    ultimately have "readGo (st @ [?elems]) (SliceT ty) (Slice (Some (length st, 0, len))) = Some (t, [length st])"
      using 2(3,5) window_all [of ?elems] by (simp add: length_window)
    moreover have "sliceCopy ty v st = Some (Slice (Some (length st, 0, len)), st @ [?elems])"
      using 2(1-3) by (simp add: sliceCopy_def makeSlice_def nth_append list_update_append)
    ultimately show ?thesis by fastforce
  qed
qed

subsection \<open>Slices of elements that are copied themselves\<close>

text \<open>
  The loop: the block \<open>b\<close> is new and as long as the slice; its elements before \<open>i\<close> are copies already, which pass
  addresses behind \<open>b\<close> only.
\<close>

definition copiedUpto :: "gtype \<Rightarrow> tree list \<Rightarrow> addr \<Rightarrow> nat \<Rightarrow> store \<Rightarrow> bool" where
  "copiedUpto ty ts b i st \<longleftrightarrow> b < length st \<and> length (st ! b) = length ts \<and>
     (\<forall>j<i. \<exists>as. readGo st ty (st ! b ! j) = Some (ts ! j, as) \<and> (\<forall>x\<in>set as. b < x))"

lemma copiedUpto_step:
  assumes "copiedUpto ty ts b i st" "i < length ts" "readGo (st @ new) ty y = Some (ts ! i, as)" "\<forall>a\<in>set as. length st \<le> a"
  shows "copiedUpto ty ts b (Suc i) ((st @ new)[b := ((st @ new) ! b)[i := y]])"
    (is "copiedUpto ty ts b (Suc i) ?st'")
proof -
  have b: "b < length st" "length (st ! b) = length ts" using assms(1) by (simp_all add: copiedUpto_def)
  have at_b: "?st' ! b = (st ! b)[i := y]" using b by (simp add: nth_append)
  have other: "readGo ?st' ty v = Some (t, bs)" if "readGo (st @ new) ty v = Some (t, bs)" "\<forall>x\<in>set bs. b < x" for v t bs
    by (rule read_frame(1) [OF that(1)]) (use that(2) read_bounds(1) [OF that(1)] in auto)
  have "\<exists>as. readGo ?st' ty (?st' ! b ! j) = Some (ts ! j, as) \<and> (\<forall>x\<in>set as. b < x)" if "j < Suc i" for j
  proof (cases "j = i")
    case True
    have "\<forall>x\<in>set as. b < x" using assms(4) b(1) by auto
    then show ?thesis using True other [OF assms(3)] assms(2) b(2) by (auto simp: at_b)
  next
    case False
    then have "j < i" using \<open>j < Suc i\<close> by simp
    then obtain bs where "readGo st ty (st ! b ! j) = Some (ts ! j, bs)" "\<forall>x\<in>set bs. b < x"
      using assms(1) unfolding copiedUpto_def by blast
    then show ?thesis using other [OF read_append] False by (auto simp: at_b)
  qed
  then show ?thesis using b by (simp add: copiedUpto_def nth_append)
qed

lemma intoLoop_copies:
  assumes "deepCopies ty c" "a < length old" "length old = b" "length ts = i + n"
    and "\<And>j. j < i + n \<Longrightarrow> \<exists>as. readGo old ty (old ! a ! (off + j)) = Some (ts ! j, as)"
    and "copiedUpto ty ts b i (old @ new)"
  shows "\<exists>new'. intoLoop c a off b i n (old @ new) = Some (old @ new') \<and> copiedUpto ty ts b (i + n) (old @ new')"
  using assms(4-)
proof (induction n arbitrary: i new)
  case (Suc n)
  obtain bs where "readGo old ty (old ! a ! (off + i)) = Some (ts ! i, bs)" using Suc.prems(2) [of i] by auto
  then have "readGo (old @ new) ty ((old @ new) ! a ! (off + i)) = Some (ts ! i, bs)"
    using assms(2) by (simp add: read_append nth_append)
  then obtain y more as where y: "c ((old @ new) ! a ! (off + i)) (old @ new) = Some (y, (old @ new) @ more)"
    "readGo ((old @ new) @ more) ty y = Some (ts ! i, as)" "\<forall>x\<in>set as. length (old @ new) \<le> x"
    by (rule deepCopiesE [OF assms(1)])
  let ?st' = "((old @ new) @ more)[b := (((old @ new) @ more) ! b)[i := y]]"
  have "copiedUpto ty ts b (Suc i) ?st'"
    using copiedUpto_step [OF Suc.prems(3) _ y(2,3)] Suc.prems(1) by simp
  moreover have "\<exists>rest. ?st' = old @ rest"
    using assms(3) by (simp add: list_update_append)
  ultimately obtain rest where rest: "?st' = old @ rest" "copiedUpto ty ts b (Suc i) (old @ rest)" by metis
  have "\<exists>new'. intoLoop c a off b (Suc i) n (old @ rest) = Some (old @ new') \<and> copiedUpto ty ts b (Suc i + n) (old @ new')"
    using Suc.prems rest(2) by (intro Suc.IH) auto
  then show ?case using y(1) rest(1) by simp
qed auto

lemma deepCopies_sliceInto:
  assumes "deepCopies ty c"
  shows "deepCopies (SliceT ty) (sliceInto ty c)"
proof (rule deepCopiesI)
  fix st v t as assume "readGo st (SliceT ty) v = Some (t, as)"
  then show "\<exists>v' new as'. sliceInto ty c v st = Some (v', st @ new) \<and> readGo (st @ new) (SliceT ty) v' = Some (t, as') \<and>
    (\<forall>a\<in>set as'. length st \<le> a)"
  proof (cases rule: slice_cases)
    case 1
    then show ?thesis by (auto simp: sliceInto_def intro: exI [of _ "[]"])
  next
    case (2 a off len ts bs)
    have len: "length ts = len" using readAll_nth(1) [OF 2(4)] 2(3) by (simp add: length_window)
    have elems: "\<exists>as. readGo st ty (st ! a ! (off + j)) = Some (ts ! j, as)" if "j < 0 + len" for j
      using readAll_nth(2) [OF 2(4), of j] that 2(3) by (auto simp: length_window window_nth)
    have "copiedUpto ty ts (length st) 0 (st @ [replicate len (zeroGo ty)])"
      using len by (simp add: copiedUpto_def)
    then obtain new where loop: "intoLoop c a off (length st) 0 len (st @ [replicate len (zeroGo ty)]) = Some (st @ new)"
      and new: "copiedUpto ty ts (length st) (0 + len) (st @ new)"
      using intoLoop_copies [OF assms 2(2) refl _ elems] len by (metis add_0)
    have blk: "length st < length (st @ new)" "length ((st @ new) ! length st) = len"
      using new len by (simp_all add: copiedUpto_def)
    obtain cs where "readAll (readGo (st @ new) ty) ((st @ new) ! length st) = Some (ts, cs)" "\<forall>x\<in>set cs. length st < x"
      using readAll_intro [of ts "(st @ new) ! length st" "readGo (st @ new) ty" "\<lambda>x. length st < x"] new blk(2) len
      by (auto simp: copiedUpto_def)
    then have "readGo (st @ new) (SliceT ty) (Slice (Some (length st, 0, len))) = Some (t, length st # cs)"
      using blk window_all [of "(st @ new) ! length st"] 2(5) by simp
    moreover have "sliceInto ty c v st = Some (Slice (Some (length st, 0, len)), st @ new)"
      using 2(1-3) loop by (simp add: sliceInto_def makeSlice_def)
    ultimately show ?thesis using \<open>\<forall>x\<in>set cs. length st < x\<close> by fastforce
  qed
qed

subsection \<open>Structs\<close>

text \<open>Fields by name: what a struct reads as, field by field.\<close>

lemma readFields_names:
  assumes "readFields st fts fvs = Some (ts, as)"
  shows "map fst fvs = map fst fts" "map fst ts = map fst fts"
  using assms
proof (induction fts arbitrary: fvs ts as)
  case (Cons p fts)
  { case 1 then show ?case using Cons.IH(1) by (cases p; cases fvs) (auto split: if_splits option.splits prod.splits) }
  { case 2 then show ?case using Cons.IH(2) by (cases p; cases fvs) (auto split: if_splits option.splits prod.splits) }
next
  case Nil
  { case 1 then show ?case by (cases fvs) auto }
  { case 2 then show ?case by (cases fvs) auto }
qed

lemma readFields_lookup:
  assumes "readFields st fts fvs = Some (ts, as)" "map_of fts f = Some ty"
  shows "\<exists>v t bs. map_of fvs f = Some v \<and> map_of ts f = Some t \<and> readGo st ty v = Some (t, bs)"
  using assms
proof (induction fts arbitrary: fvs ts as)
  case (Cons p fts)
  then show ?case by (cases p; cases fvs) (fastforce split: if_splits option.splits)+
qed simp

lemma readFields_intro:
  assumes "map fst fvs = map fst fts" "map fst ts = map fst fts" "distinct (map fst fts)"
    and "\<And>f ty. map_of fts f = Some ty \<Longrightarrow>
      \<exists>v t bs. map_of fvs f = Some v \<and> map_of ts f = Some t \<and> readGo st ty v = Some (t, bs) \<and> (\<forall>a\<in>set bs. P a)"
  shows "\<exists>as. readFields st fts fvs = Some (ts, as) \<and> (\<forall>a\<in>set as. P a)"
  using assms
proof (induction fts arbitrary: fvs ts)
  case (Cons p fts)
  obtain f ty where p: "p = (f, ty)" by force
  obtain v fvs' t ts' where split: "fvs = (f, v) # fvs'" "ts = (f, t) # ts'"
    using Cons.prems(1,2) p by (cases fvs; cases ts) auto
  obtain bs where head: "readGo st ty v = Some (t, bs)" "\<forall>a\<in>set bs. P a"
    using Cons.prems(4) [of f ty] p split by auto
  have "\<exists>as. readFields st fts fvs' = Some (ts', as) \<and> (\<forall>a\<in>set as. P a)"
  proof (rule Cons.IH)
    fix g gy assume g: "map_of fts g = Some gy"
    then have "g \<noteq> f" using Cons.prems(3) p by (auto dest!: map_of_SomeD simp: image_iff)
    then show "\<exists>v t bs. map_of fvs' g = Some v \<and> map_of ts' g = Some t \<and> readGo st gy v = Some (t, bs) \<and> (\<forall>a\<in>set bs. P a)"
      using Cons.prems(4) [of g gy] g p split by simp
  qed (use Cons.prems(1-3) p split in simp_all)
  then show ?case using head p split by auto
qed auto

lemma setField_names: "map fst (setField f y fvs) = map fst fvs"
  by (induction fvs) (auto simp: setField_def)

lemma setField_lookup: "map_of (setField f y fvs) g = (if g = f \<and> f \<in> fst ` set fvs then Some y else map_of fvs g)"
proof (induction fvs)
  case (Cons p fvs)
  then show ?case by (cases p; cases "g = f") (auto simp: setField_def)
qed (simp add: setField_def)

text \<open>The statements of a struct, one after the other: each copies its field into memory that is new.\<close>

definition copiedField :: "store \<Rightarrow> store \<Rightarrow> (string \<times> gtype) list \<Rightarrow> (string \<times> tree) list \<Rightarrow> (string \<times> gval) list \<Rightarrow> string \<Rightarrow> bool" where
  "copiedField old st fts ts outs f \<longleftrightarrow> (\<forall>ty. map_of fts f = Some ty \<longrightarrow>
     (\<exists>v t bs. map_of outs f = Some v \<and> map_of ts f = Some t \<and> readGo st ty v = Some (t, bs) \<and> (\<forall>a\<in>set bs. length old \<le> a)))"

lemma copySteps_copies:
  assumes read: "readFields old fts ins = Some (ts, as)"
    and "\<And>f c. (f, c) \<in> set steps \<Longrightarrow> \<exists>ty. map_of fts f = Some ty \<and> deepCopies ty c"
    and "distinct (map fst steps)" "map fst outs = map fst fts"
  shows "\<exists>outs' new'. copySteps steps ins outs (old @ new) = Some (outs', old @ new @ new') \<and> map fst outs' = map fst fts \<and>
    (\<forall>f. f \<notin> fst ` set steps \<longrightarrow> map_of outs' f = map_of outs f) \<and>
    (\<forall>f\<in>fst ` set steps. copiedField old (old @ new @ new') fts ts outs' f)"
  using assms(2-)
proof (induction steps arbitrary: outs new)
  case Nil
  then show ?case by auto
next
  case (Cons p steps)
  obtain f c where p: "p = (f, c)" by force
  obtain ty where ty: "map_of fts f = Some ty" "deepCopies ty c" using Cons.prems(1) p by auto
  obtain v t bs where v: "map_of ins f = Some v" "map_of ts f = Some t" "readGo old ty v = Some (t, bs)"
    using readFields_lookup [OF read ty(1)] by blast
  obtain y more cs where y: "c v (old @ new) = Some (y, (old @ new) @ more)" "readGo ((old @ new) @ more) ty y = Some (t, cs)"
    "\<forall>a\<in>set cs. length (old @ new) \<le> a"
    by (rule deepCopiesE [OF ty(2) read_append [OF v(3)]])
  have names: "map fst (setField f y outs) = map fst fts" using Cons.prems(3) by (simp add: setField_names)
  have "\<exists>outs' new'. copySteps steps ins (setField f y outs) (old @ (new @ more)) = Some (outs', old @ (new @ more) @ new') \<and>
    map fst outs' = map fst fts \<and> (\<forall>g. g \<notin> fst ` set steps \<longrightarrow> map_of outs' g = map_of (setField f y outs) g) \<and>
    (\<forall>g\<in>fst ` set steps. copiedField old (old @ (new @ more) @ new') fts ts outs' g)"
    using Cons.prems names by (intro Cons.IH) simp_all
  then obtain outs' new' where rest:
    "copySteps steps ins (setField f y outs) (old @ (new @ more)) = Some (outs', old @ (new @ more) @ new')"
    "map fst outs' = map fst fts" "\<forall>g. g \<notin> fst ` set steps \<longrightarrow> map_of outs' g = map_of (setField f y outs) g"
    "\<forall>g\<in>fst ` set steps. copiedField old (old @ (new @ more) @ new') fts ts outs' g"
    by (elim exE conjE)
  have "f \<notin> fst ` set steps" using Cons.prems(2) p by auto
  moreover have "f \<in> fst ` set outs" using ty(1) Cons.prems(3) by (metis domI dom_map_of_conv_image_fst list.set_map)
  ultimately have "map_of outs' f = Some y" using rest(3) by (simp add: setField_lookup)
  then have "copiedField old (old @ (new @ more) @ new') fts ts outs' f"
    using ty(1) v(2) y(3) read_append [OF y(2), of new'] by (auto simp: copiedField_def)
  moreover have "copySteps (p # steps) ins outs (old @ new) = Some (outs', old @ new @ (more @ new'))"
    using p v(1) y(1) rest(1) by simp
  moreover have "map_of outs' g = map_of outs g" if "g \<notin> fst ` set (p # steps)" for g
    using that rest(3) p by (simp add: setField_lookup)
  ultimately show ?case using rest(2,4) p by (intro exI [of _ outs'] exI [of _ "more @ new'"]) auto
qed

text \<open>
  A struct is copied when every field is: by its statement, or by the assignment of the whole struct if it shares
  nothing.
\<close>

definition structOk :: "(string \<times> gtype) list \<Rightarrow> (string \<times> copier) list \<Rightarrow> bool" where
  "structOk fts steps \<longleftrightarrow> distinct (map fst fts) \<and> distinct (map fst steps) \<and> fst ` set steps \<subseteq> fst ` set fts \<and>
     list_all (\<lambda>(f, ty). case map_of steps f of None \<Rightarrow> flat ty | Some c \<Rightarrow> deepCopies ty c) fts"

lemma deepCopies_struct:
  assumes "structOk fts steps"
  shows "deepCopies (StructT fts) (structInto steps)"
proof (rule deepCopiesI)
  fix st v t as assume "readGo st (StructT fts) v = Some (t, as)"
  then obtain fvs ts where v: "v = Struct fvs" "t = Fields ts" and read: "readFields st fts fvs = Some (ts, as)"
    by (cases "(st, StructT fts, v)" rule: readGo.cases) auto
  have ok: "case map_of steps f of None \<Rightarrow> flat ty | Some c \<Rightarrow> deepCopies ty c" if "map_of fts f = Some ty" for f ty
    using assms map_of_SomeD [OF that] unfolding structOk_def list_all_iff by auto
  have steps: "\<exists>ty. map_of fts f = Some ty \<and> deepCopies ty c" if "(f, c) \<in> set steps" for f c
  proof -
    have "map_of steps f = Some c" using that assms by (simp add: structOk_def)
    moreover have "f \<in> fst ` set fts" using that assms unfolding structOk_def by force
    then obtain ty where "map_of fts f = Some ty"
      by (cases "map_of fts f") (simp_all add: map_of_eq_None_iff)
    ultimately show ?thesis using ok by fastforce
  qed
  have distinct: "distinct (map fst steps)" using assms by (simp add: structOk_def)
  have "\<exists>outs new. copySteps steps fvs fvs (st @ []) = Some (outs, st @ [] @ new) \<and> map fst outs = map fst fts \<and>
    (\<forall>f. f \<notin> fst ` set steps \<longrightarrow> map_of outs f = map_of fvs f) \<and>
    (\<forall>f\<in>fst ` set steps. copiedField st (st @ [] @ new) fts ts outs f)"
    by (rule copySteps_copies [OF read steps distinct readFields_names(1) [OF read]])
  then obtain outs new where run: "copySteps steps fvs fvs (st @ []) = Some (outs, st @ [] @ new)" "map fst outs = map fst fts"
    "\<forall>f. f \<notin> fst ` set steps \<longrightarrow> map_of outs f = map_of fvs f" "\<forall>f\<in>fst ` set steps. copiedField st (st @ [] @ new) fts ts outs f"
    by (elim exE conjE)
  have "\<exists>as'. readFields (st @ new) fts outs = Some (ts, as') \<and> (\<forall>a\<in>set as'. length st \<le> a)"
  proof (rule readFields_intro [OF run(2) readFields_names(2) [OF read]])
    show "distinct (map fst fts)" using assms by (simp add: structOk_def)
    fix f ty assume f: "map_of fts f = Some ty"
    show "\<exists>v t bs. map_of outs f = Some v \<and> map_of ts f = Some t \<and> readGo (st @ new) ty v = Some (t, bs) \<and> (\<forall>a\<in>set bs. length st \<le> a)"
    proof (cases "f \<in> fst ` set steps")
      case True
      then show ?thesis using run(4) f by (auto simp: copiedField_def)
    next
      case False
      then have "flat ty" using ok [OF f] by (simp add: map_of_eq_None_iff [symmetric] del: map_of_eq_None_iff)
      obtain x u bs where x: "map_of fvs f = Some x" "map_of ts f = Some u" "readGo st ty x = Some (u, bs)"
        using readFields_lookup [OF read f] by blast
      moreover have "bs = []" using flat_addrs(1) [OF x(3) \<open>flat ty\<close>] .
      ultimately show ?thesis using False run(3) read_append [OF x(3), of new] by auto
    qed
  qed
  then show "\<exists>v' new as'. structInto steps v st = Some (v', st @ new) \<and> readGo (st @ new) (StructT fts) v' = Some (t, as') \<and>
    (\<forall>a\<in>set as'. length st \<le> a)"
    using run(1) v by (intro exI [of _ "Struct outs"] exI [of _ new]) (auto simp: structInto_def)
qed

subsection \<open>Pointers\<close>

lemma pointer_cases:
  assumes "readGo st (PointerT ty) v = Some (t, as)"
  obtains "v = Pointer None" "t = Absent" "as = []"
    | a i u bs where "v = Pointer (Some (a, i))" "a < length st" "i < length (st ! a)" "readGo st ty (st ! a ! i) = Some (u, bs)"
        "t = Target u" "as = a # bs"
  using assms by (cases "(st, PointerT ty, v)" rule: readGo.cases) (auto split: if_splits)

lemma pointer_target:
  assumes "readGo st (PointerT ty) v = Some (t, as)" "t \<noteq> Absent"
  shows "\<exists>a i. v = Pointer (Some (a, i))"
  using assms(1) by (cases rule: pointer_cases) (use assms(2) in auto)

lemma deepCopies_deepCopy:
  assumes "deepCopies ty c"
  shows "deepCopies (PointerT ty) (deepCopy ty c)"
proof (rule deepCopiesI)
  fix st v t as assume "readGo st (PointerT ty) v = Some (t, as)"
  then show "\<exists>v' new as'. deepCopy ty c v st = Some (v', st @ new) \<and> readGo (st @ new) (PointerT ty) v' = Some (t, as') \<and>
    (\<forall>a\<in>set as'. length st \<le> a)"
  proof (cases rule: pointer_cases)
    case 1
    then show ?thesis by (auto simp: deepCopy_def intro: exI [of _ "[]"])
  next
    case (2 a i u bs)
    let ?st = "st @ [[zeroGo ty]]"
    obtain y new cs where y: "c (st ! a ! i) ?st = Some (y, ?st @ new)" "readGo (?st @ new) ty y = Some (u, cs)"
      "\<forall>x\<in>set cs. length ?st \<le> x"
      by (rule deepCopiesE [OF assms read_append [OF 2(4)]])
    have "(?st @ new)[length st := [y]] = st @ [y] # new" by (simp add: list_update_append)
    moreover have "readGo (st @ [y] # new) ty y = Some (u, cs)"
      by (rule read_frame(1) [OF y(2)]) (use y(3) read_bounds(1) [OF y(2)] in \<open>auto simp: nth_append\<close>)
    ultimately show ?thesis
      using 2 y(1,3) by (intro exI [of _ "Pointer (Some (length st, 0))"] exI [of _ "[y] # new"]) (auto simp: deepCopy_def makeSlice_def)
  qed
qed

subsection \<open>What a deep copy is good for\<close>

text \<open>
  Whatever is written to memory the copy refers to does not show in the original, and the other way round.
\<close>

lemma deepCopies_isolated:
  assumes "deepCopies ty c" "readGo st ty v = Some (t, as)"
  shows "\<exists>v' st' as'. c v st = Some (v', st') \<and> readGo st' ty v' = Some (t, as') \<and> readGo st' ty v = Some (t, as) \<and>
    (\<forall>a block. a \<in> set as' \<longrightarrow> readGo (st'[a := block]) ty v = Some (t, as)) \<and>
    (\<forall>a block. a \<in> set as \<longrightarrow> readGo (st'[a := block]) ty v' = Some (t, as'))"
proof -
  obtain v' new as' where c: "c v st = Some (v', st @ new)" "readGo (st @ new) ty v' = Some (t, as')" "\<forall>a\<in>set as'. length st \<le> a"
    by (rule deepCopiesE [OF assms])
  have old: "readGo (st @ new) ty v = Some (t, as)" using read_append [OF assms(2)] .
  have below: "a < length st" if "a \<in> set as" for a using read_bounds(1) [OF assms(2) that] .
  have "readGo ((st @ new)[a := block]) ty v = Some (t, as)" if "a \<in> set as'" for a block
  proof (rule read_frame(1) [OF old])
    fix x assume "x \<in> set as"
    then show "x < length ((st @ new)[a := block]) \<and> (st @ new)[a := block] ! x = (st @ new) ! x"
      using below that c(3) by fastforce
  qed
  moreover have "readGo ((st @ new)[a := block]) ty v' = Some (t, as')" if "a \<in> set as" for a block
  proof (rule read_frame(1) [OF c(2)])
    fix x assume "x \<in> set as'"
    then show "x < length ((st @ new)[a := block]) \<and> (st @ new)[a := block] ! x = (st @ new) ! x"
      using below [OF that] c(3) read_bounds(1) [OF c(2)] by fastforce
  qed
  ultimately show ?thesis using c(1,2) old by blast
qed

end
