(* ===== verification/DeepCopy.thy ===== *)
theory DeepCopy
  imports GoStore
begin

text \<open>
  The generated deep copies of the API types: \<^verbatim>\<open>zz_generated.deepcopy.go\<close> of \<^verbatim>\<open>apis/exoscale/v1\<close> and of
  \<^verbatim>\<open>apis/provider/v1\<close>. For every struct there is its type, from the declaration in the \<^verbatim>\<open>_types.go\<close> file, and its
  \<^verbatim>\<open>DeepCopyInto\<close>, \<^verbatim>\<open>DeepCopy\<close> and, for the objects, \<^verbatim>\<open>DeepCopyObject\<close>, statement by statement. That the code is
  right for the declarations is what is proved: a field added to a struct without generating the code again would break
  it. The controllers rely on it where they fill in defaults: they work on \<^verbatim>\<open>in.DeepCopy()\<close>.
\<close>

section \<open>Types of other packages\<close>

text \<open>
  The structs of Kubernetes and crossplane are parameters, with their own \<^verbatim>\<open>DeepCopyInto\<close>. They are documented to be deep
  copies; \<^verbatim>\<open>TypeMeta\<close> and \<^verbatim>\<open>SecretReference\<close>, which the generated code assigns, consist of strings.
\<close>

record ext_types =
  ex_type :: "string \<Rightarrow> gtype"
  ex_into :: "string \<Rightarrow> copier"

definition copiedTypes :: "string list" where
  "copiedTypes = [''RawExtension'', ''ObjectMeta'', ''ListMeta'', ''ResourceSpec'', ''ResourceStatus'',
     ''ProviderConfigStatus'', ''ProviderConfigUsage'', ''CommonCredentialSelectors'']"

definition ext_law :: "ext_types \<Rightarrow> bool" where
  "ext_law ex \<longleftrightarrow> list_all (\<lambda>n. deepCopies (ex_type ex n) (ex_into ex n)) copiedTypes \<and>
     flat (ex_type ex ''TypeMeta'') \<and> flat (ex_type ex ''SecretReference'')"

section \<open>Types the databases share\<close>

definition BackupSpec_type :: gtype where
  "BackupSpec_type = StructT [(''TimeOfDay'', ScalarT)]"

definition BackupSpec_DeepCopyInto :: copier where
  "BackupSpec_DeepCopyInto = structInto []"

definition BackupSpec_DeepCopy :: copier where
  "BackupSpec_DeepCopy = deepCopy BackupSpec_type BackupSpec_DeepCopyInto"

definition MaintenanceSpec_type :: gtype where
  "MaintenanceSpec_type = StructT
     [(''DayOfWeek'', ScalarT),
      (''TimeOfDay'', ScalarT)]"

definition MaintenanceSpec_DeepCopyInto :: copier where
  "MaintenanceSpec_DeepCopyInto = structInto []"

definition MaintenanceSpec_DeepCopy :: copier where
  "MaintenanceSpec_DeepCopy = deepCopy MaintenanceSpec_type MaintenanceSpec_DeepCopyInto"

definition SizeSpec_type :: gtype where
  "SizeSpec_type = StructT [(''Plan'', ScalarT)]"

definition SizeSpec_DeepCopyInto :: copier where
  "SizeSpec_DeepCopyInto = structInto []"

definition SizeSpec_DeepCopy :: copier where
  "SizeSpec_DeepCopy = deepCopy SizeSpec_type SizeSpec_DeepCopyInto"

text \<open>
  The named slice \<^verbatim>\<open>IPFilter\<close> has methods of its own. \<^verbatim>\<open>DeepCopyInto\<close> does not ask for nil; \<^verbatim>\<open>DeepCopy\<close> does, and
  returns what the pointer it made refers to.
\<close>

definition IPFilter_DeepCopyInto :: copier where
  "IPFilter_DeepCopyInto v st = (case v of
     Slice None \<Rightarrow> (case makeSlice ScalarT 0 st of (b, st') \<Rightarrow> Some (Slice (Some (b, 0, 0)), st'))
   | _ \<Rightarrow> sliceCopy ScalarT v st)"

definition IPFilter_DeepCopy :: copier where
  "IPFilter_DeepCopy v st = (case v of
     Slice None \<Rightarrow> Some (Slice None, st)
   | _ \<Rightarrow> (case makeSlice (SliceT ScalarT) 1 st of (p, st') \<Rightarrow>
            map_option (\<lambda>(y, st''). (y, st''[p := [y]])) (IPFilter_DeepCopyInto v st')))"

definition DBaaSParameters_type :: gtype where
  "DBaaSParameters_type = StructT
     [(''TerminationProtection'', ScalarT),
      (''Size'', SizeSpec_type),
      (''IPFilter'', SliceT ScalarT)]"

definition DBaaSParameters_DeepCopyInto :: copier where
  "DBaaSParameters_DeepCopyInto = structInto
     [(''Size'', assign),
      (''IPFilter'', sliceCopy ScalarT)]"

definition DBaaSParameters_DeepCopy :: copier where
  "DBaaSParameters_DeepCopy = deepCopy DBaaSParameters_type DBaaSParameters_DeepCopyInto"

definition NodeState_type :: gtype where
  "NodeState_type = StructT
     [(''Name'', ScalarT),
      (''Role'', ScalarT),
      (''State'', ScalarT)]"

definition NodeState_DeepCopyInto :: copier where
  "NodeState_DeepCopyInto = structInto []"

definition NodeState_DeepCopy :: copier where
  "NodeState_DeepCopy = deepCopy NodeState_type NodeState_DeepCopyInto"

definition Notification_type :: "ext_types \<Rightarrow> gtype" where
  "Notification_type ex = StructT
     [(''Level'', ScalarT),
      (''Message'', ScalarT),
      (''Type'', ScalarT),
      (''Metadata'', ex_type ex ''RawExtension'')]"

definition Notification_DeepCopyInto :: "ext_types \<Rightarrow> copier" where
  "Notification_DeepCopyInto ex = structInto [(''Metadata'', ex_into ex ''RawExtension'')]"

definition Notification_DeepCopy :: "ext_types \<Rightarrow> copier" where
  "Notification_DeepCopy ex = deepCopy (Notification_type ex) (Notification_DeepCopyInto ex)"

section \<open>Buckets\<close>

definition BucketParameters_type :: gtype where
  "BucketParameters_type = StructT
     [(''BucketName'', ScalarT),
      (''EndpointURL'', ScalarT),
      (''Zone'', ScalarT),
      (''BucketDeletionPolicy'', ScalarT)]"

definition BucketParameters_DeepCopyInto :: copier where
  "BucketParameters_DeepCopyInto = structInto []"

definition BucketParameters_DeepCopy :: copier where
  "BucketParameters_DeepCopy = deepCopy BucketParameters_type BucketParameters_DeepCopyInto"

definition BucketSpec_type :: "ext_types \<Rightarrow> gtype" where
  "BucketSpec_type ex = StructT
     [(''ResourceSpec'', ex_type ex ''ResourceSpec''),
      (''ForProvider'', BucketParameters_type)]"

definition BucketSpec_DeepCopyInto :: "ext_types \<Rightarrow> copier" where
  "BucketSpec_DeepCopyInto ex = structInto
     [(''ResourceSpec'', ex_into ex ''ResourceSpec''),
      (''ForProvider'', assign)]"

definition BucketSpec_DeepCopy :: "ext_types \<Rightarrow> copier" where
  "BucketSpec_DeepCopy ex = deepCopy (BucketSpec_type ex) (BucketSpec_DeepCopyInto ex)"

definition BucketObservation_type :: gtype where
  "BucketObservation_type = StructT [(''BucketName'', ScalarT)]"

definition BucketObservation_DeepCopyInto :: copier where
  "BucketObservation_DeepCopyInto = structInto []"

definition BucketObservation_DeepCopy :: copier where
  "BucketObservation_DeepCopy = deepCopy BucketObservation_type BucketObservation_DeepCopyInto"

definition BucketStatus_type :: "ext_types \<Rightarrow> gtype" where
  "BucketStatus_type ex = StructT
     [(''ResourceStatus'', ex_type ex ''ResourceStatus''),
      (''Endpoint'', ScalarT),
      (''EndpointURL'', ScalarT),
      (''AtProvider'', BucketObservation_type)]"

definition BucketStatus_DeepCopyInto :: "ext_types \<Rightarrow> copier" where
  "BucketStatus_DeepCopyInto ex = structInto
     [(''ResourceStatus'', ex_into ex ''ResourceStatus''),
      (''AtProvider'', assign)]"

definition BucketStatus_DeepCopy :: "ext_types \<Rightarrow> copier" where
  "BucketStatus_DeepCopy ex = deepCopy (BucketStatus_type ex) (BucketStatus_DeepCopyInto ex)"

definition Bucket_type :: "ext_types \<Rightarrow> gtype" where
  "Bucket_type ex = StructT
     [(''TypeMeta'', ex_type ex ''TypeMeta''),
      (''ObjectMeta'', ex_type ex ''ObjectMeta''),
      (''Spec'', BucketSpec_type ex),
      (''Status'', BucketStatus_type ex)]"

definition Bucket_DeepCopyInto :: "ext_types \<Rightarrow> copier" where
  "Bucket_DeepCopyInto ex = structInto
     [(''TypeMeta'', assign),
      (''ObjectMeta'', ex_into ex ''ObjectMeta''),
      (''Spec'', BucketSpec_DeepCopyInto ex),
      (''Status'', BucketStatus_DeepCopyInto ex)]"

definition Bucket_DeepCopy :: "ext_types \<Rightarrow> copier" where
  "Bucket_DeepCopy ex = deepCopy (Bucket_type ex) (Bucket_DeepCopyInto ex)"

definition Bucket_DeepCopyObject :: "ext_types \<Rightarrow> gval \<Rightarrow> store \<Rightarrow> ((string \<times> addr \<times> nat) option \<times> store) option" where
  "Bucket_DeepCopyObject ex = deepCopyObject ''Bucket'' (Bucket_DeepCopy ex)"

definition BucketList_type :: "ext_types \<Rightarrow> gtype" where
  "BucketList_type ex = StructT
     [(''TypeMeta'', ex_type ex ''TypeMeta''),
      (''ListMeta'', ex_type ex ''ListMeta''),
      (''Items'', SliceT (Bucket_type ex))]"

definition BucketList_DeepCopyInto :: "ext_types \<Rightarrow> copier" where
  "BucketList_DeepCopyInto ex = structInto
     [(''TypeMeta'', assign),
      (''ListMeta'', ex_into ex ''ListMeta''),
      (''Items'', sliceInto (Bucket_type ex) (Bucket_DeepCopyInto ex))]"

definition BucketList_DeepCopy :: "ext_types \<Rightarrow> copier" where
  "BucketList_DeepCopy ex = deepCopy (BucketList_type ex) (BucketList_DeepCopyInto ex)"

definition BucketList_DeepCopyObject :: "ext_types \<Rightarrow> gval \<Rightarrow> store \<Rightarrow> ((string \<times> addr \<times> nat) option \<times> store) option" where
  "BucketList_DeepCopyObject ex = deepCopyObject ''BucketList'' (BucketList_DeepCopy ex)"

section \<open>IAM keys\<close>

definition SOSSpec_type :: gtype where
  "SOSSpec_type = StructT [(''Buckets'', SliceT ScalarT)]"

definition SOSSpec_DeepCopyInto :: copier where
  "SOSSpec_DeepCopyInto = structInto [(''Buckets'', sliceCopy ScalarT)]"

definition SOSSpec_DeepCopy :: copier where
  "SOSSpec_DeepCopy = deepCopy SOSSpec_type SOSSpec_DeepCopyInto"

definition ServicesSpec_type :: gtype where
  "ServicesSpec_type = StructT [(''SOS'', SOSSpec_type)]"

definition ServicesSpec_DeepCopyInto :: copier where
  "ServicesSpec_DeepCopyInto = structInto [(''SOS'', SOSSpec_DeepCopyInto)]"

definition ServicesSpec_DeepCopy :: copier where
  "ServicesSpec_DeepCopy = deepCopy ServicesSpec_type ServicesSpec_DeepCopyInto"

definition IAMKeyParameters_type :: gtype where
  "IAMKeyParameters_type = StructT
     [(''KeyName'', ScalarT),
      (''Zone'', ScalarT),
      (''Services'', ServicesSpec_type)]"

definition IAMKeyParameters_DeepCopyInto :: copier where
  "IAMKeyParameters_DeepCopyInto = structInto [(''Services'', ServicesSpec_DeepCopyInto)]"

definition IAMKeyParameters_DeepCopy :: copier where
  "IAMKeyParameters_DeepCopy = deepCopy IAMKeyParameters_type IAMKeyParameters_DeepCopyInto"

definition IAMKeySpec_type :: "ext_types \<Rightarrow> gtype" where
  "IAMKeySpec_type ex = StructT
     [(''ResourceSpec'', ex_type ex ''ResourceSpec''),
      (''ForProvider'', IAMKeyParameters_type)]"

definition IAMKeySpec_DeepCopyInto :: "ext_types \<Rightarrow> copier" where
  "IAMKeySpec_DeepCopyInto ex = structInto
     [(''ResourceSpec'', ex_into ex ''ResourceSpec''),
      (''ForProvider'', IAMKeyParameters_DeepCopyInto)]"

definition IAMKeySpec_DeepCopy :: "ext_types \<Rightarrow> copier" where
  "IAMKeySpec_DeepCopy ex = deepCopy (IAMKeySpec_type ex) (IAMKeySpec_DeepCopyInto ex)"

definition IAMKeyObservation_type :: gtype where
  "IAMKeyObservation_type = StructT
     [(''KeyID'', ScalarT),
      (''RoleID'', ScalarT),
      (''KeyName'', ScalarT),
      (''ServicesSpec'', ServicesSpec_type)]"

definition IAMKeyObservation_DeepCopyInto :: copier where
  "IAMKeyObservation_DeepCopyInto = structInto [(''ServicesSpec'', ServicesSpec_DeepCopyInto)]"

definition IAMKeyObservation_DeepCopy :: copier where
  "IAMKeyObservation_DeepCopy = deepCopy IAMKeyObservation_type IAMKeyObservation_DeepCopyInto"

definition IAMKeyStatus_type :: "ext_types \<Rightarrow> gtype" where
  "IAMKeyStatus_type ex = StructT
     [(''ResourceStatus'', ex_type ex ''ResourceStatus''),
      (''AtProvider'', IAMKeyObservation_type)]"

definition IAMKeyStatus_DeepCopyInto :: "ext_types \<Rightarrow> copier" where
  "IAMKeyStatus_DeepCopyInto ex = structInto
     [(''ResourceStatus'', ex_into ex ''ResourceStatus''),
      (''AtProvider'', IAMKeyObservation_DeepCopyInto)]"

definition IAMKeyStatus_DeepCopy :: "ext_types \<Rightarrow> copier" where
  "IAMKeyStatus_DeepCopy ex = deepCopy (IAMKeyStatus_type ex) (IAMKeyStatus_DeepCopyInto ex)"

definition IAMKey_type :: "ext_types \<Rightarrow> gtype" where
  "IAMKey_type ex = StructT
     [(''TypeMeta'', ex_type ex ''TypeMeta''),
      (''ObjectMeta'', ex_type ex ''ObjectMeta''),
      (''Spec'', IAMKeySpec_type ex),
      (''Status'', IAMKeyStatus_type ex)]"

definition IAMKey_DeepCopyInto :: "ext_types \<Rightarrow> copier" where
  "IAMKey_DeepCopyInto ex = structInto
     [(''TypeMeta'', assign),
      (''ObjectMeta'', ex_into ex ''ObjectMeta''),
      (''Spec'', IAMKeySpec_DeepCopyInto ex),
      (''Status'', IAMKeyStatus_DeepCopyInto ex)]"

definition IAMKey_DeepCopy :: "ext_types \<Rightarrow> copier" where
  "IAMKey_DeepCopy ex = deepCopy (IAMKey_type ex) (IAMKey_DeepCopyInto ex)"

definition IAMKey_DeepCopyObject :: "ext_types \<Rightarrow> gval \<Rightarrow> store \<Rightarrow> ((string \<times> addr \<times> nat) option \<times> store) option" where
  "IAMKey_DeepCopyObject ex = deepCopyObject ''IAMKey'' (IAMKey_DeepCopy ex)"

definition IAMKeyList_type :: "ext_types \<Rightarrow> gtype" where
  "IAMKeyList_type ex = StructT
     [(''TypeMeta'', ex_type ex ''TypeMeta''),
      (''ListMeta'', ex_type ex ''ListMeta''),
      (''Items'', SliceT (IAMKey_type ex))]"

definition IAMKeyList_DeepCopyInto :: "ext_types \<Rightarrow> copier" where
  "IAMKeyList_DeepCopyInto ex = structInto
     [(''TypeMeta'', assign),
      (''ListMeta'', ex_into ex ''ListMeta''),
      (''Items'', sliceInto (IAMKey_type ex) (IAMKey_DeepCopyInto ex))]"

definition IAMKeyList_DeepCopy :: "ext_types \<Rightarrow> copier" where
  "IAMKeyList_DeepCopy ex = deepCopy (IAMKeyList_type ex) (IAMKeyList_DeepCopyInto ex)"

definition IAMKeyList_DeepCopyObject :: "ext_types \<Rightarrow> gval \<Rightarrow> store \<Rightarrow> ((string \<times> addr \<times> nat) option \<times> store) option" where
  "IAMKeyList_DeepCopyObject ex = deepCopyObject ''IAMKeyList'' (IAMKeyList_DeepCopy ex)"

section \<open>Kafka\<close>

definition KafkaParameters_type :: "ext_types \<Rightarrow> gtype" where
  "KafkaParameters_type ex = StructT
     [(''Maintenance'', MaintenanceSpec_type),
      (''Zone'', ScalarT),
      (''DBaaSParameters'', DBaaSParameters_type),
      (''Version'', ScalarT),
      (''KafkaSettings'', ex_type ex ''RawExtension''),
      (''KafkaRestEnabled'', ScalarT),
      (''KafkaRestSettings'', ex_type ex ''RawExtension'')]"

definition KafkaParameters_DeepCopyInto :: "ext_types \<Rightarrow> copier" where
  "KafkaParameters_DeepCopyInto ex = structInto
     [(''Maintenance'', assign),
      (''DBaaSParameters'', DBaaSParameters_DeepCopyInto),
      (''KafkaSettings'', ex_into ex ''RawExtension''),
      (''KafkaRestSettings'', ex_into ex ''RawExtension'')]"

definition KafkaParameters_DeepCopy :: "ext_types \<Rightarrow> copier" where
  "KafkaParameters_DeepCopy ex = deepCopy (KafkaParameters_type ex) (KafkaParameters_DeepCopyInto ex)"

definition KafkaSpec_type :: "ext_types \<Rightarrow> gtype" where
  "KafkaSpec_type ex = StructT
     [(''ResourceSpec'', ex_type ex ''ResourceSpec''),
      (''ForProvider'', KafkaParameters_type ex)]"

definition KafkaSpec_DeepCopyInto :: "ext_types \<Rightarrow> copier" where
  "KafkaSpec_DeepCopyInto ex = structInto
     [(''ResourceSpec'', ex_into ex ''ResourceSpec''),
      (''ForProvider'', KafkaParameters_DeepCopyInto ex)]"

definition KafkaSpec_DeepCopy :: "ext_types \<Rightarrow> copier" where
  "KafkaSpec_DeepCopy ex = deepCopy (KafkaSpec_type ex) (KafkaSpec_DeepCopyInto ex)"

definition KafkaObservation_type :: "ext_types \<Rightarrow> gtype" where
  "KafkaObservation_type ex = StructT
     [(''Version'', ScalarT),
      (''KafkaSettings'', ex_type ex ''RawExtension''),
      (''KafkaRestEnabled'', ScalarT),
      (''KafkaRestSettings'', ex_type ex ''RawExtension''),
      (''NodeStates'', SliceT NodeState_type),
      (''Notifications'', SliceT (Notification_type ex))]"

definition KafkaObservation_DeepCopyInto :: "ext_types \<Rightarrow> copier" where
  "KafkaObservation_DeepCopyInto ex = structInto
     [(''KafkaSettings'', ex_into ex ''RawExtension''),
      (''KafkaRestSettings'', ex_into ex ''RawExtension''),
      (''NodeStates'', sliceCopy NodeState_type),
      (''Notifications'', sliceInto (Notification_type ex) (Notification_DeepCopyInto ex))]"

definition KafkaObservation_DeepCopy :: "ext_types \<Rightarrow> copier" where
  "KafkaObservation_DeepCopy ex = deepCopy (KafkaObservation_type ex) (KafkaObservation_DeepCopyInto ex)"

definition KafkaStatus_type :: "ext_types \<Rightarrow> gtype" where
  "KafkaStatus_type ex = StructT
     [(''ResourceStatus'', ex_type ex ''ResourceStatus''),
      (''AtProvider'', KafkaObservation_type ex)]"

definition KafkaStatus_DeepCopyInto :: "ext_types \<Rightarrow> copier" where
  "KafkaStatus_DeepCopyInto ex = structInto
     [(''ResourceStatus'', ex_into ex ''ResourceStatus''),
      (''AtProvider'', KafkaObservation_DeepCopyInto ex)]"

definition KafkaStatus_DeepCopy :: "ext_types \<Rightarrow> copier" where
  "KafkaStatus_DeepCopy ex = deepCopy (KafkaStatus_type ex) (KafkaStatus_DeepCopyInto ex)"

definition Kafka_type :: "ext_types \<Rightarrow> gtype" where
  "Kafka_type ex = StructT
     [(''TypeMeta'', ex_type ex ''TypeMeta''),
      (''ObjectMeta'', ex_type ex ''ObjectMeta''),
      (''Spec'', KafkaSpec_type ex),
      (''Status'', KafkaStatus_type ex)]"

definition Kafka_DeepCopyInto :: "ext_types \<Rightarrow> copier" where
  "Kafka_DeepCopyInto ex = structInto
     [(''TypeMeta'', assign),
      (''ObjectMeta'', ex_into ex ''ObjectMeta''),
      (''Spec'', KafkaSpec_DeepCopyInto ex),
      (''Status'', KafkaStatus_DeepCopyInto ex)]"

definition Kafka_DeepCopy :: "ext_types \<Rightarrow> copier" where
  "Kafka_DeepCopy ex = deepCopy (Kafka_type ex) (Kafka_DeepCopyInto ex)"

definition Kafka_DeepCopyObject :: "ext_types \<Rightarrow> gval \<Rightarrow> store \<Rightarrow> ((string \<times> addr \<times> nat) option \<times> store) option" where
  "Kafka_DeepCopyObject ex = deepCopyObject ''Kafka'' (Kafka_DeepCopy ex)"

definition KafkaList_type :: "ext_types \<Rightarrow> gtype" where
  "KafkaList_type ex = StructT
     [(''TypeMeta'', ex_type ex ''TypeMeta''),
      (''ListMeta'', ex_type ex ''ListMeta''),
      (''Items'', SliceT (Kafka_type ex))]"

definition KafkaList_DeepCopyInto :: "ext_types \<Rightarrow> copier" where
  "KafkaList_DeepCopyInto ex = structInto
     [(''TypeMeta'', assign),
      (''ListMeta'', ex_into ex ''ListMeta''),
      (''Items'', sliceInto (Kafka_type ex) (Kafka_DeepCopyInto ex))]"

definition KafkaList_DeepCopy :: "ext_types \<Rightarrow> copier" where
  "KafkaList_DeepCopy ex = deepCopy (KafkaList_type ex) (KafkaList_DeepCopyInto ex)"

definition KafkaList_DeepCopyObject :: "ext_types \<Rightarrow> gval \<Rightarrow> store \<Rightarrow> ((string \<times> addr \<times> nat) option \<times> store) option" where
  "KafkaList_DeepCopyObject ex = deepCopyObject ''KafkaList'' (KafkaList_DeepCopy ex)"

section \<open>MySQL\<close>

definition MySQLParameters_type :: "ext_types \<Rightarrow> gtype" where
  "MySQLParameters_type ex = StructT
     [(''Maintenance'', MaintenanceSpec_type),
      (''Backup'', BackupSpec_type),
      (''Zone'', ScalarT),
      (''Version'', ScalarT),
      (''DBaaSParameters'', DBaaSParameters_type),
      (''MySQLSettings'', ex_type ex ''RawExtension'')]"

definition MySQLParameters_DeepCopyInto :: "ext_types \<Rightarrow> copier" where
  "MySQLParameters_DeepCopyInto ex = structInto
     [(''Maintenance'', assign),
      (''Backup'', assign),
      (''DBaaSParameters'', DBaaSParameters_DeepCopyInto),
      (''MySQLSettings'', ex_into ex ''RawExtension'')]"

definition MySQLParameters_DeepCopy :: "ext_types \<Rightarrow> copier" where
  "MySQLParameters_DeepCopy ex = deepCopy (MySQLParameters_type ex) (MySQLParameters_DeepCopyInto ex)"

definition MySQLSpec_type :: "ext_types \<Rightarrow> gtype" where
  "MySQLSpec_type ex = StructT
     [(''ResourceSpec'', ex_type ex ''ResourceSpec''),
      (''ForProvider'', MySQLParameters_type ex)]"

definition MySQLSpec_DeepCopyInto :: "ext_types \<Rightarrow> copier" where
  "MySQLSpec_DeepCopyInto ex = structInto
     [(''ResourceSpec'', ex_into ex ''ResourceSpec''),
      (''ForProvider'', MySQLParameters_DeepCopyInto ex)]"

definition MySQLSpec_DeepCopy :: "ext_types \<Rightarrow> copier" where
  "MySQLSpec_DeepCopy ex = deepCopy (MySQLSpec_type ex) (MySQLSpec_DeepCopyInto ex)"

definition MySQLObservation_type :: "ext_types \<Rightarrow> gtype" where
  "MySQLObservation_type ex = StructT
     [(''DBaaSParameters'', DBaaSParameters_type),
      (''Version'', ScalarT),
      (''Maintenance'', MaintenanceSpec_type),
      (''Backup'', BackupSpec_type),
      (''NodeStates'', SliceT NodeState_type),
      (''MySQLSettings'', ex_type ex ''RawExtension''),
      (''Notifications'', SliceT (Notification_type ex))]"

definition MySQLObservation_DeepCopyInto :: "ext_types \<Rightarrow> copier" where
  "MySQLObservation_DeepCopyInto ex = structInto
     [(''DBaaSParameters'', DBaaSParameters_DeepCopyInto),
      (''Maintenance'', assign),
      (''Backup'', assign),
      (''NodeStates'', sliceCopy NodeState_type),
      (''MySQLSettings'', ex_into ex ''RawExtension''),
      (''Notifications'', sliceInto (Notification_type ex) (Notification_DeepCopyInto ex))]"

definition MySQLObservation_DeepCopy :: "ext_types \<Rightarrow> copier" where
  "MySQLObservation_DeepCopy ex = deepCopy (MySQLObservation_type ex) (MySQLObservation_DeepCopyInto ex)"

definition MySQLStatus_type :: "ext_types \<Rightarrow> gtype" where
  "MySQLStatus_type ex = StructT
     [(''ResourceStatus'', ex_type ex ''ResourceStatus''),
      (''AtProvider'', MySQLObservation_type ex)]"

definition MySQLStatus_DeepCopyInto :: "ext_types \<Rightarrow> copier" where
  "MySQLStatus_DeepCopyInto ex = structInto
     [(''ResourceStatus'', ex_into ex ''ResourceStatus''),
      (''AtProvider'', MySQLObservation_DeepCopyInto ex)]"

definition MySQLStatus_DeepCopy :: "ext_types \<Rightarrow> copier" where
  "MySQLStatus_DeepCopy ex = deepCopy (MySQLStatus_type ex) (MySQLStatus_DeepCopyInto ex)"

definition MySQL_type :: "ext_types \<Rightarrow> gtype" where
  "MySQL_type ex = StructT
     [(''TypeMeta'', ex_type ex ''TypeMeta''),
      (''ObjectMeta'', ex_type ex ''ObjectMeta''),
      (''Spec'', MySQLSpec_type ex),
      (''Status'', MySQLStatus_type ex)]"

definition MySQL_DeepCopyInto :: "ext_types \<Rightarrow> copier" where
  "MySQL_DeepCopyInto ex = structInto
     [(''TypeMeta'', assign),
      (''ObjectMeta'', ex_into ex ''ObjectMeta''),
      (''Spec'', MySQLSpec_DeepCopyInto ex),
      (''Status'', MySQLStatus_DeepCopyInto ex)]"

definition MySQL_DeepCopy :: "ext_types \<Rightarrow> copier" where
  "MySQL_DeepCopy ex = deepCopy (MySQL_type ex) (MySQL_DeepCopyInto ex)"

definition MySQL_DeepCopyObject :: "ext_types \<Rightarrow> gval \<Rightarrow> store \<Rightarrow> ((string \<times> addr \<times> nat) option \<times> store) option" where
  "MySQL_DeepCopyObject ex = deepCopyObject ''MySQL'' (MySQL_DeepCopy ex)"

definition MySQLList_type :: "ext_types \<Rightarrow> gtype" where
  "MySQLList_type ex = StructT
     [(''TypeMeta'', ex_type ex ''TypeMeta''),
      (''ListMeta'', ex_type ex ''ListMeta''),
      (''Items'', SliceT (MySQL_type ex))]"

definition MySQLList_DeepCopyInto :: "ext_types \<Rightarrow> copier" where
  "MySQLList_DeepCopyInto ex = structInto
     [(''TypeMeta'', assign),
      (''ListMeta'', ex_into ex ''ListMeta''),
      (''Items'', sliceInto (MySQL_type ex) (MySQL_DeepCopyInto ex))]"

definition MySQLList_DeepCopy :: "ext_types \<Rightarrow> copier" where
  "MySQLList_DeepCopy ex = deepCopy (MySQLList_type ex) (MySQLList_DeepCopyInto ex)"

definition MySQLList_DeepCopyObject :: "ext_types \<Rightarrow> gval \<Rightarrow> store \<Rightarrow> ((string \<times> addr \<times> nat) option \<times> store) option" where
  "MySQLList_DeepCopyObject ex = deepCopyObject ''MySQLList'' (MySQLList_DeepCopy ex)"

section \<open>OpenSearch\<close>

definition OpenSearchParameters_type :: "ext_types \<Rightarrow> gtype" where
  "OpenSearchParameters_type ex = StructT
     [(''Maintenance'', MaintenanceSpec_type),
      (''Backup'', BackupSpec_type),
      (''DBaaSParameters'', DBaaSParameters_type),
      (''Zone'', ScalarT),
      (''MajorVersion'', ScalarT),
      (''OpenSearchSettings'', ex_type ex ''RawExtension'')]"

definition OpenSearchParameters_DeepCopyInto :: "ext_types \<Rightarrow> copier" where
  "OpenSearchParameters_DeepCopyInto ex = structInto
     [(''Maintenance'', assign),
      (''Backup'', assign),
      (''DBaaSParameters'', DBaaSParameters_DeepCopyInto),
      (''OpenSearchSettings'', ex_into ex ''RawExtension'')]"

definition OpenSearchParameters_DeepCopy :: "ext_types \<Rightarrow> copier" where
  "OpenSearchParameters_DeepCopy ex = deepCopy (OpenSearchParameters_type ex) (OpenSearchParameters_DeepCopyInto ex)"

definition OpenSearchSpec_type :: "ext_types \<Rightarrow> gtype" where
  "OpenSearchSpec_type ex = StructT
     [(''ResourceSpec'', ex_type ex ''ResourceSpec''),
      (''ForProvider'', OpenSearchParameters_type ex)]"

definition OpenSearchSpec_DeepCopyInto :: "ext_types \<Rightarrow> copier" where
  "OpenSearchSpec_DeepCopyInto ex = structInto
     [(''ResourceSpec'', ex_into ex ''ResourceSpec''),
      (''ForProvider'', OpenSearchParameters_DeepCopyInto ex)]"

definition OpenSearchSpec_DeepCopy :: "ext_types \<Rightarrow> copier" where
  "OpenSearchSpec_DeepCopy ex = deepCopy (OpenSearchSpec_type ex) (OpenSearchSpec_DeepCopyInto ex)"

definition OpenSearchObservation_type :: "ext_types \<Rightarrow> gtype" where
  "OpenSearchObservation_type ex = StructT
     [(''MajorVersion'', ScalarT),
      (''OpenSearchSettings'', ex_type ex ''RawExtension''),
      (''NodeStates'', SliceT NodeState_type),
      (''DBaaSParameters'', DBaaSParameters_type),
      (''Notifications'', SliceT (Notification_type ex)),
      (''Maintenance'', MaintenanceSpec_type)]"

definition OpenSearchObservation_DeepCopyInto :: "ext_types \<Rightarrow> copier" where
  "OpenSearchObservation_DeepCopyInto ex = structInto
     [(''OpenSearchSettings'', ex_into ex ''RawExtension''),
      (''NodeStates'', sliceCopy NodeState_type),
      (''DBaaSParameters'', DBaaSParameters_DeepCopyInto),
      (''Notifications'', sliceInto (Notification_type ex) (Notification_DeepCopyInto ex)),
      (''Maintenance'', assign)]"

definition OpenSearchObservation_DeepCopy :: "ext_types \<Rightarrow> copier" where
  "OpenSearchObservation_DeepCopy ex = deepCopy (OpenSearchObservation_type ex) (OpenSearchObservation_DeepCopyInto ex)"

definition OpenSearchStatus_type :: "ext_types \<Rightarrow> gtype" where
  "OpenSearchStatus_type ex = StructT
     [(''ResourceStatus'', ex_type ex ''ResourceStatus''),
      (''AtProvider'', OpenSearchObservation_type ex)]"

definition OpenSearchStatus_DeepCopyInto :: "ext_types \<Rightarrow> copier" where
  "OpenSearchStatus_DeepCopyInto ex = structInto
     [(''ResourceStatus'', ex_into ex ''ResourceStatus''),
      (''AtProvider'', OpenSearchObservation_DeepCopyInto ex)]"

definition OpenSearchStatus_DeepCopy :: "ext_types \<Rightarrow> copier" where
  "OpenSearchStatus_DeepCopy ex = deepCopy (OpenSearchStatus_type ex) (OpenSearchStatus_DeepCopyInto ex)"

definition OpenSearch_type :: "ext_types \<Rightarrow> gtype" where
  "OpenSearch_type ex = StructT
     [(''TypeMeta'', ex_type ex ''TypeMeta''),
      (''ObjectMeta'', ex_type ex ''ObjectMeta''),
      (''Spec'', OpenSearchSpec_type ex),
      (''Status'', OpenSearchStatus_type ex)]"

definition OpenSearch_DeepCopyInto :: "ext_types \<Rightarrow> copier" where
  "OpenSearch_DeepCopyInto ex = structInto
     [(''TypeMeta'', assign),
      (''ObjectMeta'', ex_into ex ''ObjectMeta''),
      (''Spec'', OpenSearchSpec_DeepCopyInto ex),
      (''Status'', OpenSearchStatus_DeepCopyInto ex)]"

definition OpenSearch_DeepCopy :: "ext_types \<Rightarrow> copier" where
  "OpenSearch_DeepCopy ex = deepCopy (OpenSearch_type ex) (OpenSearch_DeepCopyInto ex)"

definition OpenSearch_DeepCopyObject :: "ext_types \<Rightarrow> gval \<Rightarrow> store \<Rightarrow> ((string \<times> addr \<times> nat) option \<times> store) option" where
  "OpenSearch_DeepCopyObject ex = deepCopyObject ''OpenSearch'' (OpenSearch_DeepCopy ex)"

definition OpenSearchList_type :: "ext_types \<Rightarrow> gtype" where
  "OpenSearchList_type ex = StructT
     [(''TypeMeta'', ex_type ex ''TypeMeta''),
      (''ListMeta'', ex_type ex ''ListMeta''),
      (''Items'', SliceT (OpenSearch_type ex))]"

definition OpenSearchList_DeepCopyInto :: "ext_types \<Rightarrow> copier" where
  "OpenSearchList_DeepCopyInto ex = structInto
     [(''TypeMeta'', assign),
      (''ListMeta'', ex_into ex ''ListMeta''),
      (''Items'', sliceInto (OpenSearch_type ex) (OpenSearch_DeepCopyInto ex))]"

definition OpenSearchList_DeepCopy :: "ext_types \<Rightarrow> copier" where
  "OpenSearchList_DeepCopy ex = deepCopy (OpenSearchList_type ex) (OpenSearchList_DeepCopyInto ex)"

definition OpenSearchList_DeepCopyObject :: "ext_types \<Rightarrow> gval \<Rightarrow> store \<Rightarrow> ((string \<times> addr \<times> nat) option \<times> store) option" where
  "OpenSearchList_DeepCopyObject ex = deepCopyObject ''OpenSearchList'' (OpenSearchList_DeepCopy ex)"

section \<open>PostgreSQL\<close>

definition PostgreSQLParameters_type :: "ext_types \<Rightarrow> gtype" where
  "PostgreSQLParameters_type ex = StructT
     [(''Maintenance'', MaintenanceSpec_type),
      (''Backup'', BackupSpec_type),
      (''Zone'', ScalarT),
      (''DBaaSParameters'', DBaaSParameters_type),
      (''Version'', ScalarT),
      (''PGSettings'', ex_type ex ''RawExtension'')]"

definition PostgreSQLParameters_DeepCopyInto :: "ext_types \<Rightarrow> copier" where
  "PostgreSQLParameters_DeepCopyInto ex = structInto
     [(''Maintenance'', assign),
      (''Backup'', assign),
      (''DBaaSParameters'', DBaaSParameters_DeepCopyInto),
      (''PGSettings'', ex_into ex ''RawExtension'')]"

definition PostgreSQLParameters_DeepCopy :: "ext_types \<Rightarrow> copier" where
  "PostgreSQLParameters_DeepCopy ex = deepCopy (PostgreSQLParameters_type ex) (PostgreSQLParameters_DeepCopyInto ex)"

definition PostgreSQLSpec_type :: "ext_types \<Rightarrow> gtype" where
  "PostgreSQLSpec_type ex = StructT
     [(''ResourceSpec'', ex_type ex ''ResourceSpec''),
      (''ForProvider'', PostgreSQLParameters_type ex)]"

definition PostgreSQLSpec_DeepCopyInto :: "ext_types \<Rightarrow> copier" where
  "PostgreSQLSpec_DeepCopyInto ex = structInto
     [(''ResourceSpec'', ex_into ex ''ResourceSpec''),
      (''ForProvider'', PostgreSQLParameters_DeepCopyInto ex)]"

definition PostgreSQLSpec_DeepCopy :: "ext_types \<Rightarrow> copier" where
  "PostgreSQLSpec_DeepCopy ex = deepCopy (PostgreSQLSpec_type ex) (PostgreSQLSpec_DeepCopyInto ex)"

definition PostgreSQLObservation_type :: "ext_types \<Rightarrow> gtype" where
  "PostgreSQLObservation_type ex = StructT
     [(''DBaaSParameters'', DBaaSParameters_type),
      (''Version'', ScalarT),
      (''Maintenance'', MaintenanceSpec_type),
      (''Backup'', BackupSpec_type),
      (''NodeStates'', SliceT NodeState_type),
      (''PGSettings'', ex_type ex ''RawExtension'')]"

definition PostgreSQLObservation_DeepCopyInto :: "ext_types \<Rightarrow> copier" where
  "PostgreSQLObservation_DeepCopyInto ex = structInto
     [(''DBaaSParameters'', DBaaSParameters_DeepCopyInto),
      (''Maintenance'', assign),
      (''Backup'', assign),
      (''NodeStates'', sliceCopy NodeState_type),
      (''PGSettings'', ex_into ex ''RawExtension'')]"

definition PostgreSQLObservation_DeepCopy :: "ext_types \<Rightarrow> copier" where
  "PostgreSQLObservation_DeepCopy ex = deepCopy (PostgreSQLObservation_type ex) (PostgreSQLObservation_DeepCopyInto ex)"

definition PostgreSQLStatus_type :: "ext_types \<Rightarrow> gtype" where
  "PostgreSQLStatus_type ex = StructT
     [(''ResourceStatus'', ex_type ex ''ResourceStatus''),
      (''AtProvider'', PostgreSQLObservation_type ex)]"

definition PostgreSQLStatus_DeepCopyInto :: "ext_types \<Rightarrow> copier" where
  "PostgreSQLStatus_DeepCopyInto ex = structInto
     [(''ResourceStatus'', ex_into ex ''ResourceStatus''),
      (''AtProvider'', PostgreSQLObservation_DeepCopyInto ex)]"

definition PostgreSQLStatus_DeepCopy :: "ext_types \<Rightarrow> copier" where
  "PostgreSQLStatus_DeepCopy ex = deepCopy (PostgreSQLStatus_type ex) (PostgreSQLStatus_DeepCopyInto ex)"

definition PostgreSQL_type :: "ext_types \<Rightarrow> gtype" where
  "PostgreSQL_type ex = StructT
     [(''TypeMeta'', ex_type ex ''TypeMeta''),
      (''ObjectMeta'', ex_type ex ''ObjectMeta''),
      (''Spec'', PostgreSQLSpec_type ex),
      (''Status'', PostgreSQLStatus_type ex)]"

definition PostgreSQL_DeepCopyInto :: "ext_types \<Rightarrow> copier" where
  "PostgreSQL_DeepCopyInto ex = structInto
     [(''TypeMeta'', assign),
      (''ObjectMeta'', ex_into ex ''ObjectMeta''),
      (''Spec'', PostgreSQLSpec_DeepCopyInto ex),
      (''Status'', PostgreSQLStatus_DeepCopyInto ex)]"

definition PostgreSQL_DeepCopy :: "ext_types \<Rightarrow> copier" where
  "PostgreSQL_DeepCopy ex = deepCopy (PostgreSQL_type ex) (PostgreSQL_DeepCopyInto ex)"

definition PostgreSQL_DeepCopyObject :: "ext_types \<Rightarrow> gval \<Rightarrow> store \<Rightarrow> ((string \<times> addr \<times> nat) option \<times> store) option" where
  "PostgreSQL_DeepCopyObject ex = deepCopyObject ''PostgreSQL'' (PostgreSQL_DeepCopy ex)"

definition PostgreSQLList_type :: "ext_types \<Rightarrow> gtype" where
  "PostgreSQLList_type ex = StructT
     [(''TypeMeta'', ex_type ex ''TypeMeta''),
      (''ListMeta'', ex_type ex ''ListMeta''),
      (''Items'', SliceT (PostgreSQL_type ex))]"

definition PostgreSQLList_DeepCopyInto :: "ext_types \<Rightarrow> copier" where
  "PostgreSQLList_DeepCopyInto ex = structInto
     [(''TypeMeta'', assign),
      (''ListMeta'', ex_into ex ''ListMeta''),
      (''Items'', sliceInto (PostgreSQL_type ex) (PostgreSQL_DeepCopyInto ex))]"

definition PostgreSQLList_DeepCopy :: "ext_types \<Rightarrow> copier" where
  "PostgreSQLList_DeepCopy ex = deepCopy (PostgreSQLList_type ex) (PostgreSQLList_DeepCopyInto ex)"

definition PostgreSQLList_DeepCopyObject :: "ext_types \<Rightarrow> gval \<Rightarrow> store \<Rightarrow> ((string \<times> addr \<times> nat) option \<times> store) option" where
  "PostgreSQLList_DeepCopyObject ex = deepCopyObject ''PostgreSQLList'' (PostgreSQLList_DeepCopy ex)"

section \<open>Redis\<close>

definition RedisParameters_type :: "ext_types \<Rightarrow> gtype" where
  "RedisParameters_type ex = StructT
     [(''Maintenance'', MaintenanceSpec_type),
      (''Zone'', ScalarT),
      (''DBaaSParameters'', DBaaSParameters_type),
      (''RedisSettings'', ex_type ex ''RawExtension'')]"

definition RedisParameters_DeepCopyInto :: "ext_types \<Rightarrow> copier" where
  "RedisParameters_DeepCopyInto ex = structInto
     [(''Maintenance'', assign),
      (''DBaaSParameters'', DBaaSParameters_DeepCopyInto),
      (''RedisSettings'', ex_into ex ''RawExtension'')]"

definition RedisParameters_DeepCopy :: "ext_types \<Rightarrow> copier" where
  "RedisParameters_DeepCopy ex = deepCopy (RedisParameters_type ex) (RedisParameters_DeepCopyInto ex)"

definition RedisSpec_type :: "ext_types \<Rightarrow> gtype" where
  "RedisSpec_type ex = StructT
     [(''ResourceSpec'', ex_type ex ''ResourceSpec''),
      (''ForProvider'', RedisParameters_type ex)]"

definition RedisSpec_DeepCopyInto :: "ext_types \<Rightarrow> copier" where
  "RedisSpec_DeepCopyInto ex = structInto
     [(''ResourceSpec'', ex_into ex ''ResourceSpec''),
      (''ForProvider'', RedisParameters_DeepCopyInto ex)]"

definition RedisSpec_DeepCopy :: "ext_types \<Rightarrow> copier" where
  "RedisSpec_DeepCopy ex = deepCopy (RedisSpec_type ex) (RedisSpec_DeepCopyInto ex)"

definition RedisObservation_type :: "ext_types \<Rightarrow> gtype" where
  "RedisObservation_type ex = StructT
     [(''Version'', ScalarT),
      (''RedisSettings'', ex_type ex ''RawExtension''),
      (''NodeStates'', SliceT NodeState_type),
      (''Notifications'', SliceT (Notification_type ex))]"

definition RedisObservation_DeepCopyInto :: "ext_types \<Rightarrow> copier" where
  "RedisObservation_DeepCopyInto ex = structInto
     [(''RedisSettings'', ex_into ex ''RawExtension''),
      (''NodeStates'', sliceCopy NodeState_type),
      (''Notifications'', sliceInto (Notification_type ex) (Notification_DeepCopyInto ex))]"

definition RedisObservation_DeepCopy :: "ext_types \<Rightarrow> copier" where
  "RedisObservation_DeepCopy ex = deepCopy (RedisObservation_type ex) (RedisObservation_DeepCopyInto ex)"

definition RedisStatus_type :: "ext_types \<Rightarrow> gtype" where
  "RedisStatus_type ex = StructT
     [(''ResourceStatus'', ex_type ex ''ResourceStatus''),
      (''AtProvider'', RedisObservation_type ex)]"

definition RedisStatus_DeepCopyInto :: "ext_types \<Rightarrow> copier" where
  "RedisStatus_DeepCopyInto ex = structInto
     [(''ResourceStatus'', ex_into ex ''ResourceStatus''),
      (''AtProvider'', RedisObservation_DeepCopyInto ex)]"

definition RedisStatus_DeepCopy :: "ext_types \<Rightarrow> copier" where
  "RedisStatus_DeepCopy ex = deepCopy (RedisStatus_type ex) (RedisStatus_DeepCopyInto ex)"

definition Redis_type :: "ext_types \<Rightarrow> gtype" where
  "Redis_type ex = StructT
     [(''TypeMeta'', ex_type ex ''TypeMeta''),
      (''ObjectMeta'', ex_type ex ''ObjectMeta''),
      (''Spec'', RedisSpec_type ex),
      (''Status'', RedisStatus_type ex)]"

definition Redis_DeepCopyInto :: "ext_types \<Rightarrow> copier" where
  "Redis_DeepCopyInto ex = structInto
     [(''TypeMeta'', assign),
      (''ObjectMeta'', ex_into ex ''ObjectMeta''),
      (''Spec'', RedisSpec_DeepCopyInto ex),
      (''Status'', RedisStatus_DeepCopyInto ex)]"

definition Redis_DeepCopy :: "ext_types \<Rightarrow> copier" where
  "Redis_DeepCopy ex = deepCopy (Redis_type ex) (Redis_DeepCopyInto ex)"

definition Redis_DeepCopyObject :: "ext_types \<Rightarrow> gval \<Rightarrow> store \<Rightarrow> ((string \<times> addr \<times> nat) option \<times> store) option" where
  "Redis_DeepCopyObject ex = deepCopyObject ''Redis'' (Redis_DeepCopy ex)"

definition RedisList_type :: "ext_types \<Rightarrow> gtype" where
  "RedisList_type ex = StructT
     [(''TypeMeta'', ex_type ex ''TypeMeta''),
      (''ListMeta'', ex_type ex ''ListMeta''),
      (''Items'', SliceT (Redis_type ex))]"

definition RedisList_DeepCopyInto :: "ext_types \<Rightarrow> copier" where
  "RedisList_DeepCopyInto ex = structInto
     [(''TypeMeta'', assign),
      (''ListMeta'', ex_into ex ''ListMeta''),
      (''Items'', sliceInto (Redis_type ex) (Redis_DeepCopyInto ex))]"

definition RedisList_DeepCopy :: "ext_types \<Rightarrow> copier" where
  "RedisList_DeepCopy ex = deepCopy (RedisList_type ex) (RedisList_DeepCopyInto ex)"

definition RedisList_DeepCopyObject :: "ext_types \<Rightarrow> gval \<Rightarrow> store \<Rightarrow> ((string \<times> addr \<times> nat) option \<times> store) option" where
  "RedisList_DeepCopyObject ex = deepCopyObject ''RedisList'' (RedisList_DeepCopy ex)"

section \<open>Provider configs\<close>

definition ProviderCredentials_type :: "ext_types \<Rightarrow> gtype" where
  "ProviderCredentials_type ex = StructT
     [(''Source'', ScalarT),
      (''APISecretRef'', ex_type ex ''SecretReference''),
      (''CommonCredentialSelectors'', ex_type ex ''CommonCredentialSelectors'')]"

definition ProviderCredentials_DeepCopyInto :: "ext_types \<Rightarrow> copier" where
  "ProviderCredentials_DeepCopyInto ex = structInto
     [(''APISecretRef'', assign),
      (''CommonCredentialSelectors'', ex_into ex ''CommonCredentialSelectors'')]"

definition ProviderCredentials_DeepCopy :: "ext_types \<Rightarrow> copier" where
  "ProviderCredentials_DeepCopy ex = deepCopy (ProviderCredentials_type ex) (ProviderCredentials_DeepCopyInto ex)"

definition ProviderConfigSpec_type :: "ext_types \<Rightarrow> gtype" where
  "ProviderConfigSpec_type ex = StructT [(''Credentials'', ProviderCredentials_type ex)]"

definition ProviderConfigSpec_DeepCopyInto :: "ext_types \<Rightarrow> copier" where
  "ProviderConfigSpec_DeepCopyInto ex = structInto [(''Credentials'', ProviderCredentials_DeepCopyInto ex)]"

definition ProviderConfigSpec_DeepCopy :: "ext_types \<Rightarrow> copier" where
  "ProviderConfigSpec_DeepCopy ex = deepCopy (ProviderConfigSpec_type ex) (ProviderConfigSpec_DeepCopyInto ex)"

definition ProviderConfigStatus_type :: "ext_types \<Rightarrow> gtype" where
  "ProviderConfigStatus_type ex = StructT [(''ProviderConfigStatus'', ex_type ex ''ProviderConfigStatus'')]"

definition ProviderConfigStatus_DeepCopyInto :: "ext_types \<Rightarrow> copier" where
  "ProviderConfigStatus_DeepCopyInto ex = structInto [(''ProviderConfigStatus'', ex_into ex ''ProviderConfigStatus'')]"

definition ProviderConfigStatus_DeepCopy :: "ext_types \<Rightarrow> copier" where
  "ProviderConfigStatus_DeepCopy ex = deepCopy (ProviderConfigStatus_type ex) (ProviderConfigStatus_DeepCopyInto ex)"

definition ProviderConfig_type :: "ext_types \<Rightarrow> gtype" where
  "ProviderConfig_type ex = StructT
     [(''TypeMeta'', ex_type ex ''TypeMeta''),
      (''ObjectMeta'', ex_type ex ''ObjectMeta''),
      (''Spec'', ProviderConfigSpec_type ex),
      (''Status'', ProviderConfigStatus_type ex)]"

definition ProviderConfig_DeepCopyInto :: "ext_types \<Rightarrow> copier" where
  "ProviderConfig_DeepCopyInto ex = structInto
     [(''TypeMeta'', assign),
      (''ObjectMeta'', ex_into ex ''ObjectMeta''),
      (''Spec'', ProviderConfigSpec_DeepCopyInto ex),
      (''Status'', ProviderConfigStatus_DeepCopyInto ex)]"

definition ProviderConfig_DeepCopy :: "ext_types \<Rightarrow> copier" where
  "ProviderConfig_DeepCopy ex = deepCopy (ProviderConfig_type ex) (ProviderConfig_DeepCopyInto ex)"

definition ProviderConfig_DeepCopyObject :: "ext_types \<Rightarrow> gval \<Rightarrow> store \<Rightarrow> ((string \<times> addr \<times> nat) option \<times> store) option" where
  "ProviderConfig_DeepCopyObject ex = deepCopyObject ''ProviderConfig'' (ProviderConfig_DeepCopy ex)"

definition ProviderConfigList_type :: "ext_types \<Rightarrow> gtype" where
  "ProviderConfigList_type ex = StructT
     [(''TypeMeta'', ex_type ex ''TypeMeta''),
      (''ListMeta'', ex_type ex ''ListMeta''),
      (''Items'', SliceT (ProviderConfig_type ex))]"

definition ProviderConfigList_DeepCopyInto :: "ext_types \<Rightarrow> copier" where
  "ProviderConfigList_DeepCopyInto ex = structInto
     [(''TypeMeta'', assign),
      (''ListMeta'', ex_into ex ''ListMeta''),
      (''Items'', sliceInto (ProviderConfig_type ex) (ProviderConfig_DeepCopyInto ex))]"

definition ProviderConfigList_DeepCopy :: "ext_types \<Rightarrow> copier" where
  "ProviderConfigList_DeepCopy ex = deepCopy (ProviderConfigList_type ex) (ProviderConfigList_DeepCopyInto ex)"

definition ProviderConfigList_DeepCopyObject :: "ext_types \<Rightarrow> gval \<Rightarrow> store \<Rightarrow> ((string \<times> addr \<times> nat) option \<times> store) option" where
  "ProviderConfigList_DeepCopyObject ex = deepCopyObject ''ProviderConfigList'' (ProviderConfigList_DeepCopy ex)"

definition ProviderConfigUsage_type :: "ext_types \<Rightarrow> gtype" where
  "ProviderConfigUsage_type ex = StructT
     [(''TypeMeta'', ex_type ex ''TypeMeta''),
      (''ObjectMeta'', ex_type ex ''ObjectMeta''),
      (''ProviderConfigUsage'', ex_type ex ''ProviderConfigUsage'')]"

definition ProviderConfigUsage_DeepCopyInto :: "ext_types \<Rightarrow> copier" where
  "ProviderConfigUsage_DeepCopyInto ex = structInto
     [(''TypeMeta'', assign),
      (''ObjectMeta'', ex_into ex ''ObjectMeta''),
      (''ProviderConfigUsage'', ex_into ex ''ProviderConfigUsage'')]"

definition ProviderConfigUsage_DeepCopy :: "ext_types \<Rightarrow> copier" where
  "ProviderConfigUsage_DeepCopy ex = deepCopy (ProviderConfigUsage_type ex) (ProviderConfigUsage_DeepCopyInto ex)"

definition ProviderConfigUsage_DeepCopyObject :: "ext_types \<Rightarrow> gval \<Rightarrow> store \<Rightarrow> ((string \<times> addr \<times> nat) option \<times> store) option" where
  "ProviderConfigUsage_DeepCopyObject ex = deepCopyObject ''ProviderConfigUsage'' (ProviderConfigUsage_DeepCopy ex)"

definition ProviderConfigUsageList_type :: "ext_types \<Rightarrow> gtype" where
  "ProviderConfigUsageList_type ex = StructT
     [(''TypeMeta'', ex_type ex ''TypeMeta''),
      (''ListMeta'', ex_type ex ''ListMeta''),
      (''Items'', SliceT (ProviderConfigUsage_type ex))]"

definition ProviderConfigUsageList_DeepCopyInto :: "ext_types \<Rightarrow> copier" where
  "ProviderConfigUsageList_DeepCopyInto ex = structInto
     [(''TypeMeta'', assign),
      (''ListMeta'', ex_into ex ''ListMeta''),
      (''Items'', sliceInto (ProviderConfigUsage_type ex) (ProviderConfigUsage_DeepCopyInto ex))]"

definition ProviderConfigUsageList_DeepCopy :: "ext_types \<Rightarrow> copier" where
  "ProviderConfigUsageList_DeepCopy ex = deepCopy (ProviderConfigUsageList_type ex) (ProviderConfigUsageList_DeepCopyInto ex)"

definition ProviderConfigUsageList_DeepCopyObject :: "ext_types \<Rightarrow> gval \<Rightarrow> store \<Rightarrow> ((string \<times> addr \<times> nat) option \<times> store) option" where
  "ProviderConfigUsageList_DeepCopyObject ex = deepCopyObject ''ProviderConfigUsageList'' (ProviderConfigUsageList_DeepCopy ex)"

section \<open>Every copy is deep\<close>

named_theorems deep_copies \<open>deep copies, layer by layer\<close>

lemmas [deep_copies] = deepCopies_struct deepCopies_sliceCopy deepCopies_sliceInto deepCopies_assign

lemma ext_copies [deep_copies]:
  assumes "ext_law ex"
  shows "deepCopies (ex_type ex ''RawExtension'') (ex_into ex ''RawExtension'')"
    "deepCopies (ex_type ex ''ObjectMeta'') (ex_into ex ''ObjectMeta'')"
    "deepCopies (ex_type ex ''ListMeta'') (ex_into ex ''ListMeta'')"
    "deepCopies (ex_type ex ''ResourceSpec'') (ex_into ex ''ResourceSpec'')"
    "deepCopies (ex_type ex ''ResourceStatus'') (ex_into ex ''ResourceStatus'')"
    "deepCopies (ex_type ex ''ProviderConfigStatus'') (ex_into ex ''ProviderConfigStatus'')"
    "deepCopies (ex_type ex ''ProviderConfigUsage'') (ex_into ex ''ProviderConfigUsage'')"
    "deepCopies (ex_type ex ''CommonCredentialSelectors'') (ex_into ex ''CommonCredentialSelectors'')"
    "flat (ex_type ex ''TypeMeta'')" "flat (ex_type ex ''SecretReference'')"
  using assms by (simp_all add: ext_law_def copiedTypes_def)

text \<open>Structs that are assigned as a whole.\<close>

lemma flat_types [deep_copies]:
  "flat BackupSpec_type" "flat MaintenanceSpec_type" "flat SizeSpec_type" "flat NodeState_type" "flat BucketParameters_type" "flat BucketObservation_type"
  by (simp_all add: BackupSpec_type_def MaintenanceSpec_type_def SizeSpec_type_def NodeState_type_def BucketParameters_type_def BucketObservation_type_def)

lemma layer1 [deep_copies]:
  assumes "ext_law ex"
  shows "deepCopies BackupSpec_type BackupSpec_DeepCopyInto"
    "deepCopies MaintenanceSpec_type MaintenanceSpec_DeepCopyInto"
    "deepCopies SizeSpec_type SizeSpec_DeepCopyInto"
    "deepCopies NodeState_type NodeState_DeepCopyInto"
    "deepCopies (Notification_type ex) (Notification_DeepCopyInto ex)"
    "deepCopies BucketParameters_type BucketParameters_DeepCopyInto"
    "deepCopies BucketObservation_type BucketObservation_DeepCopyInto"
    "deepCopies SOSSpec_type SOSSpec_DeepCopyInto"
    "deepCopies (ProviderCredentials_type ex) (ProviderCredentials_DeepCopyInto ex)"
    "deepCopies (ProviderConfigStatus_type ex) (ProviderConfigStatus_DeepCopyInto ex)"
    "deepCopies (ProviderConfigUsage_type ex) (ProviderConfigUsage_DeepCopyInto ex)"
  using assms
  by (simp_all add: structOk_def deep_copies BackupSpec_type_def BackupSpec_DeepCopyInto_def MaintenanceSpec_type_def MaintenanceSpec_DeepCopyInto_def SizeSpec_type_def SizeSpec_DeepCopyInto_def NodeState_type_def NodeState_DeepCopyInto_def Notification_type_def Notification_DeepCopyInto_def BucketParameters_type_def BucketParameters_DeepCopyInto_def BucketObservation_type_def BucketObservation_DeepCopyInto_def SOSSpec_type_def SOSSpec_DeepCopyInto_def ProviderCredentials_type_def ProviderCredentials_DeepCopyInto_def ProviderConfigStatus_type_def ProviderConfigStatus_DeepCopyInto_def ProviderConfigUsage_type_def ProviderConfigUsage_DeepCopyInto_def)

lemma layer2 [deep_copies]:
  assumes "ext_law ex"
  shows "deepCopies DBaaSParameters_type DBaaSParameters_DeepCopyInto"
    "deepCopies (BucketSpec_type ex) (BucketSpec_DeepCopyInto ex)"
    "deepCopies (BucketStatus_type ex) (BucketStatus_DeepCopyInto ex)"
    "deepCopies ServicesSpec_type ServicesSpec_DeepCopyInto"
    "deepCopies (KafkaObservation_type ex) (KafkaObservation_DeepCopyInto ex)"
    "deepCopies (RedisObservation_type ex) (RedisObservation_DeepCopyInto ex)"
    "deepCopies (ProviderConfigSpec_type ex) (ProviderConfigSpec_DeepCopyInto ex)"
    "deepCopies (ProviderConfigUsageList_type ex) (ProviderConfigUsageList_DeepCopyInto ex)"
  using assms
  by (simp_all add: structOk_def deep_copies DBaaSParameters_type_def DBaaSParameters_DeepCopyInto_def BucketSpec_type_def BucketSpec_DeepCopyInto_def BucketStatus_type_def BucketStatus_DeepCopyInto_def ServicesSpec_type_def ServicesSpec_DeepCopyInto_def KafkaObservation_type_def KafkaObservation_DeepCopyInto_def RedisObservation_type_def RedisObservation_DeepCopyInto_def ProviderConfigSpec_type_def ProviderConfigSpec_DeepCopyInto_def ProviderConfigUsageList_type_def ProviderConfigUsageList_DeepCopyInto_def)

lemma layer3 [deep_copies]:
  assumes "ext_law ex"
  shows "deepCopies (Bucket_type ex) (Bucket_DeepCopyInto ex)"
    "deepCopies IAMKeyParameters_type IAMKeyParameters_DeepCopyInto"
    "deepCopies IAMKeyObservation_type IAMKeyObservation_DeepCopyInto"
    "deepCopies (KafkaParameters_type ex) (KafkaParameters_DeepCopyInto ex)"
    "deepCopies (KafkaStatus_type ex) (KafkaStatus_DeepCopyInto ex)"
    "deepCopies (MySQLParameters_type ex) (MySQLParameters_DeepCopyInto ex)"
    "deepCopies (MySQLObservation_type ex) (MySQLObservation_DeepCopyInto ex)"
    "deepCopies (OpenSearchParameters_type ex) (OpenSearchParameters_DeepCopyInto ex)"
    "deepCopies (OpenSearchObservation_type ex) (OpenSearchObservation_DeepCopyInto ex)"
    "deepCopies (PostgreSQLParameters_type ex) (PostgreSQLParameters_DeepCopyInto ex)"
    "deepCopies (PostgreSQLObservation_type ex) (PostgreSQLObservation_DeepCopyInto ex)"
    "deepCopies (RedisParameters_type ex) (RedisParameters_DeepCopyInto ex)"
    "deepCopies (RedisStatus_type ex) (RedisStatus_DeepCopyInto ex)"
    "deepCopies (ProviderConfig_type ex) (ProviderConfig_DeepCopyInto ex)"
  using assms
  by (simp_all add: structOk_def deep_copies Bucket_type_def Bucket_DeepCopyInto_def IAMKeyParameters_type_def IAMKeyParameters_DeepCopyInto_def IAMKeyObservation_type_def IAMKeyObservation_DeepCopyInto_def KafkaParameters_type_def KafkaParameters_DeepCopyInto_def KafkaStatus_type_def KafkaStatus_DeepCopyInto_def MySQLParameters_type_def MySQLParameters_DeepCopyInto_def MySQLObservation_type_def MySQLObservation_DeepCopyInto_def OpenSearchParameters_type_def OpenSearchParameters_DeepCopyInto_def OpenSearchObservation_type_def OpenSearchObservation_DeepCopyInto_def PostgreSQLParameters_type_def PostgreSQLParameters_DeepCopyInto_def PostgreSQLObservation_type_def PostgreSQLObservation_DeepCopyInto_def RedisParameters_type_def RedisParameters_DeepCopyInto_def RedisStatus_type_def RedisStatus_DeepCopyInto_def ProviderConfig_type_def ProviderConfig_DeepCopyInto_def)

lemma layer4 [deep_copies]:
  assumes "ext_law ex"
  shows "deepCopies (BucketList_type ex) (BucketList_DeepCopyInto ex)"
    "deepCopies (IAMKeySpec_type ex) (IAMKeySpec_DeepCopyInto ex)"
    "deepCopies (IAMKeyStatus_type ex) (IAMKeyStatus_DeepCopyInto ex)"
    "deepCopies (KafkaSpec_type ex) (KafkaSpec_DeepCopyInto ex)"
    "deepCopies (MySQLSpec_type ex) (MySQLSpec_DeepCopyInto ex)"
    "deepCopies (MySQLStatus_type ex) (MySQLStatus_DeepCopyInto ex)"
    "deepCopies (OpenSearchSpec_type ex) (OpenSearchSpec_DeepCopyInto ex)"
    "deepCopies (OpenSearchStatus_type ex) (OpenSearchStatus_DeepCopyInto ex)"
    "deepCopies (PostgreSQLSpec_type ex) (PostgreSQLSpec_DeepCopyInto ex)"
    "deepCopies (PostgreSQLStatus_type ex) (PostgreSQLStatus_DeepCopyInto ex)"
    "deepCopies (RedisSpec_type ex) (RedisSpec_DeepCopyInto ex)"
    "deepCopies (ProviderConfigList_type ex) (ProviderConfigList_DeepCopyInto ex)"
  using assms
  by (simp_all add: structOk_def deep_copies BucketList_type_def BucketList_DeepCopyInto_def IAMKeySpec_type_def IAMKeySpec_DeepCopyInto_def IAMKeyStatus_type_def IAMKeyStatus_DeepCopyInto_def KafkaSpec_type_def KafkaSpec_DeepCopyInto_def MySQLSpec_type_def MySQLSpec_DeepCopyInto_def MySQLStatus_type_def MySQLStatus_DeepCopyInto_def OpenSearchSpec_type_def OpenSearchSpec_DeepCopyInto_def OpenSearchStatus_type_def OpenSearchStatus_DeepCopyInto_def PostgreSQLSpec_type_def PostgreSQLSpec_DeepCopyInto_def PostgreSQLStatus_type_def PostgreSQLStatus_DeepCopyInto_def RedisSpec_type_def RedisSpec_DeepCopyInto_def ProviderConfigList_type_def ProviderConfigList_DeepCopyInto_def)

lemma layer5 [deep_copies]:
  assumes "ext_law ex"
  shows "deepCopies (IAMKey_type ex) (IAMKey_DeepCopyInto ex)"
    "deepCopies (Kafka_type ex) (Kafka_DeepCopyInto ex)"
    "deepCopies (MySQL_type ex) (MySQL_DeepCopyInto ex)"
    "deepCopies (OpenSearch_type ex) (OpenSearch_DeepCopyInto ex)"
    "deepCopies (PostgreSQL_type ex) (PostgreSQL_DeepCopyInto ex)"
    "deepCopies (Redis_type ex) (Redis_DeepCopyInto ex)"
  using assms
  by (simp_all add: structOk_def deep_copies IAMKey_type_def IAMKey_DeepCopyInto_def Kafka_type_def Kafka_DeepCopyInto_def MySQL_type_def MySQL_DeepCopyInto_def OpenSearch_type_def OpenSearch_DeepCopyInto_def PostgreSQL_type_def PostgreSQL_DeepCopyInto_def Redis_type_def Redis_DeepCopyInto_def)

lemma layer6 [deep_copies]:
  assumes "ext_law ex"
  shows "deepCopies (IAMKeyList_type ex) (IAMKeyList_DeepCopyInto ex)"
    "deepCopies (KafkaList_type ex) (KafkaList_DeepCopyInto ex)"
    "deepCopies (MySQLList_type ex) (MySQLList_DeepCopyInto ex)"
    "deepCopies (OpenSearchList_type ex) (OpenSearchList_DeepCopyInto ex)"
    "deepCopies (PostgreSQLList_type ex) (PostgreSQLList_DeepCopyInto ex)"
    "deepCopies (RedisList_type ex) (RedisList_DeepCopyInto ex)"
  using assms
  by (simp_all add: structOk_def deep_copies IAMKeyList_type_def IAMKeyList_DeepCopyInto_def KafkaList_type_def KafkaList_DeepCopyInto_def MySQLList_type_def MySQLList_DeepCopyInto_def OpenSearchList_type_def OpenSearchList_DeepCopyInto_def PostgreSQLList_type_def PostgreSQLList_DeepCopyInto_def RedisList_type_def RedisList_DeepCopyInto_def)

section \<open>Properties\<close>

text \<open>All structs with their \<^verbatim>\<open>DeepCopy\<close>.\<close>

definition apiTypes :: "ext_types \<Rightarrow> (string \<times> gtype \<times> copier) list" where
  "apiTypes ex =
     [(''BackupSpec'', BackupSpec_type, BackupSpec_DeepCopy),
      (''MaintenanceSpec'', MaintenanceSpec_type, MaintenanceSpec_DeepCopy),
      (''SizeSpec'', SizeSpec_type, SizeSpec_DeepCopy),
      (''DBaaSParameters'', DBaaSParameters_type, DBaaSParameters_DeepCopy),
      (''NodeState'', NodeState_type, NodeState_DeepCopy),
      (''Notification'', Notification_type ex, Notification_DeepCopy ex),
      (''BucketParameters'', BucketParameters_type, BucketParameters_DeepCopy),
      (''BucketSpec'', BucketSpec_type ex, BucketSpec_DeepCopy ex),
      (''BucketObservation'', BucketObservation_type, BucketObservation_DeepCopy),
      (''BucketStatus'', BucketStatus_type ex, BucketStatus_DeepCopy ex),
      (''Bucket'', Bucket_type ex, Bucket_DeepCopy ex),
      (''BucketList'', BucketList_type ex, BucketList_DeepCopy ex),
      (''SOSSpec'', SOSSpec_type, SOSSpec_DeepCopy),
      (''ServicesSpec'', ServicesSpec_type, ServicesSpec_DeepCopy),
      (''IAMKeyParameters'', IAMKeyParameters_type, IAMKeyParameters_DeepCopy),
      (''IAMKeySpec'', IAMKeySpec_type ex, IAMKeySpec_DeepCopy ex),
      (''IAMKeyObservation'', IAMKeyObservation_type, IAMKeyObservation_DeepCopy),
      (''IAMKeyStatus'', IAMKeyStatus_type ex, IAMKeyStatus_DeepCopy ex),
      (''IAMKey'', IAMKey_type ex, IAMKey_DeepCopy ex),
      (''IAMKeyList'', IAMKeyList_type ex, IAMKeyList_DeepCopy ex),
      (''KafkaParameters'', KafkaParameters_type ex, KafkaParameters_DeepCopy ex),
      (''KafkaSpec'', KafkaSpec_type ex, KafkaSpec_DeepCopy ex),
      (''KafkaObservation'', KafkaObservation_type ex, KafkaObservation_DeepCopy ex),
      (''KafkaStatus'', KafkaStatus_type ex, KafkaStatus_DeepCopy ex),
      (''Kafka'', Kafka_type ex, Kafka_DeepCopy ex),
      (''KafkaList'', KafkaList_type ex, KafkaList_DeepCopy ex),
      (''MySQLParameters'', MySQLParameters_type ex, MySQLParameters_DeepCopy ex),
      (''MySQLSpec'', MySQLSpec_type ex, MySQLSpec_DeepCopy ex),
      (''MySQLObservation'', MySQLObservation_type ex, MySQLObservation_DeepCopy ex),
      (''MySQLStatus'', MySQLStatus_type ex, MySQLStatus_DeepCopy ex),
      (''MySQL'', MySQL_type ex, MySQL_DeepCopy ex),
      (''MySQLList'', MySQLList_type ex, MySQLList_DeepCopy ex),
      (''OpenSearchParameters'', OpenSearchParameters_type ex, OpenSearchParameters_DeepCopy ex),
      (''OpenSearchSpec'', OpenSearchSpec_type ex, OpenSearchSpec_DeepCopy ex),
      (''OpenSearchObservation'', OpenSearchObservation_type ex, OpenSearchObservation_DeepCopy ex),
      (''OpenSearchStatus'', OpenSearchStatus_type ex, OpenSearchStatus_DeepCopy ex),
      (''OpenSearch'', OpenSearch_type ex, OpenSearch_DeepCopy ex),
      (''OpenSearchList'', OpenSearchList_type ex, OpenSearchList_DeepCopy ex),
      (''PostgreSQLParameters'', PostgreSQLParameters_type ex, PostgreSQLParameters_DeepCopy ex),
      (''PostgreSQLSpec'', PostgreSQLSpec_type ex, PostgreSQLSpec_DeepCopy ex),
      (''PostgreSQLObservation'', PostgreSQLObservation_type ex, PostgreSQLObservation_DeepCopy ex),
      (''PostgreSQLStatus'', PostgreSQLStatus_type ex, PostgreSQLStatus_DeepCopy ex),
      (''PostgreSQL'', PostgreSQL_type ex, PostgreSQL_DeepCopy ex),
      (''PostgreSQLList'', PostgreSQLList_type ex, PostgreSQLList_DeepCopy ex),
      (''RedisParameters'', RedisParameters_type ex, RedisParameters_DeepCopy ex),
      (''RedisSpec'', RedisSpec_type ex, RedisSpec_DeepCopy ex),
      (''RedisObservation'', RedisObservation_type ex, RedisObservation_DeepCopy ex),
      (''RedisStatus'', RedisStatus_type ex, RedisStatus_DeepCopy ex),
      (''Redis'', Redis_type ex, Redis_DeepCopy ex),
      (''RedisList'', RedisList_type ex, RedisList_DeepCopy ex),
      (''ProviderCredentials'', ProviderCredentials_type ex, ProviderCredentials_DeepCopy ex),
      (''ProviderConfigSpec'', ProviderConfigSpec_type ex, ProviderConfigSpec_DeepCopy ex),
      (''ProviderConfigStatus'', ProviderConfigStatus_type ex, ProviderConfigStatus_DeepCopy ex),
      (''ProviderConfig'', ProviderConfig_type ex, ProviderConfig_DeepCopy ex),
      (''ProviderConfigList'', ProviderConfigList_type ex, ProviderConfigList_DeepCopy ex),
      (''ProviderConfigUsage'', ProviderConfigUsage_type ex, ProviderConfigUsage_DeepCopy ex),
      (''ProviderConfigUsageList'', ProviderConfigUsageList_type ex, ProviderConfigUsageList_DeepCopy ex)]"

lemmas copy_defs =
  BackupSpec_DeepCopy_def
  MaintenanceSpec_DeepCopy_def
  SizeSpec_DeepCopy_def
  DBaaSParameters_DeepCopy_def
  NodeState_DeepCopy_def
  Notification_DeepCopy_def
  BucketParameters_DeepCopy_def
  BucketSpec_DeepCopy_def
  BucketObservation_DeepCopy_def
  BucketStatus_DeepCopy_def
  Bucket_DeepCopy_def
  BucketList_DeepCopy_def
  SOSSpec_DeepCopy_def
  ServicesSpec_DeepCopy_def
  IAMKeyParameters_DeepCopy_def
  IAMKeySpec_DeepCopy_def
  IAMKeyObservation_DeepCopy_def
  IAMKeyStatus_DeepCopy_def
  IAMKey_DeepCopy_def
  IAMKeyList_DeepCopy_def
  KafkaParameters_DeepCopy_def
  KafkaSpec_DeepCopy_def
  KafkaObservation_DeepCopy_def
  KafkaStatus_DeepCopy_def
  Kafka_DeepCopy_def
  KafkaList_DeepCopy_def
  MySQLParameters_DeepCopy_def
  MySQLSpec_DeepCopy_def
  MySQLObservation_DeepCopy_def
  MySQLStatus_DeepCopy_def
  MySQL_DeepCopy_def
  MySQLList_DeepCopy_def
  OpenSearchParameters_DeepCopy_def
  OpenSearchSpec_DeepCopy_def
  OpenSearchObservation_DeepCopy_def
  OpenSearchStatus_DeepCopy_def
  OpenSearch_DeepCopy_def
  OpenSearchList_DeepCopy_def
  PostgreSQLParameters_DeepCopy_def
  PostgreSQLSpec_DeepCopy_def
  PostgreSQLObservation_DeepCopy_def
  PostgreSQLStatus_DeepCopy_def
  PostgreSQL_DeepCopy_def
  PostgreSQLList_DeepCopy_def
  RedisParameters_DeepCopy_def
  RedisSpec_DeepCopy_def
  RedisObservation_DeepCopy_def
  RedisStatus_DeepCopy_def
  Redis_DeepCopy_def
  RedisList_DeepCopy_def
  ProviderCredentials_DeepCopy_def
  ProviderConfigSpec_DeepCopy_def
  ProviderConfigStatus_DeepCopy_def
  ProviderConfig_DeepCopy_def
  ProviderConfigList_DeepCopy_def
  ProviderConfigUsage_DeepCopy_def
  ProviderConfigUsageList_DeepCopy_def

lemma apiTypes_deep:
  assumes "ext_law ex"
  shows "list_all (\<lambda>(name, ty, copy). deepCopies (PointerT ty) copy) (apiTypes ex)"
  using assms by (simp add: apiTypes_def copy_defs deepCopies_deepCopy deep_copies)

text \<open>
  C14: A deep copy of any of the API types shares nothing with its original. For every struct of the two API packages and
  every pointer to a well-formed value, \<^verbatim>\<open>DeepCopy\<close> returns a pointer to the same value (nil for nil) and changes
  nothing that was there; afterwards, whatever is written into memory that is reachable from the copy leaves the original
  as it was, and whatever is written into memory reachable from the original leaves the copy as it was. So code that
  works on a copy, as the controllers do to fill in defaults, never changes the object it was given.
\<close>

theorem api_types_isolated:
  assumes "ext_law ex" "(name, ty, copy) \<in> set (apiTypes ex)" "readGo st (PointerT ty) v = Some (t, as)"
  shows "\<exists>v' st' as'. copy v st = Some (v', st') \<and> readGo st' (PointerT ty) v' = Some (t, as') \<and> readGo st' (PointerT ty) v = Some (t, as) \<and>
    (\<forall>a block. a \<in> set as' \<longrightarrow> readGo (st'[a := block]) (PointerT ty) v = Some (t, as)) \<and>
    (\<forall>a block. a \<in> set as \<longrightarrow> readGo (st'[a := block]) (PointerT ty) v' = Some (t, as'))"
proof (rule deepCopies_isolated [OF _ assms(3)])
  show "deepCopies (PointerT ty) copy"
    using apiTypes_deep [OF assms(1)] assms(2) by (auto simp: list_all_iff)
qed

text \<open>Other packages in a small: raw settings are bytes behind a slice, everything else is a string.\<close>

definition sampleExt :: ext_types where
  "sampleExt =
     \<lparr>ex_type = (\<lambda>n. if n = ''RawExtension'' then StructT [(''Raw'', SliceT ScalarT)] else ScalarT),
      ex_into = (\<lambda>n. if n = ''RawExtension'' then structInto [(''Raw'', sliceCopy ScalarT)] else assign)\<rparr>"

lemma sampleExt_law: "ext_law sampleExt"
  by (simp add: ext_law_def copiedTypes_def sampleExt_def deep_copies structOk_def)

text \<open>A Redis spec with one IP filter and two bytes of settings, in a store of three blocks.\<close>

definition sampleParameters :: gval where
  "sampleParameters = Struct
     [(''Maintenance'', Struct [(''DayOfWeek'', Scalar ''monday''), (''TimeOfDay'', Scalar ''12:00:00'')]),
      (''Zone'', Scalar ''ch-dk-2''),
      (''DBaaSParameters'', Struct [(''TerminationProtection'', Scalar ''true''), (''Size'', Struct [(''Plan'', Scalar ''hobbyist-2'')]),
         (''IPFilter'', Slice (Some (0, 0, 1)))]),
      (''RedisSettings'', Struct [(''Raw'', Slice (Some (1, 1, 2)))])]"

definition sampleStore :: store where
  "sampleStore = [[Scalar ''0.0.0.0/0''], [Scalar ''x'', Scalar ''{'', Scalar ''}''], [sampleParameters]]"

theorem api_types_isolated_witness:
  "\<exists>t v' st'. readGo sampleStore (PointerT (RedisParameters_type sampleExt)) (Pointer (Some (2, 0))) = Some (t, [2, 0, 1]) \<and>
     RedisParameters_DeepCopy sampleExt (Pointer (Some (2, 0))) sampleStore = Some (v', st') \<and>
     readGo (st'[0 := []]) (PointerT (RedisParameters_type sampleExt)) v' =
       readGo st' (PointerT (RedisParameters_type sampleExt)) v'"
proof -
  let ?ty = "RedisParameters_type sampleExt"
  obtain t where read: "readGo sampleStore (PointerT ?ty) (Pointer (Some (2, 0))) = Some (t, [2, 0, 1])"
    by (simp add: sampleStore_def sampleParameters_def RedisParameters_type_def MaintenanceSpec_type_def DBaaSParameters_type_def
        SizeSpec_type_def sampleExt_def window_def)
  have "(''RedisParameters'', ?ty, RedisParameters_DeepCopy sampleExt) \<in> set (apiTypes sampleExt)"
    by (simp add: apiTypes_def)
  then obtain v' st' as' where "RedisParameters_DeepCopy sampleExt (Pointer (Some (2, 0))) sampleStore = Some (v', st')"
    "readGo st' (PointerT ?ty) v' = Some (t, as')"
    "\<forall>a block. a \<in> set [2, 0, 1] \<longrightarrow> readGo (st'[a := block]) (PointerT ?ty) v' = Some (t, as')"
    using api_types_isolated [OF sampleExt_law _ read] by blast
  then show ?thesis using read by (intro exI [of _ t] exI [of _ v'] exI [of _ st']) simp
qed

text \<open>The objects, with \<^verbatim>\<open>DeepCopyObject\<close>.\<close>

definition apiObjects :: "ext_types \<Rightarrow> (string \<times> gtype \<times> (gval \<Rightarrow> store \<Rightarrow> ((string \<times> addr \<times> nat) option \<times> store) option)) list" where
  "apiObjects ex =
     [(''Bucket'', Bucket_type ex, Bucket_DeepCopyObject ex),
      (''BucketList'', BucketList_type ex, BucketList_DeepCopyObject ex),
      (''IAMKey'', IAMKey_type ex, IAMKey_DeepCopyObject ex),
      (''IAMKeyList'', IAMKeyList_type ex, IAMKeyList_DeepCopyObject ex),
      (''Kafka'', Kafka_type ex, Kafka_DeepCopyObject ex),
      (''KafkaList'', KafkaList_type ex, KafkaList_DeepCopyObject ex),
      (''MySQL'', MySQL_type ex, MySQL_DeepCopyObject ex),
      (''MySQLList'', MySQLList_type ex, MySQLList_DeepCopyObject ex),
      (''OpenSearch'', OpenSearch_type ex, OpenSearch_DeepCopyObject ex),
      (''OpenSearchList'', OpenSearchList_type ex, OpenSearchList_DeepCopyObject ex),
      (''PostgreSQL'', PostgreSQL_type ex, PostgreSQL_DeepCopyObject ex),
      (''PostgreSQLList'', PostgreSQLList_type ex, PostgreSQLList_DeepCopyObject ex),
      (''Redis'', Redis_type ex, Redis_DeepCopyObject ex),
      (''RedisList'', RedisList_type ex, RedisList_DeepCopyObject ex),
      (''ProviderConfig'', ProviderConfig_type ex, ProviderConfig_DeepCopyObject ex),
      (''ProviderConfigList'', ProviderConfigList_type ex, ProviderConfigList_DeepCopyObject ex),
      (''ProviderConfigUsage'', ProviderConfigUsage_type ex, ProviderConfigUsage_DeepCopyObject ex),
      (''ProviderConfigUsageList'', ProviderConfigUsageList_type ex, ProviderConfigUsageList_DeepCopyObject ex)]"

lemmas object_defs =
  Bucket_DeepCopyObject_def
  BucketList_DeepCopyObject_def
  IAMKey_DeepCopyObject_def
  IAMKeyList_DeepCopyObject_def
  Kafka_DeepCopyObject_def
  KafkaList_DeepCopyObject_def
  MySQL_DeepCopyObject_def
  MySQLList_DeepCopyObject_def
  OpenSearch_DeepCopyObject_def
  OpenSearchList_DeepCopyObject_def
  PostgreSQL_DeepCopyObject_def
  PostgreSQLList_DeepCopyObject_def
  Redis_DeepCopyObject_def
  RedisList_DeepCopyObject_def
  ProviderConfig_DeepCopyObject_def
  ProviderConfigList_DeepCopyObject_def
  ProviderConfigUsage_DeepCopyObject_def
  ProviderConfigUsageList_DeepCopyObject_def

definition copiesObject ::
  "string \<Rightarrow> gtype \<Rightarrow> (gval \<Rightarrow> store \<Rightarrow> ((string \<times> addr \<times> nat) option \<times> store) option) \<Rightarrow> bool" where
  "copiesObject kind ty obj \<longleftrightarrow> (\<forall>st. obj (Pointer None) st = Some (None, st)) \<and>
     (\<forall>st p t as. readGo st (PointerT ty) (Pointer (Some p)) = Some (t, as) \<longrightarrow>
       (\<exists>b i new as'. obj (Pointer (Some p)) st = Some (Some (kind, b, i), st @ new) \<and>
          readGo (st @ new) (PointerT ty) (Pointer (Some (b, i))) = Some (t, as') \<and> (\<forall>a\<in>set as'. length st \<le> a)))"

lemma copiesObject_deepCopyObject:
  assumes "deepCopies ty c"
  shows "copiesObject kind ty (deepCopyObject kind (deepCopy ty c))"
proof -
  have "\<exists>b i new as'. deepCopyObject kind (deepCopy ty c) (Pointer (Some p)) st = Some (Some (kind, b, i), st @ new) \<and>
      readGo (st @ new) (PointerT ty) (Pointer (Some (b, i))) = Some (t, as') \<and> (\<forall>a\<in>set as'. length st \<le> a)"
    if read: "readGo st (PointerT ty) (Pointer (Some p)) = Some (t, as)" for st p t as
  proof -
    obtain v' new as' where c: "deepCopy ty c (Pointer (Some p)) st = Some (v', st @ new)"
      "readGo (st @ new) (PointerT ty) v' = Some (t, as')" "\<forall>a\<in>set as'. length st \<le> a"
      by (rule deepCopiesE [OF deepCopies_deepCopy [OF assms] read])
    have "t \<noteq> Absent" using read by (cases rule: pointer_cases) auto
    then obtain b i where v': "v' = Pointer (Some (b, i))" using pointer_target [OF c(2)] by blast
    have "deepCopyObject kind (deepCopy ty c) (Pointer (Some p)) st = Some (Some (kind, b, i), st @ new)"
      using c(1) v' by (simp add: deepCopyObject_def)
    then show ?thesis using c(2,3) unfolding v' by blast
  qed
  moreover have "deepCopyObject kind (deepCopy ty c) (Pointer None) st = Some (None, st)" for st
    by (simp add: deepCopyObject_def deepCopy_def)
  ultimately show ?thesis unfolding copiesObject_def by blast
qed

lemma deepCopies_IPFilter: "deepCopies (SliceT ScalarT) IPFilter_DeepCopy"
proof (rule deepCopiesI)
  fix st v t as assume read: "readGo st (SliceT ScalarT) v = Some (t, as)"
  then show "\<exists>v' new as'. IPFilter_DeepCopy v st = Some (v', st @ new) \<and> readGo (st @ new) (SliceT ScalarT) v' = Some (t, as') \<and>
    (\<forall>a\<in>set as'. length st \<le> a)"
  proof (cases rule: slice_cases)
    case 1
    then show ?thesis by (auto simp: IPFilter_DeepCopy_def intro: exI [of _ "[]"])
  next
    case (2 a off len ts bs)
    let ?st = "st @ [[Slice None]]"
    have deep: "deepCopies (SliceT ScalarT) (sliceCopy ScalarT)" by (simp add: deepCopies_sliceCopy)
    obtain y new cs where y: "sliceCopy ScalarT v ?st = Some (y, ?st @ new)" "readGo (?st @ new) (SliceT ScalarT) y = Some (t, cs)"
      "\<forall>x\<in>set cs. length ?st \<le> x"
      by (rule deepCopiesE [OF deep read_append [OF read]])
    have "(?st @ new)[length st := [y]] = st @ [y] # new" by (simp add: list_update_append)
    moreover have "readGo (st @ [y] # new) (SliceT ScalarT) y = Some (t, cs)"
      by (rule read_frame(1) [OF y(2)]) (use y(3) read_bounds(1) [OF y(2)] in \<open>auto simp: nth_append\<close>)
    ultimately show ?thesis
      using 2(1) y(1,3) by (intro exI [of _ y] exI [of _ "[y] # new"])
        (auto simp: IPFilter_DeepCopy_def IPFilter_DeepCopyInto_def makeSlice_def)
  qed
qed

text \<open>
  C33: \<^verbatim>\<open>DeepCopyObject\<close> of every object and list of objects. A nil pointer becomes the nil interface, and not an interface
  that holds a nil pointer; any other pointer becomes an interface of the object's own kind that refers to a deep copy.
  The slice type \<^verbatim>\<open>IPFilter\<close> copies deeply too; only its \<^verbatim>\<open>DeepCopyInto\<close>, which the struct that holds it does not call,
  makes an empty slice of a nil one.
\<close>

theorem objects_copied:
  assumes "ext_law ex"
  shows "list_all (\<lambda>(kind, ty, obj). copiesObject kind ty obj) (apiObjects ex) \<and>
    deepCopies (SliceT ScalarT) IPFilter_DeepCopy \<and>
    IPFilter_DeepCopyInto (Slice None) st = Some (Slice (Some (length st, 0, 0)), st @ [[]])"
proof (intro conjI)
  show "list_all (\<lambda>(kind, ty, obj). copiesObject kind ty obj) (apiObjects ex)"
    using assms by (simp add: apiObjects_def object_defs copy_defs copiesObject_deepCopyObject deep_copies)
  show "deepCopies (SliceT ScalarT) IPFilter_DeepCopy" by (rule deepCopies_IPFilter)
  show "IPFilter_DeepCopyInto (Slice None) st = Some (Slice (Some (length st, 0, 0)), st @ [[]])"
    by (simp add: IPFilter_DeepCopyInto_def makeSlice_def)
qed

theorem objects_copied_witness:
  "list_all (\<lambda>(kind, ty, obj). copiesObject kind ty obj) (apiObjects sampleExt)"
  using objects_copied [OF sampleExt_law] by blast

end
