(* ===== verification/Accessors.thy ===== *)
theory Accessors
  imports GoStore
begin

text \<open>
  The generated methods by which crossplane sees the resources: \<^verbatim>\<open>zz_generated.managed.go\<close> and
  \<^verbatim>\<open>zz_generated.managedlist.go\<close> of \<^verbatim>\<open>apis/exoscale/v1\<close>, \<^verbatim>\<open>zz_generated.pc.go\<close>, \<^verbatim>\<open>zz_generated.pcu.go\<close> and
  \<^verbatim>\<open>zz_generated.pculist.go\<close> of \<^verbatim>\<open>apis/provider/v1\<close>. An object is a struct; a method reads or writes a field of it, by
  the path through the embedded structs. What the reconciler relies on, that the fields are independent variables, is
  a locale.
\<close>

section \<open>Fields of nested structs\<close>

fun getPath :: "string list \<Rightarrow> gval \<Rightarrow> gval option" where
  "getPath [] v = Some v"
| "getPath (f # fs) (Struct fvs) = (case map_of fvs f of None \<Rightarrow> None | Some v \<Rightarrow> getPath fs v)"
| "getPath (f # fs) v = None"

fun setPath :: "string list \<Rightarrow> gval \<Rightarrow> gval \<Rightarrow> gval option" where
  "setPath [] x v = Some x"
| "setPath (f # fs) x (Struct fvs) = (case map_of fvs f of
     None \<Rightarrow> None
   | Some v \<Rightarrow> map_option (\<lambda>v'. Struct (setField f v' fvs)) (setPath fs x v))"
| "setPath (f # fs) x v = None"

text \<open>Two paths that part at some field.\<close>

fun diverge :: "string list \<Rightarrow> string list \<Rightarrow> bool" where
  "diverge (f # fs) (g # gs) = (f \<noteq> g \<or> diverge fs gs)"
| "diverge _ _ = False"

section \<open>The methods\<close>

text \<open>
  The fields of a managed resource, all in the embedded \<^verbatim>\<open>ResourceSpec\<close> of its \<^verbatim>\<open>Spec\<close>. The conditions are kept by the
  embedded \<^verbatim>\<open>ResourceStatus\<close>, whose methods are parameters.
\<close>

datatype managedField = DeletionPolicy
  | ManagementPolicies
  | ProviderConfigReference
  | PublishConnectionDetailsTo
  | WriteConnectionSecretToReference

record cond_methods =
  cm_GetCondition :: "string \<Rightarrow> gval \<Rightarrow> gval"
  cm_SetConditions :: "gval list \<Rightarrow> gval \<Rightarrow> gval"

definition getConditionAt :: "string list \<Rightarrow> cond_methods \<Rightarrow> string \<Rightarrow> gval \<Rightarrow> gval option" where
  "getConditionAt path cm ct mg = map_option (cm_GetCondition cm ct) (getPath path mg)"

definition setConditionsAt :: "string list \<Rightarrow> cond_methods \<Rightarrow> gval list \<Rightarrow> gval \<Rightarrow> gval option" where
  "setConditionsAt path cm cs mg = (case getPath path mg of
     None \<Rightarrow> None
   | Some status \<Rightarrow> setPath path (cm_SetConditions cm cs status) mg)"

definition Bucket_GetCondition :: "cond_methods \<Rightarrow> string \<Rightarrow> gval \<Rightarrow> gval option" where
  "Bucket_GetCondition = getConditionAt [''Status'', ''ResourceStatus'']"

fun Bucket_Get :: "managedField \<Rightarrow> gval \<Rightarrow> gval option" where
  "Bucket_Get DeletionPolicy mg = getPath [''Spec'', ''ResourceSpec'', ''DeletionPolicy''] mg"
| "Bucket_Get ManagementPolicies mg = getPath [''Spec'', ''ResourceSpec'', ''ManagementPolicies''] mg"
| "Bucket_Get ProviderConfigReference mg = getPath [''Spec'', ''ResourceSpec'', ''ProviderConfigReference''] mg"
| "Bucket_Get PublishConnectionDetailsTo mg = getPath [''Spec'', ''ResourceSpec'', ''PublishConnectionDetailsTo''] mg"
| "Bucket_Get WriteConnectionSecretToReference mg = getPath [''Spec'', ''ResourceSpec'', ''WriteConnectionSecretToReference''] mg"

definition Bucket_SetConditions :: "cond_methods \<Rightarrow> gval list \<Rightarrow> gval \<Rightarrow> gval option" where
  "Bucket_SetConditions = setConditionsAt [''Status'', ''ResourceStatus'']"

fun Bucket_Set :: "managedField \<Rightarrow> gval \<Rightarrow> gval \<Rightarrow> gval option" where
  "Bucket_Set DeletionPolicy r mg = setPath [''Spec'', ''ResourceSpec'', ''DeletionPolicy''] r mg"
| "Bucket_Set ManagementPolicies r mg = setPath [''Spec'', ''ResourceSpec'', ''ManagementPolicies''] r mg"
| "Bucket_Set ProviderConfigReference r mg = setPath [''Spec'', ''ResourceSpec'', ''ProviderConfigReference''] r mg"
| "Bucket_Set PublishConnectionDetailsTo r mg = setPath [''Spec'', ''ResourceSpec'', ''PublishConnectionDetailsTo''] r mg"
| "Bucket_Set WriteConnectionSecretToReference r mg = setPath [''Spec'', ''ResourceSpec'', ''WriteConnectionSecretToReference''] r mg"

definition IAMKey_GetCondition :: "cond_methods \<Rightarrow> string \<Rightarrow> gval \<Rightarrow> gval option" where
  "IAMKey_GetCondition = getConditionAt [''Status'', ''ResourceStatus'']"

fun IAMKey_Get :: "managedField \<Rightarrow> gval \<Rightarrow> gval option" where
  "IAMKey_Get DeletionPolicy mg = getPath [''Spec'', ''ResourceSpec'', ''DeletionPolicy''] mg"
| "IAMKey_Get ManagementPolicies mg = getPath [''Spec'', ''ResourceSpec'', ''ManagementPolicies''] mg"
| "IAMKey_Get ProviderConfigReference mg = getPath [''Spec'', ''ResourceSpec'', ''ProviderConfigReference''] mg"
| "IAMKey_Get PublishConnectionDetailsTo mg = getPath [''Spec'', ''ResourceSpec'', ''PublishConnectionDetailsTo''] mg"
| "IAMKey_Get WriteConnectionSecretToReference mg = getPath [''Spec'', ''ResourceSpec'', ''WriteConnectionSecretToReference''] mg"

definition IAMKey_SetConditions :: "cond_methods \<Rightarrow> gval list \<Rightarrow> gval \<Rightarrow> gval option" where
  "IAMKey_SetConditions = setConditionsAt [''Status'', ''ResourceStatus'']"

fun IAMKey_Set :: "managedField \<Rightarrow> gval \<Rightarrow> gval \<Rightarrow> gval option" where
  "IAMKey_Set DeletionPolicy r mg = setPath [''Spec'', ''ResourceSpec'', ''DeletionPolicy''] r mg"
| "IAMKey_Set ManagementPolicies r mg = setPath [''Spec'', ''ResourceSpec'', ''ManagementPolicies''] r mg"
| "IAMKey_Set ProviderConfigReference r mg = setPath [''Spec'', ''ResourceSpec'', ''ProviderConfigReference''] r mg"
| "IAMKey_Set PublishConnectionDetailsTo r mg = setPath [''Spec'', ''ResourceSpec'', ''PublishConnectionDetailsTo''] r mg"
| "IAMKey_Set WriteConnectionSecretToReference r mg = setPath [''Spec'', ''ResourceSpec'', ''WriteConnectionSecretToReference''] r mg"

definition Kafka_GetCondition :: "cond_methods \<Rightarrow> string \<Rightarrow> gval \<Rightarrow> gval option" where
  "Kafka_GetCondition = getConditionAt [''Status'', ''ResourceStatus'']"

fun Kafka_Get :: "managedField \<Rightarrow> gval \<Rightarrow> gval option" where
  "Kafka_Get DeletionPolicy mg = getPath [''Spec'', ''ResourceSpec'', ''DeletionPolicy''] mg"
| "Kafka_Get ManagementPolicies mg = getPath [''Spec'', ''ResourceSpec'', ''ManagementPolicies''] mg"
| "Kafka_Get ProviderConfigReference mg = getPath [''Spec'', ''ResourceSpec'', ''ProviderConfigReference''] mg"
| "Kafka_Get PublishConnectionDetailsTo mg = getPath [''Spec'', ''ResourceSpec'', ''PublishConnectionDetailsTo''] mg"
| "Kafka_Get WriteConnectionSecretToReference mg = getPath [''Spec'', ''ResourceSpec'', ''WriteConnectionSecretToReference''] mg"

definition Kafka_SetConditions :: "cond_methods \<Rightarrow> gval list \<Rightarrow> gval \<Rightarrow> gval option" where
  "Kafka_SetConditions = setConditionsAt [''Status'', ''ResourceStatus'']"

fun Kafka_Set :: "managedField \<Rightarrow> gval \<Rightarrow> gval \<Rightarrow> gval option" where
  "Kafka_Set DeletionPolicy r mg = setPath [''Spec'', ''ResourceSpec'', ''DeletionPolicy''] r mg"
| "Kafka_Set ManagementPolicies r mg = setPath [''Spec'', ''ResourceSpec'', ''ManagementPolicies''] r mg"
| "Kafka_Set ProviderConfigReference r mg = setPath [''Spec'', ''ResourceSpec'', ''ProviderConfigReference''] r mg"
| "Kafka_Set PublishConnectionDetailsTo r mg = setPath [''Spec'', ''ResourceSpec'', ''PublishConnectionDetailsTo''] r mg"
| "Kafka_Set WriteConnectionSecretToReference r mg = setPath [''Spec'', ''ResourceSpec'', ''WriteConnectionSecretToReference''] r mg"

definition MySQL_GetCondition :: "cond_methods \<Rightarrow> string \<Rightarrow> gval \<Rightarrow> gval option" where
  "MySQL_GetCondition = getConditionAt [''Status'', ''ResourceStatus'']"

fun MySQL_Get :: "managedField \<Rightarrow> gval \<Rightarrow> gval option" where
  "MySQL_Get DeletionPolicy mg = getPath [''Spec'', ''ResourceSpec'', ''DeletionPolicy''] mg"
| "MySQL_Get ManagementPolicies mg = getPath [''Spec'', ''ResourceSpec'', ''ManagementPolicies''] mg"
| "MySQL_Get ProviderConfigReference mg = getPath [''Spec'', ''ResourceSpec'', ''ProviderConfigReference''] mg"
| "MySQL_Get PublishConnectionDetailsTo mg = getPath [''Spec'', ''ResourceSpec'', ''PublishConnectionDetailsTo''] mg"
| "MySQL_Get WriteConnectionSecretToReference mg = getPath [''Spec'', ''ResourceSpec'', ''WriteConnectionSecretToReference''] mg"

definition MySQL_SetConditions :: "cond_methods \<Rightarrow> gval list \<Rightarrow> gval \<Rightarrow> gval option" where
  "MySQL_SetConditions = setConditionsAt [''Status'', ''ResourceStatus'']"

fun MySQL_Set :: "managedField \<Rightarrow> gval \<Rightarrow> gval \<Rightarrow> gval option" where
  "MySQL_Set DeletionPolicy r mg = setPath [''Spec'', ''ResourceSpec'', ''DeletionPolicy''] r mg"
| "MySQL_Set ManagementPolicies r mg = setPath [''Spec'', ''ResourceSpec'', ''ManagementPolicies''] r mg"
| "MySQL_Set ProviderConfigReference r mg = setPath [''Spec'', ''ResourceSpec'', ''ProviderConfigReference''] r mg"
| "MySQL_Set PublishConnectionDetailsTo r mg = setPath [''Spec'', ''ResourceSpec'', ''PublishConnectionDetailsTo''] r mg"
| "MySQL_Set WriteConnectionSecretToReference r mg = setPath [''Spec'', ''ResourceSpec'', ''WriteConnectionSecretToReference''] r mg"

definition OpenSearch_GetCondition :: "cond_methods \<Rightarrow> string \<Rightarrow> gval \<Rightarrow> gval option" where
  "OpenSearch_GetCondition = getConditionAt [''Status'', ''ResourceStatus'']"

fun OpenSearch_Get :: "managedField \<Rightarrow> gval \<Rightarrow> gval option" where
  "OpenSearch_Get DeletionPolicy mg = getPath [''Spec'', ''ResourceSpec'', ''DeletionPolicy''] mg"
| "OpenSearch_Get ManagementPolicies mg = getPath [''Spec'', ''ResourceSpec'', ''ManagementPolicies''] mg"
| "OpenSearch_Get ProviderConfigReference mg = getPath [''Spec'', ''ResourceSpec'', ''ProviderConfigReference''] mg"
| "OpenSearch_Get PublishConnectionDetailsTo mg = getPath [''Spec'', ''ResourceSpec'', ''PublishConnectionDetailsTo''] mg"
| "OpenSearch_Get WriteConnectionSecretToReference mg = getPath [''Spec'', ''ResourceSpec'', ''WriteConnectionSecretToReference''] mg"

definition OpenSearch_SetConditions :: "cond_methods \<Rightarrow> gval list \<Rightarrow> gval \<Rightarrow> gval option" where
  "OpenSearch_SetConditions = setConditionsAt [''Status'', ''ResourceStatus'']"

fun OpenSearch_Set :: "managedField \<Rightarrow> gval \<Rightarrow> gval \<Rightarrow> gval option" where
  "OpenSearch_Set DeletionPolicy r mg = setPath [''Spec'', ''ResourceSpec'', ''DeletionPolicy''] r mg"
| "OpenSearch_Set ManagementPolicies r mg = setPath [''Spec'', ''ResourceSpec'', ''ManagementPolicies''] r mg"
| "OpenSearch_Set ProviderConfigReference r mg = setPath [''Spec'', ''ResourceSpec'', ''ProviderConfigReference''] r mg"
| "OpenSearch_Set PublishConnectionDetailsTo r mg = setPath [''Spec'', ''ResourceSpec'', ''PublishConnectionDetailsTo''] r mg"
| "OpenSearch_Set WriteConnectionSecretToReference r mg = setPath [''Spec'', ''ResourceSpec'', ''WriteConnectionSecretToReference''] r mg"

definition PostgreSQL_GetCondition :: "cond_methods \<Rightarrow> string \<Rightarrow> gval \<Rightarrow> gval option" where
  "PostgreSQL_GetCondition = getConditionAt [''Status'', ''ResourceStatus'']"

fun PostgreSQL_Get :: "managedField \<Rightarrow> gval \<Rightarrow> gval option" where
  "PostgreSQL_Get DeletionPolicy mg = getPath [''Spec'', ''ResourceSpec'', ''DeletionPolicy''] mg"
| "PostgreSQL_Get ManagementPolicies mg = getPath [''Spec'', ''ResourceSpec'', ''ManagementPolicies''] mg"
| "PostgreSQL_Get ProviderConfigReference mg = getPath [''Spec'', ''ResourceSpec'', ''ProviderConfigReference''] mg"
| "PostgreSQL_Get PublishConnectionDetailsTo mg = getPath [''Spec'', ''ResourceSpec'', ''PublishConnectionDetailsTo''] mg"
| "PostgreSQL_Get WriteConnectionSecretToReference mg = getPath [''Spec'', ''ResourceSpec'', ''WriteConnectionSecretToReference''] mg"

definition PostgreSQL_SetConditions :: "cond_methods \<Rightarrow> gval list \<Rightarrow> gval \<Rightarrow> gval option" where
  "PostgreSQL_SetConditions = setConditionsAt [''Status'', ''ResourceStatus'']"

fun PostgreSQL_Set :: "managedField \<Rightarrow> gval \<Rightarrow> gval \<Rightarrow> gval option" where
  "PostgreSQL_Set DeletionPolicy r mg = setPath [''Spec'', ''ResourceSpec'', ''DeletionPolicy''] r mg"
| "PostgreSQL_Set ManagementPolicies r mg = setPath [''Spec'', ''ResourceSpec'', ''ManagementPolicies''] r mg"
| "PostgreSQL_Set ProviderConfigReference r mg = setPath [''Spec'', ''ResourceSpec'', ''ProviderConfigReference''] r mg"
| "PostgreSQL_Set PublishConnectionDetailsTo r mg = setPath [''Spec'', ''ResourceSpec'', ''PublishConnectionDetailsTo''] r mg"
| "PostgreSQL_Set WriteConnectionSecretToReference r mg = setPath [''Spec'', ''ResourceSpec'', ''WriteConnectionSecretToReference''] r mg"

definition Redis_GetCondition :: "cond_methods \<Rightarrow> string \<Rightarrow> gval \<Rightarrow> gval option" where
  "Redis_GetCondition = getConditionAt [''Status'', ''ResourceStatus'']"

fun Redis_Get :: "managedField \<Rightarrow> gval \<Rightarrow> gval option" where
  "Redis_Get DeletionPolicy mg = getPath [''Spec'', ''ResourceSpec'', ''DeletionPolicy''] mg"
| "Redis_Get ManagementPolicies mg = getPath [''Spec'', ''ResourceSpec'', ''ManagementPolicies''] mg"
| "Redis_Get ProviderConfigReference mg = getPath [''Spec'', ''ResourceSpec'', ''ProviderConfigReference''] mg"
| "Redis_Get PublishConnectionDetailsTo mg = getPath [''Spec'', ''ResourceSpec'', ''PublishConnectionDetailsTo''] mg"
| "Redis_Get WriteConnectionSecretToReference mg = getPath [''Spec'', ''ResourceSpec'', ''WriteConnectionSecretToReference''] mg"

definition Redis_SetConditions :: "cond_methods \<Rightarrow> gval list \<Rightarrow> gval \<Rightarrow> gval option" where
  "Redis_SetConditions = setConditionsAt [''Status'', ''ResourceStatus'']"

fun Redis_Set :: "managedField \<Rightarrow> gval \<Rightarrow> gval \<Rightarrow> gval option" where
  "Redis_Set DeletionPolicy r mg = setPath [''Spec'', ''ResourceSpec'', ''DeletionPolicy''] r mg"
| "Redis_Set ManagementPolicies r mg = setPath [''Spec'', ''ResourceSpec'', ''ManagementPolicies''] r mg"
| "Redis_Set ProviderConfigReference r mg = setPath [''Spec'', ''ResourceSpec'', ''ProviderConfigReference''] r mg"
| "Redis_Set PublishConnectionDetailsTo r mg = setPath [''Spec'', ''ResourceSpec'', ''PublishConnectionDetailsTo''] r mg"
| "Redis_Set WriteConnectionSecretToReference r mg = setPath [''Spec'', ''ResourceSpec'', ''WriteConnectionSecretToReference''] r mg"

text \<open>A provider config counts its users; a usage refers to the config and to the resource.\<close>

definition ProviderConfig_GetCondition :: "cond_methods \<Rightarrow> string \<Rightarrow> gval \<Rightarrow> gval option" where
  "ProviderConfig_GetCondition = getConditionAt [''Status'', ''ProviderConfigStatus'']"

definition ProviderConfig_GetUsers :: "gval \<Rightarrow> gval option" where
  "ProviderConfig_GetUsers p = getPath [''Status'', ''ProviderConfigStatus'', ''Users''] p"

definition ProviderConfig_SetConditions :: "cond_methods \<Rightarrow> gval list \<Rightarrow> gval \<Rightarrow> gval option" where
  "ProviderConfig_SetConditions = setConditionsAt [''Status'', ''ProviderConfigStatus'']"

definition ProviderConfig_SetUsers :: "gval \<Rightarrow> gval \<Rightarrow> gval option" where
  "ProviderConfig_SetUsers i p = setPath [''Status'', ''ProviderConfigStatus'', ''Users''] i p"

datatype usageField = UsageProviderConfigReference | UsageResourceReference

fun ProviderConfigUsage_Get :: "usageField \<Rightarrow> gval \<Rightarrow> gval option" where
  "ProviderConfigUsage_Get UsageProviderConfigReference p = getPath [''ProviderConfigUsage'', ''ProviderConfigReference''] p"
| "ProviderConfigUsage_Get UsageResourceReference p = getPath [''ProviderConfigUsage'', ''ResourceReference''] p"

fun ProviderConfigUsage_Set :: "usageField \<Rightarrow> gval \<Rightarrow> gval \<Rightarrow> gval option" where
  "ProviderConfigUsage_Set UsageProviderConfigReference r p = setPath [''ProviderConfigUsage'', ''ProviderConfigReference''] r p"
| "ProviderConfigUsage_Set UsageResourceReference r p = setPath [''ProviderConfigUsage'', ''ResourceReference''] r p"

text \<open>
  \<^verbatim>\<open>GetItems\<close> of a list of objects: a new slice of pointers, each to an element of the list itself.
\<close>

definition getItems :: "gval \<Rightarrow> gval list option" where
  "getItems l = (case getPath [''Items''] l of
     Some (Slice None) \<Rightarrow> Some []
   | Some (Slice (Some (a, off, len))) \<Rightarrow> Some (map (\<lambda>i. Pointer (Some (a, off + i))) [0..<len])
   | _ \<Rightarrow> None)"

definition BucketList_GetItems :: "gval \<Rightarrow> gval list option" where
  "BucketList_GetItems = getItems"

definition IAMKeyList_GetItems :: "gval \<Rightarrow> gval list option" where
  "IAMKeyList_GetItems = getItems"

definition KafkaList_GetItems :: "gval \<Rightarrow> gval list option" where
  "KafkaList_GetItems = getItems"

definition MySQLList_GetItems :: "gval \<Rightarrow> gval list option" where
  "MySQLList_GetItems = getItems"

definition OpenSearchList_GetItems :: "gval \<Rightarrow> gval list option" where
  "OpenSearchList_GetItems = getItems"

definition PostgreSQLList_GetItems :: "gval \<Rightarrow> gval list option" where
  "PostgreSQLList_GetItems = getItems"

definition RedisList_GetItems :: "gval \<Rightarrow> gval list option" where
  "RedisList_GetItems = getItems"

definition ProviderConfigUsageList_GetItems :: "gval \<Rightarrow> gval list option" where
  "ProviderConfigUsageList_GetItems = getItems"

section \<open>The contract\<close>

lemma setPath_total: "getPath p v = Some y \<Longrightarrow> \<exists>v'. setPath p x v = Some v'"
  by (induction p x v rule: setPath.induct) (auto split: option.splits)

lemma lookup_name: "map_of fvs f = Some v \<Longrightarrow> f \<in> fst ` set fvs"
  by (metis domI dom_map_of_conv_image_fst)

lemma get_setPath: "setPath p x v = Some v' \<Longrightarrow> getPath p v' = Some x"
  by (induction p x v arbitrary: v' rule: setPath.induct)
    (auto split: option.splits simp: setField_lookup lookup_name)

lemma get_setPath_other: "setPath p x v = Some v' \<Longrightarrow> diverge p q \<Longrightarrow> getPath q v' = getPath q v"
proof (induction p x v arbitrary: v' q rule: setPath.induct)
  case (2 f fs x fvs)
  then obtain u u' where u: "map_of fvs f = Some u" "setPath fs x u = Some u'" "v' = Struct (setField f u' fvs)"
    by (auto split: option.splits)
  obtain g gs where "q = g # gs" using 2(3) by (cases q) auto
  then show ?case using 2 u by (cases "g = f") (auto simp: setField_lookup lookup_name)
qed simp_all

text \<open>The fields are independent variables.\<close>

locale fields =
  fixes get :: "'f \<Rightarrow> gval \<Rightarrow> gval option"
    and put :: "'f \<Rightarrow> gval \<Rightarrow> gval \<Rightarrow> gval option"
  assumes put_total: "get f m = Some y \<Longrightarrow> \<exists>m'. put f x m = Some m'"
    and get_put: "put f x m = Some m' \<Longrightarrow> get f m' = Some x"
    and get_other: "put f x m = Some m' \<Longrightarrow> f \<noteq> g \<Longrightarrow> get g m' = get g m"
begin

lemma get_after: "put f x m = Some m' \<Longrightarrow> get g m' = (if g = f then Some x else get g m)"
  using get_put get_other by auto

end

text \<open>What the reconciler does to an object through these methods: it writes fields and it sets conditions.\<close>

datatype 'f objectWrite = WriteField 'f gval | WriteConditions "gval list"

fun writeAll :: "('f \<Rightarrow> gval \<Rightarrow> gval \<Rightarrow> gval option) \<Rightarrow> (gval list \<Rightarrow> gval \<Rightarrow> gval option) \<Rightarrow> 'f objectWrite list \<Rightarrow> gval \<Rightarrow> gval option" where
  "writeAll put setc [] m = Some m"
| "writeAll put setc (WriteField f x # ws) m = (case put f x m of None \<Rightarrow> None | Some m' \<Rightarrow> writeAll put setc ws m')"
| "writeAll put setc (WriteConditions cs # ws) m = (case setc cs m of None \<Rightarrow> None | Some m' \<Rightarrow> writeAll put setc ws m')"

text \<open>What the writes come to: for a field the last value, for the status all the conditions in turn.\<close>

fun fieldAfter :: "'f objectWrite list \<Rightarrow> 'f \<Rightarrow> gval option \<Rightarrow> gval option" where
  "fieldAfter [] g old = old"
| "fieldAfter (WriteField f x # ws) g old = fieldAfter ws g (if g = f then Some x else old)"
| "fieldAfter (WriteConditions cs # ws) g old = fieldAfter ws g old"

fun statusAfter :: "(gval list \<Rightarrow> gval \<Rightarrow> gval) \<Rightarrow> 'f objectWrite list \<Rightarrow> gval \<Rightarrow> gval" where
  "statusAfter upd [] s = s"
| "statusAfter upd (WriteField f x # ws) s = statusAfter upd ws s"
| "statusAfter upd (WriteConditions cs # ws) s = statusAfter upd ws (upd cs s)"

locale managed_object = fields get put
  for get :: "'f \<Rightarrow> gval \<Rightarrow> gval option"
    and put :: "'f \<Rightarrow> gval \<Rightarrow> gval \<Rightarrow> gval option" +
  fixes status :: "gval \<Rightarrow> gval option"
    and upd :: "gval list \<Rightarrow> gval \<Rightarrow> gval"
    and setc :: "gval list \<Rightarrow> gval \<Rightarrow> gval option"
  assumes setc_total: "status m = Some s \<Longrightarrow> \<exists>m'. setc cs m = Some m'"
    and setc_status: "setc cs m = Some m' \<Longrightarrow> status m = Some s \<Longrightarrow> status m' = Some (upd cs s)"
    and get_setc: "setc cs m = Some m' \<Longrightarrow> get f m' = get f m"
    and put_status: "put f x m = Some m' \<Longrightarrow> status m' = status m"
begin

lemma writes_independent:
  assumes "\<And>f. get f m \<noteq> None" "status m = Some s"
  shows "\<exists>m'. writeAll put setc ws m = Some m' \<and> (\<forall>f. get f m' = fieldAfter ws f (get f m)) \<and>
    status m' = Some (statusAfter upd ws s)"
  using assms
proof (induction ws arbitrary: m s)
  case (Cons w ws)
  show ?case
  proof (cases w)
    case (WriteField f x)
    obtain m' where m': "put f x m = Some m'" using put_total Cons.prems(1) [of f] by blast
    have "\<exists>m''. writeAll put setc ws m' = Some m'' \<and> (\<forall>f. get f m'' = fieldAfter ws f (get f m')) \<and> status m'' = Some (statusAfter upd ws s)"
      using Cons.prems put_status [OF m'] get_after [OF m'] by (intro Cons.IH) simp_all
    then show ?thesis using m' get_after [OF m'] by (auto simp: WriteField)
  next
    case (WriteConditions cs)
    obtain m' where m': "setc cs m = Some m'" using setc_total [OF Cons.prems(2)] by blast
    have "\<exists>m''. writeAll put setc ws m' = Some m'' \<and> (\<forall>f. get f m'' = fieldAfter ws f (get f m')) \<and> status m'' = Some (statusAfter upd ws (upd cs s))"
      using Cons.prems get_setc [OF m'] setc_status [OF m' Cons.prems(2)] by (intro Cons.IH) simp_all
    then show ?thesis using m' get_setc [OF m'] by (auto simp: WriteConditions)
  qed
qed simp

end

text \<open>
  Methods that read and write by paths satisfy the contract, when the paths part from each other and from that of the
  status.
\<close>

lemma managed_object_paths:
  assumes "\<And>f. get f = getPath (path f)" "\<And>f. put f = setPath (path f)"
    and "\<And>f g. f \<noteq> g \<Longrightarrow> diverge (path f) (path g)" "\<And>f. diverge (path f) spath" "\<And>f. diverge spath (path f)"
  shows "managed_object get put (getPath spath) (cm_SetConditions cm) (setConditionsAt spath cm)"
proof unfold_locales
  fix f g m m' x y s cs
  show "get f m = Some y \<Longrightarrow> \<exists>m'. put f x m = Some m'" by (simp add: assms setPath_total)
  show "put f x m = Some m' \<Longrightarrow> get f m' = Some x" by (simp add: assms get_setPath)
  show "put f x m = Some m' \<Longrightarrow> f \<noteq> g \<Longrightarrow> get g m' = get g m" using assms(1-3) get_setPath_other by metis
  show "getPath spath m = Some s \<Longrightarrow> \<exists>m'. setConditionsAt spath cm cs m = Some m'"
    by (simp add: setConditionsAt_def setPath_total)
  show "setConditionsAt spath cm cs m = Some m' \<Longrightarrow> getPath spath m = Some s \<Longrightarrow> getPath spath m' = Some (cm_SetConditions cm cs s)"
    by (simp add: setConditionsAt_def get_setPath)
  show "setConditionsAt spath cm cs m = Some m' \<Longrightarrow> get f m' = get f m"
    using get_setPath_other [OF _ assms(5)] by (auto simp: setConditionsAt_def assms(1) split: option.splits)
  show "put f x m = Some m' \<Longrightarrow> getPath spath m' = getPath spath m" using assms(2,4) get_setPath_other by metis
qed

fun specPath :: "managedField \<Rightarrow> string list" where
  "specPath DeletionPolicy = [''Spec'', ''ResourceSpec'', ''DeletionPolicy'']"
| "specPath ManagementPolicies = [''Spec'', ''ResourceSpec'', ''ManagementPolicies'']"
| "specPath ProviderConfigReference = [''Spec'', ''ResourceSpec'', ''ProviderConfigReference'']"
| "specPath PublishConnectionDetailsTo = [''Spec'', ''ResourceSpec'', ''PublishConnectionDetailsTo'']"
| "specPath WriteConnectionSecretToReference = [''Spec'', ''ResourceSpec'', ''WriteConnectionSecretToReference'']"

definition statusPath :: "string list" where
  "statusPath = [''Status'', ''ResourceStatus'']"

lemma specPath_diverge: "f \<noteq> g \<Longrightarrow> diverge (specPath f) (specPath g)" "diverge (specPath f) statusPath" "diverge statusPath (specPath f)"
  by (cases f; cases g; simp add: statusPath_def)+

lemma kind_object:
  assumes "\<And>f mg. get f mg = getPath (specPath f) mg" "\<And>f x mg. put f x mg = setPath (specPath f) x mg"
    and "setc = setConditionsAt statusPath cm"
  shows "managed_object get put (getPath statusPath) (cm_SetConditions cm) setc"
  unfolding assms(3)
  by (rule managed_object_paths [where path = specPath]) (auto simp: assms(1,2) fun_eq_iff specPath_diverge)

lemma Bucket_paths: "Bucket_Get f mg = getPath (specPath f) mg" "Bucket_Set f x mg = setPath (specPath f) x mg"
  by (cases f; simp)+

interpretation bucket_obj: managed_object Bucket_Get Bucket_Set "getPath statusPath" "cm_SetConditions cm" "Bucket_SetConditions cm" for cm
  by (rule kind_object) (simp_all add: Bucket_paths Bucket_SetConditions_def statusPath_def)

lemma IAMKey_paths: "IAMKey_Get f mg = getPath (specPath f) mg" "IAMKey_Set f x mg = setPath (specPath f) x mg"
  by (cases f; simp)+

interpretation iam_obj: managed_object IAMKey_Get IAMKey_Set "getPath statusPath" "cm_SetConditions cm" "IAMKey_SetConditions cm" for cm
  by (rule kind_object) (simp_all add: IAMKey_paths IAMKey_SetConditions_def statusPath_def)

lemma Kafka_paths: "Kafka_Get f mg = getPath (specPath f) mg" "Kafka_Set f x mg = setPath (specPath f) x mg"
  by (cases f; simp)+

interpretation kafka_obj: managed_object Kafka_Get Kafka_Set "getPath statusPath" "cm_SetConditions cm" "Kafka_SetConditions cm" for cm
  by (rule kind_object) (simp_all add: Kafka_paths Kafka_SetConditions_def statusPath_def)

lemma MySQL_paths: "MySQL_Get f mg = getPath (specPath f) mg" "MySQL_Set f x mg = setPath (specPath f) x mg"
  by (cases f; simp)+

interpretation mysql_obj: managed_object MySQL_Get MySQL_Set "getPath statusPath" "cm_SetConditions cm" "MySQL_SetConditions cm" for cm
  by (rule kind_object) (simp_all add: MySQL_paths MySQL_SetConditions_def statusPath_def)

lemma OpenSearch_paths: "OpenSearch_Get f mg = getPath (specPath f) mg" "OpenSearch_Set f x mg = setPath (specPath f) x mg"
  by (cases f; simp)+

interpretation opensearch_obj: managed_object OpenSearch_Get OpenSearch_Set "getPath statusPath" "cm_SetConditions cm" "OpenSearch_SetConditions cm" for cm
  by (rule kind_object) (simp_all add: OpenSearch_paths OpenSearch_SetConditions_def statusPath_def)

lemma PostgreSQL_paths: "PostgreSQL_Get f mg = getPath (specPath f) mg" "PostgreSQL_Set f x mg = setPath (specPath f) x mg"
  by (cases f; simp)+

interpretation postgresql_obj: managed_object PostgreSQL_Get PostgreSQL_Set "getPath statusPath" "cm_SetConditions cm" "PostgreSQL_SetConditions cm" for cm
  by (rule kind_object) (simp_all add: PostgreSQL_paths PostgreSQL_SetConditions_def statusPath_def)

lemma Redis_paths: "Redis_Get f mg = getPath (specPath f) mg" "Redis_Set f x mg = setPath (specPath f) x mg"
  by (cases f; simp)+

interpretation redis_obj: managed_object Redis_Get Redis_Set "getPath statusPath" "cm_SetConditions cm" "Redis_SetConditions cm" for cm
  by (rule kind_object) (simp_all add: Redis_paths Redis_SetConditions_def statusPath_def)

text \<open>A usage's two references and a config's count, by the same contract without a status.\<close>

interpretation usage: fields ProviderConfigUsage_Get ProviderConfigUsage_Set
proof unfold_locales
  fix f g m m' x y
  show "ProviderConfigUsage_Get f m = Some y \<Longrightarrow> \<exists>m'. ProviderConfigUsage_Set f x m = Some m'" by (cases f) (simp_all add: setPath_total)
  show "ProviderConfigUsage_Set f x m = Some m' \<Longrightarrow> ProviderConfigUsage_Get f m' = Some x" by (cases f) (simp_all add: get_setPath)
  show "ProviderConfigUsage_Set f x m = Some m' \<Longrightarrow> f \<noteq> g \<Longrightarrow> ProviderConfigUsage_Get g m' = ProviderConfigUsage_Get g m"
    by (cases f; cases g) (simp_all add: get_setPath_other)
qed

interpretation users: fields "\<lambda>_ :: unit. ProviderConfig_GetUsers" "\<lambda>_. ProviderConfig_SetUsers"
  by unfold_locales (simp_all add: ProviderConfig_GetUsers_def ProviderConfig_SetUsers_def setPath_total get_setPath)

section \<open>Properties\<close>

text \<open>The kinds with their methods.\<close>

definition managedKinds :: "cond_methods \<Rightarrow> (string \<times> (managedField \<Rightarrow> gval \<Rightarrow> gval option) \<times> (managedField \<Rightarrow> gval \<Rightarrow> gval \<Rightarrow> gval option) \<times>
    (string \<Rightarrow> gval \<Rightarrow> gval option) \<times> (gval list \<Rightarrow> gval \<Rightarrow> gval option)) list" where
  "managedKinds cm =
     [(''Bucket'', Bucket_Get, Bucket_Set, Bucket_GetCondition cm, Bucket_SetConditions cm),
      (''IAMKey'', IAMKey_Get, IAMKey_Set, IAMKey_GetCondition cm, IAMKey_SetConditions cm),
      (''Kafka'', Kafka_Get, Kafka_Set, Kafka_GetCondition cm, Kafka_SetConditions cm),
      (''MySQL'', MySQL_Get, MySQL_Set, MySQL_GetCondition cm, MySQL_SetConditions cm),
      (''OpenSearch'', OpenSearch_Get, OpenSearch_Set, OpenSearch_GetCondition cm, OpenSearch_SetConditions cm),
      (''PostgreSQL'', PostgreSQL_Get, PostgreSQL_Set, PostgreSQL_GetCondition cm, PostgreSQL_SetConditions cm),
      (''Redis'', Redis_Get, Redis_Set, Redis_GetCondition cm, Redis_SetConditions cm)]"

lemmas managed_objects = bucket_obj.managed_object_axioms iam_obj.managed_object_axioms kafka_obj.managed_object_axioms
  mysql_obj.managed_object_axioms opensearch_obj.managed_object_axioms postgresql_obj.managed_object_axioms redis_obj.managed_object_axioms

lemmas condition_getters = Bucket_GetCondition_def IAMKey_GetCondition_def Kafka_GetCondition_def MySQL_GetCondition_def
  OpenSearch_GetCondition_def PostgreSQL_GetCondition_def Redis_GetCondition_def

lemma managedKinds_object:
  assumes "(kind, get, put, getc, setc) \<in> set (managedKinds cm)"
  shows "managed_object get put (getPath statusPath) (cm_SetConditions cm) setc"
    and "getc = getConditionAt statusPath cm"
  using assms
  by (auto simp: managedKinds_def condition_getters statusPath_def
      simp del: getPath.simps intro: managed_objects [unfolded statusPath_def])

text \<open>
  C22: The methods of every kind make the fields of an object independent variables. Any sequence of writes of fields
  and of conditions succeeds on an object that has the fields and a status; afterwards every field has the value last
  written to it, or its old one, and a condition is read from the status to which all the conditions were applied in
  order.
\<close>

theorem managed_writes_independent:
  assumes "(kind, get, put, getc, setc) \<in> set (managedKinds cm)"
    and "\<And>f. get f m \<noteq> None" "getPath [''Status'', ''ResourceStatus''] m = Some s"
  shows "\<exists>m'. writeAll put setc ws m = Some m' \<and> (\<forall>f. get f m' = fieldAfter ws f (get f m)) \<and>
    getc ct m' = Some (cm_GetCondition cm ct (statusAfter (cm_SetConditions cm) ws s))"
proof -
  have status: "getPath statusPath m = Some s" using assms(3) by (simp only: statusPath_def)
  obtain m' where "writeAll put setc ws m = Some m'" "\<forall>f. get f m' = fieldAfter ws f (get f m)"
    "getPath statusPath m' = Some (statusAfter (cm_SetConditions cm) ws s)"
    using managed_object.writes_independent [OF managedKinds_object(1) [OF assms(1)] assms(2) status] by blast
  then show ?thesis by (simp add: managedKinds_object(2) [OF assms(1)] getConditionAt_def)
qed

text \<open>A status that keeps the conditions last set, and a bucket as crossplane finds it.\<close>

definition sampleConditions :: cond_methods where
  "sampleConditions = \<lparr>cm_GetCondition = (\<lambda>ct s. s), cm_SetConditions = (\<lambda>cs s. Struct (map (\<lambda>c. (''Condition'', c)) cs))\<rparr>"

definition sampleBucket :: gval where
  "sampleBucket = Struct
     [(''Spec'', Struct [(''ResourceSpec'', Struct
        [(''WriteConnectionSecretToReference'', Pointer None), (''PublishConnectionDetailsTo'', Pointer None),
         (''ProviderConfigReference'', Pointer None), (''ManagementPolicies'', Slice None), (''DeletionPolicy'', Scalar ''Delete'')])]),
      (''Status'', Struct [(''ResourceStatus'', Struct [])])]"

theorem managed_writes_independent_witness:
  "\<exists>m'. writeAll Bucket_Set (Bucket_SetConditions sampleConditions)
       [WriteField DeletionPolicy (Scalar ''Orphan''), WriteConditions [Scalar ''Ready'']] sampleBucket = Some m' \<and>
     Bucket_Get DeletionPolicy m' = Some (Scalar ''Orphan'') \<and> Bucket_Get ProviderConfigReference m' = Some (Pointer None) \<and>
     Bucket_GetCondition sampleConditions ''Ready'' m' = Some (Struct [(''Condition'', Scalar ''Ready'')])"
proof -
  have kind: "(''Bucket'', Bucket_Get, Bucket_Set, Bucket_GetCondition sampleConditions, Bucket_SetConditions sampleConditions)
      \<in> set (managedKinds sampleConditions)" by (simp add: managedKinds_def)
  have has: "Bucket_Get f sampleBucket \<noteq> None" for f by (cases f) (simp_all add: sampleBucket_def)
  have status: "getPath [''Status'', ''ResourceStatus''] sampleBucket = Some (Struct [])" by (simp add: sampleBucket_def)
  have old: "Bucket_Get ProviderConfigReference sampleBucket = Some (Pointer None)" by (simp add: sampleBucket_def)
  show ?thesis
    using managed_writes_independent [OF kind has status,
        of "[WriteField DeletionPolicy (Scalar ''Orphan''), WriteConditions [Scalar ''Ready'']]" "''Ready''"]
    by (elim exE conjE) (simp add: old sampleConditions_def del: Bucket_Get.simps)
qed

text \<open>The elements of a list of objects, and what Go's pointers do to them.\<close>

definition listItems :: "store \<Rightarrow> gval \<Rightarrow> gval list option" where
  "listItems st l = (case getPath [''Items''] l of
     Some (Slice None) \<Rightarrow> Some []
   | Some (Slice (Some (a, off, len))) \<Rightarrow>
       (if a < length st \<and> off + len \<le> length (st ! a) then Some (window off len (st ! a)) else None)
   | _ \<Rightarrow> None)"

fun readThrough :: "store \<Rightarrow> gval \<Rightarrow> gval option" where
  "readThrough st (Pointer (Some (a, i))) = (if a < length st \<and> i < length (st ! a) then Some (st ! a ! i) else None)"
| "readThrough st _ = None"

fun storeThrough :: "gval \<Rightarrow> gval \<Rightarrow> store \<Rightarrow> store option" where
  "storeThrough (Pointer (Some (a, i))) w st = (if a < length st \<and> i < length (st ! a) then Some (st[a := (st ! a)[i := w]]) else None)"
| "storeThrough _ w st = None"

definition listKinds :: "(string \<times> (gval \<Rightarrow> gval list option)) list" where
  "listKinds =
     [(''BucketList'', BucketList_GetItems), (''IAMKeyList'', IAMKeyList_GetItems), (''KafkaList'', KafkaList_GetItems),
      (''MySQLList'', MySQLList_GetItems), (''OpenSearchList'', OpenSearchList_GetItems),
      (''PostgreSQLList'', PostgreSQLList_GetItems), (''RedisList'', RedisList_GetItems),
      (''ProviderConfigUsageList'', ProviderConfigUsageList_GetItems)]"

lemma window_update: "i < len \<Longrightarrow> off + len \<le> length b \<Longrightarrow> window off len (b[off + i := w]) = (window off len b)[i := w]"
  by (simp add: window_def drop_update_swap take_update_swap)

lemma getItems_own:
  assumes "listItems st l = Some vs"
  shows "\<exists>ps. getItems l = Some ps \<and> length ps = length vs \<and> distinct ps \<and>
    (\<forall>i<length vs. readThrough st (ps ! i) = Some (vs ! i) \<and>
      (\<exists>st'. storeThrough (ps ! i) w st = Some st' \<and> listItems st' l = Some (vs[i := w])))"
proof (cases "getPath [''Items''] l = Some (Slice None)")
  case True
  then show ?thesis using assms by (simp add: listItems_def getItems_def del: getPath.simps)
next
  case False
  then obtain a off len where l: "getPath [''Items''] l = Some (Slice (Some (a, off, len)))"
    using assms by (auto simp: listItems_def simp del: getPath.simps split: option.splits gval.splits)
  then have vs: "a < length st" "off + len \<le> length (st ! a)" "vs = window off len (st ! a)"
    using assms by (auto simp: listItems_def simp del: getPath.simps split: if_splits)
  let ?ps = "map (\<lambda>i. Pointer (Some (a, off + i))) [0..<len]"
  have "listItems (st[a := (st ! a)[off + i := w]]) l = Some (vs[i := w])" if "i < len" for i
    using vs that by (simp add: listItems_def l window_update del: getPath.simps)
  moreover have "getItems l = Some ?ps" by (simp add: getItems_def l del: getPath.simps)
  moreover have "distinct ?ps" by (simp add: distinct_map inj_on_def)
  ultimately show ?thesis using vs
    by (intro exI [of _ ?ps]) (simp add: length_window window_nth)
qed

text \<open>
  C34: \<^verbatim>\<open>GetItems\<close> of every list gives one pointer for each element, in order and to different variables: reading
  through the pointer gives the element, and what is written through it is written to the list itself, at that
  element and no other. This is the opposite of a copy.
\<close>

theorem list_items_alias:
  assumes "(kind, items) \<in> set listKinds" "listItems st l = Some vs"
  shows "\<exists>ps. items l = Some ps \<and> length ps = length vs \<and> distinct ps \<and>
    (\<forall>i<length vs. readThrough st (ps ! i) = Some (vs ! i) \<and>
      (\<exists>st'. storeThrough (ps ! i) w st = Some st' \<and> listItems st' l = Some (vs[i := w])))"
proof -
  have "items = getItems"
    using assms(1) by (auto simp: listKinds_def BucketList_GetItems_def IAMKeyList_GetItems_def KafkaList_GetItems_def
        MySQLList_GetItems_def OpenSearchList_GetItems_def PostgreSQLList_GetItems_def RedisList_GetItems_def
        ProviderConfigUsageList_GetItems_def)
  then show ?thesis using getItems_own [OF assms(2)] by simp
qed

theorem list_items_alias_witness:
  "\<exists>ps st'. RedisList_GetItems (Struct [(''Items'', Slice (Some (0, 1, 2)))]) = Some ps \<and>
     storeThrough (ps ! 1) (Scalar ''z'') [[Scalar ''a'', Scalar ''b'', Scalar ''c'']] = Some st' \<and>
     listItems st' (Struct [(''Items'', Slice (Some (0, 1, 2)))]) = Some [Scalar ''b'', Scalar ''z'']"
proof -
  let ?l = "Struct [(''Items'', Slice (Some (0, 1, 2)))]"
  let ?st = "[[Scalar ''a'', Scalar ''b'', Scalar ''c'']]"
  have kind: "(''RedisList'', RedisList_GetItems) \<in> set listKinds" by (simp add: listKinds_def)
  have items: "listItems ?st ?l = Some [Scalar ''b'', Scalar ''c'']" by (simp add: listItems_def window_def)
  obtain ps where ps: "RedisList_GetItems ?l = Some ps"
    "\<forall>i<length [Scalar ''b'', Scalar ''c'']. readThrough ?st (ps ! i) = Some ([Scalar ''b'', Scalar ''c''] ! i) \<and>
      (\<exists>st'. storeThrough (ps ! i) (Scalar ''z'') ?st = Some st' \<and> listItems st' ?l = Some ([Scalar ''b'', Scalar ''c''][i := Scalar ''z'']))"
    using list_items_alias [OF kind items, of "Scalar ''z''"] by (elim exE conjE)
  obtain st' where "storeThrough (ps ! 1) (Scalar ''z'') ?st = Some st'"
    "listItems st' ?l = Some ([Scalar ''b'', Scalar ''c''][1 := Scalar ''z''])"
    using ps(2) [rule_format, of 1] by (auto simp del: storeThrough.simps)
  then show ?thesis using ps(1) by (intro exI [of _ ps] exI [of _ st']) simp
qed

end
