(* ===== verification/CommandLine.thy ===== *)
theory CommandLine
  imports Operator
begin

text \<open>
  The process: \<^verbatim>\<open>main.go\<close>, \<^verbatim>\<open>flags.go\<close>, \<^verbatim>\<open>logger.go\<close>, \<^verbatim>\<open>newOperatorCommand\<close> of \<^verbatim>\<open>operator_command.go\<close> and the
  logging hook of \<^verbatim>\<open>operator/pipelineutil/log.go\<close>. The package \<^verbatim>\<open>urfave/cli\<close>, which parses the arguments and calls the
  hooks of the app, and the construction of a zap logger are parameters.
\<close>

section \<open>Loggers\<close>

text \<open>
  A \<^verbatim>\<open>logr.Logger\<close> discards what it is told or hands it, with its names and values, to a zap logger of type \<open>'z\<close>. Every
  call of \<^verbatim>\<open>Info\<close> that reaches a zap logger is an entry of the log; which entries zap then prints is its own matter.
\<close>

datatype logValue = Text string | Num int | Config bool string

type_synonym keyvals = "(string \<times> logValue) list"

datatype 'z logr = Discard | Logr 'z "string list" keyvals

type_synonym 'z log = "('z \<times> string list \<times> string \<times> keyvals) list"

fun WithName :: "string \<Rightarrow> 'z logr \<Rightarrow> 'z logr" where
  "WithName n Discard = Discard"
| "WithName n (Logr z ns kvs) = Logr z (ns @ [n]) kvs"

fun WithValues :: "keyvals \<Rightarrow> 'z logr \<Rightarrow> 'z logr" where
  "WithValues kvs' Discard = Discard"
| "WithValues kvs' (Logr z ns kvs) = Logr z ns (kvs @ kvs')"

fun Info :: "string \<Rightarrow> keyvals \<Rightarrow> 'z logr \<Rightarrow> 'z log \<Rightarrow> 'z log" where
  "Info msg kvs' Discard l = l"
| "Info msg kvs' (Logr z ns kvs) l = l @ [(z, ns, msg, kvs @ kvs')]"

section \<open>The state of the process\<close>

text \<open>
  The operator command the flags write to, the world, the logger in the context of the app (a context without a logger
  gives the discarding one), the global logger of zap, the logger of controller-runtime, the log, and how often the
  help was shown. The context of a command is derived from that of the app, so it holds the logger the app's \<^verbatim>\<open>Before\<close>
  puts there.
\<close>

record ('cfg, 'mgr, 'w, 'z) process =
  ps_Command :: "('cfg, 'mgr) operatorCommand"
  ps_World :: 'w
  ps_Context :: "'z logr"
  ps_Global :: "'z option"
  ps_Ctrl :: "'z logr option"
  ps_Log :: "'z log"
  ps_Help :: nat

definition onCommand ::
  "(('cfg, 'mgr) operatorCommand \<times> 'w, 'a) act \<Rightarrow> (('cfg, 'mgr, 'w, 'z) process, 'a) act" where
  "onCommand f s = (case f (ps_Command s, ps_World s) of (r, (c, w)) \<Rightarrow> (r, s\<lparr>ps_Command := c, ps_World := w\<rparr>))"

definition changing :: "('s \<Rightarrow> 's) \<Rightarrow> ('s, unit) act" where
  "changing f s = (Ret (), f s)"

text \<open>Variables of package \<^verbatim>\<open>main\<close> that a release sets, and what \<^verbatim>\<open>runtime\<close> and \<^verbatim>\<open>os\<close> tell.\<close>

record buildInfo =
  bi_version :: string
  bi_commit :: string
  bi_date :: string
  bi_go_os :: string
  bi_go_arch :: string
  bi_go_version :: string
  bi_uid :: int
  bi_gid :: int

definition appName :: string where
  "appName = ''provider-exoscale''"

definition appLongName :: string where
  "appLongName = ''Crossplane provider that deploys resources on exoscale.com''"

section \<open>The package cli\<close>

datatype flagValue = FlagInt "64 word" | FlagString string | FlagBool bool

text \<open>A flag; without \<^verbatim>\<open>Destination\<close> nothing is written, without \<^verbatim>\<open>Action\<close> nothing is done.\<close>

record 's cliFlag =
  fl_Name :: string
  fl_Aliases :: "string list"
  fl_EnvVars :: "string list"
  fl_Usage :: string
  fl_Value :: flagValue
  fl_Destination :: "flagValue \<Rightarrow> 's \<Rightarrow> 's"
  fl_Action :: "flagValue \<Rightarrow> ('s, unit) act"

text \<open>The values of flags, and whether one is set on the command line or in the environment.\<close>

record flagSet =
  fs_Value :: "string \<Rightarrow> flagValue"
  fs_IsSet :: "string \<Rightarrow> bool"

definition ctxInt :: "flagSet \<Rightarrow> string \<Rightarrow> 64 word" where
  "ctxInt fs n = (case fs_Value fs n of FlagInt i \<Rightarrow> i | _ \<Rightarrow> 0)"

definition ctxString :: "flagSet \<Rightarrow> string \<Rightarrow> string" where
  "ctxString fs n = (case fs_Value fs n of FlagString v \<Rightarrow> v | _ \<Rightarrow> [])"

definition ctxBool :: "flagSet \<Rightarrow> string \<Rightarrow> bool" where
  "ctxBool fs n = (case fs_Value fs n of FlagBool b \<Rightarrow> b | _ \<Rightarrow> False)"

record 's cliCommand =
  cmd_Name :: string
  cmd_Usage :: string
  cmd_Flags :: "'s cliFlag list"
  cmd_Action :: "('s, unit) act"

record 's cliApp =
  app_Name :: string
  app_Usage :: string
  app_Version :: string
  app_Before :: "flagSet \<Rightarrow> ('s, unit) act"
  app_Flags :: "'s cliFlag list"
  app_Commands :: "'s cliCommand list"

text \<open>
  \<^verbatim>\<open>cl_Parse\<close> reads the flags at the head of the arguments (and the environment, which does not change): an error, a
  request for help or the version (\<open>None\<close>), or the values and the rest. \<^verbatim>\<open>cl_Default\<close> is what happens without a
  command that the app has.
\<close>

record 's cli_lib =
  cl_Parse :: "'s cliFlag list \<Rightarrow> string list \<Rightarrow> liberror + (flagSet \<times> string list) option"
  cl_Default :: "string list \<Rightarrow> ('s, unit) act"
  cl_Run :: "'s cliApp \<Rightarrow> string list \<Rightarrow> ('s, unit) act"

text \<open>Actions of the flags that are set, in the order of the flags; destinations get every value.\<close>

fun flagActions :: "flagSet \<Rightarrow> 's cliFlag list \<Rightarrow> ('s, unit) act" where
  "flagActions fs [] = ret ()"
| "flagActions fs (fl # fls) = (if fs_IsSet fs (fl_Name fl)
     then andThen (fl_Action fl (fs_Value fs (fl_Name fl))) (\<lambda>_. flagActions fs fls)
     else flagActions fs fls)"

definition destinations :: "flagSet \<Rightarrow> 's cliFlag list \<Rightarrow> 's \<Rightarrow> 's" where
  "destinations fs fls = fold (\<lambda>fl. fl_Destination fl (fs_Value fs (fl_Name fl))) fls"

text \<open>
  What the package documents: the flags of the app are parsed, \<^verbatim>\<open>Before\<close> is run, \<open>if a non-nil error is returned, no
  subcommands are run\<close>; the actions of flags run if they are set; then the command that is named does the same with
  its flags and runs its action. An error ends it.
\<close>

type_synonym 's parser = "'s cliFlag list \<Rightarrow> string list \<Rightarrow> liberror + (flagSet \<times> string list) option"

definition runCommand :: "'s parser \<Rightarrow> 's cliCommand \<Rightarrow> string list \<Rightarrow> ('s, unit) act" where
  "runCommand parse cmd args = (case parse (cmd_Flags cmd) args of
     Inl e \<Rightarrow> fail (Lib e)
   | Inr None \<Rightarrow> ret ()
   | Inr (Some (fs, _)) \<Rightarrow> andThen (changing (destinations fs (cmd_Flags cmd))) (\<lambda>_.
       andThen (flagActions fs (cmd_Flags cmd)) (\<lambda>_. cmd_Action cmd)))"

definition cliRun :: "'s parser \<Rightarrow> (string list \<Rightarrow> ('s, unit) act) \<Rightarrow> 's cliApp \<Rightarrow> string list \<Rightarrow> ('s, unit) act" where
  "cliRun parse dflt app args = (case parse (app_Flags app) (tl args) of
     Inl e \<Rightarrow> fail (Lib e)
   | Inr None \<Rightarrow> ret ()
   | Inr (Some (fs, rest)) \<Rightarrow> andThen (changing (destinations fs (app_Flags app))) (\<lambda>_.
       andThen (app_Before app fs) (\<lambda>_. andThen (flagActions fs (app_Flags app)) (\<lambda>_.
         case rest of
           [] \<Rightarrow> dflt []
         | name # others \<Rightarrow> (case find (\<lambda>cmd. cmd_Name cmd = name) (app_Commands app) of
             None \<Rightarrow> dflt rest
           | Some cmd \<Rightarrow> runCommand parse cmd others)))))"

fun sameKind :: "flagValue \<Rightarrow> flagValue \<Rightarrow> bool" where
  "sameKind (FlagInt _) (FlagInt _) = True"
| "sameKind (FlagString _) (FlagString _) = True"
| "sameKind (FlagBool _) (FlagBool _) = True"
| "sameKind _ _ = False"

definition cli_law :: "'s cli_lib \<Rightarrow> bool" where
  "cli_law cl \<longleftrightarrow> cl_Run cl = cliRun (cl_Parse cl) (cl_Default cl) \<and>
     (\<forall>args s. snd (cl_Default cl args s) = s \<and> \<not> panics (fst (cl_Default cl args s))) \<and>
     (\<forall>fls args fs rest fl. distinct (map fl_Name fls) \<and> cl_Parse cl fls args = Inr (Some (fs, rest)) \<and> fl \<in> set fls \<longrightarrow>
        sameKind (fs_Value fs (fl_Name fl)) (fl_Value fl) \<and>
        (\<not> fs_IsSet fs (fl_Name fl) \<longrightarrow> fs_Value fs (fl_Name fl) = fl_Value fl))"

section \<open>flags.go\<close>

definition newLogLevelFlag :: "'s cliFlag" where
  "newLogLevelFlag = \<lparr>fl_Name = ''log-level'', fl_Aliases = [''v''], fl_EnvVars = [''LOG_LEVEL''],
     fl_Usage = ''number of the log level verbosity'', fl_Value = FlagInt 0,
     fl_Destination = (\<lambda>_ s. s), fl_Action = (\<lambda>_. ret ())\<rparr>"

definition newLogFormatFlag :: "('cfg, 'mgr, 'w, 'z) process cliFlag" where
  "newLogFormatFlag = \<lparr>fl_Name = ''log-format'', fl_Aliases = [], fl_EnvVars = [''LOG_FORMAT''],
     fl_Usage = ''sets the log format (values: [json, console])'', fl_Value = FlagString ''console'',
     fl_Destination = (\<lambda>_ s. s),
     fl_Action = (\<lambda>v. case v of
         FlagString format \<Rightarrow> (if logFormatAction format = Ret () then ret ()
           else andThen (changing (\<lambda>s. s\<lparr>ps_Help := Suc (ps_Help s)\<rparr>)) (\<lambda>_. lift (logFormatAction format)))
       | _ \<Rightarrow> ret ())\<rparr>"

definition newLeaderElectionEnabledFlag :: "(bool \<Rightarrow> 's \<Rightarrow> 's) \<Rightarrow> 's cliFlag" where
  "newLeaderElectionEnabledFlag dest = \<lparr>fl_Name = ''leader-election-enabled'', fl_Aliases = [], fl_EnvVars = [''LEADER_ELECTION_ENABLED''],
     fl_Usage = ''Use leader election for the controller manager.'', fl_Value = FlagBool False,
     fl_Destination = (\<lambda>v. case v of FlagBool b \<Rightarrow> dest b | _ \<Rightarrow> (\<lambda>s. s)), fl_Action = (\<lambda>_. ret ())\<rparr>"

definition newWebhookTLSCertDirFlag :: "(string \<Rightarrow> 's \<Rightarrow> 's) \<Rightarrow> 's cliFlag" where
  "newWebhookTLSCertDirFlag dest = \<lparr>fl_Name = ''webhook-tls-cert-dir'', fl_Aliases = [], fl_EnvVars = [''WEBHOOK_TLS_CERT_DIR''],
     fl_Usage = ''Directory containing the certificates for the webhook server. If empty, the webhook server is not started.'',
     fl_Value = FlagString [],
     fl_Destination = (\<lambda>v. case v of FlagString d \<Rightarrow> dest d | _ \<Rightarrow> (\<lambda>s. s)), fl_Action = (\<lambda>_. ret ())\<rparr>"

section \<open>logger.go\<close>

definition LogMetadata :: "buildInfo \<Rightarrow> (('cfg, 'mgr, 'w, 'z) process, unit) act" where
  "LogMetadata bi = changing (\<lambda>s.
     let log = WithValues
           [(''version'', Text (bi_version bi)), (''date'', Text (bi_date bi)), (''commit'', Text (bi_commit bi)),
            (''go_os'', Text (bi_go_os bi)), (''go_arch'', Text (bi_go_arch bi)), (''go_version'', Text (bi_go_version bi)),
            (''uid'', Num (bi_uid bi)), (''gid'', Num (bi_gid bi))] (ps_Context s)
     in s\<lparr>ps_Log := Info (''Starting up '' @ appName) [] log (ps_Log s)\<rparr>)"

text \<open>
  A configuration of zap: one of its presets, with the separator of the console encoder and the level where the
  program sets them. Building a logger may fail.
\<close>

datatype zapPreset = NewDevelopmentConfig | NewProductionConfig

record zapConfig =
  zc_Preset :: zapPreset
  zc_ConsoleSeparator :: "string option"
  zc_Level :: "8 word option"

definition preset :: "zapPreset \<Rightarrow> zapConfig" where
  "preset p = \<lparr>zc_Preset = p, zc_ConsoleSeparator = None, zc_Level = None\<rparr>"

definition loggerConfig :: "64 word \<Rightarrow> bool \<Rightarrow> zapConfig" where
  "loggerConfig verbosityLevel useProductionConfig =
     (let cfg = preset NewDevelopmentConfig;
          cfg = cfg\<lparr>zc_ConsoleSeparator := Some '' | ''\<rparr>;
          cfg = (if useProductionConfig then preset NewProductionConfig else cfg)
      in cfg\<lparr>zc_Level := Some (zapLevel verbosityLevel)\<rparr>)"

text \<open>The function returns a logger together with an error.\<close>

definition newZapLogger ::
  "(zapConfig \<Rightarrow> ('w, 'z) call) \<Rightarrow> buildInfo \<Rightarrow> string \<Rightarrow> 64 word \<Rightarrow> bool \<Rightarrow>
   (('cfg, 'mgr, 'w, 'z) process, 'z logr \<times> goerror option) act" where
  "newZapLogger build bi name verbosityLevel useProductionConfig =
     andThen (onCommand (attempt (build (loggerConfig verbosityLevel useProductionConfig)))) (\<lambda>r. case r of
       Inl e \<Rightarrow> ret (Discard, Some (Wrapf ''error configuring the logging stack: %w'' [] (Lib e)))
     | Inr z \<Rightarrow> andThen (changing (\<lambda>s. s\<lparr>ps_Global := Some z\<rparr>)) (\<lambda>_.
         let zlog = WithName name (Logr z [] []) in
         if useProductionConfig then ret (WithValues [(''version'', Text (bi_version bi))] zlog, None)
         else ret (zlog, None)))"

definition setupLogging ::
  "(zapConfig \<Rightarrow> ('w, 'z) call) \<Rightarrow> buildInfo \<Rightarrow> flagSet \<Rightarrow> (('cfg, 'mgr, 'w, 'z) process, unit) act" where
  "setupLogging build bi fs = andThen
     (newZapLogger build bi appName (ctxInt fs ''log-level'') (usesProductionLoggingConfig (ctxString fs ''log-format'')))
     (\<lambda>(log, err). andThen (changing (\<lambda>s. s\<lparr>ps_Context := log\<rparr>)) (\<lambda>_.
        case err of None \<Rightarrow> ret () | Some e \<Rightarrow> fail e))"

section \<open>The operator command and the app\<close>

text \<open>
  The action of the command: it logs and then runs the pipeline of \<open>execute\<close>. (The entries the pipeline itself writes, one
  per step, are left out; what such a hook does is the last section.)
\<close>

definition runOperator ::
  "(('cfg, 'mgr) operatorCommand \<times> 'w) runner \<Rightarrow> (('cfg, 'mgr) operatorCommand \<times> 'w) conditional \<Rightarrow>
   (('cfg, 'mgr) operatorCommand \<times> 'w) nesting \<Rightarrow> ('cfg, 'mgr, 'w) manager_lib \<Rightarrow> naming \<Rightarrow> buildInfo \<Rightarrow>
   (('cfg, 'mgr, 'w, 'z) process, unit) act" where
  "runOperator run wh nest ml nm bi =
     andThen (LogMetadata bi) (\<lambda>_.
     andThen (changing (\<lambda>s.
       let log = WithName ''operator'' (ps_Context s); c = ps_Command s
       in s\<lparr>ps_Log := Info ''Setting up controllers''
              [(''config'', Config (oc_LeaderElectionEnabled c) (oc_WebhookCertDir c))] log (ps_Log s),
            ps_Ctrl := Some log\<rparr>)) (\<lambda>_.
     onCommand (execute run wh nest ml nm)))"

definition operatorFlags :: "('cfg, 'mgr, 'w, 'z) process cliFlag list" where
  "operatorFlags =
     [newLeaderElectionEnabledFlag (\<lambda>b s. s\<lparr>ps_Command := (ps_Command s)\<lparr>oc_LeaderElectionEnabled := b\<rparr>\<rparr>),
      newWebhookTLSCertDirFlag (\<lambda>d s. s\<lparr>ps_Command := (ps_Command s)\<lparr>oc_WebhookCertDir := d\<rparr>\<rparr>)]"

definition newOperatorCommand ::
  "(('cfg, 'mgr, 'w, 'z) process, unit) act \<Rightarrow> ('cfg, 'mgr, 'w, 'z) process cliCommand" where
  "newOperatorCommand action =
     \<lparr>cmd_Name = ''operator'', cmd_Usage = ''Start provider in operator mode'', cmd_Flags = operatorFlags, cmd_Action = action\<rparr>"

definition newApp ::
  "(zapConfig \<Rightarrow> ('w, 'z) call) \<Rightarrow> buildInfo \<Rightarrow> (('cfg, 'mgr, 'w, 'z) process, unit) act \<Rightarrow>
   ('cfg, 'mgr, 'w, 'z) process cliApp" where
  "newApp build bi action =
     \<lparr>app_Name = appName, app_Usage = appLongName,
      app_Version = bi_version bi @ '', revision='' @ bi_commit bi @ '', date='' @ bi_date bi,
      app_Before = setupLogging build bi,
      app_Flags = [newLogLevelFlag, newLogFormatFlag],
      app_Commands = [newOperatorCommand action]\<rparr>"

text \<open>How the process ends, and the errors it prints to the standard error.\<close>

datatype exit = Exit nat | Crash string

definition main_go ::
  "'s cli_lib \<Rightarrow> 's cliApp \<Rightarrow> string list \<Rightarrow> 's \<Rightarrow> exit \<times> goerror list \<times> 's" where
  "main_go cl app args s = (case cl_Run cl app args s of
     (Ret _, s') \<Rightarrow> (Exit 0, [], s')
   | (Fail err, s') \<Rightarrow> (Exit 1, [err], s')
   | (Panic p, s') \<Rightarrow> (Crash p, [], s'))"

text \<open>The process at its start: nothing is configured.\<close>

definition fresh :: "'w \<Rightarrow> ('cfg, 'mgr, 'w, 'z) process" where
  "fresh w = \<lparr>ps_Command = \<lparr>oc_LeaderElectionEnabled = False, oc_WebhookCertDir = [], oc_manager = None, oc_kubeconfig = None\<rparr>,
     ps_World = w, ps_Context = Discard, ps_Global = None, ps_Ctrl = None, ps_Log = [], ps_Help = 0\<rparr>"

section \<open>What the process does\<close>

text \<open>What the arguments ask for: to run the operator, with the flags of the app and of the command.\<close>

definition operatorRequested ::
  "('cfg, 'mgr, 'w, 'z) process cli_lib \<Rightarrow> string list \<Rightarrow> (flagSet \<times> flagSet) option" where
  "operatorRequested cl args = (case cl_Parse cl [newLogLevelFlag, newLogFormatFlag] (tl args) of
     Inr (Some (fs, name # others)) \<Rightarrow>
       (if name = ''operator'' then
          (case cl_Parse cl operatorFlags others of
             Inr (Some (cfs, _)) \<Rightarrow> Some (fs, cfs)
           | _ \<Rightarrow> None)
        else None)
   | _ \<Rightarrow> None)"

definition unnoted :: "('w, 'a) call \<Rightarrow> ('w \<times> journal, 'a) call" where
  "unnoted f = (\<lambda>(w, j). case f w of (r, w') \<Rightarrow> (r, (w', j)))"

definition operatorLogger :: "buildInfo \<Rightarrow> bool \<Rightarrow> 'z \<Rightarrow> 'z logr" where
  "operatorLogger bi json z = Logr z [appName, ''operator''] (if json then [(''version'', Text (bi_version bi))] else [])"

lemma setupLogging_run:
  "\<exists>r s'. setupLogging (\<lambda>c. unnoted (build c)) bi fs s = (r, s') \<and> \<not> panics r \<and> snd (ps_World s') = snd (ps_World s) \<and>
     ps_Command s' = ps_Command s \<and> ps_Ctrl s' = ps_Ctrl s \<and>
     (r = Ret () \<longrightarrow> (\<exists>z. ps_Global s' = Some z \<and> ps_Context s' = Logr z [appName]
        (if usesProductionLoggingConfig (ctxString fs ''log-format'') then [(''version'', Text (bi_version bi))] else [])))"
proof -
  let ?cfg = "loggerConfig (ctxInt fs ''log-level'') (usesProductionLoggingConfig (ctxString fs ''log-format''))"
  obtain w j where w: "ps_World s = (w, j)" by fastforce
  obtain r w' where b: "build ?cfg w = (r, w')" by fastforce
  show ?thesis
    by (cases r) (simp_all add: setupLogging_def newZapLogger_def onCommand_def changing_def unnoted_def run_simps w b Let_def)
qed

lemma parsed_flag:
  assumes "cli_law cl" "cl_Parse cl fls args = Inr (Some (fs, rest))" "distinct (map fl_Name fls)" "fl \<in> set fls"
  shows "sameKind (fs_Value fs (fl_Name fl)) (fl_Value fl)"
    and "\<not> fs_IsSet fs (fl_Name fl) \<Longrightarrow> fs_Value fs (fl_Name fl) = fl_Value fl"
  using assms unfolding cli_law_def by blast+

lemmas app_flag_defs = newLogLevelFlag_def newLogFormatFlag_def
lemmas operator_flag_defs = operatorFlags_def newLeaderElectionEnabledFlag_def newWebhookTLSCertDirFlag_def

lemma flagActions_format:
  assumes "cli_law cl" "cl_Parse cl [newLogLevelFlag, newLogFormatFlag] args = Inr (Some (fs, rest))"
  shows "\<exists>r n. flagActions fs [newLogLevelFlag, newLogFormatFlag] s = (r, s\<lparr>ps_Help := n\<rparr>) \<and> \<not> panics r \<and>
    (r = Ret () \<longrightarrow> ctxString fs ''log-format'' = ''console'' \<or> ctxString fs ''log-format'' = ''json'')"
proof -
  have law: "sameKind (fs_Value fs ''log-format'') (FlagString ''console'')"
    "\<not> fs_IsSet fs ''log-format'' \<Longrightarrow> fs_Value fs ''log-format'' = FlagString ''console''"
    using parsed_flag [OF assms, of newLogFormatFlag] by (simp_all add: app_flag_defs)
  then obtain v where v: "fs_Value fs ''log-format'' = FlagString v" by (cases "fs_Value fs ''log-format''") auto
  have same: "s\<lparr>ps_Help := ps_Help s\<rparr> = s" by simp
  show ?thesis
  proof (cases "fs_IsSet fs ''log-format'' \<and> logFormatAction v \<noteq> Ret ()")
    case True
    then show ?thesis using v
      by (intro exI [of _ "logFormatAction v"] exI [of _ "Suc (ps_Help s)"])
        (simp add: newLogLevelFlag_def newLogFormatFlag_def changing_def andThen_apply logFormatAction_def split: if_splits)
  next
    case False
    then have "v = ''console'' \<or> v = ''json''" using v law(2) by (auto simp: logFormatAction_def split: if_splits)
    then show ?thesis using v False
      by (intro exI [of _ "Ret ()"] exI [of _ "ps_Help s"])
        (auto simp: newLogLevelFlag_def newLogFormatFlag_def ctxString_def same)
  qed
qed

lemma destinations_operator:
  assumes "cli_law cl" "cl_Parse cl operatorFlags args = Inr (Some (cfs, rest))"
  shows "destinations cfs operatorFlags s = s\<lparr>ps_Command := (ps_Command s)\<lparr>
      oc_LeaderElectionEnabled := ctxBool cfs ''leader-election-enabled'', oc_WebhookCertDir := ctxString cfs ''webhook-tls-cert-dir''\<rparr>\<rparr>"
    and "flagActions cfs operatorFlags = ret ()"
proof -
  have "sameKind (fs_Value cfs ''leader-election-enabled'') (FlagBool False)"
    "sameKind (fs_Value cfs ''webhook-tls-cert-dir'') (FlagString [])"
    using parsed_flag(1) [OF assms, of "hd operatorFlags"] parsed_flag(1) [OF assms, of "last operatorFlags"]
    by (simp_all add: operator_flag_defs)
  then obtain b d where "fs_Value cfs ''leader-election-enabled'' = FlagBool b" "fs_Value cfs ''webhook-tls-cert-dir'' = FlagString d"
    by (metis sameKind.elims(2) flagValue.distinct)
  then show "destinations cfs operatorFlags s = s\<lparr>ps_Command := (ps_Command s)\<lparr>
      oc_LeaderElectionEnabled := ctxBool cfs ''leader-election-enabled'', oc_WebhookCertDir := ctxString cfs ''webhook-tls-cert-dir''\<rparr>\<rparr>"
    by (simp add: destinations_def operator_flag_defs ctxBool_def ctxString_def)
  show "flagActions cfs operatorFlags = ret ()"
    by (simp add: operator_flag_defs fun_eq_iff)
qed

lemma runOperator_run:
  assumes "pipeline_laws wrap run" "when_law wh" "nest_law run nest" "snd (ps_World s) = []" "ps_Context s = Logr z ns kvs"
  shows "\<exists>r s'. runOperator run wh nest (journalled ml) nm bi s = (r, s') \<and> ps_Global s' = ps_Global s \<and>
    ps_Ctrl s' = Some (Logr z (ns @ [''operator'']) kvs) \<and>
    carriedOut (startPlan (oc_LeaderElectionEnabled (ps_Command s)) (oc_WebhookCertDir (ps_Command s))) r (snd (ps_World s'))"
proof -
  obtain w where w: "ps_World s = (w, [])" using assms(4) by (metis surjective_pairing)
  obtain r c' w' j where ex: "execute run wh nest (journalled ml) nm (ps_Command s, (w, [])) = (r, (c', (w', j)))" by (metis surj_pair)
  show ?thesis
    using execute_carriedOut [OF assms(1-3) ex] ex w assms(5)
    by (simp add: runOperator_def LogMetadata_def changing_def onCommand_def run_simps Let_def)
qed

lemma runCommand_operator:
  assumes laws: "cli_law cl" "pipeline_laws wrap run" "when_law wh" "nest_law run nest"
    and s: "snd (ps_World s) = []" "ps_Context s = Logr z ns kvs" "ps_Ctrl s = None"
  shows "\<exists>r s'. runCommand (cl_Parse cl) (newOperatorCommand (runOperator run wh nest (journalled ml) nm bi)) args s = (r, s') \<and> \<not> panics r \<and> ps_Global s' = ps_Global s \<and>
    (case cl_Parse cl operatorFlags args of
       Inr (Some (cfs, _)) \<Rightarrow> ps_Ctrl s' = Some (Logr z (ns @ [''operator'']) kvs) \<and>
         carriedOut (startPlan (ctxBool cfs ''leader-election-enabled'') (ctxString cfs ''webhook-tls-cert-dir'')) r (snd (ps_World s'))
     | _ \<Rightarrow> ps_Ctrl s' = None \<and> snd (ps_World s') = [])"
proof (cases "\<exists>cfs rest. cl_Parse cl operatorFlags args = Inr (Some (cfs, rest))")
  case True
  then obtain cfs rest where parse: "cl_Parse cl operatorFlags args = Inr (Some (cfs, rest))" by blast
  let ?s = "s\<lparr>ps_Command := (ps_Command s)\<lparr>oc_LeaderElectionEnabled := ctxBool cfs ''leader-election-enabled'',
      oc_WebhookCertDir := ctxString cfs ''webhook-tls-cert-dir''\<rparr>\<rparr>"
  obtain r s' where run: "runOperator run wh nest (journalled ml) nm bi ?s = (r, s')" "ps_Global s' = ps_Global s"
    "ps_Ctrl s' = Some (Logr z (ns @ [''operator'']) kvs)"
    "carriedOut (startPlan (ctxBool cfs ''leader-election-enabled'') (ctxString cfs ''webhook-tls-cert-dir'')) r (snd (ps_World s'))"
    using runOperator_run [OF laws(2-4), of ?s z ns kvs ml nm bi] s by auto
  have "\<not> panics r" using run(4) by (cases r) (auto simp: carriedOut_def)
  moreover have "runCommand (cl_Parse cl) (newOperatorCommand (runOperator run wh nest (journalled ml) nm bi)) args s = (r, s')"
    using run(1) by (simp add: runCommand_def newOperatorCommand_def parse changing_def andThen_apply destinations_operator [OF laws(1) parse])
  ultimately show ?thesis using run by (simp add: parse)
next
  case False
  then show ?thesis using s
    by (auto simp: runCommand_def newOperatorCommand_def split: sum.splits option.splits)
qed

text \<open>How a run ends: before the operator, or with the start of the operator as the flags say.\<close>

definition endsRight ::
  "('cfg, 'mgr, 'w \<times> journal, 'z) process cli_lib \<Rightarrow> buildInfo \<Rightarrow> string list \<Rightarrow> unit outcome \<Rightarrow>
   ('cfg, 'mgr, 'w \<times> journal, 'z) process \<Rightarrow> bool" where
  "endsRight cl bi args r s' \<longleftrightarrow> \<not> panics r \<and>
     (case ps_Ctrl s' of
        None \<Rightarrow> snd (ps_World s') = [] \<and> (r = Ret () \<longrightarrow> operatorRequested cl args = None)
      | Some lg \<Rightarrow> (\<exists>fs cfs z. operatorRequested cl args = Some (fs, cfs) \<and> ps_Global s' = Some z \<and>
          (ctxString fs ''log-format'' = ''console'' \<or> ctxString fs ''log-format'' = ''json'') \<and>
          lg = operatorLogger bi (ctxString fs ''log-format'' = ''json'') z \<and>
          carriedOut (startPlan (ctxBool cfs ''leader-election-enabled'') (ctxString cfs ''webhook-tls-cert-dir'')) r (snd (ps_World s'))))"

lemma production_json: "format = ''console'' \<or> format = ''json'' \<Longrightarrow> usesProductionLoggingConfig format = (format = ''json'')"
  by (auto simp: usesProductionLoggingConfig_def EqualFold_def ToLower_def lower_letters lower_char_def char_of_eq_iff)

lemma endsRight_early:
  "\<not> panics r \<Longrightarrow> ps_Ctrl s' = None \<Longrightarrow> snd (ps_World s') = [] \<Longrightarrow> (r = Ret () \<Longrightarrow> operatorRequested cl args = None) \<Longrightarrow>
   endsRight cl bi args r s'"
  by (simp add: endsRight_def)

lemma cliRun_endsRight:
  assumes laws: "cli_law cl" "pipeline_laws wrap run" "when_law wh" "nest_law run nest"
    and out: "cliRun (cl_Parse cl) (cl_Default cl) (newApp (\<lambda>c. unnoted (build c)) bi (runOperator run wh nest (journalled ml) nm bi)) args (fresh (w, [])) = (r, s')"
  shows "endsRight cl bi args r s'"
proof (cases "cl_Parse cl [newLogLevelFlag, newLogFormatFlag :: ('a, 'b, 'c \<times> journal, 'd) process cliFlag] (tl args)")
  case (Inl e)
  then show ?thesis using out by (intro endsRight_early) (auto simp: cliRun_def newApp_def fresh_def operatorRequested_def)
next
  case (Inr p)
  show ?thesis
  proof (cases p)
    case None
    then show ?thesis using out Inr by (intro endsRight_early) (auto simp: cliRun_def newApp_def fresh_def operatorRequested_def)
  next
    case (Some q)
    obtain fs rest where parse: "cl_Parse cl [newLogLevelFlag, newLogFormatFlag :: ('a, 'b, 'c \<times> journal, 'd) process cliFlag] (tl args) = Inr (Some (fs, rest))"
      using Inr Some by (metis surj_pair)
    let ?next = "\<lambda>s :: ('a, 'b, 'c \<times> journal, 'd) process. case rest of [] \<Rightarrow> cl_Default cl [] s
       | name # others \<Rightarrow> (if name = ''operator'' then runCommand (cl_Parse cl) (newOperatorCommand (runOperator run wh nest (journalled ml) nm bi)) others s
           else cl_Default cl rest s)"
    have dest: "destinations fs [newLogLevelFlag, newLogFormatFlag :: ('a, 'b, 'c \<times> journal, 'd) process cliFlag] s = s" for s
      by (simp add: destinations_def app_flag_defs)
    obtain r1 s1 where log: "setupLogging (\<lambda>c. unnoted (build c)) bi fs (fresh (w, []) :: ('a, 'b, 'c \<times> journal, 'd) process) = (r1, s1)" "\<not> panics r1"
      "snd (ps_World s1) = []" "ps_Ctrl s1 = None"
      "r1 = Ret () \<longrightarrow> (\<exists>z. ps_Global s1 = Some z \<and> ps_Context s1 = Logr z [appName]
        (if usesProductionLoggingConfig (ctxString fs ''log-format'') then [(''version'', Text (bi_version bi))] else []))"
      using setupLogging_run [of build bi fs "fresh (w, [])"] by (auto simp: fresh_def)
    obtain r2 n where act: "flagActions fs [newLogLevelFlag, newLogFormatFlag] s1 = (r2, s1\<lparr>ps_Help := n\<rparr>)" "\<not> panics r2"
      "r2 = Ret () \<longrightarrow> ctxString fs ''log-format'' = ''console'' \<or> ctxString fs ''log-format'' = ''json''"
      using flagActions_format [OF laws(1) parse] by blast
    have run: "(r, s') = (if r1 \<noteq> Ret () then (r1, s1) else if r2 \<noteq> Ret () then (r2, s1\<lparr>ps_Help := n\<rparr>) else ?next (s1\<lparr>ps_Help := n\<rparr>))"
      using out log(1,2) act(1,2)
      by (cases r1; cases r2; cases rest) (auto simp: cliRun_def newApp_def parse changing_def andThen_apply dest newOperatorCommand_def)
    show ?thesis
    proof (cases "r1 = Ret () \<and> r2 = Ret () \<and> (\<exists>others. rest = ''operator'' # others)")
      case False
      let ?s2 = "s1\<lparr>ps_Help := n\<rparr>"
      obtain d where d: "cl_Default cl rest ?s2 = (d, ?s2)" "\<not> panics d"
        using laws(1) unfolding cli_law_def by (metis prod.collapse)
      have "r1 = Ret () \<Longrightarrow> r2 = Ret () \<Longrightarrow> ?next ?s2 = cl_Default cl rest ?s2"
        using False by (cases rest) simp_all
      then have s': "ps_Ctrl s' = None" "snd (ps_World s') = []" "\<not> panics r"
        "r = Ret () \<Longrightarrow> r1 = Ret () \<and> r2 = Ret ()"
        using run log(2-4) act(2) d by (auto split: if_splits)
      show ?thesis
        by (rule endsRight_early [OF s'(3,1,2)])
          (use s'(4) False in \<open>auto simp: operatorRequested_def parse split: list.splits\<close>)
    next
      case True
      then obtain others where rest: "rest = ''operator'' # others" by blast
      obtain z where z: "ps_Global s1 = Some z" "ps_Context s1 = Logr z [appName]
          (if usesProductionLoggingConfig (ctxString fs ''log-format'') then [(''version'', Text (bi_version bi))] else [])"
        using log(5) True by blast
      have format: "ctxString fs ''log-format'' = ''console'' \<or> ctxString fs ''log-format'' = ''json''"
        using act(3) True by blast
      have json: "usesProductionLoggingConfig (ctxString fs ''log-format'') = (ctxString fs ''log-format'' = ''json'')"
        using format production_json by blast
      have cmd: "runCommand (cl_Parse cl) (newOperatorCommand (runOperator run wh nest (journalled ml) nm bi)) others (s1\<lparr>ps_Help := n\<rparr>) = (r, s')"
        using run True rest by simp
      let ?s2 = "s1\<lparr>ps_Help := n\<rparr>"
      have "snd (ps_World ?s2) = []" "ps_Context ?s2 = Logr z [appName] (if ctxString fs ''log-format'' = ''json'' then [(''version'', Text (bi_version bi))] else [])"
        "ps_Ctrl ?s2 = None" using log(3,4) z(2) json by simp_all
      from runCommand_operator [OF laws this, of ml nm bi others] cmd
      have "\<not> panics r" "ps_Global s' = ps_Global s1" "case cl_Parse cl operatorFlags others of
          Inr (Some (cfs, _)) \<Rightarrow> ps_Ctrl s' = Some (operatorLogger bi (ctxString fs ''log-format'' = ''json'') z) \<and>
            carriedOut (startPlan (ctxBool cfs ''leader-election-enabled'') (ctxString cfs ''webhook-tls-cert-dir'')) r (snd (ps_World s'))
        | _ \<Rightarrow> ps_Ctrl s' = None \<and> snd (ps_World s') = []"
        by (simp_all add: operatorLogger_def split: sum.splits option.splits prod.splits)
      then show ?thesis using format z(1)
        by (auto simp: endsRight_def operatorRequested_def parse rest split: sum.splits option.splits)
    qed
  qed
qed

text \<open>
  C15: \<^verbatim>\<open>main\<close> ends with status 0 and prints nothing, or with status 1 and prints the one error; it never crashes. The
  cluster is touched only if the arguments ask for the operator, and then only after logging is set up: the zap logger
  is built and made global, and controller-runtime has the logger named provider-exoscale and operator, with the version
  on every entry exactly for the format json, which is one of the two formats. From there on the start follows its plan
  for the two flags of the command, and if the operator was asked for and the status is 0, the whole plan was done.
\<close>

theorem main_starts_operator:
  assumes "cli_law cl" "pipeline_laws wrap run" "when_law wh" "nest_law run nest"
    and "main_go cl (newApp (\<lambda>c. unnoted (build c)) bi (runOperator run wh nest (journalled ml) nm bi)) args (fresh (w, [])) = (x, errs, s')"
  shows "(x = Exit 0 \<and> errs = [] \<or> (\<exists>e. x = Exit 1 \<and> errs = [e])) \<and>
    (ps_Ctrl s' = None \<longrightarrow> snd (ps_World s') = []) \<and>
    (\<forall>lg. ps_Ctrl s' = Some lg \<longrightarrow> (\<exists>fs cfs z. operatorRequested cl args = Some (fs, cfs) \<and> ps_Global s' = Some z \<and>
       (ctxString fs ''log-format'' = ''console'' \<or> ctxString fs ''log-format'' = ''json'') \<and>
       lg = operatorLogger bi (ctxString fs ''log-format'' = ''json'') z \<and>
       carriedOut (startPlan (ctxBool cfs ''leader-election-enabled'') (ctxString cfs ''webhook-tls-cert-dir''))
         (case errs of [] \<Rightarrow> Ret () | e # _ \<Rightarrow> Fail e) (snd (ps_World s')))) \<and>
    (operatorRequested cl args \<noteq> None \<and> x = Exit 0 \<longrightarrow> ps_Ctrl s' \<noteq> None)"
proof -
  let ?out = "cliRun (cl_Parse cl) (cl_Default cl) (newApp (\<lambda>c. unnoted (build c)) bi (runOperator run wh nest (journalled ml) nm bi)) args (fresh (w, []))"
  have run: "cl_Run cl = cliRun (cl_Parse cl) (cl_Default cl)" using assms(1) by (simp add: cli_law_def)
  obtain r t where t: "?out = (r, t)" by fastforce
  have "(x, errs, s') = (case (r, t) of (Ret _, s') \<Rightarrow> (Exit 0, [], s') | (Fail err, s') \<Rightarrow> (Exit 1, [err], s') | (Panic p, s') \<Rightarrow> (Crash p, [], s'))"
    using assms(5) unfolding main_go_def run t by (rule sym)
  then have out: "?out = (r, s')" and x: "r = Ret () \<and> x = Exit 0 \<and> errs = [] \<or> (\<exists>e. r = Fail e \<and> x = Exit 1 \<and> errs = [e]) \<or> panics r"
    unfolding t by (simp_all split: outcome.splits)
  have ends: "endsRight cl bi args r s'" by (rule cliRun_endsRight [OF assms(1-4) out])
  then have "\<not> panics r" by (simp add: endsRight_def)
  then have x': "r = (case errs of [] \<Rightarrow> Ret () | e # _ \<Rightarrow> Fail e)" "x = Exit 0 \<and> errs = [] \<or> (\<exists>e. x = Exit 1 \<and> errs = [e])"
    "x = Exit 0 \<Longrightarrow> r = Ret ()" using x by auto
  show ?thesis
  proof (cases "ps_Ctrl s'")
    case None
    then show ?thesis using ends x'(2,3) by (auto simp: endsRight_def)
  next
    case (Some lg)
    then show ?thesis using ends x'(1,2) by (simp add: endsRight_def)
  qed
qed

text \<open>A command line without flags: all have their defaults.\<close>

definition sampleParse :: "'s parser" where
  "sampleParse fls args = Inr (Some (\<lparr>fs_Value = (\<lambda>n. case find (\<lambda>fl. fl_Name fl = n) fls of None \<Rightarrow> FlagBool False | Some fl \<Rightarrow> fl_Value fl),
     fs_IsSet = (\<lambda>_. False)\<rparr>, args))"

definition sampleCli :: "'s cli_lib" where
  "sampleCli = \<lparr>cl_Parse = sampleParse, cl_Default = (\<lambda>_. ret ()), cl_Run = cliRun sampleParse (\<lambda>_. ret ())\<rparr>"

lemma find_distinct: "distinct (map fl_Name fls) \<Longrightarrow> fl \<in> set fls \<Longrightarrow> find (\<lambda>f. fl_Name f = fl_Name fl) fls = Some fl"
  by (induction fls) auto

lemma sampleCli_law: "cli_law sampleCli"
proof -
  have same: "sameKind v v" for v by (cases v) simp_all
  show ?thesis unfolding cli_law_def
    by (simp add: sampleCli_def sampleParse_def find_distinct same)
qed

definition sampleBuild :: buildInfo where
  "sampleBuild = \<lparr>bi_version = ''v1'', bi_commit = ''abc'', bi_date = ''2024-01-01'', bi_go_os = ''linux'', bi_go_arch = ''amd64'',
     bi_go_version = ''go1.23'', bi_uid = 65532, bi_gid = 0\<rparr>"

theorem main_starts_operator_witness:
  "\<exists>x errs s'. main_go sampleCli (newApp (\<lambda>c. unnoted (\<lambda>w. (Inr c, w))) sampleBuild
       (runOperator (runSteps (\<lambda>n e. e)) whenStep (\<lambda>n steps. (n, runSteps (\<lambda>n e. e) steps)) (journalled sampleManager) sampleNaming sampleBuild))
       [''provider'', ''operator''] (fresh (0, [])) = (x, errs, s') \<and>
     (x = Exit 0 \<and> errs = [] \<or> (\<exists>e. x = Exit 1 \<and> errs = [e])) \<and> operatorRequested sampleCli [''provider'', ''operator''] \<noteq> None"
proof -
  let ?out = "main_go sampleCli (newApp (\<lambda>c. unnoted (\<lambda>w. (Inr c, w))) sampleBuild
       (runOperator (runSteps (\<lambda>n e. e)) whenStep (\<lambda>n steps. (n, runSteps (\<lambda>n e. e) steps)) (journalled sampleManager) sampleNaming sampleBuild))
       [''provider'', ''operator''] (fresh (0, []))"
  obtain x errs s' where out: "?out = (x, errs, s')" by (metis surj_pair)
  have "operatorRequested sampleCli [''provider'', ''operator''] \<noteq> None"
    by (simp add: operatorRequested_def sampleCli_def sampleParse_def)
  then show ?thesis
    using main_starts_operator [OF sampleCli_law runSteps_laws [of "\<lambda>n e. e"] _ nest_law_pair out] out
    by (simp add: when_law_whenStep)
qed

section \<open>The logging hook of the pipelines\<close>

text \<open>
  \<^verbatim>\<open>WithBeforeHooks\<close> of the pipeline package: each listener is called with a step just before the step is run. The state is
  that of the steps and the log; \<open>logged lg\<close> is the hook the program uses in all its pipelines, with the logger of its
  context.
\<close>

type_synonym 's listener = "string \<Rightarrow> ('s, unit) act"

definition beforeHook :: "'s listener \<Rightarrow> 's step list \<Rightarrow> 's step list" where
  "beforeHook hook steps = map (\<lambda>(n, f). (n, andThen (hook n) (\<lambda>_. f))) steps"

definition stepEntry :: "string \<Rightarrow> string" where
  "stepEntry n = ''Entering step \"'' @ n @ ''\"''"

definition DebugLogger :: "'z logr \<Rightarrow> ('s \<times> 'z log) listener" where
  "DebugLogger lg n = changing (\<lambda>(s, l). (s, Info (stepEntry n) [] lg l))"

definition beside :: "('s, 'a) act \<Rightarrow> ('s \<times> 'l, 'a) act" where
  "beside f = (\<lambda>(s, l). case f s of (r, s') \<Rightarrow> (r, (s', l)))"

text \<open>The steps a run enters: those before the first that does not succeed, and that one.\<close>

fun entered :: "'s step list \<Rightarrow> 's \<Rightarrow> string list" where
  "entered [] s = []"
| "entered ((n, f) # fs) s = n # (case f s of (Ret _, s') \<Rightarrow> entered fs s' | _ \<Rightarrow> [])"

lemma beforeHook_Nil: "beforeHook hook [] = []"
  and beforeHook_Cons: "beforeHook hook ((n, f) # steps) = (n, andThen (hook n) (\<lambda>_. f)) # beforeHook hook steps"
  by (simp_all add: beforeHook_def)

lemma DebugLogger_apply: "DebugLogger lg n (s, l) = (Ret (), (s, Info (stepEntry n) [] lg l))"
  by (simp add: DebugLogger_def changing_def)

lemma beside_apply: "beside f (s, l) = (fst (f s), (snd (f s), l))"
  by (simp add: beside_def split: prod.splits)

lemma runSteps_hooked:
  "runSteps wrap (beforeHook (DebugLogger lg) (map (\<lambda>(n, f). (n, beside f)) steps)) (s, l) =
     (fst (runSteps wrap steps s), snd (runSteps wrap steps s),
      fold (\<lambda>n. Info (stepEntry n) [] lg) (entered steps s) l)"
proof (induction steps arbitrary: s l)
  case Nil
  show ?case by (simp add: beforeHook_Nil)
next
  case (Cons step steps)
  obtain n f where step: "step = (n, f)" by (cases step)
  obtain r s' where "f s = (r, s')" by fastforce
  then show ?case
    by (cases r) (simp_all add: step Cons.IH beforeHook_Cons DebugLogger_apply beside_apply andThen_apply wrapErr_apply)
qed

text \<open>
  The debug hook of a pipeline changes nothing but the log: for any steps the pipeline with the hook ends like the one
  without it and leaves the same state. In the log there is one entry, \<^verbatim>\<open>Entering step\<close> with the name, for each step that
  is entered, in this order, so the last one is that of the step that failed; a logger that discards leaves the log alone.
\<close>

theorem DebugLogger_transparent:
  assumes "pipeline_laws wrap run" "pipeline_laws wrap run'"
  shows "run' (beforeHook (DebugLogger lg) (map (\<lambda>(n, f). (n, beside f)) steps)) (s, l) =
    (fst (run steps s), snd (run steps s),
     (case lg of Discard \<Rightarrow> l
      | Logr z ns kvs \<Rightarrow> l @ map (\<lambda>n. (z, ns, stepEntry n, kvs)) (entered steps s)))"
proof -
  have discard: "fold (\<lambda>n. Info (stepEntry n) [] Discard) names l = l" for names by (induction names) simp_all
  have entries: "fold (\<lambda>n. Info (stepEntry n) [] (Logr z ns kvs)) names l =
      l @ map (\<lambda>n. (z, ns, stepEntry n, kvs)) names" for z ns kvs names
    by (induction names arbitrary: l) simp_all
  have runs: "run = runSteps wrap" "run' = runSteps wrap" using assms by (simp_all add: pipeline_laws_runSteps)
  show ?thesis unfolding runs runSteps_hooked
    by (cases lg) (simp_all only: discard entries logr.case prod.case fst_conv snd_conv)
qed

theorem DebugLogger_transparent_witness:
  "runSteps (\<lambda>n e. e) (beforeHook (DebugLogger (Logr () [] [])) (map (\<lambda>(n, f). (n, beside f))
       [(''one'', ret ()), (''two'', fail (Errorf [] [])), (''three'', ret ())])) ((), []) =
     (Fail (Errorf [] []), (), [((), [], ''Entering step \"one\"'', []), ((), [], ''Entering step \"two\"'', [])])"
  unfolding DebugLogger_transparent [OF runSteps_laws runSteps_laws] by (simp add: run_simps stepEntry_def)

end
