(* ===== verification/Generator.thy ===== *)
theory Generator
  imports Samples Operator
begin

text \<open>
  The program that writes the samples, \<^verbatim>\<open>generate_sample.go\<close>: it builds each resource, encodes it and writes it to a file
  of the directory that its first argument names. \<^verbatim>\<open>filepath.Join\<close> is modelled as the standard library has it; the serializer
  is a parameter, and so is which paths the operating system refuses.
\<close>

section \<open>Paths\<close>

fun splitSlash :: "string \<Rightarrow> string list" where
  "splitSlash [] = [[]]"
| "splitSlash (c # cs) = (if c = CHR ''/'' then [] # splitSlash cs else (case splitSlash cs of
     [] \<Rightarrow> [[c]]
   | p # ps \<Rightarrow> (c # p) # ps))"

text \<open>The elements of a path that stay, the last one first: \<^verbatim>\<open>.\<close> and empty ones go, \<^verbatim>\<open>..\<close> takes the one before it away.\<close>

fun cleanParts :: "bool \<Rightarrow> string list \<Rightarrow> string list \<Rightarrow> string list" where
  "cleanParts rooted acc [] = acc"
| "cleanParts rooted acc (p # ps) =
     (if p = [] \<or> p = ''.'' then cleanParts rooted acc ps
      else if p = ''..'' then
        (case acc of
           [] \<Rightarrow> cleanParts rooted (if rooted then [] else [''..'']) ps
         | a # as \<Rightarrow> cleanParts rooted (if a = ''..'' then ''..'' # acc else as) ps)
      else cleanParts rooted (p # acc) ps)"

definition joinSlash :: "string list \<Rightarrow> string" where
  "joinSlash ps = foldr (\<lambda>p s. if s = [] then p else p @ ''/'' @ s) ps []"

definition isRooted :: "string \<Rightarrow> bool" where
  "isRooted path \<longleftrightarrow> (case path of c # _ \<Rightarrow> c = CHR ''/'' | [] \<Rightarrow> False)"

definition filepath_Clean :: "string \<Rightarrow> string" where
  "filepath_Clean path =
     (let body = joinSlash (rev (cleanParts (isRooted path) [] (splitSlash path)))
      in if isRooted path then ''/'' @ body else if body = [] then ''.'' else body)"

definition filepath_Join :: "string \<Rightarrow> string \<Rightarrow> string" where
  "filepath_Join dir file =
     (if dir = [] then (if file = [] then [] else filepath_Clean file)
      else if file = [] then filepath_Clean dir else filepath_Clean (dir @ ''/'' @ file))"

section \<open>The objects\<close>

record AdmissionReview =
  ar_Object :: IAMKey
  ar_OldObject :: IAMKey
  ar_Kind :: GroupVersionKind
  ar_Resource :: GroupVersionKind
  ar_RequestKind :: "GroupVersionKind option"
  ar_RequestResource :: "GroupVersionKind option"
  ar_Name :: string
  ar_Operation :: string
  ar_Username :: string
  ar_Groups :: "string list"

datatype runtimeObject =
    ABucket Bucket
  | AnIAMKey IAMKey
  | AProviderConfig ProviderConfig
  | AnAdmissionReview AdmissionReview
  | AMySQL MySQL
  | APostgreSQL PostgreSQL
  | ARedis Redis
  | AKafka Kafka
  | AnOpenSearch OpenSearch

text \<open>The type metadata the generator puts into the objects.\<close>

fun objectKind :: "runtimeObject \<Rightarrow> GroupVersionKind" where
  "objectKind (ABucket _) = exoscaleKind ''Bucket''"
| "objectKind (AnIAMKey _) = exoscaleKind ''IAMKey''"
| "objectKind (AProviderConfig _) = providerKind ''ProviderConfig''"
| "objectKind (AnAdmissionReview _) = \<lparr>gvk_Group = ''admission.k8s.io'', gvk_Version = ''v1'', gvk_Kind = ''AdmissionReview''\<rparr>"
| "objectKind (AMySQL _) = exoscaleKind ''MySQL''"
| "objectKind (APostgreSQL _) = exoscaleKind ''PostgreSQL''"
| "objectKind (ARedis _) = exoscaleKind ''Redis''"
| "objectKind (AKafka _) = exoscaleKind ''Kafka''"
| "objectKind (AnOpenSearch _) = exoscaleKind ''OpenSearch''"

section \<open>Writing files\<close>

text \<open>
  The file system as far as the program sees it: the contents of files and the directories made. What the program runs
  on: its arguments, the paths the operating system refuses, with the error, and the serializer, which gives the bytes
  it has written and an error.
\<close>

record fileSystem =
  fsy_Files :: "string \<Rightarrow> string option"
  fsy_Dirs :: "string list"

record host =
  ho_Args :: "string list"
  ho_MkdirAll :: "string \<Rightarrow> liberror option"
  ho_Create :: "string \<Rightarrow> liberror option"
  ho_AddToScheme :: "GroupVersionKind list list \<Rightarrow> liberror option"
  ho_Encode :: "runtimeObject \<Rightarrow> bool \<Rightarrow> string \<times> liberror option"

text \<open>\<^verbatim>\<open>log.Fatal\<close> ends the program; in the model it is the error of the rest of the program.\<close>

definition failIfError :: "liberror option \<Rightarrow> ('s, unit) act" where
  "failIfError err = (case err of None \<Rightarrow> ret () | Some e \<Rightarrow> fail (Lib e))"

definition changeFiles :: "(fileSystem \<Rightarrow> fileSystem) \<Rightarrow> (fileSystem, unit) act" where
  "changeFiles f s = (Ret (), f s)"

definition os_MkdirAll :: "host \<Rightarrow> string \<Rightarrow> (fileSystem, liberror option) act" where
  "os_MkdirAll h dir = (case ho_MkdirAll h dir of
     Some e \<Rightarrow> ret (Some e)
   | None \<Rightarrow> andThen (changeFiles (\<lambda>s. s\<lparr>fsy_Dirs := dir # fsy_Dirs s\<rparr>)) (\<lambda>_. ret None))"

definition os_Create :: "host \<Rightarrow> string \<Rightarrow> (fileSystem, liberror option) act" where
  "os_Create h path = (case ho_Create h path of
     Some e \<Rightarrow> ret (Some e)
   | None \<Rightarrow> andThen (changeFiles (\<lambda>s. s\<lparr>fsy_Files := (fsy_Files s)(path \<mapsto> [])\<rparr>)) (\<lambda>_. ret None))"

definition writeFile :: "string \<Rightarrow> string \<Rightarrow> (fileSystem, unit) act" where
  "writeFile path bytes = changeFiles (\<lambda>s. s\<lparr>fsy_Files := (fsy_Files s)(path \<mapsto> (case fsy_Files s path of None \<Rightarrow> [] | Some old \<Rightarrow> old) @ bytes)\<rparr>)"

definition prepareFile :: "host \<Rightarrow> string \<Rightarrow> (fileSystem, string) act" where
  "prepareFile h file = (case ho_Args h of
     _ # dir # _ \<Rightarrow>
       andThen (os_MkdirAll h dir) (\<lambda>err. andThen (failIfError err) (\<lambda>_.
       andThen (os_Create h (filepath_Join dir file)) (\<lambda>err. andThen (failIfError err) (\<lambda>_.
         ret (filepath_Join dir file)))))
   | _ \<Rightarrow> panic ''index out of range'')"

definition serialize :: "host \<Rightarrow> runtimeObject \<Rightarrow> bool \<Rightarrow> (fileSystem, unit) act" where
  "serialize h object useYaml =
     (let gvk = objectKind object; fileName = serializeName (gvk_Group gvk) (gvk_Kind gvk) useYaml in
      andThen (prepareFile h fileName) (\<lambda>f.
        case ho_Encode h object useYaml of (bytes, err) \<Rightarrow> andThen (writeFile f bytes) (\<lambda>_. failIfError err)))"

section \<open>The generators\<close>

definition generateBucketSample :: "host \<Rightarrow> (fileSystem, unit) act" where
  "generateBucketSample h = serialize h (ABucket newBucketSample) True"

definition generateExoscaleIAMKeySample :: "host \<Rightarrow> (fileSystem, unit) act" where
  "generateExoscaleIAMKeySample h = serialize h (AnIAMKey newIAMKeySample) True"

definition generateProviderConfigSample :: "host \<Rightarrow> (fileSystem, unit) act" where
  "generateProviderConfigSample h = serialize h (AProviderConfig newProviderConfigSample) True"

definition sampleReview :: AdmissionReview where
  "sampleReview =
     (let oldSpec = fst IAMKeyAdmissionRequest; newSpec = snd IAMKeyAdmissionRequest; gvk = exoscaleKind ''IAMKey'';
          gvr = exoscaleKind ''IAMKey''
      in \<lparr>ar_Object = newSpec, ar_OldObject = oldSpec, ar_Kind = gvk, ar_Resource = gvr, ar_RequestKind = Some gvk,
          ar_RequestResource = Some gvr, ar_Name = om_Name (mr_Meta oldSpec), ar_Operation = ''UPDATE'',
          ar_Username = ''admin'', ar_Groups = [''system:authenticated'']\<rparr>)"

definition generateIAMKeyAdmissionRequest :: "host \<Rightarrow> (fileSystem, unit) act" where
  "generateIAMKeyAdmissionRequest h = serialize h (AnAdmissionReview sampleReview) False"

definition generateMysqlSample :: "host \<Rightarrow> (fileSystem, unit) act" where
  "generateMysqlSample h = serialize h (AMySQL newMysqlSample) True"

definition generatePostgresqlSample :: "host \<Rightarrow> (fileSystem, unit) act" where
  "generatePostgresqlSample h = serialize h (APostgreSQL newPostgresqlSample) True"

definition generateRedisSample :: "host \<Rightarrow> (fileSystem, unit) act" where
  "generateRedisSample h = serialize h (ARedis newRedisSample) True"

definition generateKafkaSample :: "host \<Rightarrow> (fileSystem, unit) act" where
  "generateKafkaSample h = serialize h (AKafka newKafkaSample) True"

definition generateOpensearchSample :: "host \<Rightarrow> (fileSystem, unit) act" where
  "generateOpensearchSample h = serialize h (AnOpenSearch newOpensearchSample) True"

definition generator_main :: "host \<Rightarrow> (fileSystem, unit) act" where
  "generator_main h =
     andThen (failIfError (ho_AddToScheme h AddToSchemes)) (\<lambda>_.
     andThen (generateBucketSample h) (\<lambda>_.
     andThen (generateExoscaleIAMKeySample h) (\<lambda>_.
     andThen (generateProviderConfigSample h) (\<lambda>_.
     andThen (generateIAMKeyAdmissionRequest h) (\<lambda>_.
     andThen (generateMysqlSample h) (\<lambda>_.
     andThen (generatePostgresqlSample h) (\<lambda>_.
     andThen (generateRedisSample h) (\<lambda>_.
     andThen (generateKafkaSample h) (\<lambda>_.
       generateOpensearchSample h)))))))))"

section \<open>What it writes\<close>

text \<open>The objects in the order they are written, and whether as YAML.\<close>

definition sampleObjects :: "(runtimeObject \<times> bool) list" where
  "sampleObjects = [(ABucket newBucketSample, True), (AnIAMKey newIAMKeySample, True), (AProviderConfig newProviderConfigSample, True),
     (AnAdmissionReview sampleReview, False), (AMySQL newMysqlSample, True), (APostgreSQL newPostgresqlSample, True),
     (ARedis newRedisSample, True), (AKafka newKafkaSample, True), (AnOpenSearch newOpensearchSample, True)]"

fun fileOf :: "runtimeObject \<times> bool \<Rightarrow> string" where
  "fileOf (object, yaml) = serializeName (gvk_Group (objectKind object)) (gvk_Kind (objectKind object)) yaml"

fun serializeAll :: "host \<Rightarrow> (runtimeObject \<times> bool) list \<Rightarrow> (fileSystem, unit) act" where
  "serializeAll h [] = ret ()"
| "serializeAll h ((object, yaml) # rest) = andThen (serialize h object yaml) (\<lambda>_. serializeAll h rest)"

lemma andThen_ret: "andThen m ret = m"
  by (rule ext) (simp add: andThen_apply split: prod.splits outcome.splits)

lemma generator_main_serializeAll:
  "generator_main h = andThen (failIfError (ho_AddToScheme h AddToSchemes)) (\<lambda>_. serializeAll h sampleObjects)"
  by (simp add: generator_main_def sampleObjects_def andThen_ret generateBucketSample_def generateExoscaleIAMKeySample_def
      generateProviderConfigSample_def generateIAMKeyAdmissionRequest_def generateMysqlSample_def generatePostgresqlSample_def
      generateRedisSample_def generateKafkaSample_def generateOpensearchSample_def)

lemma sampleObjects_files: "map fileOf sampleObjects = sampleFiles"
  by (simp add: sampleObjects_def sampleFiles_def exoscaleKind_def providerKind_def exoscaleGroup_def providerGroup_def Let_def)

text \<open>A file name without slashes is the last element of the path it is joined to.\<close>

definition plainName :: "string \<Rightarrow> bool" where
  "plainName f \<longleftrightarrow> CHR ''/'' \<notin> set f \<and> f \<noteq> [] \<and> f \<noteq> ''.'' \<and> f \<noteq> ''..''"

lemma splitSlash_plain: "CHR ''/'' \<notin> set f \<Longrightarrow> splitSlash f = [f]"
  by (induction f) auto

lemma splitSlash_nonempty: "splitSlash d \<noteq> []"
  by (induction d) (auto split: list.splits)

lemma splitSlash_append: "CHR ''/'' \<notin> set f \<Longrightarrow> splitSlash (d @ ''/'' @ f) = splitSlash d @ [f]"
  by (induction d) (auto simp: splitSlash_plain splitSlash_nonempty split: list.splits)

lemma cleanParts_snoc: "plainName f \<Longrightarrow> cleanParts rooted acc (ps @ [f]) = f # cleanParts rooted acc ps"
  by (induction rooted acc ps rule: cleanParts.induct) (auto simp: plainName_def split: list.splits)

lemma joinSlash_snoc: "f \<noteq> [] \<Longrightarrow> joinSlash (ps @ [f]) = concat (map (\<lambda>p. p @ ''/'') ps) @ f"
  by (induction ps) (simp_all add: joinSlash_def)

lemma filepath_Join_plain: "\<exists>prefix. \<forall>f. plainName f \<longrightarrow> filepath_Join dir f = prefix @ f"
proof (cases "dir = []")
  case True
  have "filepath_Join dir f = [] @ f" if "plainName f" for f
  proof -
    have "\<not> isRooted f" using that by (auto simp: plainName_def isRooted_def split: list.splits)
    moreover have "cleanParts False [] [f] = [f]" using cleanParts_snoc [OF that, of False "[]" "[]"] by simp
    ultimately show ?thesis using that True
      by (simp add: filepath_Join_def filepath_Clean_def splitSlash_plain plainName_def joinSlash_def)
  qed
  then show ?thesis by blast
next
  case False
  let ?ps = "rev (cleanParts (isRooted dir) [] (splitSlash dir))"
  have "filepath_Join dir f = ((if isRooted dir then ''/'' else []) @ concat (map (\<lambda>p. p @ ''/'') ?ps)) @ f" if "plainName f" for f
  proof -
    have "isRooted (dir @ ''/'' @ f) = isRooted dir" using False by (cases dir) (simp_all add: isRooted_def)
    moreover have "joinSlash (rev (cleanParts (isRooted dir) [] (splitSlash (dir @ ''/'' @ f)))) = concat (map (\<lambda>p. p @ ''/'') ?ps) @ f"
      using that by (simp add: splitSlash_append [simplified] cleanParts_snoc joinSlash_snoc plainName_def)
    ultimately show ?thesis using that False
      by (simp add: filepath_Join_def filepath_Clean_def plainName_def Let_def)
  qed
  then show ?thesis by blast
qed

lemma filepath_Join_inj: "plainName f \<Longrightarrow> plainName g \<Longrightarrow> filepath_Join dir f = filepath_Join dir g \<Longrightarrow> f = g"
  using filepath_Join_plain [of dir] by (metis append_same_eq same_append_eq)

lemma sampleFiles_plain: "list_all plainName sampleFiles" "distinct sampleFiles"
  by (simp_all add: sampleFiles_def serializeName_def ToLower_def lower_char_def Let_def plainName_def eq_commute [of "CHR ''/''"] char_of_eq_iff)

text \<open>What the host lets the program do.\<close>

definition accepts :: "host \<Rightarrow> string \<Rightarrow> runtimeObject \<times> bool \<Rightarrow> bool" where
  "accepts h dir job \<longleftrightarrow> ho_MkdirAll h dir = None \<and> ho_Create h (filepath_Join dir (fileOf job)) = None \<and>
     snd (ho_Encode h (fst job) (snd job)) = None"

lemma serialize_run:
  assumes "ho_Args h = prog # dir # rest" "serialize h object yaml s = (r, s')"
  shows "\<not> panics r" "r = Ret () \<longleftrightarrow> accepts h dir (object, yaml)"
    and "q \<noteq> filepath_Join dir (fileOf (object, yaml)) \<Longrightarrow> fsy_Files s' q = fsy_Files s q"
    and "r = Ret () \<Longrightarrow> fsy_Files s' (filepath_Join dir (fileOf (object, yaml))) = Some (fst (ho_Encode h object yaml))"
  using assms by (auto simp: serialize_def prepareFile_def os_MkdirAll_def os_Create_def writeFile_def changeFiles_def failIfError_def
      accepts_def andThen_apply Let_def split: option.splits prod.splits)

lemma serializeAll_run:
  assumes "ho_Args h = prog # dir # rest" "serializeAll h jobs s = (r, s')" "distinct (map (\<lambda>job. filepath_Join dir (fileOf job)) jobs)"
  shows "\<not> panics r" "r = Ret () \<longleftrightarrow> list_all (accepts h dir) jobs"
    and "q \<notin> (\<lambda>job. filepath_Join dir (fileOf job)) ` set jobs \<Longrightarrow> fsy_Files s' q = fsy_Files s q"
    and "r = Ret () \<Longrightarrow> job \<in> set jobs \<Longrightarrow> fsy_Files s' (filepath_Join dir (fileOf job)) = Some (fst (ho_Encode h (fst job) (snd job)))"
proof -
  have "\<not> panics r \<and> (r = Ret () \<longleftrightarrow> list_all (accepts h dir) jobs) \<and>
    (\<forall>q. q \<notin> (\<lambda>job. filepath_Join dir (fileOf job)) ` set jobs \<longrightarrow> fsy_Files s' q = fsy_Files s q) \<and>
    (r = Ret () \<longrightarrow> (\<forall>job\<in>set jobs. fsy_Files s' (filepath_Join dir (fileOf job)) = Some (fst (ho_Encode h (fst job) (snd job)))))"
    using assms(2,3)
  proof (induction jobs arbitrary: s)
    case (Cons job jobs)
    obtain object yaml where job: "job = (object, yaml)" by (cases job)
    obtain r1 s1 where one: "serialize h object yaml s = (r1, s1)" by fastforce
    note first = serialize_run [OF assms(1) one]
    show ?case
    proof (cases "r1 = Ret ()")
      case False
      have "(r, s') = (r1, s1)"
        using Cons.prems(1) False first(1) by (cases r1) (simp_all add: job andThen_apply one)
      then show ?thesis using first False by (auto simp: job)
    next
      case True
      have "serializeAll h jobs s1 = (r, s')" using Cons.prems(1) True by (simp add: job andThen_apply one)
      note others = Cons.IH [OF this]
      have "filepath_Join dir (fileOf (object, yaml)) \<notin> (\<lambda>job. filepath_Join dir (fileOf job)) ` set jobs"
        using Cons.prems(2) by (auto simp: job)
      then show ?thesis using others Cons.prems(2) first(2-4) True by (auto simp: job simp del: fileOf.simps)
    qed
  qed auto
  then show "\<not> panics r" "r = Ret () \<longleftrightarrow> list_all (accepts h dir) jobs"
    and "q \<notin> (\<lambda>job. filepath_Join dir (fileOf job)) ` set jobs \<Longrightarrow> fsy_Files s' q = fsy_Files s q"
    and "r = Ret () \<Longrightarrow> job \<in> set jobs \<Longrightarrow> fsy_Files s' (filepath_Join dir (fileOf job)) = Some (fst (ho_Encode h (fst job) (snd job)))"
    by blast+
qed

text \<open>
  C35: What \<^verbatim>\<open>generate_sample.go\<close> writes. Without a directory argument it panics, unless registering the types has failed before.
  With one it ends without error exactly if the types can be registered, the directory can be made, the nine files can be
  created and the nine objects can be encoded; then every file holds exactly the encoding of its object. However it ends,
  no other file is touched.
\<close>

theorem generator_writes_samples:
  assumes "generator_main h s = (r, s')"
  shows "(length (ho_Args h) < 2 \<longrightarrow> (if ho_AddToScheme h AddToSchemes = None then panics r else \<not> panics r \<and> r \<noteq> Ret ())) \<and>
    (\<forall>prog dir rest. ho_Args h = prog # dir # rest \<longrightarrow> \<not> panics r \<and>
       (r = Ret () \<longleftrightarrow> ho_AddToScheme h AddToSchemes = None \<and> list_all (accepts h dir) sampleObjects) \<and>
       (\<forall>q. q \<notin> filepath_Join dir ` set sampleFiles \<longrightarrow> fsy_Files s' q = fsy_Files s q) \<and>
       (r = Ret () \<longrightarrow> list_all (\<lambda>(object, yaml). fsy_Files s' (filepath_Join dir (fileOf (object, yaml))) =
          Some (fst (ho_Encode h object yaml))) sampleObjects))"
proof (cases "ho_AddToScheme h AddToSchemes")
  case (Some e)
  then show ?thesis using assms by (auto simp: generator_main_def failIfError_def)
next
  case None
  have all: "serializeAll h sampleObjects s = (r, s')"
    using assms None by (simp add: generator_main_serializeAll failIfError_def)
  have "panics r" if "length (ho_Args h) < 2"
  proof -
    have "prepareFile h f = panic ''index out of range''" for f
      using that by (auto simp: prepareFile_def split: list.splits)
    then show ?thesis using all by (auto simp: sampleObjects_def serialize_def andThen_apply)
  qed
  moreover have "\<not> panics r \<and> (r = Ret () \<longleftrightarrow> list_all (accepts h dir) sampleObjects) \<and>
       (\<forall>q. q \<notin> filepath_Join dir ` set sampleFiles \<longrightarrow> fsy_Files s' q = fsy_Files s q) \<and>
       (r = Ret () \<longrightarrow> list_all (\<lambda>(object, yaml). fsy_Files s' (filepath_Join dir (fileOf (object, yaml))) =
          Some (fst (ho_Encode h object yaml))) sampleObjects)" if args: "ho_Args h = prog # dir # rest" for prog dir rest
  proof -
    have files: "map (\<lambda>job. filepath_Join dir (fileOf job)) sampleObjects = map (filepath_Join dir) sampleFiles"
      by (simp flip: sampleObjects_files add: comp_def)
    have "inj_on (filepath_Join dir) (set sampleFiles)"
      using filepath_Join_inj sampleFiles_plain(1) unfolding list_all_iff inj_on_def by blast
    then have dist: "distinct (map (\<lambda>job. filepath_Join dir (fileOf job)) sampleObjects)"
      unfolding files using sampleFiles_plain(2) by (simp add: distinct_map)
    have set: "(\<lambda>job. filepath_Join dir (fileOf job)) ` set sampleObjects = filepath_Join dir ` set sampleFiles"
      using files by (metis list.set_map)
    note run = serializeAll_run [OF args all dist, unfolded set]
    show ?thesis using run by (auto simp: list_all_iff)
  qed
  ultimately show ?thesis using None by auto
qed

text \<open>A host that refuses nothing, with an encoding that shows the kind; a second run writes the same over a file that is there.\<close>

definition sampleHost :: host where
  "sampleHost = \<lparr>ho_Args = [''generate_sample'', ''./samples''], ho_MkdirAll = (\<lambda>_. None), ho_Create = (\<lambda>_. None),
     ho_AddToScheme = (\<lambda>_. None), ho_Encode = (\<lambda>object yaml. (gvk_Kind (objectKind object), None))\<rparr>"

theorem generator_writes_samples_witness:
  "\<exists>s'. generator_main sampleHost \<lparr>fsy_Files = [''README.md'' \<mapsto> ''hello'', ''samples/exoscale.crossplane.io_redis.yaml'' \<mapsto> ''old''], fsy_Dirs = []\<rparr> = (Ret (), s') \<and>
     fsy_Files s' ''samples/exoscale.crossplane.io_redis.yaml'' = Some ''Redis'' \<and> fsy_Files s' ''README.md'' = Some ''hello''"
proof -
  let ?s = "\<lparr>fsy_Files = [''README.md'' \<mapsto> ''hello'', ''samples/exoscale.crossplane.io_redis.yaml'' \<mapsto> ''old''], fsy_Dirs = []\<rparr>"
  obtain r s' where run: "generator_main sampleHost ?s = (r, s')" by fastforce
  have args: "ho_Args sampleHost = ''generate_sample'' # ''./samples'' # []" by (simp add: sampleHost_def)
  note written = generator_writes_samples [OF run, THEN conjunct2, rule_format, OF args]
  have "r = Ret ()" using written by (simp add: sampleHost_def accepts_def list_all_iff)
  have redis: "filepath_Join ''./samples'' (fileOf (ARedis newRedisSample, True)) = ''samples/exoscale.crossplane.io_redis.yaml''"
    by code_simp
  have readme: "''README.md'' \<notin> filepath_Join ''./samples'' ` set sampleFiles"
    by code_simp
  have "list_all (\<lambda>(object, yaml). fsy_Files s' (filepath_Join ''./samples'' (fileOf (object, yaml))) =
      Some (fst (ho_Encode sampleHost object yaml))) sampleObjects"
    using written \<open>r = Ret ()\<close> by blast
  then have "fsy_Files s' (filepath_Join ''./samples'' (fileOf (ARedis newRedisSample, True))) = Some (fst (ho_Encode sampleHost (ARedis newRedisSample) True))"
    by (simp add: sampleObjects_def del: fileOf.simps)
  then have "fsy_Files s' ''samples/exoscale.crossplane.io_redis.yaml'' = Some ''Redis''"
    unfolding redis by (simp add: sampleHost_def exoscaleKind_def)
  moreover have "fsy_Files s' ''README.md'' = Some ''hello''"
    using written readme by (simp del: fun_upd_apply add: fun_upd_def)
  ultimately show ?thesis using run \<open>r = Ret ()\<close> by blast
qed

end
