(* ===== verification/Reconciliation.thy ===== *)
theory Reconciliation
  imports Dbaas
begin

text \<open>
  The controllers in the loop of the reconciler: what becomes of a resource when a pass is made again and again against
  a cloud that answers. A pass observes and then creates what is missing or updates what is not up to date. A locale says
  what passes come to; a second one says the same of a database controller on a cloud that keeps what it is told.
\<close>

section \<open>Passes\<close>

definition reconcilePass ::
  "('s, ExternalObservation) act \<Rightarrow> ('s, ExternalCreation) act \<Rightarrow> ('s, ExternalUpdate) act \<Rightarrow> ('s, unit) act" where
  "reconcilePass observe create update =
     andThen observe (\<lambda>obs.
       if \<not> eo_ResourceExists obs then andThen create (\<lambda>_. ret ())
       else if \<not> eo_ResourceUpToDate obs then andThen update (\<lambda>_. ret ())
       else ret ())"

fun passes :: "('s, unit) act \<Rightarrow> nat \<Rightarrow> ('s, unit) act" where
  "passes pass 0 = ret ()"
| "passes pass (Suc n) = andThen pass (\<lambda>_. passes pass n)"

text \<open>A pass that fails is made again from the state it has left.\<close>

fun attempts :: "('s, unit) act \<Rightarrow> nat \<Rightarrow> 's \<Rightarrow> 's" where
  "attempts pass 0 s = s"
| "attempts pass (Suc n) s = attempts pass n (snd (pass s))"

lemma attempts_keep: "(\<And>s. P s \<Longrightarrow> P (snd (pass s))) \<Longrightarrow> P s \<Longrightarrow> P (attempts pass n s)"
  by (induction n arbitrary: s) simp_all

text \<open>
  A client whose passes succeed. \<open>found\<close> is the service in the world, \<open>others\<close> what is none of the client's business, and
  \<open>wanted\<close> the objects that ask for the service. \<open>matches\<close> are the services that Observe finds up to date. \<open>settles\<close> says
  of what is there before a request, nothing or a service, whether a request makes a service that is up to date; no request
  changes that. \<open>carries\<close> is what every service satisfies that is up to date or that a request has made.
\<close>

locale reconciled_client =
  fixes observe :: "('r obj \<times> 'w, ExternalObservation) act"
    and create :: "('r obj \<times> 'w, ExternalCreation) act"
    and update :: "('r obj \<times> 'w, ExternalUpdate) act"
    and found :: "'w \<Rightarrow> 'svc option" and others :: "'w \<Rightarrow> 'x"
    and wanted :: "'r \<Rightarrow> bool"
    and settles :: "'svc option \<Rightarrow> bool"
    and "matches" :: "'svc \<Rightarrow> bool"
    and carries :: "'svc \<Rightarrow> bool"
  assumes observe_missing: "wanted x \<Longrightarrow> found w = None \<Longrightarrow>
      \<exists>w'. observe (Typed x, w) = (Ret noObservation, (Typed x, w')) \<and> found w' = None \<and> others w' = others w"
    and observe_found: "wanted x \<Longrightarrow> found w = Some s \<Longrightarrow> \<exists>obs x' w'. observe (Typed x, w) = (Ret obs, (Typed x', w')) \<and>
      eo_ResourceExists obs \<and> eo_ResourceUpToDate obs = matches s \<and> wanted x' \<and> found w' = Some s \<and> others w' = others w"
    and create_settles: "wanted x \<Longrightarrow> found w = None \<Longrightarrow>
      \<exists>x' w' s. create (Typed x, w) = (Ret noCreation, (Typed x', w')) \<and> wanted x' \<and> found w' = Some s \<and> others w' = others w \<and>
        matches s = settles None \<and> settles (Some s) = settles None \<and> carries s"
    and update_settles: "wanted x \<Longrightarrow> found w = Some s \<Longrightarrow>
      \<exists>w' s'. update (Typed x, w) = (Ret ExternalUpdate, (Typed x, w')) \<and> found w' = Some s' \<and> others w' = others w \<and>
        matches s' = settles (Some s) \<and> settles (Some s') = settles (Some s) \<and> carries s'"
    and matches_carries: "matches s \<Longrightarrow> carries s"
begin

lemma pass_settles:
  assumes "wanted x"
  shows "\<exists>x' w' s. reconcilePass observe create update (Typed x, w) = (Ret (), (Typed x', w')) \<and> wanted x' \<and> others w' = others w \<and>
    found w' = Some s \<and> carries s \<and> settles (Some s) = settles (found w) \<and>
    matches s = (settles (found w) \<or> (\<exists>s0. found w = Some s0 \<and> matches s0)) \<and> (\<forall>s0. found w = Some s0 \<longrightarrow> matches s0 \<longrightarrow> s = s0)"
proof (cases "found w")
  case None
  obtain w1 where o: "observe (Typed x, w) = (Ret noObservation, (Typed x, w1))" "found w1 = None" "others w1 = others w"
    using observe_missing [OF assms None] by blast
  obtain x2 w2 s where "create (Typed x, w1) = (Ret noCreation, (Typed x2, w2))" "wanted x2" "found w2 = Some s" "others w2 = others w1"
    "matches s = settles None" "settles (Some s) = settles None" "carries s" using create_settles [OF assms o(2)] by blast
  then show ?thesis using o(1,3) None
    by (intro exI [of _ x2] exI [of _ w2] exI [of _ s]) (simp add: reconcilePass_def andThen_apply noObservation_def)
next
  case (Some s0)
  obtain obs x1 w1 where o: "observe (Typed x, w) = (Ret obs, (Typed x1, w1))" "eo_ResourceExists obs"
    "eo_ResourceUpToDate obs = matches s0" "wanted x1" "found w1 = Some s0" "others w1 = others w"
    using observe_found [OF assms Some] by blast
  obtain w2 s where u: "update (Typed x1, w1) = (Ret ExternalUpdate, (Typed x1, w2))" "found w2 = Some s" "others w2 = others w1"
    "matches s = settles (Some s0)" "settles (Some s) = settles (Some s0)" "carries s" using update_settles [OF o(4,5)] by blast
  show ?thesis
  proof (cases "matches s0")
    case True
    then show ?thesis using o Some matches_carries [OF True]
      by (intro exI [of _ x1] exI [of _ w1] exI [of _ s0]) (simp add: reconcilePass_def andThen_apply)
  next
    case False
    then show ?thesis using o u Some
      by (intro exI [of _ x1] exI [of _ w2] exI [of _ s]) (simp add: reconcilePass_def andThen_apply)
  qed
qed

lemma passes_settle:
  assumes "wanted x"
  shows "\<exists>x' w' s. passes (reconcilePass observe create update) (Suc n) (Typed x, w) = (Ret (), (Typed x', w')) \<and> wanted x' \<and>
    others w' = others w \<and> found w' = Some s \<and> carries s \<and> settles (Some s) = settles (found w) \<and>
    matches s = (settles (found w) \<or> (\<exists>s0. found w = Some s0 \<and> matches s0)) \<and> (\<forall>s0. found w = Some s0 \<longrightarrow> matches s0 \<longrightarrow> s = s0)"
  using assms
proof (induction n arbitrary: x w)
  case 0
  obtain x' w' s where "reconcilePass observe create update (Typed x, w) = (Ret (), (Typed x', w'))" "wanted x'" "others w' = others w"
    "found w' = Some s" "carries s" "settles (Some s) = settles (found w)"
    "matches s = (settles (found w) \<or> (\<exists>s0. found w = Some s0 \<and> matches s0))" "\<forall>s0. found w = Some s0 \<longrightarrow> matches s0 \<longrightarrow> s = s0"
    using pass_settles [OF 0, of w] by (elim exE conjE)
  then show ?case by (intro exI [of _ x'] exI [of _ w'] exI [of _ s]) (simp add: andThen_apply)
next
  case (Suc n)
  obtain x1 w1 s1 where one: "reconcilePass observe create update (Typed x, w) = (Ret (), (Typed x1, w1))" "wanted x1" "others w1 = others w"
    "found w1 = Some s1" "settles (Some s1) = settles (found w)"
    "matches s1 = (settles (found w) \<or> (\<exists>s0. found w = Some s0 \<and> matches s0))" "\<forall>s0. found w = Some s0 \<longrightarrow> matches s0 \<longrightarrow> s1 = s0"
    using pass_settles [OF Suc.prems, of w] by (elim exE conjE)
  obtain x2 w2 s2 where two: "passes (reconcilePass observe create update) (Suc n) (Typed x1, w1) = (Ret (), (Typed x2, w2))" "wanted x2"
    "others w2 = others w1" "found w2 = Some s2" "carries s2" "settles (Some s2) = settles (found w1)"
    "matches s2 = (settles (found w1) \<or> (\<exists>s0. found w1 = Some s0 \<and> matches s0))" "\<forall>s0. found w1 = Some s0 \<longrightarrow> matches s0 \<longrightarrow> s2 = s0"
    using Suc.IH [OF one(2), of w1] by (elim exE conjE)
  have "matches s2 = (settles (found w) \<or> (\<exists>s0. found w = Some s0 \<and> matches s0))" using one(4-6) two(7) by auto
  moreover have "\<forall>s0. found w = Some s0 \<longrightarrow> matches s0 \<longrightarrow> s2 = s0" using one(4,6,7) two(8) by auto
  moreover have "passes (reconcilePass observe create update) (Suc (Suc n)) (Typed x, w) = (Ret (), (Typed x2, w2))"
    using one(1) two(1) by (simp add: andThen_apply)
  ultimately show ?case using two(2-6) one(3-5)
    by (intro exI [of _ x2] exI [of _ w2] exI [of _ s2] conjI) simp_all
qed

text \<open>Once it is up to date nothing more is asked of the cloud for it.\<close>

lemma at_rest:
  assumes "wanted x" "found w = Some s" "matches s"
  shows "\<exists>x' w'. passes (reconcilePass observe create update) n (Typed x, w) = (Ret (), (Typed x', w')) \<and> wanted x' \<and>
    found w' = Some s \<and> others w' = others w"
proof (cases n)
  case (Suc k)
  then show ?thesis using passes_settle [OF assms(1), of k w] assms(2,3) by blast
qed (use assms(1,2) in simp)

lemma rests_observe:
  assumes "wanted x" "found w = Some s" "matches s"
  shows "\<exists>x' w' obs s''. passes (reconcilePass observe create update) n (Typed x, w) = (Ret (), (Typed x', w')) \<and> wanted x' \<and>
    found w' = Some s \<and> others w' = others w \<and>
    observe (Typed x', w') = (Ret obs, s'') \<and> eo_ResourceExists obs \<and> eo_ResourceUpToDate obs"
proof -
  obtain x' w' where rest: "passes (reconcilePass observe create update) n (Typed x, w) = (Ret (), (Typed x', w'))" "wanted x'"
    "found w' = Some s" "others w' = others w" using at_rest [OF assms] by blast
  then show ?thesis using observe_found [OF rest(2,3)] assms(3) by blast
qed

text \<open>
  After one pass or more the service exists. It is up to date exactly if it was so before or requests settle it, and then
  further passes leave it as it is; otherwise it is never found up to date, however many passes are made.
\<close>

lemma passes_observe:
  assumes "wanted x"
  shows "\<exists>x' w' obs s s''. passes (reconcilePass observe create update) (Suc n) (Typed x, w) = (Ret (), (Typed x', w')) \<and> wanted x' \<and>
    others w' = others w \<and> found w' = Some s \<and> carries s \<and> observe (Typed x', w') = (Ret obs, s'') \<and> eo_ResourceExists obs \<and>
    eo_ResourceUpToDate obs = (settles (found w) \<or> (\<exists>s0. found w = Some s0 \<and> matches s0)) \<and>
    (eo_ResourceUpToDate obs \<longrightarrow> (\<forall>j. \<exists>x'' w''. passes (reconcilePass observe create update) j (Typed x', w') = (Ret (), (Typed x'', w'')) \<and>
       found w'' = found w' \<and> others w'' = others w'))"
proof -
  obtain x' w' s where p: "passes (reconcilePass observe create update) (Suc n) (Typed x, w) = (Ret (), (Typed x', w'))" "wanted x'"
    "others w' = others w" "found w' = Some s" "carries s"
    "matches s = (settles (found w) \<or> (\<exists>s0. found w = Some s0 \<and> matches s0))"
    using passes_settle [OF assms, of n w] by (elim exE conjE)
  obtain obs x2 w2 where o: "observe (Typed x', w') = (Ret obs, (Typed x2, w2))" "eo_ResourceExists obs" "eo_ResourceUpToDate obs = matches s"
    using observe_found [OF p(2,4)] by blast
  have "eo_ResourceUpToDate obs \<longrightarrow> (\<forall>j. \<exists>x'' w''. passes (reconcilePass observe create update) j (Typed x', w') = (Ret (), (Typed x'', w'')) \<and>
      found w'' = found w' \<and> others w'' = others w')"
    using at_rest [OF p(2,4)] p(4) o(3) by simp blast
  with p o show ?thesis
    by (intro exI [of _ x'] exI [of _ w'] exI [of _ obs] exI [of _ s] exI [of _ "(Typed x2, w2)"]) simp
qed

end

section \<open>A cloud that keeps what it is told\<close>

text \<open>
  \<open>services\<close> are the services in the world by name. Reading does not change them; a request is accepted, leaves a service
  that \<open>made\<close> allows of the request, or \<open>taken\<close> of the request and the service that was there, and touches no other one.
  Nothing fails for reasons of its own.
\<close>

definition reads :: "('w \<Rightarrow> 'x) \<Rightarrow> ('w, 'a) call \<Rightarrow> bool" where
  "reads services c \<longleftrightarrow> (\<forall>w. services (snd (c w)) = services w)"

definition cloud_law ::
  "('svc, 'cr, 'ur, 'q, 'w) dbaas_api \<Rightarrow> ('w \<Rightarrow> string \<Rightarrow> 'svc option) \<Rightarrow> ('cr \<Rightarrow> 'svc \<Rightarrow> bool) \<Rightarrow>
   ('ur \<Rightarrow> 'svc \<Rightarrow> 'svc \<Rightarrow> bool) \<Rightarrow> bool" where
  "cloud_law api services made taken \<longleftrightarrow>
     (\<forall>n. reads services (api_Get api n)) \<and>
     (\<forall>n w. case fst (api_Get api n w) of Inl e \<Rightarrow> le_notfound e \<and> services w n = None | Inr svc \<Rightarrow> services w n = Some svc) \<and>
     (\<forall>n b w. services w n = None \<longrightarrow>
        (\<exists>op w' svc. api_Create api n b w = (Inr (Some op), w') \<and> services w' = (services w)(n \<mapsto> svc) \<and> made b svc)) \<and>
     (\<forall>n b w old. services w n = Some old \<longrightarrow>
        (\<exists>op w' svc. api_Update api n b w = (Inr (Some op), w') \<and> services w' = (services w)(n \<mapsto> svc) \<and> taken b old svc)) \<and>
     reads services (api_GetCACertificate api) \<and> (\<forall>w. \<exists>ca. fst (api_GetCACertificate api w) = Inr ca) \<and>
     (\<forall>n u. reads services (api_RevealUserPassword api n u)) \<and> (\<forall>n u w. \<exists>p. fst (api_RevealUserPassword api n u w) = Inr p) \<and>
     reads services (api_GetSettings api)"

text \<open>The desired settings with their defaults are the same whenever they are asked for.\<close>

definition defaults_law :: "('s, 'p) act \<Rightarrow> 'p \<Rightarrow> 'p \<Rightarrow> bool" where
  "defaults_law act par cur \<longleftrightarrow>
     (\<forall>s. case fst (act s) of Ret c \<Rightarrow> c = cur | Fail _ \<Rightarrow> cur = par | Panic _ \<Rightarrow> False)"

lemma defaults_lawD:
  assumes "defaults_law act par cur" "P par" "\<And>s c s'. act s = (Ret c, s') \<Longrightarrow> P c"
  shows "P cur"
proof -
  have law: "case fst (act s) of Ret c \<Rightarrow> c = cur | Fail _ \<Rightarrow> cur = par | Panic _ \<Rightarrow> False" for s
    using assms(1) unfolding defaults_law_def by (rule spec)
  obtain r s' where run: "act undefined = (r, s')" by (rule prod.exhaust)
  show ?thesis using law [of undefined] assms(2) assms(3) [of undefined cur s'] run by (cases r) auto
qed

lemma catch_defaults:
  assumes "defaults_law act par cur"
  shows "\<exists>d. catch act s = (Ret d, snd (act s)) \<and> (case d of Inl _ \<Rightarrow> par | Inr q \<Rightarrow> q) = cur"
proof -
  have law: "case fst (act s) of Ret c \<Rightarrow> c = cur | Fail _ \<Rightarrow> cur = par | Panic _ \<Rightarrow> False"
    using assms by (simp add: defaults_law_def)
  obtain r s' where "act s = (r, s')" by fastforce
  then show ?thesis using law by (cases r) (auto simp: catch_apply)
qed

text \<open>A call that only reads, as an action on an object.\<close>

definition onlyReads :: "('w \<Rightarrow> 'x) \<Rightarrow> ('m \<times> 'w, 'a) act \<Rightarrow> bool" where
  "onlyReads services act \<longleftrightarrow> (\<forall>m w. fst (snd (act (m, w))) = m \<and> services (snd (snd (act (m, w)))) = services w)"

lemma onlyReads_intros:
  "onlyReads services (ret a)" "onlyReads services (lift r)" "reads services c \<Longrightarrow> onlyReads services (invoke c)"
  by (auto simp: onlyReads_def reads_def invoke_apply)

lemma onlyReads_andThen: "onlyReads services act \<Longrightarrow> (\<And>a. onlyReads services (k a)) \<Longrightarrow> onlyReads services (andThen act k)"
  unfolding onlyReads_def by (auto simp: andThen_apply split: prod.splits outcome.splits) (metis prod.collapse fst_conv snd_conv)+

lemma onlyReadsD: "onlyReads services act \<Longrightarrow> \<exists>w'. snd (act (m, w)) = (m, w') \<and> services w' = services w"
  unfolding onlyReads_def by (metis prod.collapse)

lemma fetchSchema_onlyReads: "reads services (api_GetSettings api) \<Longrightarrow> onlyReads services (fetchSchema lb api)"
  unfolding fetchSchema_def by (intro onlyReads_andThen onlyReads_intros)

lemma cloud_lawD:
  assumes "cloud_law api services made taken"
  shows "reads services (api_Get api n)" "reads services (api_GetCACertificate api)" "reads services (api_RevealUserPassword api n u)"
    and "reads services (api_GetSettings api)"
    and "case fst (api_Get api n w) of Inl e \<Rightarrow> le_notfound e \<and> services w n = None | Inr svc \<Rightarrow> services w n = Some svc"
    and "services w n = None \<Longrightarrow> 
      \<exists>op w' svc. api_Create api n b w = (Inr (Some op), w') \<and> services w' = (services w)(n \<mapsto> svc) \<and> made b svc"
    and "services w n = Some old \<Longrightarrow>
      \<exists>op w' svc. api_Update api n b' w = (Inr (Some op), w') \<and> services w' = (services w)(n \<mapsto> svc) \<and> taken b' old svc"
    and "\<exists>ca. fst (api_GetCACertificate api w) = Inr ca" "\<exists>p. fst (api_RevealUserPassword api n u w) = Inr p"
  using assms by (simp_all add: cloud_law_def)

lemma readsD: "reads services c \<Longrightarrow> c w = (r, w') \<Longrightarrow> services w' = services w"
  unfolding reads_def by (metis snd_conv)

lemma cloud_get:
  assumes "cloud_law api services made taken" "services w n = Some svc"
  obtains w' where "api_Get api n w = (Inr svc, w')" "services w' = services w"
proof -
  obtain r w' where c: "api_Get api n w = (r, w')" by fastforce
  show ?thesis
    using that [of w'] c assms(2) cloud_lawD(5) [OF assms(1), where n = n and w = w] readsD [OF cloud_lawD(1) [OF assms(1)] c] by (cases r) simp_all
qed

lemma cloud_missing:
  assumes "cloud_law api services made taken" "services w n = None"
  obtains e w' where "api_Get api n w = (Inl e, w')" "le_notfound e" "services w' = services w"
proof -
  obtain r w' where c: "api_Get api n w = (r, w')" by fastforce
  show ?thesis
    using that c assms(2) cloud_lawD(5) [OF assms(1), where n = n and w = w] readsD [OF cloud_lawD(1) [OF assms(1)] c] by (cases r) simp_all
qed

lemma cloud_create:
  assumes "cloud_law api services made taken" "services w n = None"
  obtains op w' svc where "api_Create api n b w = (Inr (Some op), w')" "services w' = (services w)(n \<mapsto> svc)" "made b svc"
  using cloud_lawD(6) [OF assms, where b = b] by blast

lemma cloud_update:
  assumes "cloud_law api services made taken" "services w n = Some old"
  obtains op w' svc where "api_Update api n b w = (Inr (Some op), w')" "services w' = (services w)(n \<mapsto> svc)" "taken b old svc"
  using cloud_lawD(7) [OF assms, where b' = b] by blast

lemma cloud_reveal:
  assumes "cloud_law api services made taken"
  obtains p w' where "api_RevealUserPassword api n u w = (Inr p, w')" "services w' = services w"
proof -
  obtain r w' where c: "api_RevealUserPassword api n u w = (r, w')" by fastforce
  show ?thesis using that c cloud_lawD(9) [OF assms, where n = n and u = u and w = w] readsD [OF cloud_lawD(3) [OF assms] c] by auto
qed

lemma cloud_ca:
  assumes "cloud_law api services made taken"
  obtains ca w' where "api_GetCACertificate api w = (Inr ca, w')" "services w' = services w"
proof -
  obtain r w' where c: "api_GetCACertificate api w = (r, w')" by fastforce
  show ?thesis using that c cloud_lawD(8) [OF assms, where w = w] readsD [OF cloud_lawD(2) [OF assms] c] by auto
qed

section \<open>Database controllers on such a cloud\<close>

text \<open>
  What the database controllers have in common: they look up the service by its name and go on with what they find
  (\<open>service\<close>).
\<close>

locale dbaas_observer =
  fixes api :: "('svc, 'cr, 'ur, 'q, 'w) dbaas_api"
    and services :: "'w \<Rightarrow> string \<Rightarrow> 'svc option" and made :: "'cr \<Rightarrow> 'svc \<Rightarrow> bool" and taken :: "'ur \<Rightarrow> 'svc \<Rightarrow> 'svc \<Rightarrow> bool"
    and n :: string and wanted :: "'r \<Rightarrow> bool"
    and observe :: "('r obj \<times> 'w, ExternalObservation) act" and service :: "'r \<Rightarrow> 'svc \<Rightarrow> ('r \<times> 'w, ExternalObservation) act"
    and "matches" :: "'svc \<Rightarrow> bool" and lookup :: "goerror \<Rightarrow> goerror"
  assumes law: "cloud_law api services made taken"
    and observes: "wanted x \<Longrightarrow> observe (Typed x, w) =
      withTyped assertPanic (lookupService (api_Get api n) lookup (service x)) (Typed x, w)"
    and reports: "wanted x \<Longrightarrow> services w n = Some svc \<Longrightarrow> \<exists>obs x' w'. service x svc (x, w) = (Ret obs, (x', w')) \<and>
      eo_ResourceExists obs \<and> eo_ResourceUpToDate obs = matches svc \<and> wanted x' \<and> services w' = services w"
begin

lemma observes_missing:
  assumes "wanted x" "services w n = None"
  shows "\<exists>w'. observe (Typed x, w) = (Ret noObservation, (Typed x, w')) \<and> services w' = services w"
proof -
  obtain e w' where "api_Get api n w = (Inl e, w')" "le_notfound e" "services w' = services w" using cloud_missing [OF law assms(2)] .
  then show ?thesis using assms by (simp add: observes withTyped_Typed lookupService_missing)
qed

lemma observes_found:
  assumes "wanted x" "services w n = Some svc"
  shows "\<exists>obs x' w'. observe (Typed x, w) = (Ret obs, (Typed x', w')) \<and> eo_ResourceExists obs \<and>
    eo_ResourceUpToDate obs = matches svc \<and> wanted x' \<and> services w' = services w"
proof -
  obtain w1 where get: "api_Get api n w = (Inr svc, w1)" "services w1 = services w" using cloud_get [OF law assms(2)] .
  then obtain obs x' w' where "service x svc (x, w1) = (Ret obs, (x', w'))" "eo_ResourceExists obs" "eo_ResourceUpToDate obs = matches svc"
    "wanted x'" "services w' = services w1"
    using reports [OF assms(1), of w1 svc] assms(2) by auto
  then show ?thesis using get assms by (simp add: observes withTyped_Typed lookupService_def run_simps)
qed

end

text \<open>
  Create and update send one request each (\<open>cbody\<close>, \<open>ubody\<close>) and log the answer. Whether what a request makes is up to date
  is a matter of what was there before (\<open>settles\<close>).
\<close>

locale dbaas_client =
  dbaas_observer api services made taken n wanted observe service "matches" lookup
  for api :: "('svc, 'cr, 'ur, 'q, 'w) dbaas_api"
    and services :: "'w \<Rightarrow> string \<Rightarrow> 'svc option" and made :: "'cr \<Rightarrow> 'svc \<Rightarrow> bool" and taken :: "'ur \<Rightarrow> 'svc \<Rightarrow> 'svc \<Rightarrow> bool"
    and n :: string and wanted :: "'r \<Rightarrow> bool"
    and observe :: "('r obj \<times> 'w, ExternalObservation) act" and service :: "'r \<Rightarrow> 'svc \<Rightarrow> ('r \<times> 'w, ExternalObservation) act"
    and "matches" :: "'svc \<Rightarrow> bool" and lookup :: "goerror \<Rightarrow> goerror" +
  fixes create :: "('r obj \<times> 'w, ExternalCreation) act" and update :: "('r obj \<times> 'w, ExternalUpdate) act"
    and cbody :: 'cr and ubody :: 'ur and settles :: "'svc option \<Rightarrow> bool" and carries :: "'svc \<Rightarrow> bool"
    and wrapCreate :: "goerror \<Rightarrow> goerror" and wrapUpdate :: "goerror \<Rightarrow> goerror"
  assumes creates: "wanted x \<Longrightarrow> create (Typed x, w) =
      withTyped assertPanic (createService (api_Create api n cbody) wrapCreate) (Typed x, w)"
    and updates: "wanted x \<Longrightarrow> update (Typed x, w) =
      withTyped assertPanic (andThen (wrapErr wrapUpdate (invoke (api_Update api n ubody))) (\<lambda>resp.
        andThen (logResponse resp) (\<lambda>_. ret ExternalUpdate))) (Typed x, w)"
    and made_settles: "services w n = Some svc \<Longrightarrow> made cbody svc \<Longrightarrow>
      matches svc = settles None \<and> settles (Some svc) = settles None \<and> carries svc"
    and taken_settles: "services w n = Some svc \<Longrightarrow> taken ubody old svc \<Longrightarrow>
      matches svc = settles (Some old) \<and> settles (Some svc) = settles (Some old) \<and> carries svc"
    and upToDate_carries: "matches svc \<Longrightarrow> carries svc"
begin

lemma creates_made:
  assumes "wanted x" "services w n = None"
  shows "\<exists>w' svc. create (Typed x, w) = (Ret noCreation, (Typed x, w')) \<and> services w' n = Some svc \<and> made cbody svc \<and>
    (services w')(n := None) = (services w)(n := None)"
proof -
  obtain op w' svc where "api_Create api n cbody w = (Inr (Some op), w')" "services w' = (services w)(n \<mapsto> svc)" "made cbody svc"
    using cloud_create [OF law assms(2)] .
  then show ?thesis using assms(1) by (simp add: creates withTyped_Typed createService_apply)
qed

lemma updates_taken:
  assumes "wanted x" "services w n = Some old"
  shows "\<exists>w' svc. update (Typed x, w) = (Ret ExternalUpdate, (Typed x, w')) \<and> services w' n = Some svc \<and> taken ubody old svc \<and>
    (services w')(n := None) = (services w)(n := None)"
proof -
  obtain op w' svc where "api_Update api n ubody w = (Inr (Some op), w')" "services w' = (services w)(n \<mapsto> svc)" "taken ubody old svc"
    using cloud_update [OF law assms(2)] .
  then show ?thesis using assms(1) by (simp add: updates withTyped_Typed run_simps)
qed

end

sublocale dbaas_client \<subseteq>
  reconciled_client observe create update "\<lambda>w. services w n" "\<lambda>w. (services w)(n := None)" wanted settles "matches" carries
proof unfold_locales
  show "\<exists>w'. observe (Typed x, w) = (Ret noObservation, (Typed x, w')) \<and> services w' n = None \<and> (services w')(n := None) = (services w)(n := None)"
    if "wanted x" "services w n = None" for x w using observes_missing [OF that] that(2) by auto
  show "\<exists>obs x' w'. observe (Typed x, w) = (Ret obs, (Typed x', w')) \<and> eo_ResourceExists obs \<and>
      eo_ResourceUpToDate obs = matches s \<and> wanted x' \<and> services w' n = Some s \<and> (services w')(n := None) = (services w)(n := None)"
    if "wanted x" "services w n = Some s" for x w s using observes_found [OF that] that(2) by fastforce
  show "\<exists>x' w' s. create (Typed x, w) = (Ret noCreation, (Typed x', w')) \<and> wanted x' \<and> services w' n = Some s \<and>
      (services w')(n := None) = (services w)(n := None) \<and> matches s = settles None \<and> settles (Some s) = settles None \<and> carries s"
    if "wanted x" "services w n = None" for x w using creates_made [OF that] that(1) made_settles by blast
  show "\<exists>w' s'. update (Typed x, w) = (Ret ExternalUpdate, (Typed x, w')) \<and> services w' n = Some s' \<and>
      (services w')(n := None) = (services w)(n := None) \<and> matches s' = settles (Some s) \<and> settles (Some s') = settles (Some s) \<and> carries s'"
    if "wanted x" "services w n = Some s" for x w s using updates_taken [OF that] taken_settles by blast
qed (rule upToDate_carries)

context dbaas_client
begin

lemma settled:
  assumes "wanted x"
  shows "\<exists>x' w' obs s''. passes (reconcilePass observe create update) (Suc k) (Typed x, w) = (Ret (), (Typed x', w')) \<and> wanted x' \<and>
    (services w')(n := None) = (services w)(n := None) \<and>
    observe (Typed x', w') = (Ret obs, s'') \<and> eo_ResourceExists obs \<and>
    eo_ResourceUpToDate obs = (settles (services w n) \<or> (\<exists>svc. services w n = Some svc \<and> matches svc)) \<and>
    (eo_ResourceUpToDate obs \<longrightarrow> (\<forall>j. \<exists>x'' w''. passes (reconcilePass observe create update) j (Typed x', w') = (Ret (), (Typed x'', w'')) \<and>
       services w'' = services w'))"
proof -
  have all: "services u n = services v n \<and> (services u)(n := None) = (services v)(n := None) \<longleftrightarrow> services u = services v" for u v
    by (metis fun_upd_triv fun_upd_upd)
  obtain x' w' obs s s'' where p: "passes (reconcilePass observe create update) (Suc k) (Typed x, w) = (Ret (), (Typed x', w'))" "wanted x'"
    "(services w')(n := None) = (services w)(n := None)" "observe (Typed x', w') = (Ret obs, s'')" "eo_ResourceExists obs"
    "eo_ResourceUpToDate obs = (settles (services w n) \<or> (\<exists>s0. services w n = Some s0 \<and> matches s0))"
    "eo_ResourceUpToDate obs \<longrightarrow> (\<forall>j. \<exists>x'' w''. passes (reconcilePass observe create update) j (Typed x', w') = (Ret (), (Typed x'', w'')) \<and>
       services w'' = services w')"
    using passes_observe [OF assms, of k w, unfolded all] by (elim exE conjE)
  show ?thesis by (intro exI conjI) (rule p)+
qed

lemma appears:
  assumes "wanted x"
  shows "\<exists>x' w' svc obs s''. passes (reconcilePass observe create update) (Suc k) (Typed x, w) = (Ret (), (Typed x', w')) \<and> wanted x' \<and>
    (services w')(n := None) = (services w)(n := None) \<and> services w' n = Some svc \<and> carries svc \<and>
    observe (Typed x', w') = (Ret obs, s'') \<and> eo_ResourceExists obs \<and>
    eo_ResourceUpToDate obs = (settles (services w n) \<or> (\<exists>svc. services w n = Some svc \<and> matches svc))"
  using passes_observe [OF assms, of k w] by (elim exE conjE) (intro exI conjI, assumption+)

end

text \<open>What is up to date stays as it is, whatever the requests are.\<close>

context dbaas_observer
begin

lemma stays:
  assumes "wanted x" "services w n = Some svc" "matches svc"
  shows "\<exists>x' w'. passes (reconcilePass observe create update) k (Typed x, w) = (Ret (), (Typed x', w')) \<and> services w' = services w"
  using assms
proof (induction k arbitrary: x w)
  case (Suc k)
  obtain obs x1 w1 where "observe (Typed x, w) = (Ret obs, (Typed x1, w1))" "eo_ResourceExists obs"
    "eo_ResourceUpToDate obs = matches svc" "wanted x1" "services w1 = services w" using observes_found [OF Suc.prems(1,2)] by blast
  then show ?case using Suc.IH [of x1 w1] Suc.prems(2,3) by (simp add: reconcilePass_def andThen_apply)
qed simp

end

section \<open>Deletion\<close>

text \<open>
  A pass over a resource that is being deleted: what exists is deleted. The cloud refuses to delete what is guarded against
  it; otherwise it deletes one service.
\<close>

definition deletePass :: "('s, ExternalObservation) act \<Rightarrow> ('s, ExternalDelete) act \<Rightarrow> ('s, unit) act" where
  "deletePass observe delete =
     andThen observe (\<lambda>obs. if eo_ResourceExists obs then andThen delete (\<lambda>_. ret ()) else ret ())"

definition delete_law :: "('svc, 'cr, 'ur, 'q, 'w) dbaas_api \<Rightarrow> ('w \<Rightarrow> string \<Rightarrow> 'svc option) \<Rightarrow> ('svc \<Rightarrow> bool) \<Rightarrow> bool" where
  "delete_law api services guarded \<longleftrightarrow> (\<forall>n w svc. services w n = Some svc \<longrightarrow>
     (if guarded svc then \<exists>e w'. api_Delete api n w = (Inl e, w') \<and> \<not> le_notfound e \<and> services w' = services w
      else \<exists>op w'. api_Delete api n w = (Inr (Some op), w') \<and> services w' = (services w)(n := None)))"

text \<open>What deleting leaves of the services in the world.\<close>

definition afterDeletion :: "('svc \<Rightarrow> bool) \<Rightarrow> string \<Rightarrow> (string \<Rightarrow> 'svc option) \<Rightarrow> string \<Rightarrow> 'svc option" where
  "afterDeletion guarded n f = (case f n of
     None \<Rightarrow> f
   | Some svc \<Rightarrow> if guarded svc then f else f(n := None))"

lemma afterDeletion_again: "afterDeletion guarded n (afterDeletion guarded n f) = afterDeletion guarded n f"
  by (simp add: afterDeletion_def split: option.splits)

locale dbaas_deletion =
  dbaas_observer api services made taken n wanted observe service "matches" lookup
  for api :: "('svc, 'cr, 'ur, 'q, 'w) dbaas_api"
    and services :: "'w \<Rightarrow> string \<Rightarrow> 'svc option" and made :: "'cr \<Rightarrow> 'svc \<Rightarrow> bool" and taken :: "'ur \<Rightarrow> 'svc \<Rightarrow> 'svc \<Rightarrow> bool"
    and n :: string and wanted :: "'r \<Rightarrow> bool"
    and observe :: "('r obj \<times> 'w, ExternalObservation) act" and service :: "'r \<Rightarrow> 'svc \<Rightarrow> ('r \<times> 'w, ExternalObservation) act"
    and "matches" :: "'svc \<Rightarrow> bool" and lookup :: "goerror \<Rightarrow> goerror" +
  fixes delete :: "('r obj \<times> 'w, ExternalDelete) act" and guarded :: "'svc \<Rightarrow> bool"
  assumes removal: "delete_law api services guarded"
    and deletes: "wanted x \<Longrightarrow> api_Delete api n w = (Inr (Some op), w') \<Longrightarrow> delete (Typed x, w) = (Ret ExternalDelete, (Typed x, w'))"
    and refused: "wanted x \<Longrightarrow> api_Delete api n w = (Inl e, w') \<Longrightarrow> \<not> le_notfound e \<Longrightarrow> \<exists>e'. delete (Typed x, w) = (Fail e', (Typed x, w'))"
begin

lemma deletePass_removes:
  assumes "wanted x"
  shows "\<exists>r x' w'. deletePass observe delete (Typed x, w) = (r, (Typed x', w')) \<and> wanted x' \<and>
    services w' = afterDeletion guarded n (services w) \<and> (if services w' n = None then r = Ret () else \<exists>e. r = Fail e)"
proof (cases "services w n")
  case None
  obtain w' where "observe (Typed x, w) = (Ret noObservation, (Typed x, w'))" "services w' = services w"
    using observes_missing [OF assms None] by blast
  then show ?thesis using assms None
    by (intro exI [of _ "Ret ()"] exI [of _ x] exI [of _ w'])
      (simp add: deletePass_def andThen_apply noObservation_def afterDeletion_def)
next
  case (Some svc)
  obtain obs x1 w1 where found: "observe (Typed x, w) = (Ret obs, (Typed x1, w1))" "eo_ResourceExists obs" "wanted x1" "services w1 = services w"
    using observes_found [OF assms Some] by blast
  have pass: "deletePass observe delete (Typed x, w) = andThen delete (\<lambda>_. ret ()) (Typed x1, w1)"
    using found(1,2) by (simp add: deletePass_def andThen_apply)
  have there: "services w1 n = Some svc" using Some found(4) by simp
  show ?thesis
  proof (cases "guarded svc")
    case True
    obtain e w2 where no: "api_Delete api n w1 = (Inl e, w2)" "\<not> le_notfound e" "services w2 = services w1"
      using removal there True unfolding delete_law_def by (metis (full_types))
    from refused [OF found(3) no(1,2)] obtain e' where "delete (Typed x1, w1) = (Fail e', (Typed x1, w2))" ..
    then show ?thesis using pass found(3,4) no(3) Some True by (simp add: andThen_apply afterDeletion_def)
  next
    case False
    obtain op w2 where yes: "api_Delete api n w1 = (Inr (Some op), w2)" "services w2 = (services w1)(n := None)"
      using removal there False unfolding delete_law_def by (metis (full_types))
    show ?thesis using pass deletes [OF found(3) yes(1)] found(3,4) yes(2) Some False by (simp add: andThen_apply afterDeletion_def)
  qed
qed

text \<open>However many passes are made, the first one has done what there is to do.\<close>

lemma deleted:
  assumes "wanted x"
  shows "\<exists>x' w'. attempts (deletePass observe delete) (Suc k) (Typed x, w) = (Typed x', w') \<and>
    services w' = afterDeletion guarded n (services w) \<and>
    (if services w' n = None
     then fst (deletePass observe delete (Typed x', w')) = Ret () \<and> fst (observe (Typed x', w')) = Ret noObservation
     else \<exists>e. fst (deletePass observe delete (Typed x', w')) = Fail e)"
proof -
  let ?done = "\<lambda>s. \<exists>x' w'. s = (Typed x', w') \<and> wanted x' \<and> services w' = afterDeletion guarded n (services w)"
  have "?done (attempts (deletePass observe delete) k (snd (deletePass observe delete (Typed x, w))))"
  proof (rule attempts_keep)
    show "?done (snd (deletePass observe delete (Typed x, w)))" using deletePass_removes [OF assms, of w] by auto
    show "?done (snd (deletePass observe delete s))" if kept: "?done s" for s
    proof -
      obtain x1 w1 where s: "s = (Typed x1, w1)" "wanted x1" "services w1 = afterDeletion guarded n (services w)" using kept by blast
      obtain r x2 w2 where "deletePass observe delete (Typed x1, w1) = (r, (Typed x2, w2))" "wanted x2"
        "services w2 = afterDeletion guarded n (services w1)" using deletePass_removes [OF s(2)] by blast
      then show ?thesis using s(3) unfolding s(1) by (simp add: afterDeletion_again)
    qed
  qed
  then obtain x' w' where end1: "attempts (deletePass observe delete) (Suc k) (Typed x, w) = (Typed x', w')" "wanted x'"
    "services w' = afterDeletion guarded n (services w)" by auto
  obtain r x2 w2 where again: "deletePass observe delete (Typed x', w') = (r, (Typed x2, w2))"
    "services w2 = afterDeletion guarded n (services w')" "if services w2 n = None then r = Ret () else \<exists>e. r = Fail e"
    using deletePass_removes [OF end1(2), of w'] by blast
  have same: "services w2 = services w'" using again(2) end1(3) by (simp add: afterDeletion_again)
  have gone: "fst (observe (Typed x', w')) = Ret noObservation" if "services w' n = None"
    using observes_missing [OF end1(2) that] by auto
  show ?thesis
    using end1(1,3) again(1) again(3) [unfolded same] gone by (intro exI [of _ x'] exI [of _ w'] conjI) simp_all
qed

end

section \<open>Settings with defaults\<close>

text \<open>Asking for the defaults leaves the object and the services alone and gives the desired parameters.\<close>

lemma reads_defaults:
  assumes "defaults_law act par cur" "onlyReads services act"
  obtains d w' where "catch act (m, w) = (Ret d, (m, w'))" "(case d of Inl _ \<Rightarrow> par | Inr q \<Rightarrow> q) = cur" "services w' = services w"
proof -
  obtain d where d: "catch act (m, w) = (Ret d, snd (act (m, w)))" "(case d of Inl _ \<Rightarrow> par | Inr q \<Rightarrow> q) = cur"
    using catch_defaults [OF assms(1)] by blast
  obtain w' where "snd (act (m, w)) = (m, w')" "services w' = services w" using onlyReadsD [OF assms(2)] by blast
  then show thesis using that d by simp
qed

section \<open>A cloud in memory\<close>

text \<open>
  Requests are stored as they come, and looked at as services: a cloud that satisfies the laws, on which the controllers
  run.
\<close>

definition missingError :: liberror where
  "missingError = \<lparr>le_notfound = True, le_status = 404, le_text = []\<rparr>"

definition memoryCloud ::
  "('cr \<Rightarrow> 'b) \<Rightarrow> ('ur \<Rightarrow> 'b) \<Rightarrow> ('b \<Rightarrow> 'svc) \<Rightarrow> ('b \<Rightarrow> bool) \<Rightarrow> ('svc, 'cr, 'ur, unit, string \<Rightarrow> 'b option) dbaas_api" where
  "memoryCloud mkC mkU view guard =
     \<lparr>api_Get = (\<lambda>n w. (case w n of None \<Rightarrow> Inl missingError | Some b \<Rightarrow> Inr (view b), w)),
      api_Create = (\<lambda>n b w. (Inr (Some accepted), w(n \<mapsto> mkC b))),
      api_Update = (\<lambda>n b w. if w n = None then (Inl missingError, w) else (Inr (Some accepted), w(n \<mapsto> mkU b))),
      api_Delete = (\<lambda>n w. case w n of
          None \<Rightarrow> (Inl missingError, w)
        | Some b \<Rightarrow> if guard b then (Inl \<lparr>le_notfound = False, le_status = 403, le_text = ''protected''\<rparr>, w)
            else (Inr (Some accepted), w(n := None))),
      api_GetCACertificate = (\<lambda>w. (Inr ''CA'', w)), api_RevealUserPassword = (\<lambda>n u w. (Inr ''pw'', w)),
      api_GetSettings = (\<lambda>w. (Inr (), w)),
      api_MarshalSettings = (\<lambda>q. Inr ''{}''), api_GetServiceType = (\<lambda>t w. (Inr (Some [''8'']), w))\<rparr>"

definition memoryServices :: "('b \<Rightarrow> 'svc) \<Rightarrow> (string \<Rightarrow> 'b option) \<Rightarrow> string \<Rightarrow> 'svc option" where
  "memoryServices view w = (\<lambda>n. map_option view (w n))"

lemma memoryServices_store: "memoryServices view (w(n \<mapsto> b)) = (memoryServices view w)(n \<mapsto> view b)"
  by (simp add: memoryServices_def fun_eq_iff)

lemma memoryServices_remove: "memoryServices view (w(n := None)) = (memoryServices view w)(n := None)"
  by (simp add: memoryServices_def fun_eq_iff)

lemma memoryServices_Some: "memoryServices view w n = Some svc \<Longrightarrow> \<exists>b. w n = Some b \<and> svc = view b"
  by (auto simp: memoryServices_def)

lemma memoryCloud_delete_law:
  assumes "\<And>b. guarded (view b) = guard b"
  shows "delete_law (memoryCloud mkC mkU view guard) (memoryServices view) guarded"
  unfolding delete_law_def
  using assms by (auto simp: memoryCloud_def memoryServices_remove dest!: memoryServices_Some)

lemma memoryCloud_law:
  assumes "\<And>b. made b (view (mkC b))" "\<And>b old. taken b (view old) (view (mkU b))"
  shows "cloud_law (memoryCloud mkC mkU view guard) (memoryServices view) made taken"
proof -
  have "\<exists>op w' svc. api_Update (memoryCloud mkC mkU view guard) n b w = (Inr (Some op), w') \<and>
      memoryServices view w' = (memoryServices view w)(n \<mapsto> svc) \<and> taken b old svc"
    if "memoryServices view w n = Some old" for n b w old
    using memoryServices_Some [OF that] assms(2) by (auto simp: memoryCloud_def memoryServices_store)
  then show ?thesis
    using assms(1) unfolding cloud_law_def
    by (simp add: reads_def memoryCloud_def memoryServices_store) (auto simp: memoryServices_def missingError_def split: option.splits)
qed

definition memoryURI :: string where
  "memoryURI = ''db://admin:x@db.local:21699/0?a=b''"

lemma memoryURI_parses: "\<exists>u. url_Parse memoryURI = Ret u" "memoryURI \<noteq> []"
proof -
  have "memoryURI = ''db'' @ ''://'' @ ''admin'' @ '':'' @ ''x'' @ ''@'' @ ''db.local'' @ '':'' @ ''21699'' @ ''/'' @ ''0'' @ ''?'' @ ''a=b''"
    by (simp add: memoryURI_def)
  then show "\<exists>u. url_Parse memoryURI = Ret u"
    using url_Parse_dsn [of "''db''" "''admin''" "''x''" "''db.local''" "''21699''" "''0''" "''a=b''"]
    by (simp add: lowercase_def plain_def letter_def digit_def in_range_def ctl_def)
  show "memoryURI \<noteq> []" by (simp add: memoryURI_def)
qed

end
