(* ===== verification/DbaasReconciliation.thy ===== *)
theory DbaasReconciliation
  imports Reconciliation MySQLController PostgreSQLController RedisController OpenSearchController KafkaController
begin

text \<open>
  The five database controllers in the reconciler's loop, on a cloud that keeps what it is told: each is a \<open>dbaas_client\<close>,
  from which follows what passes come to. Each is also run on a cloud in memory. What the clouds make of a request is stated
  by the definitions \<open>X_made\<close> and \<open>X_taken\<close>: they take over what was sent, field by field; which settings a service has
  when it was sent some is up to the cloud, a function of those sent and those it had.
\<close>

section \<open>What the services have in common\<close>

text \<open>A service that has taken over the common part of a request.\<close>

definition takesOver :: "DBAASServiceMaintenance \<Rightarrow> bool \<Rightarrow> string \<Rightarrow> string slice \<Rightarrow> ('s, 'z) DBAASService_scheme \<Rightarrow> bool" where
  "takesOver mt tp plan ips svc \<longleftrightarrow> sv_Maintenance svc = Some mt \<and> sv_TerminationProtection svc = Some tp \<and>
     sv_Plan svc = plan \<and> set (elems (sv_IPFilter svc)) = set (elems ips)"

text \<open>
  The settings of a service after it was sent some: what the service fills in depends on those it had before, and sending
  the same ones once more changes nothing.
\<close>

definition fill_law :: "('s option \<Rightarrow> 's \<Rightarrow> 's) \<Rightarrow> bool" where
  "fill_law fill \<longleftrightarrow> (\<forall>old st. fill (Some (fill old st)) st = fill old st)"

text \<open>The settings of a service agree with the desired ones.\<close>

definition settingsAgree :: "('v, 'c) libs \<Rightarrow> 's settings_codec \<Rightarrow> RawExtension \<Rightarrow> 's \<Rightarrow> bool" where
  "settingsAgree lb cd st given \<longleftrightarrow> (\<exists>raw. sc_Marshal cd given = Inr raw \<and> CompareSettings (lb_json lb) st raw = Ret True)"

text \<open>
  When the settings that are asked for (\<open>par\<close>) are sent, those the service has then agree with those that are asked for with
  their defaults (\<open>cur\<close>).
\<close>

definition settingsReturn :: "('v, 'c) libs \<Rightarrow> 's settings_codec \<Rightarrow> ('s \<Rightarrow> 's) \<Rightarrow> RawExtension \<Rightarrow> RawExtension \<Rightarrow> bool" where
  "settingsReturn lb cd reply par cur \<longleftrightarrow> (\<exists>st. decodeSettings cd par = Ret st \<and> settingsAgree lb cd cur (reply st))"

lemma settingsReturn_sent: "decodeSettings cd par = Ret st \<Longrightarrow> settingsReturn lb cd reply par cur = settingsAgree lb cd cur (reply st)"
  by (simp add: settingsReturn_def)

definition sameMajor :: "('v, 'c) libs \<Rightarrow> string \<Rightarrow> string \<Rightarrow> bool" where
  "sameMajor lb a b \<longleftrightarrow> (\<exists>err. CompareMajorVersion (lb_version lb) a b = Ret (True, err))"

text \<open>A connection string that is there can be parsed.\<close>

definition connectable :: "string \<Rightarrow> string list option \<Rightarrow> bool" where
  "connectable uri info \<longleftrightarrow> (\<forall>u. (if uri = [] then (case info of Some (v # _) \<Rightarrow> Some v | _ \<Rightarrow> None) else Some uri) = Some u \<longrightarrow>
     (\<exists>parsed. url_Parse u = Ret parsed))"

text \<open>An action that succeeds and leaves object and services alone.\<close>

definition delivers :: "('w \<Rightarrow> 'x) \<Rightarrow> ('m \<times> 'w, 'a) act \<Rightarrow> bool" where
  "delivers services act \<longleftrightarrow> (\<forall>m w. \<exists>a w'. act (m, w) = (Ret a, (m, w')) \<and> services w' = services w)"

lemma deliversD:
  assumes "delivers services act"
  obtains a w' where "act (m, w) = (Ret a, (m, w'))" "services w' = services w"
  using assms unfolding delivers_def by blast

lemma delivers_ret: "delivers services (ret a)"
  by (simp add: delivers_def)

lemma delivers_url:
  assumes law: "cloud_law api services made taken" and u: "\<exists>parsed. url_Parse u = Ret parsed"
  shows "delivers services (andThen (wrapErr f (lift (url_Parse u))) (\<lambda>parsed.
    andThen (wrapErr g (invoke (api_RevealUserPassword api name (user parsed)))) (\<lambda>password. ret (k parsed password))))"
  unfolding delivers_def
proof (intro allI)
  fix m w
  obtain parsed where p: "url_Parse u = Ret parsed" using u by blast
  obtain pw w' where "api_RevealUserPassword api name (user parsed) w = (Inr pw, w')" "services w' = services w"
    using cloud_reveal [OF law] .
  then show "\<exists>a w'. andThen (wrapErr f (lift (url_Parse u))) (\<lambda>parsed.
    andThen (wrapErr g (invoke (api_RevealUserPassword api name (user parsed)))) (\<lambda>password. ret (k parsed password))) (m, w) =
      (Ret a, (m, w')) \<and> services w' = services w"
    using p by (simp add: run_simps)
qed

text \<open>Whatever service of a name there is, \<open>P\<close> holds of it.\<close>

definition always :: "('w \<Rightarrow> string \<Rightarrow> 'svc option) \<Rightarrow> string \<Rightarrow> ('svc \<Rightarrow> bool) \<Rightarrow> bool" where
  "always services n P \<longleftrightarrow> (\<forall>w svc. services w n = Some svc \<longrightarrow> P svc)"

lemma alwaysD: "always services n P \<Longrightarrow> services w n = Some svc \<Longrightarrow> P svc"
  by (simp add: always_def)

text \<open>A backup time as a service gives it back: with two digits for the hour, and no seconds.\<close>

definition wholeMinute :: "TimeOfDay \<Rightarrow> bool" where
  "wholeMinute t \<longleftrightarrow> (case Parse t of (h, m, _, _) \<Rightarrow> t = showTime h m 0)"

definition onClock :: "BackupSchedule option \<Rightarrow> bool" where
  "onClock sch \<longleftrightarrow> (case sch of None \<Rightarrow> True | Some b \<Rightarrow>
     0 \<le> bsch_BackupHour b \<and> bsch_BackupHour b < 24 \<and> 0 \<le> bsch_BackupMinute b \<and> bsch_BackupMinute b < 60)"

lemma wholeMinute_showTime: "0 \<le> h \<Longrightarrow> h < 24 \<Longrightarrow> 0 \<le> m \<Longrightarrow> m < 60 \<Longrightarrow> wholeMinute (showTime h m 0)"
proof -
  assume "0 \<le> h" "h < 24" "0 \<le> m" "m < 60"
  then have "Parse (showTime h m 0) = (h, m, 0, None)" by (simp add: Parse_accepts)
  then show ?thesis by (simp add: wholeMinute_def)
qed

text \<open>The desired time is what the service gives back exactly if it is a whole minute.\<close>

lemma backup_whole:
  assumes "Parse (bs_TimeOfDay b) = (h, m, s, None)" "wholeMinute (bs_TimeOfDay b)"
  shows "b = ToBackupSpec (Some \<lparr>bsch_BackupHour = h, bsch_BackupMinute = m\<rparr>)"
  using assms by (cases b) (simp add: wholeMinute_def ToBackupSpec_def showTime_zero_seconds)

lemma backup_returns:
  fixes b :: BackupSpec
  assumes "Parse (bs_TimeOfDay b) = (h, m, s, None)"
  shows "(bs_TimeOfDay b = bs_TimeOfDay (ToBackupSpec (Some \<lparr>bsch_BackupHour = h, bsch_BackupMinute = m\<rparr>))) = wholeMinute (bs_TimeOfDay b)"
proof
  assume "wholeMinute (bs_TimeOfDay b)"
  from backup_whole [OF assms this] show "bs_TimeOfDay b = bs_TimeOfDay (ToBackupSpec (Some \<lparr>bsch_BackupHour = h, bsch_BackupMinute = m\<rparr>))"
    by (rule arg_cong)
next
  assume "bs_TimeOfDay b = bs_TimeOfDay (ToBackupSpec (Some \<lparr>bsch_BackupHour = h, bsch_BackupMinute = m\<rparr>))"
  moreover have "wholeMinute (showTime h m 0)" using assms by (intro wholeMinute_showTime) (simp_all add: Parse_accepts)
  ultimately show "wholeMinute (bs_TimeOfDay b)" by (simp add: ToBackupSpec_Some)
qed

section \<open>Redis\<close>

definition redisWanted :: "runtime_lib \<Rightarrow> string \<Rightarrow> RedisParameters \<Rightarrow> Redis \<Rightarrow> bool" where
  "redisWanted rt n par x \<longleftrightarrow> mr_ForProvider x = par \<and> redis_GetInstanceName rt x = n"

text \<open>A service of which Observe can make sense, one it finds up to date, and one that has taken over a request.\<close>

definition redis_answers :: "('v, 'c) libs \<Rightarrow> 's settings_codec \<Rightarrow> RedisParameters \<Rightarrow> RedisParameters \<Rightarrow> 's DBAASServiceRedis \<Rightarrow> bool" where
  "redis_answers lb cd par cur svc \<longleftrightarrow>
     (\<exists>om ext b. redis_mapObservation (lb_json lb) cd svc = Ret om \<and> redis_mapParameters cd svc (rdp_Zone par) = Ret ext \<and>
        redis_isUpToDate lb cur (Some ext) = Ret b) \<and> connectable (sv_URI svc) (rds_ConnectionInfo svc)"

definition redis_upToDate :: "('v, 'c) libs \<Rightarrow> 's settings_codec \<Rightarrow> RedisParameters \<Rightarrow> RedisParameters \<Rightarrow> 's DBAASServiceRedis \<Rightarrow> bool" where
  "redis_upToDate lb cd par cur svc \<longleftrightarrow>
     (\<exists>ext. redis_mapParameters cd svc (rdp_Zone par) = Ret ext \<and> redis_isUpToDate lb cur (Some ext) = Ret True)"

text \<open>A service that was made on a request, and one that has taken over a request.\<close>

definition redis_made :: "('s option \<Rightarrow> 's \<Rightarrow> 's) \<Rightarrow> 's RedisRequest \<Rightarrow> 's DBAASServiceRedis \<Rightarrow> bool" where
  "redis_made fill b svc \<longleftrightarrow> takesOver (rdr_Maintenance b) (rdr_TerminationProtection b) (rdr_Plan b) (rdr_IPFilter b) svc \<and>
     sv_Settings svc = fill None (rdr_RedisSettings b)"

definition redis_taken :: "('s option \<Rightarrow> 's \<Rightarrow> 's) \<Rightarrow> 's RedisRequest \<Rightarrow> 's DBAASServiceRedis \<Rightarrow> 's DBAASServiceRedis \<Rightarrow> bool" where
  "redis_taken fill b old svc \<longleftrightarrow> takesOver (rdr_Maintenance b) (rdr_TerminationProtection b) (rdr_Plan b) (rdr_IPFilter b) svc \<and>
     sv_Settings svc = fill (Some (sv_Settings old)) (rdr_RedisSettings b)"

text \<open>Passes come to rest over what is there if the settings return.\<close>

definition redis_settles :: "('v, 'c) libs \<Rightarrow> 's settings_codec \<Rightarrow> ('s option \<Rightarrow> 's \<Rightarrow> 's) \<Rightarrow> RedisParameters \<Rightarrow> RedisParameters \<Rightarrow>
    's DBAASServiceRedis option \<Rightarrow> bool" where
  "redis_settles lb cd fill par cur found \<longleftrightarrow>
     settingsReturn lb cd (fill (map_option sv_Settings found)) (rdp_RedisSettings par) (rdp_RedisSettings cur)"

definition redis_protected :: "RedisParameters \<Rightarrow> 's DBAASServiceRedis \<Rightarrow> bool" where
  "redis_protected par svc \<longleftrightarrow> derefFalse (sv_TerminationProtection svc) = dp_TerminationProtection (rdp_DBaaS par)"

lemma redis_bodies:
  assumes "redis_updateBody cd par = Ret body"
  shows "redis_createBody cd par = Ret body"
    and "rdr_Maintenance body = \<lparr>sdk_mt_Dow = ms_DayOfWeek (rdp_Maintenance par), sdk_mt_Time = ms_TimeOfDay (rdp_Maintenance par)\<rparr>"
    and "rdr_TerminationProtection body = dp_TerminationProtection (rdp_DBaaS par)"
    and "rdr_Plan body = ss_Plan (dp_Size (rdp_DBaaS par))" and "rdr_IPFilter body = dp_IPFilter (rdp_DBaaS par)"
    and "decodeSettings cd (rdp_RedisSettings par) = Ret (rdr_RedisSettings body)"
  using assms by (auto simp: redis_updateBody_def redis_createBody_def bind_outcome_Ret_iff)

text \<open>Whether a service that has taken over a request is up to date is a matter of its settings.\<close>

lemma redis_upToDate_taken:
  assumes "redis_updateBody cd par = Ret body" "cur = par\<lparr>rdp_RedisSettings := st\<rparr>"
    and "takesOver (rdr_Maintenance body) (rdr_TerminationProtection body) (rdr_Plan body) (rdr_IPFilter body) svc"
  shows "redis_upToDate lb cd par cur svc = settingsAgree lb cd (rdp_RedisSettings cur) (sv_Settings svc) \<and> redis_protected par svc"
  using assms(2,3)
  by (auto simp: redis_bodies(2-5) [OF assms(1)] redis_upToDate_def takesOver_def settingsAgree_def redis_mapParameters_def redis_isUpToDate_def
      SizeSpec_Equals_def IsSameStringSet_Some derefFalse_def bind_outcome_Ret_iff redis_protected_def)

lemma redis_upToDate_protected:
  "redis_upToDate lb cd par cur svc \<Longrightarrow> cur = par\<lparr>rdp_RedisSettings := st\<rparr> \<Longrightarrow> redis_protected par svc"
  by (auto simp: redis_upToDate_def redis_mapParameters_def redis_isUpToDate_def bind_outcome_Ret_iff redis_protected_def)

text \<open>The desired parameters with defaults differ in the settings only.\<close>

lemma redis_defaults_settings:
  assumes "defaults_law (redis_setSettingsDefaults lb api par) par cur"
  obtains st where "cur = par\<lparr>rdp_RedisSettings := st\<rparr>"
proof -
  have "\<exists>st. cur = par\<lparr>rdp_RedisSettings := st\<rparr>"
    using assms
  proof (rule defaults_lawD)
    show "\<exists>st. par = par\<lparr>rdp_RedisSettings := st\<rparr>" by (intro exI [of _ "rdp_RedisSettings par"]) simp
  qed (auto simp: redis_setSettingsDefaults_def Ret_iffs)
  then show thesis using that by blast
qed

lemma redis_connection_delivers:
  assumes "cloud_law api services made taken" "connectable (sv_URI svc) (rds_ConnectionInfo svc)"
  shows "delivers services (redis_connectionDetails api svc)"
  unfolding redis_connectionDetails_def Let_def
  using assms(2) by (auto intro!: delivers_ret delivers_url [OF assms(1)] simp: connectable_def split: option.splits list.splits if_splits)

lemma redis_reports:
  fixes api :: "('s, 'q, 'w) redis_api"
  assumes law: "cloud_law api services made taken"
    and dflt: "defaults_law (redis_setSettingsDefaults lb api par :: (Redis \<times> 'w, RedisParameters) act) par cur"
    and x: "redisWanted (lb_runtime lb) n par x" and ok: "redis_answers lb cd par cur svc"
  shows "\<exists>obs x' w'. redis_observeService lb cd api x svc (x, w) = (Ret obs, (x', w')) \<and> eo_ResourceExists obs \<and>
    eo_ResourceUpToDate obs = redis_upToDate lb cd par cur svc \<and> redisWanted (lb_runtime lb) n par x' \<and> services w' = services w"
proof -
  have par: "mr_ForProvider x = par" using x by (simp add: redisWanted_def)
  obtain om err ext b where svc: "redis_mapObservation (lb_json lb) cd svc = Ret (om, err)" "redis_mapParameters cd svc (rdp_Zone par) = Ret ext"
    "redis_isUpToDate lb cur (Some ext) = Ret b" "connectable (sv_URI svc) (rds_ConnectionInfo svc)"
    using ok unfolding redis_answers_def by fastforce
  let ?x = "setStateCondition (lb_runtime lb) (sv_State svc) (x\<lparr>mr_AtProvider := om\<rparr>)"
  obtain conn w1 where conn: "redis_connectionDetails api svc (?x, w) = (Ret conn, (?x, w1))" "services w1 = services w"
    using deliversD [OF redis_connection_delivers [OF law svc(4)]] .
  have "onlyReads services (redis_setSettingsDefaults lb api par :: (Redis \<times> 'w, RedisParameters) act)"
    unfolding redis_setSettingsDefaults_def redis_fetchSettingSchema_def
    by (intro onlyReads_andThen onlyReads_intros fetchSchema_onlyReads cloud_lawD(4) [OF law])
  from reads_defaults [OF dflt this] obtain d w2 where d: "catch (redis_setSettingsDefaults lb api par) (?x, w1) = (Ret d, (?x, w2))"
    "(case d of Inl _ \<Rightarrow> par | Inr q \<Rightarrow> q) = cur" "services w2 = services w1" .
  have d': "(case d of Inl _ \<Rightarrow> mr_ForProvider x | Inr q \<Rightarrow> q) = cur" using d(2) unfolding par .
  have "redis_observeService lb cd api x svc (x, w) =
      (Ret \<lparr>eo_ResourceExists = True, eo_ResourceUpToDate = b, eo_ConnectionDetails = conn\<rparr>, (?x, w2))"
    using svc conn(1) d(1) d' par by (simp add: redis_observeService_def run_simps)
  moreover have "redisWanted (lb_runtime lb) n par ?x"
    using x unfolding redisWanted_def redis_GetInstanceName_def by simp
  ultimately show ?thesis using svc(2,3) conn(2) d(3) by (fastforce simp: redis_upToDate_def)
qed

lemma redis_dbaas_observer:
  fixes api :: "('s, 'q, 'w) redis_api"
  assumes law: "cloud_law api services made taken"
    and dflt: "defaults_law (redis_setSettingsDefaults lb api par :: (Redis \<times> 'w, RedisParameters) act) par cur"
    and ok: "always services n (redis_answers lb cd par cur)"
  shows "dbaas_observer api services made taken n (redisWanted (lb_runtime lb) n par) (redis_Observe lb cd api)
    (redis_observeService lb cd api) (redis_upToDate lb cd par cur) (Wrapf ''unable to observe instance: %w'' [])"
proof unfold_locales
  show "\<exists>obs x' w'. redis_observeService lb cd api x svc (x, w) = (Ret obs, (x', w')) \<and> eo_ResourceExists obs \<and>
      eo_ResourceUpToDate obs = redis_upToDate lb cd par cur svc \<and> redisWanted (lb_runtime lb) n par x' \<and> services w' = services w"
    if "redisWanted (lb_runtime lb) n par x" "services w n = Some svc" for x w svc
    using redis_reports [OF law dflt that(1) alwaysD [OF ok that(2)]] .
qed (simp_all add: law redisWanted_def redis_Observe_def typed_getObj_apply withTyped_Typed andThen_apply)

lemma redis_dbaas_client:
  fixes api :: "('s, 'q, 'w) redis_api"
  assumes law: "cloud_law api services (redis_made fill) (redis_taken fill)" and again: "fill_law fill"
    and dflt: "defaults_law (redis_setSettingsDefaults lb api par :: (Redis \<times> 'w, RedisParameters) act) par cur"
    and ok: "always services n (redis_answers lb cd par cur)"
    and body: "redis_updateBody cd par = Ret body"
  shows "dbaas_client api services (redis_made fill) (redis_taken fill) n (redisWanted (lb_runtime lb) n par) (redis_Observe lb cd api)
    (redis_observeService lb cd api) (redis_upToDate lb cd par cur) (Wrapf ''unable to observe instance: %w'' [])
    (redis_Create (lb_runtime lb) cd api) (redis_Update (lb_runtime lb) cd api) body body
    (redis_settles lb cd fill par cur) (redis_protected par)
    (Wrapf ''unable to create instance: %w'' []) (Wrapf ''unable to create instance: %w'' [])"
proof (rule dbaas_client.intro [OF redis_dbaas_observer [OF law dflt ok]], unfold_locales)
  obtain st where st: "cur = par\<lparr>rdp_RedisSettings := st\<rparr>" using redis_defaults_settings [OF dflt] .
  note sent = settingsReturn_sent [OF redis_bodies(6) [OF body]]
  show "redis_upToDate lb cd par cur svc = redis_settles lb cd fill par cur None \<and>
      redis_settles lb cd fill par cur (Some svc) = redis_settles lb cd fill par cur None \<and> redis_protected par svc"
    if "services w n = Some svc" "redis_made fill body svc" for w svc
    using that(2) redis_upToDate_taken [OF body st, of svc lb] again by (simp add: redis_made_def redis_settles_def sent fill_law_def)
  show "redis_upToDate lb cd par cur svc = redis_settles lb cd fill par cur (Some old) \<and>
      redis_settles lb cd fill par cur (Some svc) = redis_settles lb cd fill par cur (Some old) \<and> redis_protected par svc"
    if "services w n = Some svc" "redis_taken fill body old svc" for w old svc
    using that(2) redis_upToDate_taken [OF body st, of svc lb] again by (simp add: redis_taken_def redis_settles_def sent fill_law_def)
  show "redis_protected par svc" if "redis_upToDate lb cd par cur svc" for svc
    using redis_upToDate_protected [OF that st] .
qed (use body in \<open>simp_all add: redis_bodies(1) redisWanted_def redis_Create_def redis_Update_def typed_getObj_apply
    withTyped_Typed andThen_apply\<close>)

section \<open>MySQL\<close>

definition mysqlWanted :: "runtime_lib \<Rightarrow> string \<Rightarrow> MySQLParameters \<Rightarrow> MySQL \<Rightarrow> bool" where
  "mysqlWanted rt n par x \<longleftrightarrow> mr_ForProvider x = par \<and> mysql_GetInstanceName rt x = n"

definition mysql_answers :: "('v, 'c) libs \<Rightarrow> 's settings_codec \<Rightarrow> MySQLParameters \<Rightarrow> MySQLParameters \<Rightarrow> 's DBAASServiceMysql \<Rightarrow> bool" where
  "mysql_answers lb cd par cur svc \<longleftrightarrow>
     (\<exists>om ext b. mysql_mapObservation (lb_json lb) cd svc = Ret om \<and> mysql_mapParameters cd svc (myp_Zone par) = Ret ext \<and>
        mysql_isUpToDate lb cur (Some ext) = Ret b) \<and>
     connectable (sv_URI svc) (mys_ConnectionInfo svc)"

definition mysql_upToDate :: "('v, 'c) libs \<Rightarrow> 's settings_codec \<Rightarrow> MySQLParameters \<Rightarrow> MySQLParameters \<Rightarrow> 's DBAASServiceMysql \<Rightarrow> bool" where
  "mysql_upToDate lb cd par cur svc \<longleftrightarrow>
     (\<exists>ext. mysql_mapParameters cd svc (myp_Zone par) = Ret ext \<and> mysql_isUpToDate lb cur (Some ext) = Ret True)"

text \<open>
  As for Redis; the backup schedule is taken over too, and a service is made with the version that the cloud runs for the one that
  is asked for. Updates do not touch the version.
\<close>

definition mysql_takes :: "('s, 'z) UpdateMysqlRequest_scheme \<Rightarrow> 's DBAASServiceMysql \<Rightarrow> bool" where
  "mysql_takes b svc \<longleftrightarrow> takesOver (myu_Maintenance b) (myu_TerminationProtection b) (myu_Plan b) (myu_IPFilter b) svc \<and>
     (onClock (Some (myu_BackupSchedule b)) \<longrightarrow> mys_BackupSchedule svc = Some (myu_BackupSchedule b))"

definition mysql_made :: "('s option \<Rightarrow> 's \<Rightarrow> 's) \<Rightarrow> (string \<Rightarrow> string) \<Rightarrow> 's CreateMysqlRequest \<Rightarrow> 's DBAASServiceMysql \<Rightarrow> bool" where
  "mysql_made fill runs b svc \<longleftrightarrow> mysql_takes b svc \<and> sv_Version svc = runs (myc_Version b) \<and> sv_Settings svc = fill None (myu_MysqlSettings b)"

definition mysql_taken :: "('s option \<Rightarrow> 's \<Rightarrow> 's) \<Rightarrow> 's UpdateMysqlRequest \<Rightarrow> 's DBAASServiceMysql \<Rightarrow> 's DBAASServiceMysql \<Rightarrow> bool" where
  "mysql_taken fill b old svc \<longleftrightarrow> mysql_takes b svc \<and> sv_Version svc = sv_Version old \<and>
     sv_Settings svc = fill (Some (sv_Settings old)) (myu_MysqlSettings b)"

text \<open>
  Passes come to rest over what is there if the time of the backup is a whole minute, the service is, or will be, of the
  major version that is asked for, and the settings return.
\<close>

definition mysql_settles :: "('v, 'c) libs \<Rightarrow> 's settings_codec \<Rightarrow> ('s option \<Rightarrow> 's \<Rightarrow> 's) \<Rightarrow> (string \<Rightarrow> string) \<Rightarrow>
    MySQLParameters \<Rightarrow> MySQLParameters \<Rightarrow> 's DBAASServiceMysql option \<Rightarrow> bool" where
  "mysql_settles lb cd fill runs par cur found \<longleftrightarrow> wholeMinute (bs_TimeOfDay (myp_Backup par)) \<and>
     sameMajor lb (myp_Version par) (case found of None \<Rightarrow> runs (myp_Version par) | Some svc \<Rightarrow> sv_Version svc) \<and>
     settingsReturn lb cd (fill (map_option sv_Settings found)) (myp_MySQLSettings par) (myp_MySQLSettings cur)"

text \<open>A request that asks for what the parameters say.\<close>

definition mysql_asks :: "'s settings_codec \<Rightarrow> MySQLParameters \<Rightarrow> ('s, 'z) UpdateMysqlRequest_scheme \<Rightarrow> bool" where
  "mysql_asks cd par b \<longleftrightarrow> (\<exists>h m s. Parse (bs_TimeOfDay (myp_Backup par)) = (h, m, s, None) \<and>
     myu_BackupSchedule b = \<lparr>bsch_BackupHour = h, bsch_BackupMinute = m\<rparr>) \<and>
     myu_Maintenance b = \<lparr>sdk_mt_Dow = ms_DayOfWeek (myp_Maintenance par), sdk_mt_Time = ms_TimeOfDay (myp_Maintenance par)\<rparr> \<and>
     myu_TerminationProtection b = dp_TerminationProtection (myp_DBaaS par) \<and>
     myu_Plan b = ss_Plan (dp_Size (myp_DBaaS par)) \<and> myu_IPFilter b = dp_IPFilter (myp_DBaaS par) \<and>
     decodeSettings cd (myp_MySQLSettings par) = Ret (myu_MysqlSettings b)"

lemma mysql_asks_intros:
  "mysql_updateBody cd par = Ret ub \<Longrightarrow> mysql_asks cd par ub"
  "mysql_createBody cd par = Ret cb \<Longrightarrow> mysql_asks cd par cb \<and> myc_Version cb = myp_Version par"
  by (cases "Parse (bs_TimeOfDay (myp_Backup par))" rule: prod_cases4,
      auto simp: mysql_asks_def mysql_updateBody_def mysql_createBody_def bind_outcome_Ret_iff ToBackupSchedule_def split: option.splits)+

text \<open>Whether a service that has taken over a request is up to date is a matter of the backup time, its version and its settings.\<close>

lemma mysql_upToDate_taken:
  assumes "mysql_asks cd par body" "mysql_takes body svc" "cur = par\<lparr>myp_MySQLSettings := st\<rparr>"
  shows "mysql_upToDate lb cd par cur svc = (wholeMinute (bs_TimeOfDay (myp_Backup par)) \<and>
    sameMajor lb (myp_Version par) (sv_Version svc) \<and> settingsAgree lb cd (myp_MySQLSettings cur) (sv_Settings svc))"
proof -
  obtain h m s where t: "Parse (bs_TimeOfDay (myp_Backup par)) = (h, m, s, None)"
    "myu_BackupSchedule body = \<lparr>bsch_BackupHour = h, bsch_BackupMinute = m\<rparr>"
    using assms(1) by (auto simp: mysql_asks_def)
  have "onClock (Some (myu_BackupSchedule body))" using t by (simp add: onClock_def Parse_accepts)
  then have taken: "mys_BackupSchedule svc = Some (myu_BackupSchedule body)" using assms(2) by (simp add: mysql_takes_def)
  have "(bs_TimeOfDay (myp_Backup par) = bs_TimeOfDay (mysql_toBackupSpec (mys_BackupSchedule svc))) = wholeMinute (bs_TimeOfDay (myp_Backup par))"
    using backup_returns [OF t(1)] t(2) taken by (simp add: mysql_toBackupSpec_eq)
  then show ?thesis using assms
    by (auto simp: mysql_asks_def mysql_upToDate_def mysql_takes_def takesOver_def sameMajor_def settingsAgree_def mysql_mapParameters_def
        mysql_isUpToDate_def SizeSpec_Equals_def IsSameStringSet_Some derefFalse_def bind_outcome_Ret_iff ex_bool_eq)
qed

lemma mysql_defaults_settings:
  assumes "defaults_law (mysql_setSettingsDefaults lb api par) par cur"
  obtains st where "cur = par\<lparr>myp_MySQLSettings := st\<rparr>"
proof -
  have "\<exists>st. cur = par\<lparr>myp_MySQLSettings := st\<rparr>"
    using assms
  proof (rule defaults_lawD)
    show "\<exists>st. par = par\<lparr>myp_MySQLSettings := st\<rparr>" by (intro exI [of _ "myp_MySQLSettings par"]) simp
  qed (auto simp: mysql_setSettingsDefaults_def Ret_iffs)
  then show thesis using that by blast
qed

lemma mysql_connection_delivers:
  assumes "cloud_law api services made taken" "connectable (sv_URI svc) (mys_ConnectionInfo svc)"
  shows "delivers services (mysql_connectionDetails api svc ca)"
  unfolding mysql_connectionDetails_def Let_def
  using assms(2) by (auto intro!: delivers_ret delivers_url [OF assms(1)] simp: connectable_def split: option.splits list.splits if_splits)

lemma mysql_reports:
  fixes api :: "('s, 'q, 'w) mysql_api"
  assumes law: "cloud_law api services made taken"
    and dflt: "defaults_law (mysql_setSettingsDefaults lb api par :: (MySQL \<times> 'w, MySQLParameters) act) par cur"
    and x: "mysqlWanted (lb_runtime lb) n par x" and ok: "mysql_answers lb cd par cur svc"
  shows "\<exists>obs x' w'. mysql_observeService lb cd api x svc (x, w) = (Ret obs, (x', w')) \<and> eo_ResourceExists obs \<and>
    eo_ResourceUpToDate obs = mysql_upToDate lb cd par cur svc \<and> mysqlWanted (lb_runtime lb) n par x' \<and> services w' = services w"
proof -
  have par: "mr_ForProvider x = par" using x by (simp add: mysqlWanted_def)
  obtain om err ext b where svc: "mysql_mapObservation (lb_json lb) cd svc = Ret (om, err)" "mysql_mapParameters cd svc (myp_Zone par) = Ret ext"
    "mysql_isUpToDate lb cur (Some ext) = Ret b" "connectable (sv_URI svc) (mys_ConnectionInfo svc)"
    using ok unfolding mysql_answers_def by fastforce
  let ?x = "setStateCondition (lb_runtime lb) (sv_State svc) (x\<lparr>mr_AtProvider := om\<rparr>)"
  obtain ca w1 where ca: "api_GetCACertificate api w = (Inr ca, w1)" "services w1 = services w" using cloud_ca [OF law] .
  obtain conn w2 where conn: "mysql_connectionDetails api svc ca (?x, w1) = (Ret conn, (?x, w2))" "services w2 = services w1"
    using deliversD [OF mysql_connection_delivers [OF law svc(4)]] .
  have "onlyReads services (mysql_setSettingsDefaults lb api par :: (MySQL \<times> 'w, MySQLParameters) act)"
    unfolding mysql_setSettingsDefaults_def mysql_fetchSettingSchema_def
    by (intro onlyReads_andThen onlyReads_intros fetchSchema_onlyReads cloud_lawD(4) [OF law])
  from reads_defaults [OF dflt this] obtain d w3 where d: "catch (mysql_setSettingsDefaults lb api par) (?x, w2) = (Ret d, (?x, w3))"
    "(case d of Inl _ \<Rightarrow> par | Inr q \<Rightarrow> q) = cur" "services w3 = services w2" .
  have d': "(case d of Inl _ \<Rightarrow> mr_ForProvider x | Inr q \<Rightarrow> q) = cur" using d(2) unfolding par .
  have "mysql_observeService lb cd api x svc (x, w) =
      (Ret \<lparr>eo_ResourceExists = True, eo_ResourceUpToDate = b, eo_ConnectionDetails = conn\<rparr>, (?x, w3))"
    using svc ca(1) conn(1) d(1) d' par by (simp add: mysql_observeService_def run_simps)
  moreover have "mysqlWanted (lb_runtime lb) n par ?x"
    using x unfolding mysqlWanted_def mysql_GetInstanceName_def by simp
  ultimately show ?thesis using svc(2,3) ca(2) conn(2) d(3) by (fastforce simp: mysql_upToDate_def)
qed

lemma mysql_dbaas_observer:
  fixes api :: "('s, 'q, 'w) mysql_api"
  assumes law: "cloud_law api services made taken"
    and dflt: "defaults_law (mysql_setSettingsDefaults lb api par :: (MySQL \<times> 'w, MySQLParameters) act) par cur"
    and ok: "always services n (mysql_answers lb cd par cur)"
  shows "dbaas_observer api services made taken n (mysqlWanted (lb_runtime lb) n par) (mysql_Observe lb cd api)
    (mysql_observeService lb cd api) (mysql_upToDate lb cd par cur) (Wrapf ''cannot observe mySQLInstance: %w'' [])"
proof unfold_locales
  show "\<exists>obs x' w'. mysql_observeService lb cd api x svc (x, w) = (Ret obs, (x', w')) \<and> eo_ResourceExists obs \<and>
      eo_ResourceUpToDate obs = mysql_upToDate lb cd par cur svc \<and> mysqlWanted (lb_runtime lb) n par x' \<and> services w' = services w"
    if "mysqlWanted (lb_runtime lb) n par x" "services w n = Some svc" for x w svc
    using mysql_reports [OF law dflt that(1) alwaysD [OF ok that(2)]] .
qed (simp_all add: law mysqlWanted_def mysql_Observe_def typed_getObj_apply withTyped_Typed andThen_apply)

lemma mysql_dbaas_client:
  fixes api :: "('s, 'q, 'w) mysql_api"
  assumes law: "cloud_law api services (mysql_made fill runs) (mysql_taken fill)" and again: "fill_law fill"
    and dflt: "defaults_law (mysql_setSettingsDefaults lb api par :: (MySQL \<times> 'w, MySQLParameters) act) par cur"
    and ok: "always services n (mysql_answers lb cd par cur)"
    and create: "mysql_createBody cd par = Ret cbody" and update: "mysql_updateBody cd par = Ret ubody"
  shows "dbaas_client api services (mysql_made fill runs) (mysql_taken fill) n (mysqlWanted (lb_runtime lb) n par) (mysql_Observe lb cd api)
    (mysql_observeService lb cd api) (mysql_upToDate lb cd par cur) (Wrapf ''cannot observe mySQLInstance: %w'' [])
    (mysql_Create (lb_runtime lb) cd api) (mysql_Update (lb_runtime lb) cd api) cbody ubody
    (mysql_settles lb cd fill runs par cur) (\<lambda>_. True)
    (Wrapf ''cannot create mySQLInstance: %w'' []) (Wrapf ''cannot update mySQLInstance: %w'' [])"
proof (rule dbaas_client.intro [OF mysql_dbaas_observer [OF law dflt ok]], unfold_locales)
  obtain st where st: "cur = par\<lparr>myp_MySQLSettings := st\<rparr>" using mysql_defaults_settings [OF dflt] .
  note asks = mysql_asks_intros(1) [OF update] conjunct1 [OF mysql_asks_intros(2) [OF create]]
  have version: "myc_Version cbody = myp_Version par" using mysql_asks_intros(2) [OF create] by simp
  have sent: "settingsReturn lb cd reply (myp_MySQLSettings par) c = settingsAgree lb cd c (reply (myu_MysqlSettings ubody))"
    "settingsReturn lb cd reply (myp_MySQLSettings par) c = settingsAgree lb cd c (reply (myu_MysqlSettings cbody))" for reply c
    using asks by (simp_all add: mysql_asks_def settingsReturn_sent)
  show "mysql_upToDate lb cd par cur svc = mysql_settles lb cd fill runs par cur None \<and>
      mysql_settles lb cd fill runs par cur (Some svc) = mysql_settles lb cd fill runs par cur None \<and> True"
    if "services w n = Some svc" "mysql_made fill runs cbody svc" for w svc
    using that(2) mysql_upToDate_taken [OF asks(2) _ st, of svc lb] again version
    by (simp add: mysql_made_def mysql_settles_def sent(2) fill_law_def)
  show "mysql_upToDate lb cd par cur svc = mysql_settles lb cd fill runs par cur (Some old) \<and>
      mysql_settles lb cd fill runs par cur (Some svc) = mysql_settles lb cd fill runs par cur (Some old) \<and> True"
    if "services w n = Some svc" "mysql_taken fill ubody old svc" for w old svc
    using that(2) mysql_upToDate_taken [OF asks(1) _ st, of svc lb] again
    by (simp add: mysql_taken_def mysql_settles_def sent(1) fill_law_def)
qed (use create update in \<open>simp_all add: mysqlWanted_def mysql_Create_def mysql_Update_def typed_getObj_apply
    withTyped_Typed andThen_apply wrapErr_apply\<close>)

section \<open>PostgreSQL\<close>

text \<open>The name of the resource and its external name have to agree, since Create and Update go by the first and Observe by the second.\<close>

definition pgWanted :: "runtime_lib \<Rightarrow> string \<Rightarrow> PostgreSQLParameters \<Rightarrow> PostgreSQL \<Rightarrow> bool" where
  "pgWanted rt n par x \<longleftrightarrow> mr_ForProvider x = par \<and> pg_GetInstanceName rt x = n \<and> om_Name (mr_Meta x) = n"

definition pg_answers :: "('v, 'c) libs \<Rightarrow> 's settings_codec \<Rightarrow> PostgreSQLParameters \<Rightarrow> PostgreSQLParameters \<Rightarrow> 's DBAASServicePG \<Rightarrow> bool" where
  "pg_answers lb cd par cur svc \<longleftrightarrow>
     (\<exists>om ext b. pg_mapObservation cd svc = Ret om \<and> pg_mapParameters cd svc (pgp_Zone par) = Ret ext \<and>
        pg_isUpToDate lb cur (Some ext) = Ret b) \<and>
     connectable (sv_URI svc) (pgs_ConnectionInfo svc)"

definition pg_upToDate :: "('v, 'c) libs \<Rightarrow> 's settings_codec \<Rightarrow> PostgreSQLParameters \<Rightarrow> PostgreSQLParameters \<Rightarrow> 's DBAASServicePG \<Rightarrow> bool" where
  "pg_upToDate lb cd par cur svc \<longleftrightarrow>
     (\<exists>ext. pg_mapParameters cd svc (pgp_Zone par) = Ret ext \<and> pg_isUpToDate lb cur (Some ext) = Ret True)"

text \<open>As for MySQL.\<close>

definition pg_takes :: "('s, 'z) UpdatePGRequest_scheme \<Rightarrow> 's DBAASServicePG \<Rightarrow> bool" where
  "pg_takes b svc \<longleftrightarrow> takesOver (pgu_Maintenance b) (pgu_TerminationProtection b) (pgu_Plan b) (pgu_IPFilter b) svc \<and>
     (onClock (Some (pgu_BackupSchedule b)) \<longrightarrow> pgs_BackupSchedule svc = Some (pgu_BackupSchedule b))"

definition pg_made :: "('s option \<Rightarrow> 's \<Rightarrow> 's) \<Rightarrow> (string \<Rightarrow> string) \<Rightarrow> 's CreatePGRequest \<Rightarrow> 's DBAASServicePG \<Rightarrow> bool" where
  "pg_made fill runs b svc \<longleftrightarrow> pg_takes b svc \<and> sv_Version svc = runs (pgc_Version b) \<and> sv_Settings svc = fill None (pgu_PGSettings b)"

definition pg_taken :: "('s option \<Rightarrow> 's \<Rightarrow> 's) \<Rightarrow> 's UpdatePGRequest \<Rightarrow> 's DBAASServicePG \<Rightarrow> 's DBAASServicePG \<Rightarrow> bool" where
  "pg_taken fill b old svc \<longleftrightarrow> pg_takes b svc \<and> sv_Version svc = sv_Version old \<and>
     sv_Settings svc = fill (Some (sv_Settings old)) (pgu_PGSettings b)"

text \<open>
  Passes come to rest over what is there if the time of the backup is a whole minute, the service is, or will be, of the
  major version that is asked for, and the settings return.
\<close>

definition pg_settles :: "('v, 'c) libs \<Rightarrow> 's settings_codec \<Rightarrow> ('s option \<Rightarrow> 's \<Rightarrow> 's) \<Rightarrow> (string \<Rightarrow> string) \<Rightarrow>
    PostgreSQLParameters \<Rightarrow> PostgreSQLParameters \<Rightarrow> 's DBAASServicePG option \<Rightarrow> bool" where
  "pg_settles lb cd fill runs par cur found \<longleftrightarrow> wholeMinute (bs_TimeOfDay (pgp_Backup par)) \<and>
     sameMajor lb (pgp_Version par) (case found of None \<Rightarrow> runs (pgp_Version par) | Some svc \<Rightarrow> sv_Version svc) \<and>
     settingsReturn lb cd (fill (map_option sv_Settings found)) (pgp_PGSettings par) (pgp_PGSettings cur)"

text \<open>A request that asks for what the parameters say.\<close>

definition pg_asks :: "'s settings_codec \<Rightarrow> PostgreSQLParameters \<Rightarrow> ('s, 'z) UpdatePGRequest_scheme \<Rightarrow> bool" where
  "pg_asks cd par b \<longleftrightarrow> (\<exists>h m s. Parse (bs_TimeOfDay (pgp_Backup par)) = (h, m, s, None) \<and>
     pgu_BackupSchedule b = \<lparr>bsch_BackupHour = h, bsch_BackupMinute = m\<rparr>) \<and>
     pgu_Maintenance b = \<lparr>sdk_mt_Dow = ms_DayOfWeek (pgp_Maintenance par), sdk_mt_Time = ms_TimeOfDay (pgp_Maintenance par)\<rparr> \<and>
     pgu_TerminationProtection b = dp_TerminationProtection (pgp_DBaaS par) \<and>
     pgu_Plan b = ss_Plan (dp_Size (pgp_DBaaS par)) \<and> pgu_IPFilter b = dp_IPFilter (pgp_DBaaS par) \<and>
     decodeSettings cd (pgp_PGSettings par) = Ret (pgu_PGSettings b)"

lemma pg_asks_intros:
  "pg_fromSpecToUpdateBody cd par = Ret ub \<Longrightarrow> pg_asks cd par ub"
  "pg_fromSpecToCreateBody cd par = Ret cb \<Longrightarrow> pg_asks cd par cb \<and> pgc_Version cb = pgp_Version par"
  by (cases "Parse (bs_TimeOfDay (pgp_Backup par))" rule: prod_cases4,
      auto simp: pg_asks_def pg_fromSpecToUpdateBody_def pg_fromSpecToCreateBody_def bind_outcome_Ret_iff ToBackupSchedule_def split: option.splits)+

text \<open>Whether a service that has taken over a request is up to date is a matter of the backup time, its version and its settings.\<close>

lemma pg_upToDate_taken:
  assumes "pg_asks cd par body" "pg_takes body svc" "cur = par\<lparr>pgp_PGSettings := st\<rparr>"
  shows "pg_upToDate lb cd par cur svc = (wholeMinute (bs_TimeOfDay (pgp_Backup par)) \<and>
    sameMajor lb (pgp_Version par) (sv_Version svc) \<and> settingsAgree lb cd (pgp_PGSettings cur) (sv_Settings svc))"
proof -
  obtain h m s where t: "Parse (bs_TimeOfDay (pgp_Backup par)) = (h, m, s, None)"
    "pgu_BackupSchedule body = \<lparr>bsch_BackupHour = h, bsch_BackupMinute = m\<rparr>"
    using assms(1) by (auto simp: pg_asks_def)
  have "onClock (Some (pgu_BackupSchedule body))" using t by (simp add: onClock_def Parse_accepts)
  then have taken: "pgs_BackupSchedule svc = Some (pgu_BackupSchedule body)" using assms(2) by (simp add: pg_takes_def)
  have "(bs_TimeOfDay (pgp_Backup par) = bs_TimeOfDay (pg_toBackupSpec (pgs_BackupSchedule svc))) = wholeMinute (bs_TimeOfDay (pgp_Backup par))"
    using backup_returns [OF t(1)] t(2) taken by (simp add: pg_toBackupSpec_eq)
  then show ?thesis using assms
    by (auto simp: pg_asks_def pg_upToDate_def pg_takes_def takesOver_def sameMajor_def settingsAgree_def pg_mapParameters_def
        pg_isUpToDate_def SizeSpec_Equals_def IsSameStringSet_Some derefFalse_def bind_outcome_Ret_iff ex_bool_eq)
qed

lemma pg_defaults_settings:
  assumes "defaults_law (pg_setSettingsDefaults lb api par) par cur"
  obtains st where "cur = par\<lparr>pgp_PGSettings := st\<rparr>"
proof -
  have "\<exists>st. cur = par\<lparr>pgp_PGSettings := st\<rparr>"
    using assms
  proof (rule defaults_lawD)
    show "\<exists>st. par = par\<lparr>pgp_PGSettings := st\<rparr>" by (intro exI [of _ "pgp_PGSettings par"]) simp
  qed (auto simp: pg_setSettingsDefaults_def Ret_iffs)
  then show thesis using that by blast
qed

lemma pg_connection_delivers:
  assumes "cloud_law api services made taken" "connectable (sv_URI svc) (pgs_ConnectionInfo svc)"
  shows "delivers services (pg_connectionDetails api svc ca)"
  unfolding pg_connectionDetails_def Let_def
  using assms(2) by (auto intro!: delivers_ret delivers_url [OF assms(1)] simp: connectable_def split: option.splits list.splits if_splits)

lemma pg_reports:
  fixes api :: "('s, 'q, 'w) pg_api"
  assumes law: "cloud_law api services made taken"
    and dflt: "defaults_law (pg_setSettingsDefaults lb api par :: (PostgreSQL \<times> 'w, PostgreSQLParameters) act) par cur"
    and x: "pgWanted (lb_runtime lb) n par x" and ok: "pg_answers lb cd par cur svc"
  shows "\<exists>obs x' w'. pg_observeService lb cd api x svc (x, w) = (Ret obs, (x', w')) \<and> eo_ResourceExists obs \<and>
    eo_ResourceUpToDate obs = pg_upToDate lb cd par cur svc \<and> pgWanted (lb_runtime lb) n par x' \<and> services w' = services w"
proof -
  have par: "mr_ForProvider x = par" using x by (simp add: pgWanted_def)
  obtain om err ext b where svc: "pg_mapObservation cd svc = Ret (om, err)" "pg_mapParameters cd svc (pgp_Zone par) = Ret ext"
    "pg_isUpToDate lb cur (Some ext) = Ret b" "connectable (sv_URI svc) (pgs_ConnectionInfo svc)"
    using ok unfolding pg_answers_def by fastforce
  let ?x = "setStateCondition (lb_runtime lb) (sv_State svc) (x\<lparr>mr_AtProvider := om\<rparr>)"
  obtain ca w1 where ca: "api_GetCACertificate api w = (Inr ca, w1)" "services w1 = services w" using cloud_ca [OF law] .
  obtain conn w2 where conn: "pg_connectionDetails api svc ca (?x, w1) = (Ret conn, (?x, w2))" "services w2 = services w1"
    using deliversD [OF pg_connection_delivers [OF law svc(4)]] .
  have "onlyReads services (pg_setSettingsDefaults lb api par :: (PostgreSQL \<times> 'w, PostgreSQLParameters) act)"
    unfolding pg_setSettingsDefaults_def pg_fetchSettingSchema_def
    by (intro onlyReads_andThen onlyReads_intros fetchSchema_onlyReads cloud_lawD(4) [OF law])
  from reads_defaults [OF dflt this] obtain d w3 where d: "catch (pg_setSettingsDefaults lb api par) (?x, w2) = (Ret d, (?x, w3))"
    "(case d of Inl _ \<Rightarrow> par | Inr q \<Rightarrow> q) = cur" "services w3 = services w2" .
  have d': "(case d of Inl _ \<Rightarrow> mr_ForProvider x | Inr q \<Rightarrow> q) = cur" using d(2) unfolding par .
  have "err = None" using svc(1,2) by (auto simp: pg_mapObservation_def pg_mapParameters_def bind_outcome_Ret_iff split: sum.splits)
  then have err: "pg_mapObservation cd svc = Ret (om, None)" using svc(1) by simp
  have "pg_observeService lb cd api x svc (x, w) =
      (Ret \<lparr>eo_ResourceExists = True, eo_ResourceUpToDate = b, eo_ConnectionDetails = conn\<rparr>, (?x, w3))"
    using svc err ca(1) conn(1) d(1) d' par by (simp add: pg_observeService_def pg_setConditionFromState_def run_simps)
  moreover have "pgWanted (lb_runtime lb) n par ?x"
    using x unfolding pgWanted_def pg_GetInstanceName_def by simp
  ultimately show ?thesis using svc(2,3) ca(2) conn(2) d(3) by (fastforce simp: pg_upToDate_def)
qed

lemma pg_dbaas_observer:
  fixes api :: "('s, 'q, 'w) pg_api"
  assumes law: "cloud_law api services made taken"
    and dflt: "defaults_law (pg_setSettingsDefaults lb api par :: (PostgreSQL \<times> 'w, PostgreSQLParameters) act) par cur"
    and ok: "always services n (pg_answers lb cd par cur)"
  shows "dbaas_observer api services made taken n (pgWanted (lb_runtime lb) n par) (pg_Observe lb cd api)
    (pg_observeService lb cd api) (pg_upToDate lb cd par cur) (Wrapf ''cannot observe pgInstance: %w'' [])"
proof unfold_locales
  show "\<exists>obs x' w'. pg_observeService lb cd api x svc (x, w) = (Ret obs, (x', w')) \<and> eo_ResourceExists obs \<and>
      eo_ResourceUpToDate obs = pg_upToDate lb cd par cur svc \<and> pgWanted (lb_runtime lb) n par x' \<and> services w' = services w"
    if "pgWanted (lb_runtime lb) n par x" "services w n = Some svc" for x w svc
    using pg_reports [OF law dflt that(1) alwaysD [OF ok that(2)]] .
qed (simp_all add: law pgWanted_def pg_Observe_def typed_getObj_apply withTyped_Typed andThen_apply)

lemma pg_dbaas_client:
  fixes api :: "('s, 'q, 'w) pg_api"
  assumes law: "cloud_law api services (pg_made fill runs) (pg_taken fill)" and again: "fill_law fill"
    and dflt: "defaults_law (pg_setSettingsDefaults lb api par :: (PostgreSQL \<times> 'w, PostgreSQLParameters) act) par cur"
    and ok: "always services n (pg_answers lb cd par cur)"
    and create: "pg_fromSpecToCreateBody cd par = Ret cbody" and update: "pg_fromSpecToUpdateBody cd par = Ret ubody"
  shows "dbaas_client api services (pg_made fill runs) (pg_taken fill) n (pgWanted (lb_runtime lb) n par) (pg_Observe lb cd api)
    (pg_observeService lb cd api) (pg_upToDate lb cd par cur) (Wrapf ''cannot observe pgInstance: %w'' [])
    (pg_Create cd api) (pg_Update cd api) cbody ubody
    (pg_settles lb cd fill runs par cur) (\<lambda>_. True)
    (Wrapf ''cannot create instance'' []) (Wrapf ''cannot update instance'' [])"
proof (rule dbaas_client.intro [OF pg_dbaas_observer [OF law dflt ok]], unfold_locales)
  obtain st where st: "cur = par\<lparr>pgp_PGSettings := st\<rparr>" using pg_defaults_settings [OF dflt] .
  note asks = pg_asks_intros(1) [OF update] conjunct1 [OF pg_asks_intros(2) [OF create]]
  have version: "pgc_Version cbody = pgp_Version par" using pg_asks_intros(2) [OF create] by simp
  have sent: "settingsReturn lb cd reply (pgp_PGSettings par) c = settingsAgree lb cd c (reply (pgu_PGSettings ubody))"
    "settingsReturn lb cd reply (pgp_PGSettings par) c = settingsAgree lb cd c (reply (pgu_PGSettings cbody))" for reply c
    using asks by (simp_all add: pg_asks_def settingsReturn_sent)
  show "pg_upToDate lb cd par cur svc = pg_settles lb cd fill runs par cur None \<and>
      pg_settles lb cd fill runs par cur (Some svc) = pg_settles lb cd fill runs par cur None \<and> True"
    if "services w n = Some svc" "pg_made fill runs cbody svc" for w svc
    using that(2) pg_upToDate_taken [OF asks(2) _ st, of svc lb] again version
    by (simp add: pg_made_def pg_settles_def sent(2) fill_law_def)
  show "pg_upToDate lb cd par cur svc = pg_settles lb cd fill runs par cur (Some old) \<and>
      pg_settles lb cd fill runs par cur (Some svc) = pg_settles lb cd fill runs par cur (Some old) \<and> True"
    if "services w n = Some svc" "pg_taken fill ubody old svc" for w old svc
    using that(2) pg_upToDate_taken [OF asks(1) _ st, of svc lb] again
    by (simp add: pg_taken_def pg_settles_def sent(1) fill_law_def)
qed (use create update in \<open>simp_all add: pgWanted_def pg_Create_def pg_Update_def typed_getObj_apply
    withTyped_Typed andThen_apply wrapErr_apply\<close>)

section \<open>OpenSearch\<close>

definition opensearchWanted :: "runtime_lib \<Rightarrow> string \<Rightarrow> OpenSearchParameters \<Rightarrow> OpenSearch \<Rightarrow> bool" where
  "opensearchWanted rt n par x \<longleftrightarrow> mr_ForProvider x = par \<and> opensearch_GetInstanceName rt x = n"

text \<open>Update returns the error of the API as it is.\<close>

lemma wrap_outcome_id: "wrap_outcome (\<lambda>e. e) r = r"
  by (cases r) simp_all

text \<open>The connection details need host and port to be strings.\<close>

definition opensearch_answers ::
  "('v, 'c) libs \<Rightarrow> 's settings_codec \<Rightarrow> OpenSearchParameters \<Rightarrow> OpenSearchParameters \<Rightarrow> 's DBAASServiceOpensearch \<Rightarrow> bool" where
  "opensearch_answers lb cd par cur svc \<longleftrightarrow>
     (\<exists>om ext b. opensearch_mapObservation (lb_json lb) cd svc = Ret om \<and> opensearch_mapParameters cd svc (osp_Zone par) = Ret ext \<and>
        opensearch_isUpToDate lb cur (Some ext) = Ret b) \<and>
     (\<exists>info host port. oss_ConnectionInfo svc = Some info \<and> uriParam (oss_URIParams svc) ''host'' = Ret host \<and>
        uriParam (oss_URIParams svc) ''port'' = Ret port)"

definition opensearch_upToDate ::
  "('v, 'c) libs \<Rightarrow> 's settings_codec \<Rightarrow> OpenSearchParameters \<Rightarrow> OpenSearchParameters \<Rightarrow> 's DBAASServiceOpensearch \<Rightarrow> bool" where
  "opensearch_upToDate lb cd par cur svc \<longleftrightarrow>
     (\<exists>ext. opensearch_mapParameters cd svc (osp_Zone par) = Ret ext \<and> opensearch_isUpToDate lb cur (Some ext) = Ret True)"

definition opensearch_made :: "('s option \<Rightarrow> 's \<Rightarrow> 's) \<Rightarrow> 's CreateOpensearchRequest \<Rightarrow> 's DBAASServiceOpensearch \<Rightarrow> bool" where
  "opensearch_made fill b svc \<longleftrightarrow> takesOver (osu_Maintenance b) (osu_TerminationProtection b) (osu_Plan b) (osu_IPFilter b) svc \<and>
     sv_Settings svc = fill None (osu_OpensearchSettings b)"

definition opensearch_taken ::
  "('s option \<Rightarrow> 's \<Rightarrow> 's) \<Rightarrow> 's UpdateOpensearchRequest \<Rightarrow> 's DBAASServiceOpensearch \<Rightarrow> 's DBAASServiceOpensearch \<Rightarrow> bool" where
  "opensearch_taken fill b old svc \<longleftrightarrow>
     takesOver (osu_Maintenance b) (osu_TerminationProtection b) (osu_Plan b) (osu_IPFilter b) svc \<and>
     sv_Settings svc = fill (Some (sv_Settings old)) (osu_OpensearchSettings b)"

definition opensearch_settles :: "('v, 'c) libs \<Rightarrow> 's settings_codec \<Rightarrow> ('s option \<Rightarrow> 's \<Rightarrow> 's) \<Rightarrow>
    OpenSearchParameters \<Rightarrow> OpenSearchParameters \<Rightarrow> 's DBAASServiceOpensearch option \<Rightarrow> bool" where
  "opensearch_settles lb cd fill par cur found \<longleftrightarrow>
     settingsReturn lb cd (fill (map_option sv_Settings found)) (osp_OpenSearchSettings par) (osp_OpenSearchSettings cur)"

lemma opensearch_bodies:
  "opensearch_updateBody cd par = Ret ub \<Longrightarrow>
     osu_Maintenance ub = \<lparr>sdk_mt_Dow = ms_DayOfWeek (osp_Maintenance par), sdk_mt_Time = ms_TimeOfDay (osp_Maintenance par)\<rparr> \<and>
     osu_Plan ub = ss_Plan (dp_Size (osp_DBaaS par)) \<and> osu_IPFilter ub = dp_IPFilter (osp_DBaaS par) \<and>
     decodeSettings cd (osp_OpenSearchSettings par) = Ret (osu_OpensearchSettings ub)"
  "opensearch_createBody cd par = Ret cb \<Longrightarrow>
     osu_Maintenance cb = \<lparr>sdk_mt_Dow = ms_DayOfWeek (osp_Maintenance par), sdk_mt_Time = ms_TimeOfDay (osp_Maintenance par)\<rparr> \<and>
     osu_Plan cb = ss_Plan (dp_Size (osp_DBaaS par)) \<and> osu_IPFilter cb = dp_IPFilter (osp_DBaaS par) \<and>
     decodeSettings cd (osp_OpenSearchSettings par) = Ret (osu_OpensearchSettings cb)"
  by (auto simp: opensearch_updateBody_def opensearch_createBody_def bind_outcome_Ret_iff)

text \<open>The termination protection plays no part.\<close>

lemma opensearch_upToDate_taken:
  assumes "takesOver \<lparr>sdk_mt_Dow = ms_DayOfWeek (osp_Maintenance par), sdk_mt_Time = ms_TimeOfDay (osp_Maintenance par)\<rparr> tp
      (ss_Plan (dp_Size (osp_DBaaS par))) (dp_IPFilter (osp_DBaaS par)) svc"
    and "cur = par\<lparr>osp_OpenSearchSettings := st\<rparr>"
  shows "opensearch_upToDate lb cd par cur svc = settingsAgree lb cd (osp_OpenSearchSettings cur) (sv_Settings svc)"
  using assms
  by (auto simp: opensearch_upToDate_def takesOver_def settingsAgree_def opensearch_mapParameters_def opensearch_isUpToDate_def
      SizeSpec_Equals_def IsSameStringSet_Some bind_outcome_Ret_iff)

lemma opensearch_defaults_settings:
  assumes "defaults_law (opensearch_setSettingsDefaults lb api par) par cur"
  obtains st where "cur = par\<lparr>osp_OpenSearchSettings := st\<rparr>"
proof -
  have "\<exists>st. cur = par\<lparr>osp_OpenSearchSettings := st\<rparr>"
    using assms
  proof (rule defaults_lawD)
    show "\<exists>st. par = par\<lparr>osp_OpenSearchSettings := st\<rparr>" by (intro exI [of _ "osp_OpenSearchSettings par"]) simp
  qed (auto simp: opensearch_setSettingsDefaults_def Ret_iffs)
  then show thesis using that by blast
qed

lemma opensearch_reports:
  fixes api :: "('s, 'q, 'w) opensearch_api"
  assumes law: "cloud_law api services made taken"
    and dflt: "defaults_law (opensearch_setSettingsDefaults lb api par :: (OpenSearch \<times> 'w, OpenSearchParameters) act) par cur"
    and x: "opensearchWanted (lb_runtime lb) n par x" and ok: "opensearch_answers lb cd par cur svc"
  shows "\<exists>obs x' w'. opensearch_observeService lb cd api x svc (x, w) = (Ret obs, (x', w')) \<and> eo_ResourceExists obs \<and>
    eo_ResourceUpToDate obs = opensearch_upToDate lb cd par cur svc \<and> opensearchWanted (lb_runtime lb) n par x' \<and> services w' = services w"
proof -
  have par: "mr_ForProvider x = par" using x by (simp add: opensearchWanted_def)
  obtain om err ext b info host port where svc: "opensearch_mapObservation (lb_json lb) cd svc = Ret (om, err)"
    "opensearch_mapParameters cd svc (osp_Zone par) = Ret ext" "opensearch_isUpToDate lb cur (Some ext) = Ret b"
    "oss_ConnectionInfo svc = Some info" "uriParam (oss_URIParams svc) ''host'' = Ret host" "uriParam (oss_URIParams svc) ''port'' = Ret port"
    using ok unfolding opensearch_answers_def by fastforce
  let ?x = "setStateCondition (lb_runtime lb) (sv_State svc) (x\<lparr>mr_AtProvider := om\<rparr>)"
  obtain pw w1 where pw: "api_RevealUserPassword api (sv_Name svc) (osi_Username info) w = (Inr pw, w1)" "services w1 = services w"
    using cloud_reveal [OF law] .
  have "onlyReads services (opensearch_setSettingsDefaults lb api par :: (OpenSearch \<times> 'w, OpenSearchParameters) act)"
    unfolding opensearch_setSettingsDefaults_def opensearch_fetchSettingSchema_def
    by (intro onlyReads_andThen onlyReads_intros fetchSchema_onlyReads cloud_lawD(4) [OF law])
  from reads_defaults [OF dflt this] obtain d w2 where d: "catch (opensearch_setSettingsDefaults lb api par) (?x, w1) = (Ret d, (?x, w2))"
    "(case d of Inl _ \<Rightarrow> par | Inr q \<Rightarrow> q) = cur" "services w2 = services w1" .
  have d': "(case d of Inl _ \<Rightarrow> mr_ForProvider x | Inr q \<Rightarrow> q) = cur" using d(2) unfolding par .
  have "\<exists>conn. opensearch_observeService lb cd api x svc (x, w) =
      (Ret \<lparr>eo_ResourceExists = True, eo_ResourceUpToDate = b, eo_ConnectionDetails = conn\<rparr>, (?x, w2))"
    using svc pw(1) d(1) d' par by (simp add: opensearch_observeService_def opensearch_connectionDetails_def run_simps)
  moreover have "opensearchWanted (lb_runtime lb) n par ?x"
    using x unfolding opensearchWanted_def opensearch_GetInstanceName_def by simp
  ultimately show ?thesis using svc(2,3) pw(2) d(3) by (fastforce simp: opensearch_upToDate_def)
qed

lemma opensearch_dbaas_observer:
  fixes api :: "('s, 'q, 'w) opensearch_api"
  assumes law: "cloud_law api services made taken"
    and dflt: "defaults_law (opensearch_setSettingsDefaults lb api par :: (OpenSearch \<times> 'w, OpenSearchParameters) act) par cur"
    and ok: "always services n (opensearch_answers lb cd par cur)"
  shows "dbaas_observer api services made taken n (opensearchWanted (lb_runtime lb) n par) (opensearch_Observe lb cd api)
    (opensearch_observeService lb cd api) (opensearch_upToDate lb cd par cur) (Wrapf ''cannot observe openSearchInstance: %w'' [])"
proof unfold_locales
  show "\<exists>obs x' w'. opensearch_observeService lb cd api x svc (x, w) = (Ret obs, (x', w')) \<and> eo_ResourceExists obs \<and>
      eo_ResourceUpToDate obs = opensearch_upToDate lb cd par cur svc \<and> opensearchWanted (lb_runtime lb) n par x' \<and> services w' = services w"
    if "opensearchWanted (lb_runtime lb) n par x" "services w n = Some svc" for x w svc
    using opensearch_reports [OF law dflt that(1) alwaysD [OF ok that(2)]] .
qed (simp_all add: law opensearchWanted_def opensearch_Observe_def typed_getObj_apply withTyped_Typed andThen_apply)

lemma opensearch_dbaas_client:
  fixes api :: "('s, 'q, 'w) opensearch_api"
  assumes law: "cloud_law api services (opensearch_made fill) (opensearch_taken fill)" and again: "fill_law fill"
    and dflt: "defaults_law (opensearch_setSettingsDefaults lb api par :: (OpenSearch \<times> 'w, OpenSearchParameters) act) par cur"
    and ok: "always services n (opensearch_answers lb cd par cur)"
    and create: "opensearch_createBody cd par = Ret cbody" and update: "opensearch_updateBody cd par = Ret ubody"
  shows "dbaas_client api services (opensearch_made fill) (opensearch_taken fill) n (opensearchWanted (lb_runtime lb) n par)
    (opensearch_Observe lb cd api) (opensearch_observeService lb cd api)
    (opensearch_upToDate lb cd par cur) (Wrapf ''cannot observe openSearchInstance: %w'' [])
    (opensearch_Create (lb_runtime lb) cd api) (opensearch_Update (lb_runtime lb) cd api) cbody ubody
    (opensearch_settles lb cd fill par cur) (\<lambda>_. True)
    (Wrapf (''cannot create OpenSearch Instance: %v, '' @ CHR 0x0A # ''err: %w'') [n]) (\<lambda>e. e)"
proof (rule dbaas_client.intro [OF opensearch_dbaas_observer [OF law dflt ok]], unfold_locales)
  obtain st where st: "cur = par\<lparr>osp_OpenSearchSettings := st\<rparr>" using opensearch_defaults_settings [OF dflt] .
  note asks = opensearch_bodies(1) [OF update] opensearch_bodies(2) [OF create]
  have sent: "settingsReturn lb cd reply (osp_OpenSearchSettings par) c = settingsAgree lb cd c (reply (osu_OpensearchSettings ubody))"
    "settingsReturn lb cd reply (osp_OpenSearchSettings par) c = settingsAgree lb cd c (reply (osu_OpensearchSettings cbody))" for reply c
    using asks by (simp_all add: settingsReturn_sent)
  show "opensearch_upToDate lb cd par cur svc = opensearch_settles lb cd fill par cur None \<and>
      opensearch_settles lb cd fill par cur (Some svc) = opensearch_settles lb cd fill par cur None \<and> True"
    if "services w n = Some svc" "opensearch_made fill cbody svc" for w svc
    using that(2) opensearch_upToDate_taken [OF _ st, of "osu_TerminationProtection cbody" svc lb cd] asks(2) again
    by (simp add: opensearch_made_def opensearch_settles_def sent(2) fill_law_def)
  show "opensearch_upToDate lb cd par cur svc = opensearch_settles lb cd fill par cur (Some old) \<and>
      opensearch_settles lb cd fill par cur (Some svc) = opensearch_settles lb cd fill par cur (Some old) \<and> True"
    if "services w n = Some svc" "opensearch_taken fill ubody old svc" for w old svc
    using that(2) opensearch_upToDate_taken [OF _ st, of "osu_TerminationProtection ubody" svc lb cd] asks(1) again
    by (simp add: opensearch_taken_def opensearch_settles_def sent(1) fill_law_def)
qed (use create update in \<open>simp_all add: opensearchWanted_def opensearch_Create_def opensearch_Update_def
    typed_getObj_apply withTyped_Typed andThen_apply wrapErr_apply wrap_outcome_id\<close>)

section \<open>Kafka\<close>

definition kafkaWanted :: "runtime_lib \<Rightarrow> string \<Rightarrow> KafkaParameters \<Rightarrow> Kafka \<Rightarrow> bool" where
  "kafkaWanted rt n par x \<longleftrightarrow> mr_ForProvider x = par \<and> kafka_GetInstanceName rt x = n"

text \<open>Settings of a service that can be compared with the desired ones, whichever come first.\<close>

definition comparable :: "('v, 'c) libs \<Rightarrow> 's settings_codec \<Rightarrow> RawExtension \<Rightarrow> 's \<Rightarrow> bool \<Rightarrow> bool" where
  "comparable lb cd st given b \<longleftrightarrow> (\<exists>raw. sc_Marshal cd given = Inr raw \<and>
     CompareSettings (lb_json lb) st raw = Ret b \<and> CompareSettings (lb_json lb) raw st = Ret b)"

definition kafka_answers ::
  "('v, 'c) libs \<Rightarrow> 's settings_codec \<Rightarrow> 'r settings_codec \<Rightarrow> KafkaParameters \<Rightarrow> ('s, 'r) DBAASServiceKafka \<Rightarrow> bool" where
  "kafka_answers lb cd rcd cur svc \<longleftrightarrow>
     (\<exists>om. kafka_getObservation (lb_json lb) cd rcd svc = Ret om) \<and> (\<forall>ca. \<exists>conn. kafka_getConnectionDetails svc ca = Ret conn) \<and>
     sv_Maintenance svc \<noteq> None \<and> (\<exists>b. comparable lb cd (kfp_KafkaSettings cur) (sv_Settings svc) b) \<and>
     (\<exists>b. comparable lb rcd (kfp_KafkaRestSettings cur) (kfs_KafkaRestSettings svc) b)"

definition kafka_upToDate ::
  "('v, 'c) libs \<Rightarrow> kafka_cmp \<Rightarrow> 's settings_codec \<Rightarrow> 'r settings_codec \<Rightarrow> KafkaParameters \<Rightarrow> ('s, 'r) DBAASServiceKafka \<Rightarrow> bool" where
  "kafka_upToDate lb cmpEqual cd rcd cur svc \<longleftrightarrow> kafka_diffParameters lb cmpEqual cd rcd svc cur = Ret True"

text \<open>
  The cloud may put the entries of an IP filter in an order of its own: \<open>arrange\<close>. Both kinds of settings are filled in.
\<close>

definition kafka_takes ::
  "(string list \<Rightarrow> string list) \<Rightarrow> ('s, 'r, 'z) UpdateKafkaRequest_scheme \<Rightarrow> ('s, 'r) DBAASServiceKafka \<Rightarrow> bool" where
  "kafka_takes arrange b svc \<longleftrightarrow>
     sv_Maintenance svc = Some (kfu_Maintenance b) \<and> sv_TerminationProtection svc = Some (kfu_TerminationProtection b) \<and>
     sv_Plan svc = kfu_Plan b \<and> elems (sv_IPFilter svc) = arrange (elems (kfu_IPFilter b)) \<and>
     kfs_KafkaRestEnabled svc = Some (kfu_KafkaRestEnabled b)"

definition kafka_made ::
  "(string list \<Rightarrow> string list) \<Rightarrow> ('s option \<Rightarrow> 's \<Rightarrow> 's) \<Rightarrow> ('r option \<Rightarrow> 'r \<Rightarrow> 'r) \<Rightarrow> ('s, 'r) CreateKafkaRequest \<Rightarrow>
   ('s, 'r) DBAASServiceKafka \<Rightarrow> bool" where
  "kafka_made arrange fill rfill b svc \<longleftrightarrow> kafka_takes arrange b svc \<and> sv_Settings svc = fill None (kfu_KafkaSettings b) \<and>
     kfs_KafkaRestSettings svc = rfill None (kfu_KafkaRestSettings b)"

definition kafka_taken ::
  "(string list \<Rightarrow> string list) \<Rightarrow> ('s option \<Rightarrow> 's \<Rightarrow> 's) \<Rightarrow> ('r option \<Rightarrow> 'r \<Rightarrow> 'r) \<Rightarrow> ('s, 'r) UpdateKafkaRequest \<Rightarrow>
   ('s, 'r) DBAASServiceKafka \<Rightarrow> ('s, 'r) DBAASServiceKafka \<Rightarrow> bool" where
  "kafka_taken arrange fill rfill b old svc \<longleftrightarrow> kafka_takes arrange b svc \<and>
     sv_Settings svc = fill (Some (sv_Settings old)) (kfu_KafkaSettings b) \<and>
     kfs_KafkaRestSettings svc = rfill (Some (kfs_KafkaRestSettings old)) (kfu_KafkaRestSettings b)"

text \<open>
  Passes come to rest over what is there if an IP filter is asked for, in the order of the cloud already, and both kinds of
  settings return.
\<close>

definition kafka_settles ::
  "(string list \<Rightarrow> string list) \<Rightarrow> ('v, 'c) libs \<Rightarrow> 's settings_codec \<Rightarrow> 'r settings_codec \<Rightarrow> ('s option \<Rightarrow> 's \<Rightarrow> 's) \<Rightarrow>
   ('r option \<Rightarrow> 'r \<Rightarrow> 'r) \<Rightarrow> KafkaParameters \<Rightarrow> KafkaParameters \<Rightarrow> ('s, 'r) DBAASServiceKafka option \<Rightarrow> bool" where
  "kafka_settles arrange lb cd rcd fill rfill par cur found \<longleftrightarrow>
     dp_IPFilter (kfp_DBaaS par) = Some (arrange (elems (dp_IPFilter (kfp_DBaaS par)))) \<and>
     settingsReturn lb cd (fill (map_option sv_Settings found)) (kfp_KafkaSettings par) (kfp_KafkaSettings cur) \<and>
     settingsReturn lb rcd (rfill (map_option kfs_KafkaRestSettings found)) (kfp_KafkaRestSettings par) (kfp_KafkaRestSettings cur)"

definition kafka_asks ::
  "'s settings_codec \<Rightarrow> 'r settings_codec \<Rightarrow> KafkaParameters \<Rightarrow> ('s, 'r, 'z) UpdateKafkaRequest_scheme \<Rightarrow> bool" where
  "kafka_asks cd rcd par b \<longleftrightarrow>
     kfu_Maintenance b = \<lparr>sdk_mt_Dow = ms_DayOfWeek (kfp_Maintenance par), sdk_mt_Time = ms_TimeOfDay (kfp_Maintenance par)\<rparr> \<and>
     kfu_TerminationProtection b = dp_TerminationProtection (kfp_DBaaS par) \<and> kfu_Plan b = ss_Plan (dp_Size (kfp_DBaaS par)) \<and>
     kfu_IPFilter b = dp_IPFilter (kfp_DBaaS par) \<and> kfu_KafkaRestEnabled b = kfp_KafkaRestEnabled par \<and>
     decodeSettings cd (kfp_KafkaSettings par) = Ret (kfu_KafkaSettings b) \<and>
     decodeSettings rcd (kfp_KafkaRestSettings par) = Ret (kfu_KafkaRestSettings b)"

lemma kafka_asks_intros:
  "kafka_updateBody cd rcd par = Ret ub \<Longrightarrow> kafka_asks cd rcd par ub" "kafka_createBody cd rcd par = Ret cb \<Longrightarrow> kafka_asks cd rcd par cb"
  by (auto simp: kafka_asks_def kafka_updateBody_def kafka_createBody_def bind_outcome_Ret_iff)

text \<open>The comparison of the controller, field by field.\<close>

lemma comparable_agrees: "comparable lb cd st given b \<Longrightarrow> settingsAgree lb cd st given = b"
  by (auto simp: comparable_def settingsAgree_def)

lemma kafka_compared:
  assumes "cmp_law cmpEqual" "kafka_answers lb cd rcd cur svc" "sv_Maintenance svc = Some mt"
  shows "kafka_diffParameters lb cmpEqual cd rcd svc cur = Ret (settingsAgree lb cd (kfp_KafkaSettings cur) (sv_Settings svc) \<and>
    settingsAgree lb rcd (kfp_KafkaRestSettings cur) (kfs_KafkaRestSettings svc) \<and>
    kfp_Maintenance cur = \<lparr>ms_DayOfWeek = sdk_mt_Dow mt, ms_TimeOfDay = sdk_mt_Time mt\<rparr> \<and>
    dp_TerminationProtection (kfp_DBaaS cur) = derefFalse (sv_TerminationProtection svc) \<and>
    ss_Plan (dp_Size (kfp_DBaaS cur)) = sv_Plan svc \<and> dp_IPFilter (kfp_DBaaS cur) = Some (elems (sv_IPFilter svc)) \<and>
    kfp_KafkaRestEnabled cur = derefFalse (kfs_KafkaRestEnabled svc))"
proof -
  obtain a b where ab: "comparable lb cd (kfp_KafkaSettings cur) (sv_Settings svc) a"
    "comparable lb rcd (kfp_KafkaRestSettings cur) (kfs_KafkaRestSettings svc) b"
    using assms(2) unfolding kafka_answers_def by blast
  then show ?thesis
    unfolding comparable_agrees [OF ab(1)] comparable_agrees [OF ab(2)] using assms(1,3)
    by (auto simp: comparable_def kafka_diffParameters_def actualIPFilter_eq cmp_law_def DBaaSParameters_eq_iff)
qed

lemma kafka_upToDate_taken:
  assumes "cmp_law cmpEqual" "kafka_answers lb cd rcd cur svc" "kafka_asks cd rcd par body" "kafka_takes arrange body svc"
    and "cur = par\<lparr>kfp_KafkaRestSettings := rs, kfp_KafkaSettings := st\<rparr>"
  shows "kafka_upToDate lb cmpEqual cd rcd cur svc =
    (dp_IPFilter (kfp_DBaaS par) = Some (arrange (elems (dp_IPFilter (kfp_DBaaS par)))) \<and>
     settingsAgree lb cd (kfp_KafkaSettings cur) (sv_Settings svc) \<and>
     settingsAgree lb rcd (kfp_KafkaRestSettings cur) (kfs_KafkaRestSettings svc))"
proof -
  have mt: "sv_Maintenance svc = Some (kfu_Maintenance body)" using assms(4) by (simp add: kafka_takes_def)
  show ?thesis
    using kafka_compared [OF assms(1,2) mt] assms(3-5)
    by (auto simp: kafka_upToDate_def kafka_takes_def kafka_asks_def derefFalse_def)
qed

lemma kafka_defaults_settings:
  assumes "defaults_law (kafka_setSettingsDefaults lb api par) par cur"
  obtains rs st where "cur = par\<lparr>kfp_KafkaRestSettings := rs, kfp_KafkaSettings := st\<rparr>"
proof -
  have "\<exists>rs st. cur = par\<lparr>kfp_KafkaRestSettings := rs, kfp_KafkaSettings := st\<rparr>"
    using assms
  proof (rule defaults_lawD)
    show "\<exists>rs st. par = par\<lparr>kfp_KafkaRestSettings := rs, kfp_KafkaSettings := st\<rparr>"
      by (intro exI [of _ "kfp_KafkaRestSettings par"] exI [of _ "kfp_KafkaSettings par"]) simp
  qed (auto simp: kafka_setSettingsDefaults_def Ret_iffs)
  then show thesis using that by blast
qed

lemma kafka_reports:
  fixes api :: "('s, 'r, 'q, 'w) kafka_api"
  assumes law: "cloud_law api services made taken" and cmp: "cmp_law cmpEqual"
    and dflt: "defaults_law (kafka_setSettingsDefaults lb api par :: (Kafka \<times> 'w, KafkaParameters) act) par cur"
    and x: "kafkaWanted (lb_runtime lb) n par x" and ok: "kafka_answers lb cd rcd cur svc"
  shows "\<exists>obs x' w'. kafka_observeService lb cmpEqual cd rcd api x svc (x, w) = (Ret obs, (x', w')) \<and> eo_ResourceExists obs \<and>
    eo_ResourceUpToDate obs = kafka_upToDate lb cmpEqual cd rcd cur svc \<and> kafkaWanted (lb_runtime lb) n par x' \<and> services w' = services w"
proof -
  have par: "mr_ForProvider x = par" using x by (simp add: kafkaWanted_def)
  obtain om err where om: "kafka_getObservation (lb_json lb) cd rcd svc = Ret (om, err)"
    using ok unfolding kafka_answers_def by fastforce
  obtain mt where mt: "sv_Maintenance svc = Some mt" using ok unfolding kafka_answers_def by blast
  obtain b where b: "kafka_diffParameters lb cmpEqual cd rcd svc cur = Ret b" using kafka_compared [OF cmp ok mt] by blast
  let ?x = "set_condition (lb_runtime lb) (fst (kafka_getCondition (lb_runtime lb) svc)) (x\<lparr>mr_AtProvider := om\<rparr>)"
  obtain ca w1 where ca: "api_GetCACertificate api w = (Inr ca, w1)" "services w1 = services w" using cloud_ca [OF law] .
  obtain conn where conn: "kafka_getConnectionDetails svc ca = Ret conn" using ok unfolding kafka_answers_def by blast
  have "onlyReads services (kafka_setSettingsDefaults lb api par :: (Kafka \<times> 'w, KafkaParameters) act)"
    unfolding kafka_setSettingsDefaults_def kafka_fetchSettingSchema_def
    by (intro onlyReads_andThen onlyReads_intros fetchSchema_onlyReads cloud_lawD(4) [OF law])
  from reads_defaults [OF dflt this] obtain d w2 where d: "catch (kafka_setSettingsDefaults lb api par) (?x, w1) = (Ret d, (?x, w2))"
    "(case d of Inl _ \<Rightarrow> par | Inr q \<Rightarrow> q) = cur" "services w2 = services w1" .
  have d': "(case d of Inl _ \<Rightarrow> mr_ForProvider x | Inr q \<Rightarrow> q) = cur" using d(2) unfolding par .
  have "kafka_observeService lb cmpEqual cd rcd api x svc (x, w) =
      (Ret \<lparr>eo_ResourceExists = True, eo_ResourceUpToDate = b, eo_ConnectionDetails = conn\<rparr>, (?x, w2))"
    using om ca(1) conn d(1) d' b par by (simp add: kafka_observeService_def run_simps)
  moreover have "kafkaWanted (lb_runtime lb) n par ?x"
    using x unfolding kafkaWanted_def kafka_GetInstanceName_def by simp
  ultimately show ?thesis using b ca(2) d(3) by (fastforce simp: kafka_upToDate_def)
qed

lemma kafka_dbaas_observer:
  fixes api :: "('s, 'r, 'q, 'w) kafka_api"
  assumes law: "cloud_law api services made taken" and cmp: "cmp_law cmpEqual"
    and dflt: "defaults_law (kafka_setSettingsDefaults lb api par :: (Kafka \<times> 'w, KafkaParameters) act) par cur"
    and ok: "always services n (kafka_answers lb cd rcd cur)"
  shows "dbaas_observer api services made taken n (kafkaWanted (lb_runtime lb) n par) (kafka_Observe lb cmpEqual cd rcd api)
    (kafka_observeService lb cmpEqual cd rcd api) (kafka_upToDate lb cmpEqual cd rcd cur) (\<lambda>e. e)"
proof unfold_locales
  show "\<exists>obs x' w'. kafka_observeService lb cmpEqual cd rcd api x svc (x, w) = (Ret obs, (x', w')) \<and> eo_ResourceExists obs \<and>
      eo_ResourceUpToDate obs = kafka_upToDate lb cmpEqual cd rcd cur svc \<and> kafkaWanted (lb_runtime lb) n par x' \<and> services w' = services w"
    if "kafkaWanted (lb_runtime lb) n par x" "services w n = Some svc" for x w svc
    using kafka_reports [OF law cmp dflt that(1) alwaysD [OF ok that(2)]] .
qed (simp_all add: law kafkaWanted_def kafka_Observe_def typed_getObj_apply withTyped_Typed andThen_apply)

lemma kafka_dbaas_client:
  fixes api :: "('s, 'r, 'q, 'w) kafka_api"
  assumes law: "cloud_law api services (kafka_made arrange fill rfill) (kafka_taken arrange fill rfill)" and cmp: "cmp_law cmpEqual"
    and again: "fill_law fill" "fill_law rfill"
    and dflt: "defaults_law (kafka_setSettingsDefaults lb api par :: (Kafka \<times> 'w, KafkaParameters) act) par cur"
    and ok: "always services n (kafka_answers lb cd rcd cur)"
    and create: "kafka_createBody cd rcd par = Ret cbody" and update: "kafka_updateBody cd rcd par = Ret ubody"
  shows "dbaas_client api services (kafka_made arrange fill rfill) (kafka_taken arrange fill rfill) n (kafkaWanted (lb_runtime lb) n par)
    (kafka_Observe lb cmpEqual cd rcd api) (kafka_observeService lb cmpEqual cd rcd api)
    (kafka_upToDate lb cmpEqual cd rcd cur) (\<lambda>e. e) (kafka_Create (lb_runtime lb) cd rcd api) (kafka_Update (lb_runtime lb) cd rcd api) cbody ubody
    (kafka_settles arrange lb cd rcd fill rfill par cur) (\<lambda>_. True)
    (Wrapf ''unable to create instance: %w'' []) (Wrapf ''unable to update instance: %w'' [])"
proof (rule dbaas_client.intro [OF kafka_dbaas_observer [OF law cmp dflt ok]], unfold_locales)
  obtain rs st where st: "cur = par\<lparr>kfp_KafkaRestSettings := rs, kfp_KafkaSettings := st\<rparr>" using kafka_defaults_settings [OF dflt] .
  note asks = kafka_asks_intros(1) [OF update] kafka_asks_intros(2) [OF create]
  have sent: "settingsReturn lb cd reply (kfp_KafkaSettings par) c = settingsAgree lb cd c (reply (kfu_KafkaSettings ubody))"
    "settingsReturn lb rcd rreply (kfp_KafkaRestSettings par) c = settingsAgree lb rcd c (rreply (kfu_KafkaRestSettings ubody))"
    "settingsReturn lb cd reply (kfp_KafkaSettings par) c = settingsAgree lb cd c (reply (kfu_KafkaSettings cbody))"
    "settingsReturn lb rcd rreply (kfp_KafkaRestSettings par) c = settingsAgree lb rcd c (rreply (kfu_KafkaRestSettings cbody))"
    for reply rreply c using asks by (simp_all add: kafka_asks_def settingsReturn_sent)
  show "kafka_upToDate lb cmpEqual cd rcd cur svc = kafka_settles arrange lb cd rcd fill rfill par cur None \<and>
      kafka_settles arrange lb cd rcd fill rfill par cur (Some svc) = kafka_settles arrange lb cd rcd fill rfill par cur None \<and> True"
    if "services w n = Some svc" "kafka_made arrange fill rfill cbody svc" for w svc
    using that(2) kafka_upToDate_taken [OF cmp alwaysD [OF ok that(1)] asks(2) _ st, of arrange] again
    by (simp add: kafka_made_def kafka_settles_def sent(3,4) fill_law_def)
  show "kafka_upToDate lb cmpEqual cd rcd cur svc = kafka_settles arrange lb cd rcd fill rfill par cur (Some old) \<and>
      kafka_settles arrange lb cd rcd fill rfill par cur (Some svc) = kafka_settles arrange lb cd rcd fill rfill par cur (Some old) \<and> True"
    if "services w n = Some svc" "kafka_taken arrange fill rfill ubody old svc" for w old svc
    using that(2) kafka_upToDate_taken [OF cmp alwaysD [OF ok that(1)] asks(1) _ st, of arrange] again
    by (simp add: kafka_taken_def kafka_settles_def sent(1,2) fill_law_def)
qed (use create update in \<open>simp_all add: kafkaWanted_def kafka_Create_def kafka_Update_def typed_getObj_apply
    withTyped_Typed andThen_apply wrapErr_apply\<close>)

section \<open>On a cloud in memory\<close>

text \<open>
  A JSON library that tells settings apart: a document is its only entry, but for the empty one. The cloud gives settings
  back as they were sent.
\<close>

definition memoryLibs :: "(string, string) libs" where
  "memoryLibs = sampleLibs\<lparr>lb_json :=
     \<lparr>js_Unmarshal = (\<lambda>raw. Inr (Some (if raw = ''{}'' then [] else [(''document'', VStr raw)]))), js_Marshal = (\<lambda>m. Inr ''{}'')\<rparr>\<rparr>"

definition asSent :: "string option \<Rightarrow> string \<Rightarrow> string" where
  "asSent old st = st"

definition document :: "RawExtension \<Rightarrow> string" where
  "document raw = (if raw = [] then ''{}'' else raw)"

lemma document_again [simp]: "document (document raw) = document raw"
  by (simp add: document_def)

lemma asSent_law: "fill_law asSent"
  by (simp add: fill_law_def asSent_def)

lemma memory_settings: "CompareSettings (lb_json memoryLibs) a b = Ret (document a = document b)"
  by (auto simp: CompareSettings_def ToMap_def memoryLibs_def document_def getOr_def split: bool.splits)

lemma memory_decode: "decodeSettings sampleCodec raw = Ret (document raw)"
  by (simp add: decodeSettings_def sampleCodec_def document_def)

lemma memory_agrees: "settingsAgree memoryLibs sampleCodec st given \<longleftrightarrow> document st = document given"
  by (simp add: settingsAgree_def memory_settings sampleCodec_def)

lemma memory_returns: "settingsReturn memoryLibs sampleCodec (asSent old) raw raw"
  by (simp add: settingsReturn_sent [OF memory_decode] memory_agrees asSent_def)

lemma memoryLibs_same [simp]: "lb_runtime memoryLibs = sampleRuntime" "lb_version memoryLibs = lb_version sampleLibs"
  by (simp_all add: memoryLibs_def sampleLibs_def)

lemma sample_version: "CompareMajorVersion (lb_version sampleLibs) v v = Ret (True, None)"
  by (simp add: CompareMajorVersion_def sampleLibs_def tally_versions_def)

lemma sample_versions: "CompareMajorVersion (lb_version sampleLibs) u v = Ret (length u = length v, None)"
  by (simp add: CompareMajorVersion_def sampleLibs_def tally_versions_def)

lemma Parse_asked: "Parse (showTime (h mod 24) (m mod 60) (s mod 60)) = (h mod 24, m mod 60, s mod 60, None)"
  by (subst Parse_accepts) simp

definition redisView :: "string RedisRequest \<Rightarrow> string DBAASServiceRedis" where
  "redisView b = sampleRedisService\<lparr>sv_URI := memoryURI, sv_Maintenance := Some (rdr_Maintenance b),
     sv_TerminationProtection := Some (rdr_TerminationProtection b), sv_Plan := rdr_Plan b, sv_IPFilter := rdr_IPFilter b,
     sv_Settings := rdr_RedisSettings b\<rparr>"

definition redisCloud :: "(string, unit, string \<Rightarrow> string RedisRequest option) redis_api" where
  "redisCloud = memoryCloud id id redisView rdr_TerminationProtection"

definition redisBody :: "RedisParameters \<Rightarrow> string RedisRequest" where
  "redisBody par = \<lparr>rdr_IPFilter = dp_IPFilter (rdp_DBaaS par),
    rdr_Maintenance = \<lparr>sdk_mt_Dow = ms_DayOfWeek (rdp_Maintenance par), sdk_mt_Time = ms_TimeOfDay (rdp_Maintenance par)\<rparr>,
    rdr_Plan = ss_Plan (dp_Size (rdp_DBaaS par)), rdr_RedisSettings = document (rdp_RedisSettings par),
    rdr_TerminationProtection = dp_TerminationProtection (rdp_DBaaS par)\<rparr>"

lemma redisCloud_law: "cloud_law redisCloud (memoryServices redisView) (redis_made asSent) (redis_taken asSent)"
  unfolding redisCloud_def
  by (rule memoryCloud_law) (simp_all add: redis_made_def redis_taken_def takesOver_def redisView_def sampleRedisService_def asSent_def)

lemma redisCloud_answers: "always (memoryServices redisView) n (redis_answers memoryLibs sampleCodec par cur)"
  using memoryURI_parses
  by (auto simp: always_def memoryServices_def redis_answers_def connectable_def redisView_def sampleRedisService_def sampleCodec_def
      redis_mapObservation_def redis_mapParameters_def redis_isUpToDate_def memory_settings)

lemma redisCloud_defaults: "defaults_law (redis_setSettingsDefaults memoryLibs redisCloud par :: (Redis \<times> _, _) act) par par"
  by (auto simp: defaults_law_def redis_setSettingsDefaults_def redis_fetchSettingSchema_def fetchSchema_def run_simps redisCloud_def
      memoryCloud_def memoryLibs_def sampleLibs_def ParseSchemas_def SetDefaults_def)

lemma redisCloud_body: "redis_updateBody sampleCodec par = Ret (redisBody par)"
  by (simp add: redis_updateBody_def redisBody_def memory_decode)

interpretation redisInMemory: dbaas_client redisCloud "memoryServices redisView"
  "redis_made asSent" "redis_taken asSent"
  n "redisWanted (lb_runtime memoryLibs) n par" "redis_Observe memoryLibs sampleCodec redisCloud"
  "redis_observeService memoryLibs sampleCodec redisCloud" "redis_upToDate memoryLibs sampleCodec par par"
  "Wrapf ''unable to observe instance: %w'' []" "redis_Create (lb_runtime memoryLibs) sampleCodec redisCloud" "redis_Update (lb_runtime memoryLibs) sampleCodec redisCloud"
  "redisBody par" "redisBody par"
  "redis_settles memoryLibs sampleCodec asSent par par" "redis_protected par" "Wrapf ''unable to create instance: %w'' []" "Wrapf ''unable to create instance: %w'' []" for n par
  by (rule redis_dbaas_client [OF redisCloud_law asSent_law redisCloud_defaults redisCloud_answers redisCloud_body])

definition mysqlView :: "string UpdateMysqlRequest \<Rightarrow> string DBAASServiceMysql" where
  "mysqlView b = sampleMySQLService\<lparr>sv_URI := memoryURI, sv_Maintenance := Some (myu_Maintenance b),
     mys_BackupSchedule := Some (myu_BackupSchedule b),
     sv_TerminationProtection := Some (myu_TerminationProtection b), sv_Plan := myu_Plan b, sv_IPFilter := myu_IPFilter b,
     sv_Settings := myu_MysqlSettings b\<rparr>"

definition mysqlCloud :: "(string, unit, string \<Rightarrow> string UpdateMysqlRequest option) mysql_api" where
  "mysqlCloud = memoryCloud UpdateMysqlRequest.truncate id mysqlView myu_TerminationProtection"

definition askedMySQL :: "MySQLParameters \<Rightarrow> int \<Rightarrow> int \<Rightarrow> int \<Rightarrow> MySQLParameters" where
  "askedMySQL par h m s = par\<lparr>myp_Version := ''IIIIIIII'', myp_Backup := \<lparr>bs_TimeOfDay = showTime (h mod 24) (m mod 60) (s mod 60)\<rparr>\<rparr>"

definition mysqlBody :: "MySQLParameters \<Rightarrow> int \<Rightarrow> int \<Rightarrow> string UpdateMysqlRequest" where
  "mysqlBody par h m = \<lparr>
     myu_Maintenance = \<lparr>sdk_mt_Dow = ms_DayOfWeek (myp_Maintenance par), sdk_mt_Time = ms_TimeOfDay (myp_Maintenance par)\<rparr>,
     myu_BackupSchedule = \<lparr>bsch_BackupHour = h mod 24, bsch_BackupMinute = m mod 60\<rparr>,
     myu_TerminationProtection = dp_TerminationProtection (myp_DBaaS par), myu_Plan = ss_Plan (dp_Size (myp_DBaaS par)),
     myu_IPFilter = dp_IPFilter (myp_DBaaS par), myu_MysqlSettings = document (myp_MySQLSettings par)\<rparr>"

lemma mysqlCloud_law: "cloud_law mysqlCloud (memoryServices mysqlView) (mysql_made asSent (\<lambda>_. ''IIIIIIII'')) (mysql_taken asSent)"
  unfolding mysqlCloud_def
  by (rule memoryCloud_law) (simp_all add: mysql_made_def mysql_taken_def mysql_takes_def takesOver_def mysqlView_def sampleMySQLService_def
      UpdateMysqlRequest.truncate_def asSent_def)

lemma mysqlCloud_bodies:
  "mysql_updateBody sampleCodec (askedMySQL par h m s) = Ret (mysqlBody par h m)"
  "mysql_createBody sampleCodec (askedMySQL par h m s) = Ret (UpdateMysqlRequest.extend (mysqlBody par h m) \<lparr>myc_Version = ''IIIIIIII''\<rparr>)"
  by (simp_all add: mysql_updateBody_def mysql_createBody_def memory_decode askedMySQL_def mysqlBody_def
      ToBackupSchedule_def Parse_asked UpdateMysqlRequest.extend_def)

lemma mysqlCloud_answers: "always (memoryServices mysqlView) n (mysql_answers memoryLibs sampleCodec par cur)"
proof -
  have om: "\<exists>om. mysql_mapObservation (lb_json memoryLibs) sampleCodec (mysqlView b) = Ret om" for b
    by (simp add: mysql_mapObservation_def mysqlView_def sampleMySQLService_def sampleCodec_def ToMaintenance_def)
  show ?thesis
    using memoryURI_parses om
    by (auto simp: always_def memoryServices_def mysql_answers_def connectable_def mysqlView_def sampleMySQLService_def sampleCodec_def
        mysql_mapParameters_def mysql_isUpToDate_def memory_settings sample_versions)
qed

lemma mysqlCloud_defaults: "defaults_law (mysql_setSettingsDefaults memoryLibs mysqlCloud par :: (MySQL \<times> _, _) act) par par"
  by (auto simp: defaults_law_def mysql_setSettingsDefaults_def mysql_fetchSettingSchema_def fetchSchema_def run_simps mysqlCloud_def
      memoryCloud_def memoryLibs_def sampleLibs_def ParseSchemas_def SetDefaults_def)

interpretation mysqlInMemory: dbaas_client mysqlCloud "memoryServices mysqlView"
  "mysql_made asSent (\<lambda>_. ''IIIIIIII'')" "mysql_taken asSent"
  n "mysqlWanted (lb_runtime memoryLibs) n (askedMySQL par h m s)" "mysql_Observe memoryLibs sampleCodec mysqlCloud"
  "mysql_observeService memoryLibs sampleCodec mysqlCloud" "mysql_upToDate memoryLibs sampleCodec (askedMySQL par h m s) (askedMySQL par h m s)"
  "Wrapf ''cannot observe mySQLInstance: %w'' []" "mysql_Create (lb_runtime memoryLibs) sampleCodec mysqlCloud" "mysql_Update (lb_runtime memoryLibs) sampleCodec mysqlCloud"
  "UpdateMysqlRequest.extend (mysqlBody par h m) \<lparr>myc_Version = ''IIIIIIII''\<rparr>" "mysqlBody par h m"
  "mysql_settles memoryLibs sampleCodec asSent (\<lambda>_. ''IIIIIIII'') (askedMySQL par h m s) (askedMySQL par h m s)" "\<lambda>_. True"
  "Wrapf ''cannot create mySQLInstance: %w'' []" "Wrapf ''cannot update mySQLInstance: %w'' []" for n par h m s
  by (rule mysql_dbaas_client [OF mysqlCloud_law asSent_law mysqlCloud_defaults mysqlCloud_answers mysqlCloud_bodies(2,1)])

definition pgView :: "string UpdatePGRequest \<Rightarrow> string DBAASServicePG" where
  "pgView b = samplePGService\<lparr>sv_URI := memoryURI, sv_Maintenance := Some (pgu_Maintenance b),
     pgs_BackupSchedule := Some (pgu_BackupSchedule b),
     sv_TerminationProtection := Some (pgu_TerminationProtection b), sv_Plan := pgu_Plan b, sv_IPFilter := pgu_IPFilter b,
     sv_Settings := pgu_PGSettings b\<rparr>"

definition pgCloud :: "(string, unit, string \<Rightarrow> string UpdatePGRequest option) pg_api" where
  "pgCloud = memoryCloud UpdatePGRequest.truncate id pgView pgu_TerminationProtection"

definition askedPostgreSQL :: "PostgreSQLParameters \<Rightarrow> int \<Rightarrow> int \<Rightarrow> int \<Rightarrow> PostgreSQLParameters" where
  "askedPostgreSQL par h m s = par\<lparr>pgp_Version := ''III'', pgp_Backup := \<lparr>bs_TimeOfDay = showTime (h mod 24) (m mod 60) (s mod 60)\<rparr>\<rparr>"

definition pgBody :: "PostgreSQLParameters \<Rightarrow> int \<Rightarrow> int \<Rightarrow> string UpdatePGRequest" where
  "pgBody par h m = \<lparr>
     pgu_Plan = ss_Plan (dp_Size (pgp_DBaaS par)), pgu_BackupSchedule = \<lparr>bsch_BackupHour = h mod 24, bsch_BackupMinute = m mod 60\<rparr>,
     pgu_Variant = VariantAiven, pgu_TerminationProtection = dp_TerminationProtection (pgp_DBaaS par),
     pgu_Maintenance = \<lparr>sdk_mt_Dow = ms_DayOfWeek (pgp_Maintenance par), sdk_mt_Time = ms_TimeOfDay (pgp_Maintenance par)\<rparr>,
     pgu_IPFilter = dp_IPFilter (pgp_DBaaS par), pgu_PGSettings = document (pgp_PGSettings par)\<rparr>"

lemma pgCloud_law: "cloud_law pgCloud (memoryServices pgView) (pg_made asSent (\<lambda>_. ''III'')) (pg_taken asSent)"
  unfolding pgCloud_def
  by (rule memoryCloud_law) (simp_all add: pg_made_def pg_taken_def pg_takes_def takesOver_def pgView_def samplePGService_def
      UpdatePGRequest.truncate_def asSent_def)

lemma pgCloud_bodies:
  "pg_fromSpecToUpdateBody sampleCodec (askedPostgreSQL par h m s) = Ret (pgBody par h m)"
  "pg_fromSpecToCreateBody sampleCodec (askedPostgreSQL par h m s) = Ret (UpdatePGRequest.extend (pgBody par h m) \<lparr>pgc_Version = ''III''\<rparr>)"
  by (simp_all add: pg_fromSpecToUpdateBody_def pg_fromSpecToCreateBody_def memory_decode askedPostgreSQL_def pgBody_def
      ToBackupSchedule_def Parse_asked UpdatePGRequest.extend_def)

lemma pgCloud_answers: "always (memoryServices pgView) n (pg_answers memoryLibs sampleCodec par cur)"
proof -
  have om: "\<exists>om. pg_mapObservation sampleCodec (pgView b) = Ret om" for b
    by (simp add: pg_mapObservation_def pgView_def samplePGService_def sampleCodec_def ToMaintenance_def)
  show ?thesis
    using memoryURI_parses om
    by (auto simp: always_def memoryServices_def pg_answers_def connectable_def pgView_def samplePGService_def sampleCodec_def
        pg_mapParameters_def pg_isUpToDate_def memory_settings sample_versions)
qed

lemma pgCloud_defaults: "defaults_law (pg_setSettingsDefaults memoryLibs pgCloud par :: (PostgreSQL \<times> _, _) act) par par"
  by (auto simp: defaults_law_def pg_setSettingsDefaults_def pg_fetchSettingSchema_def fetchSchema_def run_simps pgCloud_def
      memoryCloud_def memoryLibs_def sampleLibs_def ParseSchemas_def SetDefaults_def)

interpretation pgInMemory: dbaas_client pgCloud "memoryServices pgView"
  "pg_made asSent (\<lambda>_. ''III'')" "pg_taken asSent"
  n "pgWanted (lb_runtime memoryLibs) n (askedPostgreSQL par h m s)" "pg_Observe memoryLibs sampleCodec pgCloud"
  "pg_observeService memoryLibs sampleCodec pgCloud" "pg_upToDate memoryLibs sampleCodec (askedPostgreSQL par h m s) (askedPostgreSQL par h m s)"
  "Wrapf ''cannot observe pgInstance: %w'' []" "pg_Create sampleCodec pgCloud" "pg_Update sampleCodec pgCloud"
  "UpdatePGRequest.extend (pgBody par h m) \<lparr>pgc_Version = ''III''\<rparr>" "pgBody par h m"
  "pg_settles memoryLibs sampleCodec asSent (\<lambda>_. ''III'') (askedPostgreSQL par h m s) (askedPostgreSQL par h m s)" "\<lambda>_. True"
  "Wrapf ''cannot create instance'' []" "Wrapf ''cannot update instance'' []" for n par h m s
  by (rule pg_dbaas_client [OF pgCloud_law asSent_law pgCloud_defaults pgCloud_answers pgCloud_bodies(2,1)])

definition opensearchView :: "string UpdateOpensearchRequest \<Rightarrow> string DBAASServiceOpensearch" where
  "opensearchView b = sampleOpenSearchService\<lparr>oss_URIParams := Some [(''host'', VStr ''db.local''), (''port'', VStr ''9200'')],
     sv_Maintenance := Some (osu_Maintenance b), sv_TerminationProtection := Some (osu_TerminationProtection b), sv_Plan := osu_Plan b,
     sv_IPFilter := osu_IPFilter b, sv_Settings := osu_OpensearchSettings b\<rparr>"

definition opensearchCloud :: "(string, unit, string \<Rightarrow> string UpdateOpensearchRequest option) opensearch_api" where
  "opensearchCloud = memoryCloud UpdateOpensearchRequest.truncate id opensearchView osu_TerminationProtection"

definition opensearchBody :: "OpenSearchParameters \<Rightarrow> string UpdateOpensearchRequest" where
  "opensearchBody par = \<lparr>
     osu_Maintenance = \<lparr>sdk_mt_Dow = ms_DayOfWeek (osp_Maintenance par), sdk_mt_Time = ms_TimeOfDay (osp_Maintenance par)\<rparr>,
     osu_OpensearchSettings = document (osp_OpenSearchSettings par),
     osu_Plan = ss_Plan (dp_Size (osp_DBaaS par)), osu_IPFilter = dp_IPFilter (osp_DBaaS par),
     osu_TerminationProtection = dp_TerminationProtection (osp_DBaaS par)\<rparr>"

lemma opensearchCloud_law: "cloud_law opensearchCloud (memoryServices opensearchView) (opensearch_made asSent) (opensearch_taken asSent)"
  unfolding opensearchCloud_def
  by (rule memoryCloud_law) (simp_all add: opensearch_made_def opensearch_taken_def takesOver_def opensearchView_def sampleOpenSearchService_def
      UpdateOpensearchRequest.truncate_def asSent_def)

lemma opensearchCloud_bodies:
  "opensearch_updateBody sampleCodec par = Ret (opensearchBody par)"
  "opensearch_createBody sampleCodec par = Ret (UpdateOpensearchRequest.extend (opensearchBody par) \<lparr>osc_Version = osp_MajorVersion par\<rparr>)"
  by (simp_all add: opensearch_updateBody_def opensearch_createBody_def memory_decode opensearchBody_def
      UpdateOpensearchRequest.extend_def)

lemma opensearchCloud_answers: "always (memoryServices opensearchView) n (opensearch_answers memoryLibs sampleCodec par cur)"
  by (auto simp: always_def memoryServices_def opensearch_answers_def opensearchView_def sampleOpenSearchService_def sampleCodec_def
      opensearch_mapObservation_def ToMaintenance_def opensearch_mapParameters_def opensearch_isUpToDate_def memory_settings uriParam_def getOr_def)

lemma opensearchCloud_defaults: "defaults_law (opensearch_setSettingsDefaults memoryLibs opensearchCloud par :: (OpenSearch \<times> _, _) act) par par"
  by (auto simp: defaults_law_def opensearch_setSettingsDefaults_def opensearch_fetchSettingSchema_def fetchSchema_def run_simps
      opensearchCloud_def memoryCloud_def memoryLibs_def sampleLibs_def ParseSchemas_def SetDefaults_def)

interpretation opensearchInMemory: dbaas_client opensearchCloud "memoryServices opensearchView"
  "opensearch_made asSent" "opensearch_taken asSent"
  n "opensearchWanted (lb_runtime memoryLibs) n par" "opensearch_Observe memoryLibs sampleCodec opensearchCloud"
  "opensearch_observeService memoryLibs sampleCodec opensearchCloud" "opensearch_upToDate memoryLibs sampleCodec par par"
  "Wrapf ''cannot observe openSearchInstance: %w'' []" "opensearch_Create (lb_runtime memoryLibs) sampleCodec opensearchCloud" "opensearch_Update (lb_runtime memoryLibs) sampleCodec opensearchCloud"
  "UpdateOpensearchRequest.extend (opensearchBody par) \<lparr>osc_Version = osp_MajorVersion par\<rparr>" "opensearchBody par"
  "opensearch_settles memoryLibs sampleCodec asSent par par" "\<lambda>_. True" "Wrapf (''cannot create OpenSearch Instance: %v, '' @ CHR 0x0A # ''err: %w'') [n]" "\<lambda>e. e" for n par
  by (rule opensearch_dbaas_client [OF opensearchCloud_law asSent_law opensearchCloud_defaults opensearchCloud_answers
        opensearchCloud_bodies(2,1)])

text \<open>The cloud for Kafka drops entries of an IP filter that it has already.\<close>

definition kafkaView :: "(string, string) UpdateKafkaRequest \<Rightarrow> (string, string) DBAASServiceKafka" where
  "kafkaView b = (sampleKafkaService StateRunning)\<lparr>sv_Maintenance := Some (kfu_Maintenance b),
     sv_TerminationProtection := Some (kfu_TerminationProtection b), sv_Plan := kfu_Plan b, sv_IPFilter := Some (remdups (elems (kfu_IPFilter b))),
     sv_Settings := kfu_KafkaSettings b, kfs_KafkaRestEnabled := Some (kfu_KafkaRestEnabled b),
     kfs_KafkaRestSettings := kfu_KafkaRestSettings b\<rparr>"

definition kafkaCloud :: "(string, string, unit, string \<Rightarrow> (string, string) UpdateKafkaRequest option) kafka_api" where
  "kafkaCloud = memoryCloud UpdateKafkaRequest.truncate id kafkaView kfu_TerminationProtection"

definition kafkaBody :: "KafkaParameters \<Rightarrow> (string, string) UpdateKafkaRequest" where
  "kafkaBody par = \<lparr>kfu_IPFilter = dp_IPFilter (kfp_DBaaS par),
     kfu_KafkaSettings = document (kfp_KafkaSettings par),
     kfu_Maintenance = \<lparr>sdk_mt_Dow = ms_DayOfWeek (kfp_Maintenance par), sdk_mt_Time = ms_TimeOfDay (kfp_Maintenance par)\<rparr>,
     kfu_Plan = ss_Plan (dp_Size (kfp_DBaaS par)), kfu_TerminationProtection = dp_TerminationProtection (kfp_DBaaS par),
     kfu_KafkaRestEnabled = kfp_KafkaRestEnabled par,
     kfu_KafkaRestSettings = document (kfp_KafkaRestSettings par)\<rparr>"

lemma kafkaCloud_law: "cloud_law kafkaCloud (memoryServices kafkaView) (kafka_made remdups asSent asSent) (kafka_taken remdups asSent asSent)"
  unfolding kafkaCloud_def
  by (rule memoryCloud_law) (simp_all add: kafka_made_def kafka_taken_def kafka_takes_def kafkaView_def sampleKafkaService_def
      UpdateKafkaRequest.truncate_def asSent_def)

lemma kafkaCloud_bodies:
  "kafka_updateBody sampleCodec sampleCodec par = Ret (kafkaBody par)"
  "kafka_createBody sampleCodec sampleCodec par = Ret (UpdateKafkaRequest.extend (kafkaBody par) \<lparr>kfc_Version = kfp_Version par\<rparr>)"
  by (simp_all add: kafka_updateBody_def kafka_createBody_def memory_decode kafkaBody_def UpdateKafkaRequest.extend_def)

lemma kafkaCloud_answers: "always (memoryServices kafkaView) n (kafka_answers memoryLibs sampleCodec sampleCodec cur)"
  by (auto simp: always_def memoryServices_def kafka_answers_def kafkaView_def sampleKafkaService_def sampleCodec_def comparable_def
      kafka_getObservation_def kafka_getConnectionDetails_def memory_settings)

lemma kafkaCloud_defaults: "defaults_law (kafka_setSettingsDefaults memoryLibs kafkaCloud par :: (Kafka \<times> _, _) act) par par"
  by (auto simp: defaults_law_def kafka_setSettingsDefaults_def kafka_fetchSettingSchema_def fetchSchema_def run_simps
      kafkaCloud_def memoryCloud_def memoryLibs_def sampleLibs_def ParseSchemas_def SetDefaults_def)

interpretation kafkaInMemory: dbaas_client kafkaCloud "memoryServices kafkaView"
  "kafka_made remdups asSent asSent" "kafka_taken remdups asSent asSent"
  n "kafkaWanted (lb_runtime memoryLibs) n par" "kafka_Observe memoryLibs fieldwiseCmp sampleCodec sampleCodec kafkaCloud"
  "kafka_observeService memoryLibs fieldwiseCmp sampleCodec sampleCodec kafkaCloud" "kafka_upToDate memoryLibs fieldwiseCmp sampleCodec sampleCodec par"
  "\<lambda>e. e" "kafka_Create (lb_runtime memoryLibs) sampleCodec sampleCodec kafkaCloud" "kafka_Update (lb_runtime memoryLibs) sampleCodec sampleCodec kafkaCloud"
  "UpdateKafkaRequest.extend (kafkaBody par) \<lparr>kfc_Version = kfp_Version par\<rparr>" "kafkaBody par"
  "kafka_settles remdups memoryLibs sampleCodec sampleCodec asSent asSent par par" "\<lambda>_. True" "Wrapf ''unable to create instance: %w'' []" "Wrapf ''unable to update instance: %w'' []" for n par
  by (rule kafka_dbaas_client [OF kafkaCloud_law fieldwiseCmp_law asSent_law asSent_law kafkaCloud_defaults kafkaCloud_answers
        kafkaCloud_bodies(2,1)])

section \<open>Samples\<close>

lemma sample_named: "instanceName sampleRuntime sampleMeta = ''db''"
  by (simp add: instanceName_def sampleRuntime_def sampleMeta_def annotation_def)

text \<open>Resources that ask for settings of their own.\<close>

definition memoryRedis :: "bool \<Rightarrow> Redis" where
  "memoryRedis tp = (sampleRedis [] [])\<lparr>mr_ForProvider := \<lparr>rdp_Maintenance = sampleMaintenance, rdp_Zone = ''ch-dk-2'',
     rdp_DBaaS = sampleDBaaS\<lparr>dp_TerminationProtection := tp\<rparr>, rdp_RedisSettings = ''noeviction''\<rparr>\<rparr>"

definition memoryMySQL :: "TimeOfDay \<Rightarrow> MySQL" where
  "memoryMySQL t = (sampleMySQL t)\<lparr>mr_ForProvider := (mr_ForProvider (sampleMySQL t))\<lparr>myp_MySQLSettings := ''strict''\<rparr>\<rparr>"

definition memoryPG :: "TimeOfDay \<Rightarrow> PostgreSQL" where
  "memoryPG t = (samplePG t sampleMeta)\<lparr>mr_ForProvider := (mr_ForProvider (samplePG t sampleMeta))\<lparr>pgp_PGSettings := ''jit off''\<rparr>\<rparr>"

definition memoryKafka :: "string slice \<Rightarrow> Kafka" where
  "memoryKafka ips = (sampleKafka [])\<lparr>mr_ForProvider := (mr_ForProvider (sampleKafka []))
     \<lparr>kfp_DBaaS := sampleDBaaS\<lparr>dp_IPFilter := ips\<rparr>, kfp_KafkaSettings := ''compact'', kfp_KafkaRestSettings := ''rest''\<rparr>\<rparr>"

lemma sample_wanted:
  "redisWanted sampleRuntime ''db'' (mr_ForProvider (memoryRedis tp)) (memoryRedis tp)"
  "mysqlWanted sampleRuntime ''db'' (mr_ForProvider (memoryMySQL t)) (memoryMySQL t)"
  "pgWanted sampleRuntime ''db'' (mr_ForProvider (memoryPG t)) (memoryPG t)"
  "opensearchWanted sampleRuntime ''db'' (mr_ForProvider (sampleOpenSearch cs ips)) (sampleOpenSearch cs ips)"
  "kafkaWanted sampleRuntime ''db'' (mr_ForProvider (memoryKafka f)) (memoryKafka f)"
  using sample_named
  by (simp_all add: redisWanted_def redis_GetInstanceName_def memoryRedis_def sampleRedis_def mysqlWanted_def mysql_GetInstanceName_def
      memoryMySQL_def sampleMySQL_def pgWanted_def pg_GetInstanceName_def memoryPG_def samplePG_def opensearchWanted_def
      opensearch_GetInstanceName_def sampleOpenSearch_def kafkaWanted_def kafka_GetInstanceName_def memoryKafka_def sampleKafka_def,
      simp_all add: sampleMeta_def)



lemma sample_settles:
  "redis_settles memoryLibs sampleCodec asSent rpar rpar rfound"
  "mysql_settles memoryLibs sampleCodec asSent (\<lambda>_. ''IIIIIIII'') (mr_ForProvider (memoryMySQL t)) (mr_ForProvider (memoryMySQL t)) None = wholeMinute t"
  "pg_settles memoryLibs sampleCodec asSent (\<lambda>_. ''III'') (mr_ForProvider (memoryPG t)) (mr_ForProvider (memoryPG t)) None = wholeMinute t"
  "kafka_settles remdups memoryLibs sampleCodec sampleCodec asSent asSent (mr_ForProvider (memoryKafka f)) (mr_ForProvider (memoryKafka f)) found =
     (f = Some (remdups (elems f)))"
  by (simp_all add: redis_settles_def mysql_settles_def pg_settles_def kafka_settles_def memory_returns sameMajor_def sample_version
      memoryMySQL_def sampleMySQL_def memoryPG_def samplePG_def memoryKafka_def sampleKafka_def)

section \<open>Properties\<close>

text \<open>
  C20: on a cloud that takes over what it is sent, passes of the reconciler succeed for Redis, whatever readable service is
  there before, and the service exists after the first one. It is up to date exactly if it was so before, or if the settings
  that are asked for, once they are sent, come back as the desired ones with their defaults (\<open>redis_settles\<close>): then further passes
  leave it as it is. Otherwise it is never found up to date and every pass updates it again. An IP filter in another order
  or with repetitions does no harm.
\<close>

theorem redis_reconciles:
  fixes api :: "('s, 'q, 'w) redis_api"
  assumes "cloud_law api services (redis_made fill) (redis_taken fill)" and "fill_law fill"
    and "defaults_law (redis_setSettingsDefaults lb api par :: (Redis \<times> 'w, RedisParameters) act) par cur"
    and "always services n (redis_answers lb cd par cur)"
    and "redis_updateBody cd par = Ret body" and "redisWanted (lb_runtime lb) n par x"
  shows "\<exists>x' w' obs s''.
    passes (reconcilePass (redis_Observe lb cd api) (redis_Create (lb_runtime lb) cd api) (redis_Update (lb_runtime lb) cd api)) (Suc k)
      (Typed x, w) = (Ret (), (Typed x', w')) \<and> redisWanted (lb_runtime lb) n par x' \<and>
    (services w')(n := None) = (services w)(n := None) \<and>
    redis_Observe lb cd api (Typed x', w') = (Ret obs, s'') \<and> eo_ResourceExists obs \<and>
    eo_ResourceUpToDate obs =
      (redis_settles lb cd fill par cur (services w n) \<or> (\<exists>svc. services w n = Some svc \<and> redis_upToDate lb cd par cur svc)) \<and>
    (eo_ResourceUpToDate obs \<longrightarrow> (\<forall>j. \<exists>x'' w''.
       passes (reconcilePass (redis_Observe lb cd api) (redis_Create (lb_runtime lb) cd api) (redis_Update (lb_runtime lb) cd api)) j
         (Typed x', w') = (Ret (), (Typed x'', w'')) \<and> services w'' = services w'))"
  using dbaas_client.settled [OF redis_dbaas_client [OF assms(1-5)] assms(6), where k = k and w = w] .

theorem redis_reconciles_witness:
  "\<exists>x' w' obs s''.
    passes (reconcilePass (redis_Observe memoryLibs sampleCodec redisCloud) (redis_Create sampleRuntime sampleCodec redisCloud)
        (redis_Update sampleRuntime sampleCodec redisCloud)) (Suc 0)
      (Typed (memoryRedis True), [''db'' \<mapsto> (redisBody (mr_ForProvider (memoryRedis True)))\<lparr>rdr_RedisSettings := ''{}''\<rparr>]) = (Ret (), (Typed x', w')) \<and>
    redis_Observe memoryLibs sampleCodec redisCloud (Typed x', w') = (Ret obs, s'') \<and> eo_ResourceExists obs \<and> eo_ResourceUpToDate obs"
  using redis_reconciles [where k = 0 and w = "[''db'' \<mapsto> (redisBody (mr_ForProvider (memoryRedis True)))\<lparr>rdr_RedisSettings := ''{}''\<rparr>]",
      OF redisCloud_law asSent_law redisCloud_defaults redisCloud_answers redisCloud_body, unfolded memoryLibs_same,
      OF sample_wanted(1) [of True]]
  by (elim exE conjE) (intro exI conjI, assumption+, simp add: sample_settles)





text \<open>
  C29: on a cloud that takes over what it is sent but puts the entries of an IP filter in an order of its own, passes of the
  reconciler succeed for Kafka and the service exists after the first one. It is up to date exactly if it was so before, or if
  an IP filter is asked for, in that order already, and the settings of both kinds, once they are sent, come back as the
  desired ones with their defaults (\<open>kafka_settles\<close>): then further passes leave it as it is. Otherwise, and always when
  the IP filter is left out, it is never found up to date and every pass updates it again.
\<close>

theorem kafka_reconciles:
  fixes api :: "('s, 'r, 'q, 'w) kafka_api"
  assumes "cloud_law api services (kafka_made arrange fill rfill) (kafka_taken arrange fill rfill)" and "cmp_law cmpEqual"
    and "fill_law fill" and "fill_law rfill"
    and "defaults_law (kafka_setSettingsDefaults lb api par :: (Kafka \<times> 'w, KafkaParameters) act) par cur"
    and "always services n (kafka_answers lb cd rcd cur)"
    and "kafka_createBody cd rcd par = Ret cbody" and "kafka_updateBody cd rcd par = Ret ubody" and "kafkaWanted (lb_runtime lb) n par x"
  shows "\<exists>x' w' obs s''.
    passes (reconcilePass (kafka_Observe lb cmpEqual cd rcd api) (kafka_Create (lb_runtime lb) cd rcd api) (kafka_Update (lb_runtime lb) cd rcd api)) (Suc k)
      (Typed x, w) = (Ret (), (Typed x', w')) \<and> kafkaWanted (lb_runtime lb) n par x' \<and>
    (services w')(n := None) = (services w)(n := None) \<and>
    kafka_Observe lb cmpEqual cd rcd api (Typed x', w') = (Ret obs, s'') \<and> eo_ResourceExists obs \<and>
    eo_ResourceUpToDate obs = (kafka_settles arrange lb cd rcd fill rfill par cur (services w n) \<or>
      (\<exists>svc. services w n = Some svc \<and> kafka_upToDate lb cmpEqual cd rcd cur svc)) \<and>
    (eo_ResourceUpToDate obs \<longrightarrow> (\<forall>j. \<exists>x'' w''.
       passes (reconcilePass (kafka_Observe lb cmpEqual cd rcd api) (kafka_Create (lb_runtime lb) cd rcd api) (kafka_Update (lb_runtime lb) cd rcd api)) j
         (Typed x', w') = (Ret (), (Typed x'', w'')) \<and> services w'' = services w'))"
  using dbaas_client.settled [OF kafka_dbaas_client [OF assms(1-8)] assms(9), where k = k and w = w] .

theorem kafka_reconciles_witness:
  "(\<exists>x' w' obs s''.
    passes (reconcilePass (kafka_Observe memoryLibs fieldwiseCmp sampleCodec sampleCodec kafkaCloud)
        (kafka_Create sampleRuntime sampleCodec sampleCodec kafkaCloud) (kafka_Update sampleRuntime sampleCodec sampleCodec kafkaCloud)) (Suc 2)
      (Typed (memoryKafka (Some [''10.0.0.0/8'', ''10.0.0.0/8''])), Map.empty) = (Ret (), (Typed x', w')) \<and>
    kafka_Observe memoryLibs fieldwiseCmp sampleCodec sampleCodec kafkaCloud (Typed x', w') = (Ret obs, s'') \<and>
    eo_ResourceExists obs \<and> \<not> eo_ResourceUpToDate obs) \<and>
   (\<exists>x' w' obs s''.
    passes (reconcilePass (kafka_Observe memoryLibs fieldwiseCmp sampleCodec sampleCodec kafkaCloud)
        (kafka_Create sampleRuntime sampleCodec sampleCodec kafkaCloud) (kafka_Update sampleRuntime sampleCodec sampleCodec kafkaCloud)) (Suc 2)
      (Typed (memoryKafka (None)), Map.empty) = (Ret (), (Typed x', w')) \<and>
    kafka_Observe memoryLibs fieldwiseCmp sampleCodec sampleCodec kafkaCloud (Typed x', w') = (Ret obs, s'') \<and>
    eo_ResourceExists obs \<and> \<not> eo_ResourceUpToDate obs) \<and>
   (\<exists>x' w' obs s''.
    passes (reconcilePass (kafka_Observe memoryLibs fieldwiseCmp sampleCodec sampleCodec kafkaCloud)
        (kafka_Create sampleRuntime sampleCodec sampleCodec kafkaCloud) (kafka_Update sampleRuntime sampleCodec sampleCodec kafkaCloud)) (Suc 2)
      (Typed (memoryKafka (Some [''10.0.0.0/8''])), Map.empty) = (Ret (), (Typed x', w')) \<and>
    kafka_Observe memoryLibs fieldwiseCmp sampleCodec sampleCodec kafkaCloud (Typed x', w') = (Ret obs, s'') \<and>
    eo_ResourceExists obs \<and> eo_ResourceUpToDate obs)"
proof -
  have none: "memoryServices kafkaView Map.empty ''db'' = None" by (simp add: memoryServices_def)
  note run = kafka_reconciles [where k = 2 and w = Map.empty, OF kafkaCloud_law fieldwiseCmp_law asSent_law asSent_law kafkaCloud_defaults
      kafkaCloud_answers kafkaCloud_bodies(2,1), unfolded memoryLibs_same, OF sample_wanted(5), unfolded none sample_settles]
  show ?thesis
    by (rule conjI, (insert run [of "Some [''10.0.0.0/8'', ''10.0.0.0/8'']"], elim exE conjE, intro exI conjI, assumption+, simp)[1], rule conjI,
        (insert run [of "None"], elim exE conjE, intro exI conjI, assumption+, simp)[1], (insert run [of "Some [''10.0.0.0/8'']"], elim exE conjE, intro exI conjI, assumption+, simp)[1])
qed

text \<open>
  C39: the OpenSearch controller never corrects termination protection. If a service has everything that is asked for but
  for the termination protection, which may be anything, any number of passes of the reconciler succeed and leave the
  service as it is, and every other one.
\<close>

theorem opensearch_protection_never_corrected:
  fixes api :: "('s, 'q, 'w) opensearch_api"
  assumes "cloud_law api services made taken"
    and "defaults_law (opensearch_setSettingsDefaults lb api par :: (OpenSearch \<times> 'w, OpenSearchParameters) act) par cur"
    and "always services n (opensearch_answers lb cd par cur)" and "opensearch_updateBody cd par = Ret ubody"
    and "opensearchWanted (lb_runtime lb) n par x" and "services w n = Some svc"
    and "takesOver (osu_Maintenance ubody) protection (osu_Plan ubody) (osu_IPFilter ubody) svc"
    and "settingsAgree lb cd (osp_OpenSearchSettings cur) (sv_Settings svc)"
  shows "\<exists>x' w'. passes (reconcilePass (opensearch_Observe lb cd api) (opensearch_Create (lb_runtime lb) cd api)
      (opensearch_Update (lb_runtime lb) cd api)) k (Typed x, w) = (Ret (), (Typed x', w')) \<and>
    services w' n = Some svc \<and> services w' = services w"
proof -
  obtain st where st: "cur = par\<lparr>osp_OpenSearchSettings := st\<rparr>" using opensearch_defaults_settings [OF assms(2)] .
  have up: "opensearch_upToDate lb cd par cur svc"
    using opensearch_upToDate_taken [OF _ st, of protection svc lb cd] opensearch_bodies(1) [OF assms(4)] assms(7,8) by simp
  show ?thesis
    using dbaas_observer.stays [OF opensearch_dbaas_observer [OF assms(1-3)] assms(5,6) up] assms(6) by metis
qed

theorem opensearch_protection_never_corrected_witness:
  "\<exists>x' w'. passes (reconcilePass (opensearch_Observe memoryLibs sampleCodec opensearchCloud)
      (opensearch_Create (lb_runtime memoryLibs) sampleCodec opensearchCloud)
      (opensearch_Update (lb_runtime memoryLibs) sampleCodec opensearchCloud)) 5
      (Typed (sampleOpenSearch [] [''10.0.0.0/8'']),
       [''db'' \<mapsto> (opensearchBody (mr_ForProvider (sampleOpenSearch [] [''10.0.0.0/8''])))\<lparr>osu_TerminationProtection := False\<rparr>]) =
      (Ret (), (Typed x', w')) \<and>
    memoryServices opensearchView w' ''db'' =
      Some (opensearchView ((opensearchBody (mr_ForProvider (sampleOpenSearch [] [''10.0.0.0/8''])))\<lparr>osu_TerminationProtection := False\<rparr>)) \<and>
    memoryServices opensearchView w' = memoryServices opensearchView
      [''db'' \<mapsto> (opensearchBody (mr_ForProvider (sampleOpenSearch [] [''10.0.0.0/8''])))\<lparr>osu_TerminationProtection := False\<rparr>]"
  by (rule opensearch_protection_never_corrected [OF opensearchCloud_law opensearchCloud_defaults opensearchCloud_answers
        opensearchCloud_bodies(1), where protection = False])
    (simp_all add: sample_wanted memoryServices_def takesOver_def memory_agrees opensearchView_def opensearchBody_def)

end
