(* ===== verification/DbaasDeletion.thy ===== *)
theory DbaasDeletion
  imports DbaasReconciliation
begin

text \<open>
  The five database controllers on a resource that is being deleted, on a cloud that deletes what it is told to delete,
  unless termination protection is on.
\<close>

section \<open>The controllers delete\<close>

text \<open>What the API documents of termination protection: a service that has it cannot be deleted.\<close>

definition protected :: "('s, 'z) DBAASService_scheme \<Rightarrow> bool" where
  "protected svc \<longleftrightarrow> derefFalse (sv_TerminationProtection svc)"

lemma redis_deletes:
  fixes api :: "('s, 'q, 'w) redis_api"
  assumes "delete_law api services guarded"
  shows "dbaas_deletion_axioms api services n (redisWanted rt n par) (redis_Delete rt api) guarded"
  by unfold_locales (simp_all add: assms redisWanted_def redis_Delete_def typed_getObj_apply run_simps)

lemma mysql_deletes:
  fixes api :: "('s, 'q, 'w) mysql_api"
  assumes "delete_law api services guarded"
  shows "dbaas_deletion_axioms api services n (mysqlWanted rt n par) (mysql_Delete rt api) guarded"
  by unfold_locales (simp_all add: assms mysqlWanted_def mysql_Delete_def typed_getObj_apply run_simps)

lemma pg_deletes:
  fixes api :: "('s, 'q, 'w) pg_api"
  assumes "delete_law api services guarded"
  shows "dbaas_deletion_axioms api services n (pgWanted rt n par) (pg_Delete rt api) guarded"
  by unfold_locales (simp_all add: assms pgWanted_def pg_Delete_def typed_getObj_apply run_simps)

lemma opensearch_deletes:
  fixes api :: "('s, 'q, 'w) opensearch_api"
  assumes "delete_law api services guarded"
  shows "dbaas_deletion_axioms api services n (opensearchWanted rt n par) (opensearch_Delete rt api) guarded"
  by unfold_locales (simp_all add: assms opensearchWanted_def opensearch_Delete_def typed_getObj_apply run_simps)

lemma kafka_deletes:
  fixes api :: "('s, 'r, 'q, 'w) kafka_api"
  assumes "delete_law api services guarded"
  shows "dbaas_deletion_axioms api services n (kafkaWanted rt n par) (kafka_Delete rt api) guarded"
  by unfold_locales (simp_all add: assms kafkaWanted_def kafka_Delete_def typed_getObj_apply run_simps)

section \<open>In memory\<close>

lemma clouds_delete:
  "delete_law redisCloud (memoryServices redisView) protected"
  "delete_law mysqlCloud (memoryServices mysqlView) protected"
  "delete_law pgCloud (memoryServices pgView) protected"
  "delete_law opensearchCloud (memoryServices opensearchView) protected"
  "delete_law kafkaCloud (memoryServices kafkaView) protected"
  unfolding redisCloud_def mysqlCloud_def pgCloud_def opensearchCloud_def kafkaCloud_def
  by (rule memoryCloud_delete_law, simp add: protected_def derefFalse_def redisView_def mysqlView_def pgView_def opensearchView_def
      kafkaView_def sampleRedisService_def sampleMySQLService_def samplePGService_def sampleOpenSearchService_def sampleKafkaService_def)+

interpretation redisRemoved: dbaas_deletion redisCloud "memoryServices redisView"
  "redis_made asSent" "redis_taken asSent"
  n "redisWanted (lb_runtime memoryLibs) n par" "redis_Observe memoryLibs sampleCodec redisCloud"
  "redis_observeService memoryLibs sampleCodec redisCloud" "redis_upToDate memoryLibs sampleCodec par par"
  "Wrapf ''unable to observe instance: %w'' []" "redis_Delete (lb_runtime memoryLibs) redisCloud" protected for n par
  by (rule dbaas_deletion.intro, rule redis_dbaas_observer [OF redisCloud_law redisCloud_defaults redisCloud_answers], rule redis_deletes [OF clouds_delete(1)])

interpretation mysqlRemoved: dbaas_deletion mysqlCloud "memoryServices mysqlView"
  "mysql_made asSent (\<lambda>_. ''IIIIIIII'')" "mysql_taken asSent"
  n "mysqlWanted (lb_runtime memoryLibs) n (askedMySQL par h m s)" "mysql_Observe memoryLibs sampleCodec mysqlCloud"
  "mysql_observeService memoryLibs sampleCodec mysqlCloud" "mysql_upToDate memoryLibs sampleCodec (askedMySQL par h m s) (askedMySQL par h m s)"
  "Wrapf ''cannot observe mySQLInstance: %w'' []" "mysql_Delete (lb_runtime memoryLibs) mysqlCloud" protected for n par h m s
  by (rule dbaas_deletion.intro, rule mysql_dbaas_observer [OF mysqlCloud_law mysqlCloud_defaults mysqlCloud_answers], rule mysql_deletes [OF clouds_delete(2)])

interpretation pgRemoved: dbaas_deletion pgCloud "memoryServices pgView"
  "pg_made asSent (\<lambda>_. ''III'')" "pg_taken asSent"
  n "pgWanted (lb_runtime memoryLibs) n (askedPostgreSQL par h m s)" "pg_Observe memoryLibs sampleCodec pgCloud"
  "pg_observeService memoryLibs sampleCodec pgCloud" "pg_upToDate memoryLibs sampleCodec (askedPostgreSQL par h m s) (askedPostgreSQL par h m s)"
  "Wrapf ''cannot observe pgInstance: %w'' []" "pg_Delete (lb_runtime memoryLibs) pgCloud" protected for n par h m s
  by (rule dbaas_deletion.intro, rule pg_dbaas_observer [OF pgCloud_law pgCloud_defaults pgCloud_answers], rule pg_deletes [OF clouds_delete(3)])

interpretation opensearchRemoved: dbaas_deletion opensearchCloud "memoryServices opensearchView"
  "opensearch_made asSent" "opensearch_taken asSent"
  n "opensearchWanted (lb_runtime memoryLibs) n par" "opensearch_Observe memoryLibs sampleCodec opensearchCloud"
  "opensearch_observeService memoryLibs sampleCodec opensearchCloud" "opensearch_upToDate memoryLibs sampleCodec par par"
  "Wrapf ''cannot observe openSearchInstance: %w'' []" "opensearch_Delete (lb_runtime memoryLibs) opensearchCloud" protected for n par
  by (rule dbaas_deletion.intro, rule opensearch_dbaas_observer [OF opensearchCloud_law opensearchCloud_defaults opensearchCloud_answers], rule opensearch_deletes [OF clouds_delete(4)])

interpretation kafkaRemoved: dbaas_deletion kafkaCloud "memoryServices kafkaView"
  "kafka_made remdups asSent asSent" "kafka_taken remdups asSent asSent"
  n "kafkaWanted (lb_runtime memoryLibs) n par" "kafka_Observe memoryLibs fieldwiseCmp sampleCodec sampleCodec kafkaCloud"
  "kafka_observeService memoryLibs fieldwiseCmp sampleCodec sampleCodec kafkaCloud" "kafka_upToDate memoryLibs fieldwiseCmp sampleCodec sampleCodec par"
  "\<lambda>e. e" "kafka_Delete (lb_runtime memoryLibs) kafkaCloud" protected for n par
  by (rule dbaas_deletion.intro, rule kafka_dbaas_observer [OF kafkaCloud_law fieldwiseCmp_law kafkaCloud_defaults kafkaCloud_answers], rule kafka_deletes [OF clouds_delete(5)])

section \<open>Properties\<close>

text \<open>
  C28: the life of a Redis service on a cloud that takes over what it is sent and refuses to delete what has termination
  protection. Whatever readable service of that name is there before, passes of the reconciler make it exist, with the
  termination protection that is asked for. Once the resource is being deleted, and however often the pass is made, and made
  again when it has failed: if termination protection is asked for, the passes fail and the service stays as it is;
  if not, it is removed, after which the passes succeed, it is observed as missing and no other service has been touched since the
  beginning.
\<close>

theorem redis_lifecycle:
  fixes api :: "('s, 'q, 'w) redis_api"
  assumes "cloud_law api services (redis_made fill) (redis_taken fill)" and "fill_law fill" and "delete_law api services protected"
    and "defaults_law (redis_setSettingsDefaults lb api par :: (Redis \<times> 'w, RedisParameters) act) par cur"
    and "always services n (redis_answers lb cd par cur)"
    and "redis_updateBody cd par = Ret body" and "redisWanted (lb_runtime lb) n par x"
  shows "\<exists>x1 w1 svc x2 w2.
    passes (reconcilePass (redis_Observe lb cd api) (redis_Create (lb_runtime lb) cd api) (redis_Update (lb_runtime lb) cd api)) (Suc j)
      (Typed x, w) = (Ret (), (Typed x1, w1)) \<and>
    services w1 n = Some svc \<and> protected svc = dp_TerminationProtection (rdp_DBaaS par) \<and> (services w1)(n := None) = (services w)(n := None) \<and>
    attempts (deletePass (redis_Observe lb cd api) (redis_Delete (lb_runtime lb) api)) (Suc k) (Typed x1, w1) = (Typed x2, w2) \<and>
    (if dp_TerminationProtection (rdp_DBaaS par)
     then services w2 = services w1 \<and>
       (\<exists>e. fst (deletePass (redis_Observe lb cd api) (redis_Delete (lb_runtime lb) api) (Typed x2, w2)) = Fail e)
     else services w2 = (services w)(n := None) \<and>
       fst (deletePass (redis_Observe lb cd api) (redis_Delete (lb_runtime lb) api) (Typed x2, w2)) = Ret () \<and>
       fst (redis_Observe lb cd api (Typed x2, w2)) = Ret noObservation)"
proof -
  obtain x1 w1 svc where live:
    "passes (reconcilePass (redis_Observe lb cd api) (redis_Create (lb_runtime lb) cd api) (redis_Update (lb_runtime lb) cd api)) (Suc j)
      (Typed x, w) = (Ret (), (Typed x1, w1))"
    "redisWanted (lb_runtime lb) n par x1" "(services w1)(n := None) = (services w)(n := None)" "services w1 n = Some svc"
    "redis_protected par svc"
    using dbaas_client.appears [OF redis_dbaas_client [OF assms(1,2,4-6)] assms(7), where k = j and w = w] by (elim exE conjE)
  have guard: "protected svc = dp_TerminationProtection (rdp_DBaaS par)" using live(5) by (simp add: redis_protected_def protected_def)
  obtain x2 w2 where gone:
    "attempts (deletePass (redis_Observe lb cd api) (redis_Delete (lb_runtime lb) api)) (Suc k) (Typed x1, w1) = (Typed x2, w2)"
    "services w2 = afterDeletion protected n (services w1)"
    "if services w2 n = None
     then fst (deletePass (redis_Observe lb cd api) (redis_Delete (lb_runtime lb) api) (Typed x2, w2)) = Ret () \<and>
       fst (redis_Observe lb cd api (Typed x2, w2)) = Ret noObservation
     else \<exists>e. fst (deletePass (redis_Observe lb cd api) (redis_Delete (lb_runtime lb) api) (Typed x2, w2)) = Fail e"
    using dbaas_deletion.deleted [OF dbaas_deletion.intro [OF redis_dbaas_observer [OF assms(1,4,5)] redis_deletes [OF assms(3)]] live(2),
        where k = k and w = w1] by (elim exE conjE)
  show ?thesis
    by (intro exI conjI, rule live(1), rule live(4), rule guard, rule live(3), rule gone(1))
      (use live(3,4) guard gone(2,3) in \<open>simp add: afterDeletion_def split: if_splits\<close>)
qed

theorem redis_lifecycle_witness:
  "(\<exists>x1 w1 x2 w2.
    passes (reconcilePass (redis_Observe memoryLibs sampleCodec redisCloud) (redis_Create sampleRuntime sampleCodec redisCloud)
        (redis_Update sampleRuntime sampleCodec redisCloud)) (Suc 0)
      (Typed (memoryRedis False), [''other'' \<mapsto> redisBody (mr_ForProvider (memoryRedis True))]) = (Ret (), (Typed x1, w1)) \<and>
    memoryServices redisView w1 ''db'' \<noteq> None \<and>
    attempts (deletePass (redis_Observe memoryLibs sampleCodec redisCloud) (redis_Delete sampleRuntime redisCloud)) (Suc 2)
      (Typed x1, w1) = (Typed x2, w2) \<and>
    memoryServices redisView w2 = (memoryServices redisView [''other'' \<mapsto> redisBody (mr_ForProvider (memoryRedis True))])(''db'' := None)) \<and>
   (\<exists>x1 w1 x2 w2.
    passes (reconcilePass (redis_Observe memoryLibs sampleCodec redisCloud) (redis_Create sampleRuntime sampleCodec redisCloud)
        (redis_Update sampleRuntime sampleCodec redisCloud)) (Suc 0)
      (Typed (memoryRedis True), Map.empty) = (Ret (), (Typed x1, w1)) \<and>
    memoryServices redisView w1 ''db'' \<noteq> None \<and>
    attempts (deletePass (redis_Observe memoryLibs sampleCodec redisCloud) (redis_Delete sampleRuntime redisCloud)) (Suc 2)
      (Typed x1, w1) = (Typed x2, w2) \<and>
    memoryServices redisView w2 = memoryServices redisView w1)"
proof -
  have par: "dp_TerminationProtection (rdp_DBaaS (mr_ForProvider (memoryRedis tp))) = tp" for tp by (simp add: memoryRedis_def)
  note life = redis_lifecycle [where j = 0 and k = 2, OF redisCloud_law asSent_law clouds_delete(1) redisCloud_defaults redisCloud_answers
      redisCloud_body, unfolded memoryLibs_same, OF sample_wanted(1), unfolded par]
  show ?thesis
    by (rule conjI, (insert life [of False "[''other'' \<mapsto> redisBody (mr_ForProvider (memoryRedis True))]"], elim exE conjE, intro exI conjI,
          assumption, simp, assumption, simp)[1],
        (insert life [of True Map.empty], elim exE conjE, intro exI conjI, assumption, simp, assumption, simp)[1])
qed

end
