(* ===== verification/BucketLifecycle.thy ===== *)
theory BucketLifecycle
  imports BucketController Reconciliation
begin

text \<open>
  The bucket controller in the reconciler's loop, on a store that does what it is told: what becomes of a bucket from its
  creation to its deletion, and of a bucket of the same name that is somebody else's.
\<close>

section \<open>A store that does what it is told\<close>

text \<open>
  \<open>buckets\<close> are the buckets in the world by name, each with the keys of its objects. Reading and events change nothing;
  all objects are listed and can be removed; only an empty bucket can be removed.
\<close>

definition store_law :: "'w minio \<Rightarrow> ('w \<Rightarrow> string \<Rightarrow> string set option) \<Rightarrow> bool" where
  "store_law mc buckets \<longleftrightarrow>
     (\<forall>n w. \<exists>w'. mc_BucketExists mc n w = (Inr (buckets w n \<noteq> None), w') \<and> buckets w' = buckets w) \<and>
     (\<forall>n z w. buckets w n = None \<longrightarrow> (\<exists>w'. mc_MakeBucket mc n z w = (Inr (), w') \<and> buckets w' = (buckets w)(n \<mapsto> {}))) \<and>
     (\<forall>n w keys. buckets w n = Some keys \<longrightarrow>
        (\<exists>os w'. mc_ListObjects mc n w = (os, w') \<and> set (listed os) = keys \<and> buckets w' = buckets w)) \<and>
     (\<forall>n w. buckets (snd (mc_GetObjectLockConfig mc n w)) = buckets w) \<and>
     (\<forall>n w keys ks bypass. buckets w n = Some keys \<longrightarrow>
        (\<exists>w'. mc_RemoveObjects mc n ks bypass w = ([], w') \<and> buckets w' = (buckets w)(n \<mapsto> keys - set ks))) \<and>
     (\<forall>n w. buckets w n = Some {} \<longrightarrow> (\<exists>w'. mc_RemoveBucket mc n w = (Inr (), w') \<and> buckets w' = (buckets w)(n := None))) \<and>
     (\<forall>n w keys. buckets w n = Some keys \<longrightarrow> keys \<noteq> {} \<longrightarrow>
        (\<exists>e w'. mc_RemoveBucket mc n w = (Inl e, w') \<and> buckets w' = buckets w)) \<and>
     (\<forall>r m w. buckets (ev_Event mc r m w) = buckets w)"

lemma store_lawD:
  assumes "store_law mc buckets"
  shows "\<exists>w'. mc_BucketExists mc n w = (Inr (buckets w n \<noteq> None), w') \<and> buckets w' = buckets w"
    and "buckets w n = None \<Longrightarrow> \<exists>w'. mc_MakeBucket mc n z w = (Inr (), w') \<and> buckets w' = (buckets w)(n \<mapsto> {})"
    and "buckets w n = Some keys \<Longrightarrow> \<exists>os w'. mc_ListObjects mc n w = (os, w') \<and> set (listed os) = keys \<and> buckets w' = buckets w"
    and "buckets (snd (mc_GetObjectLockConfig mc n w)) = buckets w"
    and "buckets w n = Some keys \<Longrightarrow>
      \<exists>w'. mc_RemoveObjects mc n ks bypass w = ([], w') \<and> buckets w' = (buckets w)(n \<mapsto> keys - set ks)"
    and "buckets w n = Some {} \<Longrightarrow> \<exists>w'. mc_RemoveBucket mc n w = (Inr (), w') \<and> buckets w' = (buckets w)(n := None)"
    and "buckets w n = Some keys \<Longrightarrow> keys \<noteq> {} \<Longrightarrow> \<exists>e w'. mc_RemoveBucket mc n w = (Inl e, w') \<and> buckets w' = buckets w"
    and "buckets (ev_Event mc r m w) = buckets w"
  using assms by (simp_all add: store_law_def)

section \<open>Passes over a bucket\<close>

text \<open>A bucket that the controller has locked for itself, with the specification the user gave it.\<close>

definition bucketOwned :: "Bucket \<Rightarrow> Bucket \<Rightarrow> bool" where
  "bucketOwned b0 b \<longleftrightarrow> annotation (mr_Meta b) lockAnnotation \<noteq> None \<and> userSpec b = userSpec b0"

lemma bucketOwned_name: "bucketOwned b0 b \<Longrightarrow> GetBucketName b = GetBucketName b0"
  by (simp add: bucketOwned_def userSpec_def GetBucketName_def)

lemma lockedMeta_owned: "bucketOwned b (b\<lparr>mr_Meta := lockedMeta (mr_Meta b)\<rparr>)"
  by (simp add: bucketOwned_def userSpec_def lockedMeta_def annotation_def)

lemma bucket_Create_missing:
  assumes "store_law mc buckets" "buckets w (GetBucketName b) = None"
  shows "\<exists>w'. bucket_Create (runSteps wrap) mc (Typed b, w) = (Ret noCreation, (Typed (b\<lparr>mr_Meta := lockedMeta (mr_Meta b)\<rparr>), w')) \<and>
    buckets w' = (buckets w)(GetBucketName b \<mapsto> {})"
proof -
  obtain w1 where "mc_MakeBucket mc (GetBucketName b) (bkp_Zone (mr_ForProvider b)) w = (Inr (), w1)"
    "buckets w1 = (buckets w)(GetBucketName b \<mapsto> {})" using store_lawD(2) [OF assms] by blast
  then show ?thesis using store_lawD(8) [OF assms(1)]
    by (simp add: bucket_Create_run createS3Bucket_def run_simps)
qed

lemma bucket_Observe_store:
  assumes "store_law mc buckets"
  shows "\<exists>w'. buckets w' = buckets w \<and> bucket_Observe rt mc (Typed b, w) =
    (if buckets w (GetBucketName b) = None then (Ret noObservation, (Typed b, w'))
     else if annotation (mr_Meta b) lockAnnotation = None then
       (Fail (Errorf ''bucket exists already, try changing bucket name: %s'' [GetBucketName b]), (Typed b, w'))
     else (Ret \<lparr>eo_ResourceExists = True, eo_ResourceUpToDate = True, eo_ConnectionDetails = []\<rparr>,
       (Typed (set_condition rt (rt_Available rt) (b\<lparr>mr_AtProvider := \<lparr>bko_BucketName = GetBucketName b\<rparr>\<rparr>)), w')))"
proof -
  obtain w' where "mc_BucketExists mc (GetBucketName b) w = (Inr (buckets w (GetBucketName b) \<noteq> None), w')" "buckets w' = buckets w"
    using store_lawD(1) [OF assms] by blast
  then show ?thesis
    by (intro exI [of _ w']) (auto simp: bucket_Observe_def typed_getObj_apply run_simps GetBucketName_def)
qed

lemma bucket_reconciled_client:
  assumes law: "store_law mc buckets"
  shows "reconciled_client (bucket_Observe rt mc) (bucket_Create (runSteps wrap) mc) bucket_Update
    (\<lambda>w. buckets w (GetBucketName b0)) (\<lambda>w. (buckets w)(GetBucketName b0 := None)) (bucketOwned b0) (\<lambda>_. True) (\<lambda>_. True) (\<lambda>_. True)"
proof unfold_locales
  fix b w keys
  assume b: "bucketOwned b0 b"
  note name = bucketOwned_name [OF b]
  obtain w1 where obs: "buckets w1 = buckets w" "bucket_Observe rt mc (Typed b, w) =
    (if buckets w (GetBucketName b0) = None then (Ret noObservation, (Typed b, w1))
     else (Ret \<lparr>eo_ResourceExists = True, eo_ResourceUpToDate = True, eo_ConnectionDetails = []\<rparr>,
       (Typed (set_condition rt (rt_Available rt) (b\<lparr>mr_AtProvider := \<lparr>bko_BucketName = GetBucketName b\<rparr>\<rparr>)), w1)))"
    using bucket_Observe_store [OF law, of w rt b] b name by (auto simp: bucketOwned_def)
  show "\<exists>w'. bucket_Observe rt mc (Typed b, w) = (Ret noObservation, (Typed b, w')) \<and> buckets w' (GetBucketName b0) = None \<and>
      (buckets w')(GetBucketName b0 := None) = (buckets w)(GetBucketName b0 := None)" if "buckets w (GetBucketName b0) = None"
    using obs that by simp
  show "\<exists>obs x' w'. bucket_Observe rt mc (Typed b, w) = (Ret obs, (Typed x', w')) \<and> eo_ResourceExists obs \<and>
      eo_ResourceUpToDate obs = True \<and> bucketOwned b0 x' \<and> buckets w' (GetBucketName b0) = Some keys \<and>
      (buckets w')(GetBucketName b0 := None) = (buckets w)(GetBucketName b0 := None)" if "buckets w (GetBucketName b0) = Some keys"
    using obs that b by (auto simp: bucketOwned_def userSpec_def)
  have "bucketOwned b0 (b\<lparr>mr_Meta := lockedMeta (mr_Meta b)\<rparr>)"
    using b lockedMeta_owned [of b] by (simp add: bucketOwned_def)
  then show "\<exists>x' w' s. bucket_Create (runSteps wrap) mc (Typed b, w) = (Ret noCreation, (Typed x', w')) \<and> bucketOwned b0 x' \<and>
      buckets w' (GetBucketName b0) = Some s \<and> (buckets w')(GetBucketName b0 := None) = (buckets w)(GetBucketName b0 := None) \<and>
      True = True \<and> True = True \<and> True"
    if "buckets w (GetBucketName b0) = None"
    using bucket_Create_missing [OF law, of w b wrap] that name by auto
  show "\<exists>w' s'. bucket_Update (Typed b, w) = (Ret ExternalUpdate, (Typed b, w')) \<and> buckets w' (GetBucketName b0) = Some s' \<and>
      (buckets w')(GetBucketName b0 := None) = (buckets w)(GetBucketName b0 := None) \<and> True = True \<and> True = True \<and> True" if "buckets w (GetBucketName b0) = Some keys"
    using that by (simp add: bucket_Update_def)
qed simp_all

text \<open>The store in memory does what it is told.\<close>

definition inMemory :: "(string \<times> string list) list \<Rightarrow> string \<Rightarrow> string set option" where
  "inMemory w n = map_option set (map_of w n)"

lemma sampleS3_law: "store_law sampleS3 inMemory"
  unfolding store_law_def
proof (intro conjI allI impI)
  have listed: "listed (map Inr ks) = ks" for ks by (induction ks) simp_all
  show "\<exists>os w'. mc_ListObjects sampleS3 n w = (os, w') \<and> set (listed os) = keys \<and> inMemory w' = inMemory w"
    if "inMemory w n = Some keys" for n w keys
    using that by (auto simp: sampleS3_def inMemory_def listed getOr_def)
qed (auto simp: sampleS3_def inMemory_def fun_eq_iff update_conv' delete_conv getOr_def)

interpretation bucketInMemory: reconciled_client "bucket_Observe sampleRuntime sampleS3" "bucket_Create (runSteps (\<lambda>n e. e)) sampleS3" bucket_Update
  "\<lambda>w. inMemory w ''data''" "\<lambda>w. (inMemory w)(''data'' := None)" "bucketOwned (sampleBucket DeleteAll)" "\<lambda>_. True" "\<lambda>_. True" "\<lambda>_. True"
proof -
  have name: "GetBucketName (sampleBucket DeleteAll) = ''data''" by (simp add: bucket_samples)
  show "reconciled_client (bucket_Observe sampleRuntime sampleS3) (bucket_Create (runSteps (\<lambda>n e. e)) sampleS3) bucket_Update
      (\<lambda>w. inMemory w ''data'') (\<lambda>w. (inMemory w)(''data'' := None)) (bucketOwned (sampleBucket DeleteAll)) (\<lambda>_. True) (\<lambda>_. True) (\<lambda>_. True)"
    using bucket_reconciled_client [OF sampleS3_law, of sampleRuntime "\<lambda>n e. e" "sampleBucket DeleteAll"] unfolding name .
qed

section \<open>Properties\<close>

lemma bucket_foreign_attempts:
  assumes "store_law mc buckets" "annotation (mr_Meta b) lockAnnotation = None" "buckets w (GetBucketName b) \<noteq> None"
  shows "\<exists>w'. attempts (reconcilePass (bucket_Observe rt mc) create update) k (Typed b, w) = (Typed b, w') \<and> buckets w' = buckets w \<and>
    (\<exists>e. fst (reconcilePass (bucket_Observe rt mc) create update (Typed b, w')) = Fail e)"
proof -
  let ?kept = "\<lambda>s. fst s = Typed b \<and> buckets (snd s) = buckets w"
  have one: "\<exists>w'' e. reconcilePass (bucket_Observe rt mc) create update (Typed b, w') = (Fail e, (Typed b, w'')) \<and> buckets w'' = buckets w"
    if "buckets w' = buckets w" for w'
    using bucket_Observe_store [OF assms(1), of w' rt b] that assms(2,3) by (auto simp: reconcilePass_def andThen_apply)
  have "?kept (attempts (reconcilePass (bucket_Observe rt mc) create update) k (Typed b, w))"
  proof (rule attempts_keep)
    show "?kept (snd (reconcilePass (bucket_Observe rt mc) create update s))" if "?kept s" for s
      using that one [of "snd s"] by (cases s) auto
  qed simp
  then show ?thesis using one by (metis prod.collapse fst_conv)
qed

lemma bucket_owned_passes:
  assumes "store_law mc buckets" "bucketOwned b0 b" "buckets w (GetBucketName b0) = Some keys"
  shows "\<exists>b' w' obs s''. passes (reconcilePass (bucket_Observe rt mc) (bucket_Create (runSteps wrap) mc) bucket_Update) k (Typed b, w) =
      (Ret (), (Typed b', w')) \<and> bucketOwned b0 b' \<and> buckets w' = buckets w \<and>
    bucket_Observe rt mc (Typed b', w') = (Ret obs, s'') \<and> eo_ResourceExists obs \<and> eo_ResourceUpToDate obs"
proof -
  have same: "f = g" if "f n = Some c" "g n = Some c" "f(n := None) = g(n := None)" for f g :: "string \<Rightarrow> string set option" and n c
    using that by (metis fun_upd_triv fun_upd_upd)
  obtain b' w' obs s'' where p: "passes (reconcilePass (bucket_Observe rt mc) (bucket_Create (runSteps wrap) mc) bucket_Update) k (Typed b, w) =
      (Ret (), (Typed b', w'))" "bucketOwned b0 b'" "buckets w' (GetBucketName b0) = Some keys"
    "(buckets w')(GetBucketName b0 := None) = (buckets w)(GetBucketName b0 := None)"
    "bucket_Observe rt mc (Typed b', w') = (Ret obs, s'')" "eo_ResourceExists obs" "eo_ResourceUpToDate obs"
    using reconciled_client.rests_observe [OF bucket_reconciled_client [OF assms(1), of rt wrap b0] assms(2,3), where n = k] by simp blast
  then show ?thesis using same [OF p(3) assms(3) p(4)] by blast
qed

lemma bucket_missing_pass:
  assumes "store_law mc buckets" "buckets w (GetBucketName b) = None"
  shows "\<exists>w'. reconcilePass (bucket_Observe rt mc) (bucket_Create (runSteps wrap) mc) bucket_Update (Typed b, w) =
      (Ret (), (Typed (b\<lparr>mr_Meta := lockedMeta (mr_Meta b)\<rparr>), w')) \<and> buckets w' = (buckets w)(GetBucketName b \<mapsto> {})"
proof -
  obtain w1 where o: "bucket_Observe rt mc (Typed b, w) = (Ret noObservation, (Typed b, w1))" "buckets w1 = buckets w"
    using bucket_Observe_store [OF assms(1), of w rt b] assms(2) by auto
  then have "buckets w1 (GetBucketName b) = None" using assms(2) by simp
  from bucket_Create_missing [OF assms(1) this, of wrap] o show ?thesis
    by (auto simp: reconcilePass_def andThen_apply noObservation_def)
qed

text \<open>
  C4: a bucket in the reconciler's loop, on a store that does what it is told. When a bucket of its name exists already and
  the object has no lock, every pass fails however often it is made, and neither the object nor any bucket changes.
  Otherwise all passes succeed: the missing bucket is made, empty and with the lock, a bucket under the lock stays with its
  objects, no other bucket is touched, the specification stays the user's, and \<^verbatim>\<open>Observe\<close> reports it as existing and up to
  date.
\<close>

theorem bucket_reconciles:
  assumes "pipeline_laws wrap run" "store_law mc buckets"
  shows "if annotation (mr_Meta b) lockAnnotation = None \<and> buckets w (GetBucketName b) \<noteq> None
    then \<exists>w'. attempts (reconcilePass (bucket_Observe rt mc) (bucket_Create run mc) bucket_Update) k (Typed b, w) = (Typed b, w') \<and>
      buckets w' = buckets w \<and>
      (\<exists>e. fst (reconcilePass (bucket_Observe rt mc) (bucket_Create run mc) bucket_Update (Typed b, w')) = Fail e)
    else \<exists>b' w' obs s''. passes (reconcilePass (bucket_Observe rt mc) (bucket_Create run mc) bucket_Update) (Suc k) (Typed b, w) =
        (Ret (), (Typed b', w')) \<and>
      annotation (mr_Meta b') lockAnnotation \<noteq> None \<and> userSpec b' = userSpec b \<and>
      buckets w' = (if buckets w (GetBucketName b) = None then (buckets w)(GetBucketName b \<mapsto> {}) else buckets w) \<and>
      bucket_Observe rt mc (Typed b', w') = (Ret obs, s'') \<and> eo_ResourceExists obs \<and> eo_ResourceUpToDate obs"
proof -
  have run: "run = runSteps wrap" using assms(1) by (simp add: pipeline_laws_runSteps)
  have missing: ?thesis if none: "buckets w (GetBucketName b) = None"
  proof -
    obtain w1 where one: "reconcilePass (bucket_Observe rt mc) (bucket_Create run mc) bucket_Update (Typed b, w) =
        (Ret (), (Typed (b\<lparr>mr_Meta := lockedMeta (mr_Meta b)\<rparr>), w1))" "buckets w1 = (buckets w)(GetBucketName b \<mapsto> {})"
      using bucket_missing_pass [OF assms(2) none] unfolding run by blast
    show ?thesis
      using bucket_owned_passes [OF assms(2) lockedMeta_owned, of w1 b "{}" rt wrap k] one none
      by (simp add: run [symmetric] andThen_apply bucketOwned_def)
  qed
  have kept: ?thesis if "buckets w (GetBucketName b) = Some keys" "annotation (mr_Meta b) lockAnnotation \<noteq> None" for keys
    using bucket_owned_passes [OF assms(2) _ that(1), of b rt wrap "Suc k"] that
    by (simp add: run [symmetric] bucketOwned_def del: not_None_eq)
  show ?thesis
    using missing kept bucket_foreign_attempts [OF assms(2), of b w rt "bucket_Create run mc" bucket_Update k] by fastforce
qed

theorem bucket_reconciles_witness:
  "let b = (sampleBucket DeleteAll)\<lparr>mr_AtProvider := \<lparr>bko_BucketName = []\<rparr>\<rparr>;
       pass = reconcilePass (bucket_Observe sampleRuntime sampleS3) (bucket_Create (runSteps (\<lambda>n e. e)) sampleS3) bucket_Update
   in (\<exists>b' w'. passes pass (Suc 2) (Typed b, [(''logs'', [''k''])]) = (Ret (), (Typed b', w')) \<and>
        inMemory w' = inMemory [(''data'', []), (''logs'', [''k''])]) \<and>
      (\<exists>w'. attempts pass 3 (Typed b, [(''data'', [''k''])]) = (Typed b, w') \<and> inMemory w' = inMemory [(''data'', [''k''])])"
proof -
  let ?b = "(sampleBucket DeleteAll)\<lparr>mr_AtProvider := \<lparr>bko_BucketName = []\<rparr>\<rparr>"
  have b: "GetBucketName ?b = ''data''" "annotation (mr_Meta ?b) lockAnnotation = None" by (simp_all add: bucket_samples)
  note law = bucket_reconciles [OF runSteps_laws [of "\<lambda>n e. e"] sampleS3_law, of ?b _ sampleRuntime, unfolded b]
  have w: "inMemory [(''logs'', [''k''])] ''data'' = None" "inMemory [(''data'', [''k''])] ''data'' \<noteq> None"
    "(inMemory [(''logs'', [''k''])])(''data'' \<mapsto> {}) = inMemory [(''data'', []), (''logs'', [''k''])]"
    by (simp_all add: inMemory_def fun_eq_iff)
  show ?thesis
    using law [of "[(''logs'', [''k''])]" 2] law [of "[(''data'', [''k''])]" 3] w
    unfolding Let_def by (simp del: passes.simps not_None_eq) blast
qed

text \<open>What deleting leaves of the buckets in the world: a bucket that is locked, and empty or to be emptied, is gone.\<close>

definition deletionOutcome :: "Bucket \<Rightarrow> (string \<Rightarrow> string set option) \<Rightarrow> string \<Rightarrow> string set option" where
  "deletionOutcome b f = (case f (GetBucketName b) of
       Some keys \<Rightarrow> if annotation (mr_Meta b) lockAnnotation \<noteq> None \<and> (keys = {} \<or> bkp_BucketDeletionPolicy (mr_ForProvider b) = DeleteAll)
         then f(GetBucketName b := None) else f
     | None \<Rightarrow> f)"

lemma deletionOutcome_again: "deletionOutcome b (deletionOutcome b f) = deletionOutcome b f"
  by (auto simp: deletionOutcome_def split: option.splits)

lemma deletionOutcome_same: "userSpec b' = userSpec b \<Longrightarrow> mr_Meta b' = mr_Meta b \<Longrightarrow> deletionOutcome b' = deletionOutcome b"
  by (auto simp: deletionOutcome_def userSpec_def GetBucketName_def fun_eq_iff split: option.splits)

lemma bucket_Delete_store:
  assumes law: "store_law mc buckets" and there: "buckets w (bko_BucketName (mr_AtProvider b)) = Some keys"
  shows "\<exists>w'. snd (bucket_Delete (runSteps wrap) whenStep mc (Typed b, w)) = (Typed b, w') \<and>
    (if keys = {} \<or> bkp_BucketDeletionPolicy (mr_ForProvider b) = DeleteAll
     then fst (bucket_Delete (runSteps wrap) whenStep mc (Typed b, w)) = Ret ExternalDelete \<and>
       buckets w' = (buckets w)(bko_BucketName (mr_AtProvider b) := None)
     else (\<exists>e. fst (bucket_Delete (runSteps wrap) whenStep mc (Typed b, w)) = Fail e) \<and> buckets w' = buckets w)"
proof -
  let ?n = "bko_BucketName (mr_AtProvider b)"
  obtain os w1 where list: "mc_ListObjects mc ?n w = (os, w1)" "set (listed os) = keys" "buckets w1 = buckets w"
    using store_lawD(3) [OF law there] by blast
  obtain l w2 where lock: "mc_GetObjectLockConfig mc ?n w1 = (l, w2)" "buckets w2 = buckets w"
    using store_lawD(4) [OF law, of ?n w1] list(3) by (metis prod.collapse)
  have "buckets w2 ?n = Some keys" using lock(2) there by simp
  then obtain w3 where remove: "mc_RemoveObjects mc ?n (listed os) (\<exists>mode. l = Inr (Some mode)) w2 = ([], w3)"
    "buckets w3 = (buckets w)(?n \<mapsto> {})" using store_lawD(5) [OF law, of w2 ?n keys "listed os"] list(2) lock(2) by auto
  have all: "deleteAllObjects mc (b, w) = (Ret (), (b, w3))" using deleteAllObjects_run [OF list(1) lock(1) remove(1)] by simp
  have empty: "\<exists>w'. mc_RemoveBucket mc ?n v = (Inr (), w') \<and> buckets w' = (buckets v)(?n := None)" if "buckets v ?n = Some {}" for v
    using store_lawD(6) [OF law that] .
  have full: "\<exists>e w'. mc_RemoveBucket mc ?n w = (Inl e, w') \<and> buckets w' = buckets w" if "keys \<noteq> {}"
    using store_lawD(7) [OF law there that] .
  show ?thesis
    using empty [of w] empty [of w3] full there remove(2) store_lawD(8) [OF law]
    by (cases "bkp_BucketDeletionPolicy (mr_ForProvider b) = DeleteAll"; cases "keys = {}")
      (auto simp: bucket_Delete_run all)
qed

lemma bucket_deletePass:
  assumes law: "store_law mc buckets"
  shows "\<exists>r b' w'. deletePass (bucket_Observe rt mc) (bucket_Delete (runSteps wrap) whenStep mc) (Typed b, w) = (r, (Typed b', w')) \<and>
    userSpec b' = userSpec b \<and> mr_Meta b' = mr_Meta b \<and> buckets w' = deletionOutcome b (buckets w) \<and>
    (if buckets w' (GetBucketName b) = None then r = Ret () else \<exists>e. r = Fail e)"
proof -
  obtain bx where bx: "bx = set_condition rt (rt_Available rt) (b\<lparr>mr_AtProvider := \<lparr>bko_BucketName = GetBucketName b\<rparr>\<rparr>)"
    by simp
  have same: "userSpec bx = userSpec b" "mr_Meta bx = mr_Meta b" "mr_ForProvider bx = mr_ForProvider b"
    "bko_BucketName (mr_AtProvider bx) = GetBucketName b" by (simp_all add: bx userSpec_def)
  obtain w1 where obs: "buckets w1 = buckets w" "bucket_Observe rt mc (Typed b, w) =
    (if buckets w (GetBucketName b) = None then (Ret noObservation, (Typed b, w1))
     else if annotation (mr_Meta b) lockAnnotation = None then
       (Fail (Errorf ''bucket exists already, try changing bucket name: %s'' [GetBucketName b]), (Typed b, w1))
     else (Ret \<lparr>eo_ResourceExists = True, eo_ResourceUpToDate = True, eo_ConnectionDetails = []\<rparr>, (Typed bx, w1)))"
    using bucket_Observe_store [OF law] unfolding bx by blast
  show ?thesis
  proof (cases "buckets w (GetBucketName b) = None \<or> annotation (mr_Meta b) lockAnnotation = None")
    case True
    then show ?thesis using obs
      by (cases "buckets w (GetBucketName b)") (simp_all add: deletePass_def andThen_apply noObservation_def deletionOutcome_def)
  next
    case False
    then obtain keys where keys: "buckets w1 (bko_BucketName (mr_AtProvider bx)) = Some keys" using obs(1) same(4) by auto
    obtain r w2 where del: "bucket_Delete (runSteps wrap) whenStep mc (Typed bx, w1) = (r, (Typed bx, w2))"
      "if keys = {} \<or> bkp_BucketDeletionPolicy (mr_ForProvider b) = DeleteAll
       then r = Ret ExternalDelete \<and> buckets w2 = (buckets w)(GetBucketName b := None)
       else (\<exists>e. r = Fail e) \<and> buckets w2 = buckets w"
      using bucket_Delete_store [OF law keys, of wrap] unfolding same obs(1) by (metis prod.collapse)
    have outcome: "deletePass (bucket_Observe rt mc) (bucket_Delete (runSteps wrap) whenStep mc) (Typed b, w) =
        (case r of Ret _ \<Rightarrow> Ret () | Fail e \<Rightarrow> Fail e | Panic p \<Rightarrow> Panic p, (Typed bx, w2))"
      using False obs(2) del(1) by (cases r) (simp_all add: deletePass_def andThen_apply del: not_None_eq)
    show ?thesis
      using outcome False keys del(2) same obs(1)
      by (cases "keys = {} \<or> bkp_BucketDeletionPolicy (mr_ForProvider b) = DeleteAll") (auto simp: deletionOutcome_def)
  qed
qed

text \<open>
  C5: a bucket that is being deleted, on a store that does what it is told. However often the pass is made, and made again when it
  has failed, the buckets in the world are afterwards what \<open>deletionOutcome\<close> says: the bucket is gone exactly if the object
  holds its lock and it is empty or the policy is \<open>DeleteAll\<close>; a bucket with objects under another policy keeps them, a foreign
  bucket of that name stays, and no other bucket is touched. A pass succeeds from then on if the bucket is gone and fails if not.
\<close>

theorem bucket_deletion:
  assumes "pipeline_laws wrap run" "when_law wh" "store_law mc buckets"
  shows "\<exists>b' w'. attempts (deletePass (bucket_Observe rt mc) (bucket_Delete run wh mc)) (Suc k) (Typed b, w) = (Typed b', w') \<and>
    userSpec b' = userSpec b \<and> buckets w' = deletionOutcome b (buckets w) \<and>
    (if buckets w' (GetBucketName b) = None
     then fst (deletePass (bucket_Observe rt mc) (bucket_Delete run wh mc) (Typed b', w')) = Ret ()
     else \<exists>e. fst (deletePass (bucket_Observe rt mc) (bucket_Delete run wh mc) (Typed b', w')) = Fail e)"
proof -
  let ?pass = "deletePass (bucket_Observe rt mc) (bucket_Delete run wh mc)"
  let ?done = "\<lambda>s. \<exists>b' w'. s = (Typed b', w') \<and> userSpec b' = userSpec b \<and> mr_Meta b' = mr_Meta b \<and> buckets w' = deletionOutcome b (buckets w)"
  have laws: "run = runSteps wrap" "wh = whenStep"
    using assms(1,2) by (simp_all add: pipeline_laws_runSteps when_law_whenStep)
  note pass = bucket_deletePass [OF assms(3), of rt wrap, folded laws]
  have "?done (attempts ?pass k (snd (?pass (Typed b, w))))"
  proof (rule attempts_keep)
    show "?done (snd (?pass (Typed b, w)))" using pass [of b w] by auto
    show "?done (snd (?pass s))" if kept: "?done s" for s
    proof -
      obtain b' w' where s: "s = (Typed b', w')" "userSpec b' = userSpec b" "mr_Meta b' = mr_Meta b" "buckets w' = deletionOutcome b (buckets w)"
        using kept by blast
      obtain r b2 w2 where "?pass (Typed b', w') = (r, (Typed b2, w2))" "userSpec b2 = userSpec b'" "mr_Meta b2 = mr_Meta b'"
        "buckets w2 = deletionOutcome b' (buckets w')" using pass [of b' w'] by blast
      then show ?thesis using s unfolding s(1) by (simp add: deletionOutcome_same [OF s(2,3)] deletionOutcome_again)
    qed
  qed
  then obtain b' w' where s: "attempts ?pass (Suc k) (Typed b, w) = (Typed b', w')" "userSpec b' = userSpec b" "mr_Meta b' = mr_Meta b"
    "buckets w' = deletionOutcome b (buckets w)" by auto
  have name: "GetBucketName b' = GetBucketName b" using s(2,3) by (simp add: userSpec_def GetBucketName_def)
  show ?thesis
    using s pass [of b' w'] unfolding name deletionOutcome_same [OF s(2,3)] by (auto simp: deletionOutcome_again)
qed

theorem bucket_deletion_witness:
  "let pass = deletePass (bucket_Observe sampleRuntime sampleS3) (bucket_Delete (runSteps (\<lambda>n e. e)) whenStep sampleS3);
       owned = (\<lambda>pol. (sampleBucket pol)\<lparr>mr_Meta := lockedMeta sampleMeta\<rparr>);
       w = [(''data'', [''k'']), (''logs'', [''k''])]
   in (\<exists>b' w'. attempts pass (Suc 2) (Typed (owned DeleteAll), w) = (Typed b', w') \<and> inMemory w' = inMemory [(''logs'', [''k''])]) \<and>
      (\<exists>b' w'. attempts pass (Suc 2) (Typed (owned DeleteIfEmpty), w) = (Typed b', w') \<and> inMemory w' = inMemory w) \<and>
      (\<exists>b' w'. attempts pass (Suc 2) (Typed (sampleBucket DeleteAll), w) = (Typed b', w') \<and> inMemory w' = inMemory w)"
proof -
  have wh: "when_law whenStep" by (simp add: when_law_whenStep)
  let ?w = "[(''data'', [''k'']), (''logs'', [''k''])]"
  let ?owned = "\<lambda>pol. (sampleBucket pol)\<lparr>mr_Meta := lockedMeta sampleMeta\<rparr>"
  have "deletionOutcome (?owned DeleteAll) (inMemory ?w) = inMemory [(''logs'', [''k''])]"
    "deletionOutcome (?owned DeleteIfEmpty) (inMemory ?w) = inMemory ?w"
    "deletionOutcome (sampleBucket DeleteAll) (inMemory ?w) = inMemory ?w"
    by (simp_all add: deletionOutcome_def inMemory_def fun_eq_iff bucket_samples lockedMeta_def)
  then show ?thesis
    using bucket_deletion [OF runSteps_laws [of "\<lambda>n e. e"] wh sampleS3_law, of sampleRuntime 2 "?owned DeleteAll" ?w]
      bucket_deletion [OF runSteps_laws [of "\<lambda>n e. e"] wh sampleS3_law, of sampleRuntime 2 "?owned DeleteIfEmpty" ?w]
      bucket_deletion [OF runSteps_laws [of "\<lambda>n e. e"] wh sampleS3_law, of sampleRuntime 2 "sampleBucket DeleteAll" ?w]
    unfolding Let_def by (simp del: attempts.simps) blast
qed

end
